(* ===== verification/Kuberic_Prelude.thy ===== *)
theory Kuberic_Prelude
  imports Main
    "HOL-Library.Word"
    "HOL-Library.List_Lexorder"
    "HOL-Library.Char_ord"
    "HOL-Library.Product_Lexorder"
    "HOL-Library.Multiset"
begin

text \<open>
  Shared vocabulary of the development: the Rust integer types, the \<open>Result\<close> type with
  its \<open>?\<close> operator, the \<open>Option\<close> combinators the sources use, big-endian and decimal
  renderings of integers, and generic facts on lists that the components share.

  A Rust \<open>String\<close> is its UTF-8 byte sequence, so it is a \<^typ>\<open>string\<close> here: a
  \<^typ>\<open>char\<close> is one byte, \<open>len()\<close> is \<^const>\<open>length\<close> and the derived \<open>Ord\<close> is the
  lexicographic order of \<open>List_Lexorder\<close>.
\<close>

section \<open>Machine integers\<close>

text \<open>
  \<open>u32\<close> and \<open>u64\<close> are machine words (their arithmetic wraps, their order is
  unsigned). \<open>i64\<close> is \<^typ>\<open>int\<close>; every \<open>i64\<close> addition of the sources goes through
  \<open>i64_add\<close> (two's complement wrap-around, the behaviour of a release build) or
  \<open>i64_checked_add\<close>.
\<close>

type_synonym u32 = "32 word"
type_synonym u64 = "64 word"
type_synonym i64 = int
type_synonym bytes = string

definition i64_range :: "int \<Rightarrow> bool" where
  "i64_range x \<longleftrightarrow> - 9223372036854775808 \<le> x \<and> x \<le> 9223372036854775807"

definition i64_wrap :: "int \<Rightarrow> i64" where
  "i64_wrap x = (x + 9223372036854775808) mod 18446744073709551616 - 9223372036854775808"

definition i64_add :: "i64 \<Rightarrow> i64 \<Rightarrow> i64" where
  "i64_add x y = i64_wrap (x + y)"

definition i64_checked_add :: "i64 \<Rightarrow> i64 \<Rightarrow> i64 option" where
  "i64_checked_add x y = (if i64_range (x + y) then Some (x + y) else None)"

named_theorems fence_simps "facts that unfold a fence or authority check to its field comparisons"

lemma i64_wrap_range [simp]: "i64_range (i64_wrap x)"
  by (simp add: i64_range_def i64_wrap_def)

lemma i64_wrap_id: "i64_range x \<Longrightarrow> i64_wrap x = x"
  by (simp add: i64_range_def i64_wrap_def)

lemma i64_add_exact: "i64_range (x + y) \<Longrightarrow> i64_add x y = x + y"
  by (simp add: i64_add_def i64_wrap_id)

lemma i64_checked_add_Some [simp]:
  "i64_checked_add x y = Some z \<longleftrightarrow> z = x + y \<and> i64_range (x + y)"
  by (auto simp: i64_checked_add_def)

lemma unat_u32_bound: "unat (x :: u32) < 4294967296"
  using unsigned_less [of x] by simp

lemma unat_word_of_nat_u32: "n < 4294967296 \<Longrightarrow> unat (word_of_nat n :: u32) = n"
  by (simp add: unat_of_nat)

section \<open>Results, panics and the question-mark operator\<close>

text \<open>
  \<open>Result<T, E>\<close>, with a third constructor for a panic (\<open>expect\<close> on \<open>None\<close>): a
  caller cannot observe a panic as an error value, so it is neither \<open>Ok\<close> nor \<open>Err\<close>.
\<close>

datatype (dead 'e, 'a) result = Ok 'a | Err 'e | Panic

fun and_then :: "('e, 'a) result \<Rightarrow> ('a \<Rightarrow> ('e, 'b) result) \<Rightarrow> ('e, 'b) result" where
  "and_then (Ok x) k = k x"
| "and_then (Err e) k = Err e"
| "and_then Panic k = Panic"

fun map_err :: "('e \<Rightarrow> 'f) \<Rightarrow> ('e, 'a) result \<Rightarrow> ('f, 'a) result" where
  "map_err f (Ok x) = Ok x"
| "map_err f (Err e) = Err (f e)"
| "map_err f Panic = Panic"

definition is_ok :: "('e, 'a) result \<Rightarrow> bool" where
  "is_ok r \<longleftrightarrow> (case r of Ok _ \<Rightarrow> True | _ \<Rightarrow> False)"

definition ok_or :: "'a option \<Rightarrow> 'e \<Rightarrow> ('e, 'a) result" where
  "ok_or v e = (case v of None \<Rightarrow> Err e | Some x \<Rightarrow> Ok x)"

definition expect :: "'a option \<Rightarrow> ('e, 'a) result" where
  "expect v = (case v of None \<Rightarrow> Panic | Some x \<Rightarrow> Ok x)"

text \<open>A loop over a list whose body may return an error: the first error ends it.\<close>

fun for_each :: "'a list \<Rightarrow> ('a \<Rightarrow> ('e, unit) result) \<Rightarrow> ('e, unit) result" where
  "for_each [] f = Ok ()"
| "for_each (x # xs) f = and_then (f x) (\<lambda>_. for_each xs f)"

lemma and_then_Ok_iff [simp]:
  "and_then r k = Ok y \<longleftrightarrow> (\<exists>x. r = Ok x \<and> k x = Ok y)"
  by (cases r) auto

lemma and_then_assoc: "and_then (and_then r k) h = and_then r (\<lambda>x. and_then (k x) h)"
  by (cases r) auto

lemma and_then_cong [fundef_cong]:
  "r = s \<Longrightarrow> (\<And>x. s = Ok x \<Longrightarrow> k x = h x) \<Longrightarrow> and_then r k = and_then s h"
  by (cases s) auto

lemma map_err_Ok_iff [simp]: "map_err f r = Ok x \<longleftrightarrow> r = Ok x"
  by (cases r) auto

lemma map_err_Panic_iff [simp]: "map_err f r = Panic \<longleftrightarrow> r = Panic"
  by (cases r) auto

lemma is_ok_unit: "is_ok (r :: ('e, unit) result) \<longleftrightarrow> r = Ok ()"
  by (cases r) (auto simp: is_ok_def)

lemma if_Err_Ok_iff [simp]: "(if c then Err e else r) = Ok x \<longleftrightarrow> \<not> c \<and> r = Ok x"
  by auto

lemma case_option_Err_Ok_iff [simp]:
  "(case v of None \<Rightarrow> r | Some y \<Rightarrow> Err (f y)) = Ok x \<longleftrightarrow> v = None \<and> r = Ok x"
  by (cases v) auto

lemma ok_or_Ok_iff [simp]: "ok_or v e = Ok x \<longleftrightarrow> v = Some x"
  by (cases v) (auto simp: ok_or_def)

lemma ok_or_not_Panic [simp]: "ok_or v e \<noteq> Panic"
  by (cases v) (auto simp: ok_or_def)

lemma expect_Ok_iff [simp]: "expect v = Ok x \<longleftrightarrow> v = Some x"
  by (cases v) (auto simp: expect_def)

lemma expect_Panic_iff [simp]: "expect v = Panic \<longleftrightarrow> v = None"
  by (cases v) (auto simp: expect_def)

lemma expect_not_Err [simp]: "expect v \<noteq> Err e"
  by (cases v) (auto simp: expect_def)

lemma for_each_Ok_iff [simp]: "for_each xs f = Ok () \<longleftrightarrow> (\<forall>x \<in> set xs. f x = Ok ())"
  by (induction xs) auto

lemma and_then_Panic_iff:
  "and_then r k = Panic \<longleftrightarrow> r = Panic \<or> (\<exists>x. r = Ok x \<and> k x = Panic)"
  by (cases r) auto

lemma for_each_Panic_D: "for_each xs f = Panic \<Longrightarrow> \<exists>x \<in> set xs. f x = Panic"
  by (induction xs) (auto simp: and_then_Panic_iff)

text \<open>
  A loop that checks each element against the keys already collected in a \<open>BTreeSet\<close> and
  collects its key: it returns the collected set.
\<close>

fun collect_checked :: "('k set \<Rightarrow> 'a \<Rightarrow> ('e, unit) result) \<Rightarrow> ('a \<Rightarrow> 'k) \<Rightarrow> 'k set \<Rightarrow> 'a list \<Rightarrow> ('e, 'k set) result" where
  "collect_checked chk key seen [] = Ok seen"
| "collect_checked chk key seen (x # xs) =
     and_then (chk seen x) (\<lambda>_. collect_checked chk key (insert (key x) seen) xs)"

lemma collect_checked_Ok_iff:
  assumes "\<And>seen x. chk seen x = Ok () \<longleftrightarrow> key x \<notin> seen \<and> P x"
  shows "collect_checked chk key seen xs = Ok s \<longleftrightarrow>
    s = seen \<union> key ` set xs \<and> distinct (map key xs) \<and> seen \<inter> key ` set xs = {} \<and> (\<forall>x \<in> set xs. P x)"
  by (induction xs arbitrary: seen) (auto simp: assms)

lemma collect_checked_not_Panic:
  assumes "\<And>seen x. chk seen x \<noteq> Panic"
  shows "collect_checked chk key seen xs \<noteq> Panic"
  by (induction xs arbitrary: seen) (auto simp: assms and_then_Panic_iff)

section \<open>Option combinators\<close>

definition is_some_and :: "'a option \<Rightarrow> ('a \<Rightarrow> bool) \<Rightarrow> bool" where
  "is_some_and v P \<longleftrightarrow> (case v of None \<Rightarrow> False | Some x \<Rightarrow> P x)"

definition is_none_or :: "'a option \<Rightarrow> ('a \<Rightarrow> bool) \<Rightarrow> bool" where
  "is_none_or v P \<longleftrightarrow> (case v of None \<Rightarrow> True | Some x \<Rightarrow> P x)"

definition or_else :: "'a option \<Rightarrow> 'a option \<Rightarrow> 'a option" where
  "or_else v w = (case v of None \<Rightarrow> w | Some x \<Rightarrow> Some x)"

definition unwrap_or :: "'a option \<Rightarrow> 'a \<Rightarrow> 'a" where
  "unwrap_or v d = (case v of None \<Rightarrow> d | Some x \<Rightarrow> x)"

definition then_some :: "bool \<Rightarrow> 'a \<Rightarrow> 'a option" where
  "then_some b x = (if b then Some x else None)"

definition opt_filter :: "('a \<Rightarrow> bool) \<Rightarrow> 'a option \<Rightarrow> 'a option" where
  "opt_filter P v = (case v of None \<Rightarrow> None | Some x \<Rightarrow> if P x then Some x else None)"

lemma is_some_and_simps [simp]:
  "is_some_and None P = False" "is_some_and (Some x) P = P x"
  by (simp_all add: is_some_and_def)

lemma is_none_or_simps [simp]:
  "is_none_or None P = True" "is_none_or (Some x) P = P x"
  by (simp_all add: is_none_or_def)

lemma or_else_simps [simp]: "or_else None w = w" "or_else (Some x) w = Some x"
  by (simp_all add: or_else_def)

lemma unwrap_or_simps [simp]: "unwrap_or None d = d" "unwrap_or (Some x) d = x"
  by (simp_all add: unwrap_or_def)

lemma then_some_simps [simp]: "then_some True x = Some x" "then_some False x = None"
  by (simp_all add: then_some_def)

lemma opt_filter_simps [simp]:
  "opt_filter P None = None" "opt_filter P (Some x) = (if P x then Some x else None)"
  by (simp_all add: opt_filter_def)

lemma is_none_or_iff: "is_none_or v P \<longleftrightarrow> (\<forall>x. v = Some x \<longrightarrow> P x)"
  by (cases v) auto

lemma is_some_and_iff: "is_some_and v P \<longleftrightarrow> (\<exists>x. v = Some x \<and> P x)"
  by (cases v) auto

section \<open>Lists\<close>

lemma find_Some_D: "find P xs = Some x \<Longrightarrow> x \<in> set xs \<and> P x"
  by (induction xs) (auto split: if_splits)

lemma find_None_D: "find P xs = None \<Longrightarrow> x \<in> set xs \<Longrightarrow> \<not> P x"
  by (induction xs) (auto split: if_splits)

lemma find_ex_Some: "x \<in> set xs \<Longrightarrow> P x \<Longrightarrow> \<exists>y. find P xs = Some y"
  by (induction xs) auto

text \<open>\<open>Iterator::max_by_key\<close>: the last of the elements with the greatest key.\<close>

fun max_by_key :: "('a \<Rightarrow> 'k::linorder) \<Rightarrow> 'a list \<Rightarrow> 'a option" where
  "max_by_key f [] = None"
| "max_by_key f (x # xs) =
     (case max_by_key f xs of None \<Rightarrow> Some x | Some y \<Rightarrow> if f y < f x then Some x else Some y)"

lemma max_by_key_None_iff [simp]: "max_by_key f xs = None \<longleftrightarrow> xs = []"
  by (cases xs) (auto split: option.splits)

lemma max_by_key_Some_D: "max_by_key f xs = Some y \<Longrightarrow> y \<in> set xs \<and> (\<forall>x \<in> set xs. f x \<le> f y)"
proof (induction xs arbitrary: y)
  case (Cons x xs)
  show ?case
  proof (cases "max_by_key f xs")
    case None
    with Cons.prems show ?thesis by simp
  next
    case (Some z)
    with Cons.IH [OF Some] Cons.prems show ?thesis by (fastforce split: if_splits)
  qed
qed simp

lemma length_filter_one_unique:
  "length (filter P xs) = 1 \<Longrightarrow> x \<in> set xs \<Longrightarrow> y \<in> set xs \<Longrightarrow> P x \<Longrightarrow> P y \<Longrightarrow> x = y"
  by (induction xs) (auto simp: filter_empty_conv split: if_splits)

lemma card_image_filter_le: "card (f ` {x \<in> set xs. P x}) \<le> length (filter P xs)"
proof -
  have "f ` {x \<in> set xs. P x} = set (map f (filter P xs))" by auto
  then show ?thesis by (metis card_length length_map)
qed

lemma length_filter_eq_card:
  assumes "distinct (map f xs)"
  shows "length (filter P xs) = card (f ` {x \<in> set xs. P x})"
proof -
  have "distinct (map f (filter P xs))" using assms by (rule distinct_map_filter)
  moreover have "f ` {x \<in> set xs. P x} = set (map f (filter P xs))" by auto
  ultimately show ?thesis by (metis distinct_card length_map)
qed

text \<open>Two subsets of a finite set whose sizes add up to more than the whole share an element.\<close>

lemma overlap_by_counting:
  assumes "finite U" "A \<subseteq> U" "B \<subseteq> U" "card U < card A + card B"
  shows "A \<inter> B \<noteq> {}"
proof
  assume "A \<inter> B = {}"
  with assms have "card (A \<union> B) = card A + card B"
    by (meson card_Un_disjoint finite_subset)
  moreover have "card (A \<union> B) \<le> card U" using assms by (intro card_mono) auto
  ultimately show False using assms(4) by simp
qed

end
