(* ===== verification/Canonical_Digest.thy ===== *)
theory Canonical_Digest
  imports Kuberic_Prelude
begin

text \<open>
  The byte renderings behind every content-derived identifier of
  \<open>kuberic-runtime/src/protocol/types.rs\<close>: big-endian integers, decimal rendering
  (\<open>ToString\<close>), hexadecimal rendering and the length-prefixed preimage of
  \<open>digest_parts\<close>. SHA-256 is the \<open>sha2\<close> crate: it is the parameter \<open>H\<close>, a function of
  the whole input (\<open>update\<close> calls append to the input). The renderings are proved
  injective, so two different inputs share an identifier only if \<open>H\<close> collides on them.
\<close>

section \<open>Integer renderings\<close>

text \<open>\<open>to_be_bytes\<close> of an unsigned value of \<open>n\<close> bytes.\<close>

fun be_bytes :: "nat \<Rightarrow> nat \<Rightarrow> bytes" where
  "be_bytes 0 v = []"
| "be_bytes (Suc n) v = be_bytes n (v div 256) @ [char_of (v mod 256)]"

definition i64_to_be_bytes :: "i64 \<Rightarrow> bytes" where
  "i64_to_be_bytes x = be_bytes 8 (nat (x mod 18446744073709551616))"

definition u32_to_be_bytes :: "u32 \<Rightarrow> bytes" where
  "u32_to_be_bytes x = be_bytes 4 (unat x)"

text \<open>\<open>(len as u64).to_be_bytes()\<close> of a length.\<close>

definition len_to_be_bytes :: "nat \<Rightarrow> bytes" where
  "len_to_be_bytes n = be_bytes 8 n"

fun nat_to_string :: "nat \<Rightarrow> string" where
  "nat_to_string n =
     (if n < 10 then [char_of (48 + n)] else nat_to_string (n div 10) @ [char_of (48 + n mod 10)])"

declare nat_to_string.simps [simp del]

definition i64_to_string :: "i64 \<Rightarrow> string" where
  "i64_to_string x = (if x < 0 then CHR ''-'' # nat_to_string (nat (- x)) else nat_to_string (nat x))"

definition u32_to_string :: "u32 \<Rightarrow> string" where
  "u32_to_string x = nat_to_string (unat x)"

definition u64_to_string :: "u64 \<Rightarrow> string" where
  "u64_to_string x = nat_to_string (unat x)"

definition hex_digit :: "nat \<Rightarrow> char" where
  "hex_digit n = (if n < 10 then char_of (48 + n) else char_of (87 + n))"

definition format_digest :: "bytes \<Rightarrow> string" where
  "format_digest d =
     concat (map (\<lambda>b. [hex_digit (of_char b div 16), hex_digit (of_char b mod 16)]) d)"

section \<open>The digest preimage\<close>

definition update_digest_string :: "string \<Rightarrow> bytes" where
  "update_digest_string value = len_to_be_bytes (length value) @ value"

definition digest_preimage :: "string list \<Rightarrow> bytes" where
  "digest_preimage parts = concat (map update_digest_string parts)"

definition digest_parts :: "(bytes \<Rightarrow> bytes) \<Rightarrow> string list \<Rightarrow> string" where
  "digest_parts H parts = format_digest (H (digest_preimage parts))"

section \<open>Injectivity of the renderings\<close>

lemma length_be_bytes [simp]: "length (be_bytes n v) = n"
  by (induction n arbitrary: v) auto

lemma char_of_byte_eq: "char_of (v mod 256 :: nat) = char_of (w mod 256 :: nat) \<longleftrightarrow> v mod 256 = w mod 256"
  by (metis of_char_of mod_mod_trivial)

lemma be_bytes_eq_iff: "be_bytes n v = be_bytes n w \<longleftrightarrow> v mod 256 ^ n = w mod 256 ^ n"
proof (induction n arbitrary: v w)
  case (Suc n)
  have split: "u mod 256 ^ Suc n = 256 * (u div 256 mod 256 ^ n) + u mod 256" for u :: nat
    by (simp add: mod_mult2_eq)
  have pair: "256 * a + b = 256 * c + d \<longleftrightarrow> a = c \<and> b = d" if "b < 256" "d < 256" for a b c d :: nat
  proof
    assume eq: "256 * a + b = 256 * c + d"
    have "(256 * a + b) div 256 = a" "(256 * a + b) mod 256 = b"
      "(256 * c + d) div 256 = c" "(256 * c + d) mod 256 = d" using that by simp_all
    with eq show "a = c \<and> b = d" by metis
  qed simp
  show ?case
    by (simp only: be_bytes.simps append1_eq_conv Suc.IH char_of_byte_eq split)
      (subst pair, simp_all)
qed simp

lemma be_bytes_inj: "be_bytes n v = be_bytes n w \<Longrightarrow> v < 256 ^ n \<Longrightarrow> w < 256 ^ n \<Longrightarrow> v = w"
  by (simp add: be_bytes_eq_iff)

lemma i64_to_be_bytes_inj:
  assumes "i64_to_be_bytes x = i64_to_be_bytes y" "i64_range x" "i64_range y"
  shows "x = y"
proof -
  have "nat (x mod 18446744073709551616) = nat (y mod 18446744073709551616)"
    using assms(1) unfolding i64_to_be_bytes_def
    by (rule be_bytes_inj) (simp_all add: nat_less_iff)
  then have "x mod 18446744073709551616 = y mod 18446744073709551616"
    by (metis int_nat_eq pos_mod_sign zero_less_numeral)
  then have "i64_wrap x = i64_wrap y"
    by (simp add: i64_wrap_def mod_add_cong)
  with assms(2,3) show ?thesis by (simp add: i64_wrap_id)
qed

lemma u32_to_be_bytes_inj: "u32_to_be_bytes x = u32_to_be_bytes y \<Longrightarrow> x = y"
  unfolding u32_to_be_bytes_def
  using be_bytes_inj [of 4 "unat x" "unat y"] unat_u32_bound [of x] unat_u32_bound [of y]
  by (simp add: word_unat_eq_iff)

lemma length_int_bytes [simp]:
  "length (i64_to_be_bytes x) = 8" "length (u32_to_be_bytes u) = 4" "length (len_to_be_bytes n) = 8"
  by (simp_all add: i64_to_be_bytes_def u32_to_be_bytes_def len_to_be_bytes_def)

text \<open>Decimal rendering: the digits determine the number, and none of them is a minus sign.\<close>

definition decimal_value :: "string \<Rightarrow> nat" where
  "decimal_value s = foldl (\<lambda>a c. 10 * a + (of_char c - 48)) 0 s"

lemma decimal_value_to_string: "decimal_value (nat_to_string n) = n"
proof (induction n rule: nat_to_string.induct)
  case (1 n)
  show ?case
    using "1" by (cases "n < 10") (simp_all add: nat_to_string.simps [of n] decimal_value_def)
qed

lemma nat_to_string_inj: "nat_to_string m = nat_to_string n \<Longrightarrow> m = n"
  by (metis decimal_value_to_string)

lemma nat_to_string_no_minus: "CHR ''-'' \<notin> set (nat_to_string n)"
proof (induction n rule: nat_to_string.induct)
  case (1 n)
  have digit: "char_of (48 + d) \<noteq> CHR ''-''" if "d < 10" for d :: nat
  proof
    assume "char_of (48 + d) = CHR ''-''"
    then have "of_char (char_of (48 + d) :: char) = (of_char CHR ''-'' :: nat)" by (rule arg_cong)
    with that show False by simp
  qed
  show ?case
    using "1" digit [of n] digit [of "n mod 10"]
    by (cases "n < 10") (auto simp: nat_to_string.simps [of n])
qed

lemma i64_to_string_inj: "i64_to_string x = i64_to_string y \<Longrightarrow> x = y"
proof -
  assume eq: "i64_to_string x = i64_to_string y"
  have "CHR ''-'' \<in> set (i64_to_string z) \<longleftrightarrow> z < 0" for z
    by (simp add: i64_to_string_def nat_to_string_no_minus)
  with eq have sign: "x < 0 \<longleftrightarrow> y < 0" by metis
  with eq have "nat (if x < 0 then - x else x) = nat (if y < 0 then - y else y)"
    by (auto simp: i64_to_string_def split: if_splits dest: nat_to_string_inj)
  with sign show "x = y" by (auto split: if_splits)
qed

lemma u64_to_string_inj: "u64_to_string x = u64_to_string y \<Longrightarrow> x = y"
  by (auto simp: u64_to_string_def word_unat_eq_iff dest: nat_to_string_inj)

lemma u32_to_string_inj: "u32_to_string x = u32_to_string y \<Longrightarrow> x = y"
  by (auto simp: u32_to_string_def word_unat_eq_iff dest: nat_to_string_inj)

text \<open>Hexadecimal rendering.\<close>

lemma of_char_hex_digit: "n < 16 \<Longrightarrow> of_char (hex_digit n) = (if n < 10 then 48 + n else 87 + n)"
  by (simp add: hex_digit_def)

lemma hex_digit_inj:
  assumes "hex_digit m = hex_digit n" "m < 16" "n < 16"
  shows "m = n"
proof -
  have "of_char (hex_digit m) = (of_char (hex_digit n) :: nat)" using assms(1) by simp
  with assms(2,3) show ?thesis by (simp add: of_char_hex_digit split: if_splits)
qed

lemma byte_of_nibbles: "of_char (a :: char) div 16 = (of_char b div 16 :: nat) \<Longrightarrow>
    of_char a mod 16 = (of_char b mod 16 :: nat) \<Longrightarrow> a = b"
proof -
  assume nibbles: "of_char a div 16 = (of_char b div 16 :: nat)" "of_char a mod 16 = (of_char b mod 16 :: nat)"
  have "of_char a = (of_char a div 16 * 16 + of_char a mod 16 :: nat)" by (rule div_mult_mod_eq [symmetric])
  also have "\<dots> = of_char b" by (simp only: nibbles div_mult_mod_eq)
  finally show "a = b" by (rule of_char_eq_iff [THEN iffD1])
qed

lemma nibble_bound: "of_char (a :: char) div 16 < (16 :: nat)"
proof -
  have "of_char a < (256 :: nat)" by simp
  then have "of_char a < (16 * 16 :: nat)" by simp
  then show ?thesis by (rule less_mult_imp_div_less)
qed

lemma length_format_digest [simp]: "length (format_digest d) = 2 * length d"
  by (induction d) (auto simp: format_digest_def)

lemma format_digest_inj: "format_digest a = format_digest b \<Longrightarrow> a = b"
proof (induction a arbitrary: b)
  case Nil
  then show ?case by (cases b) (auto simp: format_digest_def)
next
  case (Cons x a)
  then obtain y c where b: "b = y # c" by (cases b) (auto simp: format_digest_def)
  from Cons.prems have hi: "hex_digit (of_char x div 16) = hex_digit (of_char y div 16)"
    and lo: "hex_digit (of_char x mod 16) = hex_digit (of_char y mod 16)"
    and rest: "format_digest a = format_digest c"
    by (simp_all add: b format_digest_def)
  from hi nibble_bound nibble_bound have "of_char x div 16 = (of_char y div 16 :: nat)"
    by (rule hex_digit_inj)
  moreover from lo have "of_char x mod 16 = (of_char y mod 16 :: nat)"
    by (rule hex_digit_inj) simp_all
  ultimately have "x = y" by (rule byte_of_nibbles)
  with Cons.IH [OF rest] b show ?case by simp
qed

text \<open>A Rust string is shorter than \<open>isize::MAX\<close> bytes, so its length fits the eight-byte prefix.\<close>

definition rust_string :: "string \<Rightarrow> bool" where
  "rust_string s \<longleftrightarrow> length s < 18446744073709551616"

lemma len_to_be_bytes_inj:
  "len_to_be_bytes m = len_to_be_bytes n \<Longrightarrow> m < 18446744073709551616 \<Longrightarrow>
     n < 18446744073709551616 \<Longrightarrow> m = n"
  unfolding len_to_be_bytes_def by (erule be_bytes_inj) simp_all

lemma update_digest_string_append_inj:
  assumes eq: "update_digest_string s @ u = update_digest_string t @ v"
    and rs: "rust_string s" "rust_string t"
  shows "s = t \<and> u = v"
proof -
  have "len_to_be_bytes (length s) = len_to_be_bytes (length t)" and rest: "s @ u = t @ v"
    using eq by (simp_all add: update_digest_string_def)
  with rs have "length s = length t"
    by (intro len_to_be_bytes_inj) (simp_all add: rust_string_def)
  with rest show ?thesis by simp
qed

lemma update_digest_string_not_Nil [simp]: "update_digest_string s \<noteq> []"
  using length_int_bytes(3) [of "length s"] by (auto simp: update_digest_string_def simp del: length_int_bytes)

lemma digest_preimage_inj:
  "digest_preimage ps = digest_preimage qs \<Longrightarrow> \<forall>p \<in> set ps. rust_string p \<Longrightarrow>
     \<forall>q \<in> set qs. rust_string q \<Longrightarrow> ps = qs"
proof (induction ps arbitrary: qs)
  case Nil
  then show ?case by (cases qs) (auto simp: digest_preimage_def)
next
  case (Cons p ps)
  then obtain q rest where qs: "qs = q # rest" by (cases qs) (auto simp: digest_preimage_def)
  have "update_digest_string p @ digest_preimage ps = update_digest_string q @ digest_preimage rest"
    using Cons.prems(1) by (simp add: qs digest_preimage_def)
  then have "p = q \<and> digest_preimage ps = digest_preimage rest"
    by (rule update_digest_string_append_inj) (use Cons.prems qs in simp_all)
  with Cons qs show ?case by simp
qed

text \<open>\<open>H\<close> does not collide on a pair of inputs: equal digests only for equal inputs.\<close>

definition no_collision :: "(bytes \<Rightarrow> bytes) \<Rightarrow> bytes \<Rightarrow> bytes \<Rightarrow> bool" where
  "no_collision H a b \<longleftrightarrow> (H a = H b \<longrightarrow> a = b)"

lemma digest_parts_eq_D:
  assumes "digest_parts H ps = digest_parts H qs"
    and "no_collision H (digest_preimage ps) (digest_preimage qs)"
    and "\<forall>p \<in> set ps. rust_string p" "\<forall>q \<in> set qs. rust_string q"
  shows "ps = qs"
  using assms by (auto simp: digest_parts_def no_collision_def dest!: format_digest_inj digest_preimage_inj)

end
