(* ===== verification/Protocol_Types.thy ===== *)
theory Protocol_Types
  imports Canonical_Digest
begin

text \<open>
  The canonical identities, configurations, policies and intents of
  \<open>kuberic-runtime/src/protocol/types.rs\<close>. A struct is a record whose fields carry a short
  prefix where two structs share a field name, an enum is a datatype, a \<open>string_id!\<close> newtype
  is its string. The parameter \<open>H\<close> of the identifier functions is SHA-256.
\<close>

section \<open>Identities and epochs\<close>

type_synonym ResourceUid = string
type_synonym PodUid = string
type_synonym PvcUid = string
type_synonym ReplicaInstanceId = string
type_synonym AgentGeneration = string
type_synonym ProcessSessionId = string
type_synonym ConfigurationId = string
type_synonym TransitionId = string
type_synonym InitializationId = string
type_synonym OperationId = string
type_synonym SwitchoverRequestId = string
type_synonym ReplicaId = i64
type_synonym Lsn = i64

record Epoch =
  data_loss_number :: i64
  configuration_number :: i64

definition epoch_new :: "i64 \<Rightarrow> i64 \<Rightarrow> Epoch" where
  "epoch_new d c = \<lparr>data_loss_number = d, configuration_number = c\<rparr>"

definition epoch_default :: Epoch where
  "epoch_default = epoch_new 0 0"

text \<open>The derived \<open>Ord\<close> of the struct: data loss first, then configuration.\<close>

instantiation Epoch_ext :: (linorder) linorder
begin

definition less_eq_Epoch_ext :: "'a Epoch_scheme \<Rightarrow> 'a Epoch_scheme \<Rightarrow> bool" where
  "a \<le> b \<longleftrightarrow> (data_loss_number a, configuration_number a, Epoch.more a)
             \<le> (data_loss_number b, configuration_number b, Epoch.more b)"

definition less_Epoch_ext :: "'a Epoch_scheme \<Rightarrow> 'a Epoch_scheme \<Rightarrow> bool" where
  "a < b \<longleftrightarrow> (data_loss_number a, configuration_number a, Epoch.more a)
             < (data_loss_number b, configuration_number b, Epoch.more b)"

instance
  by intro_classes (auto simp: less_eq_Epoch_ext_def less_Epoch_ext_def intro: Epoch.equality)

end

lemma epoch_less_iff:
  "(a :: Epoch) < b \<longleftrightarrow> data_loss_number a < data_loss_number b \<or>
     data_loss_number a = data_loss_number b \<and> configuration_number a < configuration_number b"
  by (auto simp: less_Epoch_ext_def)

lemma epoch_le_iff:
  "(a :: Epoch) \<le> b \<longleftrightarrow> data_loss_number a < data_loss_number b \<or>
     data_loss_number a = data_loss_number b \<and> configuration_number a \<le> configuration_number b"
  by (auto simp: less_eq_Epoch_ext_def)

datatype ReplicaRole = Primary | ActiveSecondary | IdleSecondary | RoleNone

datatype AccessStatus = Granted | ReconfigurationPending | NotPrimary | NoWriteQuorum

datatype FaultType = Transient | Permanent

record ReplicaIdentity =
  replica_id :: ReplicaId
  instance_id :: ReplicaInstanceId
  agent_generation :: AgentGeneration

instantiation ReplicaIdentity_ext :: (linorder) linorder
begin

definition less_eq_ReplicaIdentity_ext ::
    "'a ReplicaIdentity_scheme \<Rightarrow> 'a ReplicaIdentity_scheme \<Rightarrow> bool" where
  "a \<le> b \<longleftrightarrow> (replica_id a, instance_id a, agent_generation a, ReplicaIdentity.more a)
             \<le> (replica_id b, instance_id b, agent_generation b, ReplicaIdentity.more b)"

definition less_ReplicaIdentity_ext ::
    "'a ReplicaIdentity_scheme \<Rightarrow> 'a ReplicaIdentity_scheme \<Rightarrow> bool" where
  "a < b \<longleftrightarrow> (replica_id a, instance_id a, agent_generation a, ReplicaIdentity.more a)
             < (replica_id b, instance_id b, agent_generation b, ReplicaIdentity.more b)"

instance
  by intro_classes
    (auto simp: less_eq_ReplicaIdentity_ext_def less_ReplicaIdentity_ext_def
      intro: ReplicaIdentity.equality)

end

section \<open>Configurations and policies\<close>

record ConfigurationMember =
  m_identity :: ReplicaIdentity
  m_role :: ReplicaRole

abbreviation m_replica_id :: "ConfigurationMember \<Rightarrow> ReplicaId" where
  "m_replica_id m \<equiv> replica_id (m_identity m)"

record ConfigurationDescriptor =
  configuration_id :: ConfigurationId
  c_epoch :: Epoch
  primary_id :: ReplicaId
  members :: "ConfigurationMember list"
  write_quorum :: u32

fun role_tag :: "ReplicaRole \<Rightarrow> char" where
  "role_tag Primary = char_of (1 :: nat)"
| "role_tag ActiveSecondary = char_of (2 :: nat)"
| "role_tag IdleSecondary = char_of (3 :: nat)"
| "role_tag RoleNone = char_of (4 :: nat)"

definition member_preimage :: "ConfigurationMember \<Rightarrow> bytes" where
  "member_preimage m =
     i64_to_be_bytes (m_replica_id m) @ update_digest_string (instance_id (m_identity m))
     @ update_digest_string (agent_generation (m_identity m)) @ [role_tag (m_role m)]"

definition canonical_members :: "ConfigurationMember list \<Rightarrow> ConfigurationMember list" where
  "canonical_members ms = sort_key m_replica_id ms"

definition configuration_preimage ::
    "Epoch \<Rightarrow> ReplicaId \<Rightarrow> ConfigurationMember list \<Rightarrow> u32 \<Rightarrow> bytes" where
  "configuration_preimage e p ms q =
     ''kuberic-configuration-v1'' @ i64_to_be_bytes (data_loss_number e)
     @ i64_to_be_bytes (configuration_number e) @ i64_to_be_bytes p @ u32_to_be_bytes q
     @ len_to_be_bytes (length (canonical_members ms))
     @ concat (map member_preimage (canonical_members ms))"

definition calculate_id ::
    "(bytes \<Rightarrow> bytes) \<Rightarrow> Epoch \<Rightarrow> ReplicaId \<Rightarrow> ConfigurationMember list \<Rightarrow> u32 \<Rightarrow> ConfigurationId" where
  "calculate_id H e p ms q = ''cfg-'' @ format_digest (H (configuration_preimage e p ms q))"

definition configuration_new ::
    "(bytes \<Rightarrow> bytes) \<Rightarrow> Epoch \<Rightarrow> ReplicaId \<Rightarrow> ConfigurationMember list \<Rightarrow> u32
      \<Rightarrow> ConfigurationDescriptor" where
  "configuration_new H e p ms q =
     (let ms' = sort_key m_replica_id ms
      in \<lparr>configuration_id = calculate_id H e p ms' q, c_epoch = e, primary_id = p,
          members = ms', write_quorum = q\<rparr>)"

definition expected_id :: "(bytes \<Rightarrow> bytes) \<Rightarrow> ConfigurationDescriptor \<Rightarrow> ConfigurationId" where
  "expected_id H c = calculate_id H (c_epoch c) (primary_id c) (members c) (write_quorum c)"

text \<open>
  The custom \<open>Deserialize\<close>: the wire form omits or repeats the primary's ID, and a member is
  flat or nested (legacy). Serialization skips \<open>primary_id\<close>.
\<close>

datatype WireMember =
    FlatMember ReplicaId ReplicaInstanceId AgentGeneration ReplicaRole
  | LegacyMember ReplicaIdentity ReplicaRole

record WireConfiguration =
  w_configuration_id :: ConfigurationId
  w_epoch :: Epoch
  w_primary_id :: "ReplicaId option"
  w_members :: "WireMember list"
  w_write_quorum :: u32

fun member_of_wire :: "WireMember \<Rightarrow> ConfigurationMember" where
  "member_of_wire (FlatMember r i g role) =
     \<lparr>m_identity = \<lparr>replica_id = r, instance_id = i, agent_generation = g\<rparr>, m_role = role\<rparr>"
| "member_of_wire (LegacyMember identity role) = \<lparr>m_identity = identity, m_role = role\<rparr>"

definition configuration_of_wire :: "WireConfiguration \<Rightarrow> (string, ConfigurationDescriptor) result" where
  "configuration_of_wire w =
     (let ms = map member_of_wire (w_members w)
      in case filter (\<lambda>m. m_role m = Primary) ms of
           [] \<Rightarrow> Err ''configuration has no Primary member''
         | p # others \<Rightarrow>
             if others \<noteq> [] then Err ''configuration has multiple Primary members''
             else if is_some_and (w_primary_id w) (\<lambda>s. s \<noteq> m_replica_id p)
             then Err ''serialized primaryId differs from the Primary member''
             else Ok \<lparr>configuration_id = w_configuration_id w, c_epoch = w_epoch w,
                      primary_id = m_replica_id p, members = ms, write_quorum = w_write_quorum w\<rparr>)"

definition wire_of_member :: "ConfigurationMember \<Rightarrow> WireMember" where
  "wire_of_member m =
     FlatMember (m_replica_id m) (instance_id (m_identity m)) (agent_generation (m_identity m)) (m_role m)"

definition wire_of_configuration :: "ConfigurationDescriptor \<Rightarrow> WireConfiguration" where
  "wire_of_configuration c =
     \<lparr>w_configuration_id = configuration_id c, w_epoch = c_epoch c, w_primary_id = None,
      w_members = map wire_of_member (members c), w_write_quorum = write_quorum c\<rparr>"

record EffectivePolicy =
  replica_set_size :: u32
  p_write_quorum :: u32
  read_quorum :: u32
  failover_delay_seconds :: u64

definition fixed_policy :: "u32 \<Rightarrow> u64 \<Rightarrow> EffectivePolicy option" where
  "fixed_policy n d =
     (if n = 0 then None
      else let w = n div 2 + 1; r = n - w + 1
           in Some \<lparr>replica_set_size = n, p_write_quorum = w, read_quorum = r,
                    failover_delay_seconds = d\<rparr>)"

definition duplicate_replica_ids :: "ConfigurationMember list \<Rightarrow> ReplicaId set" where
  "duplicate_replica_ids ms =
     snd (fold (\<lambda>m (seen, dups).
                  if m_replica_id m \<in> seen then (seen, insert (m_replica_id m) dups)
                  else (insert (m_replica_id m) seen, dups)) ms ({}, {}))"

end
