(* ===== verification/Protocol_Intents.thy ===== *)
theory Protocol_Intents
  imports Protocol_Types
begin

text \<open>
  The intents of \<open>kuberic-runtime/src/protocol/types.rs\<close>: derived identifiers, provisioning, build
  authority and planned switchover. Scale-up and removal intents, the witnesses that attest
  them and the durable receipts are in Protocol_Evidence.
\<close>

section \<open>Transition kinds and derived identifiers\<close>

datatype TransitionKind =
    Bootstrap | Replacement | Failover | PlannedSwitchover | SecondaryScaleDown | ScaleUp

fun transition_tag :: "TransitionKind \<Rightarrow> string" where
  "transition_tag Bootstrap = ''bootstrap''"
| "transition_tag Replacement = ''replacement''"
| "transition_tag Failover = ''failover''"
| "transition_tag PlannedSwitchover = ''planned-switchover''"
| "transition_tag SecondaryScaleDown = ''secondary-scale-down''"
| "transition_tag ScaleUp = ''scale-up''"

definition derive_initialization_id ::
    "(bytes \<Rightarrow> bytes) \<Rightarrow> ResourceUid \<Rightarrow> ReplicaId \<Rightarrow> PodUid \<Rightarrow> PvcUid \<Rightarrow> InitializationId" where
  "derive_initialization_id H uid r pod pvc =
     ''init-'' @ digest_parts H [uid, i64_to_string r, pod, pvc]"

definition derive_agent_generation :: "(bytes \<Rightarrow> bytes) \<Rightarrow> InitializationId \<Rightarrow> AgentGeneration" where
  "derive_agent_generation H i = digest_parts H [''agent'', i]"

definition derive_transition_id ::
    "(bytes \<Rightarrow> bytes) \<Rightarrow> ResourceUid \<Rightarrow> TransitionKind \<Rightarrow> ConfigurationId \<Rightarrow> TransitionId" where
  "derive_transition_id H uid kind cid =
     ''transition-'' @ digest_parts H [uid, transition_tag kind, cid]"

definition derive_replacement_operation_id ::
    "(bytes \<Rightarrow> bytes) \<Rightarrow> ResourceUid \<Rightarrow> ReplicaIdentity \<Rightarrow> PodUid \<Rightarrow> PvcUid \<Rightarrow> OperationId" where
  "derive_replacement_operation_id H uid r pod pvc =
     ''replacement-provisioning-'' @
       digest_parts H [uid, i64_to_string (replica_id r), instance_id r, agent_generation r, pod, pvc]"

definition derive_failover_repair_operation_id ::
    "(bytes \<Rightarrow> bytes) \<Rightarrow> ResourceUid \<Rightarrow> TransitionId \<Rightarrow> ReplicaIdentity \<Rightarrow> OperationId" where
  "derive_failover_repair_operation_id H uid tid t =
     ''failover-repair-'' @
       digest_parts H [uid, tid, i64_to_string (replica_id t), instance_id t, agent_generation t]"

definition derive_switchover_preparation_operation_id ::
    "(bytes \<Rightarrow> bytes) \<Rightarrow> ResourceUid \<Rightarrow> SwitchoverRequestId \<Rightarrow> u64 \<Rightarrow> ConfigurationId
      \<Rightarrow> ReplicaIdentity \<Rightarrow> ReplicaIdentity \<Rightarrow> OperationId" where
  "derive_switchover_preparation_operation_id H uid req g cid s t =
     ''switchover-prepare-'' @
       digest_parts H [uid, req, u64_to_string g, cid,
         i64_to_string (replica_id s), instance_id s, agent_generation s,
         i64_to_string (replica_id t), instance_id t, agent_generation t]"

definition derive_replica_endpoint_name :: "(bytes \<Rightarrow> bytes) \<Rightarrow> ResourceUid \<Rightarrow> ReplicaIdentity \<Rightarrow> string" where
  "derive_replica_endpoint_name H uid r =
     ''kr-'' @ take 24 (digest_parts H
       [uid, i64_to_string (replica_id r), instance_id r, agent_generation r])"

definition derive_replacement_resource_name :: "(bytes \<Rightarrow> bytes) \<Rightarrow> ResourceUid \<Rightarrow> ReplicaIdentity \<Rightarrow> string" where
  "derive_replacement_resource_name H uid r =
     ''krp-'' @ take 20 (digest_parts H [uid, i64_to_string (replica_id r), instance_id r])"

section \<open>Provisioning\<close>

record ScaleUpProvisioning =
  sp_resource_uid :: ResourceUid
  sp_spec_generation :: u64
  sp_desired_replicas :: u32
  sp_previous_configuration :: ConfigurationDescriptor
  sp_previous_policy :: EffectivePolicy
  sp_current_policy :: EffectivePolicy
  sp_target_replica_id :: ReplicaId

definition next_configuration_epoch :: "ScaleUpProvisioning \<Rightarrow> Epoch option" where
  "next_configuration_epoch p =
     map_option (epoch_new (data_loss_number (c_epoch (sp_previous_configuration p))))
       (i64_checked_add (configuration_number (c_epoch (sp_previous_configuration p))) 1)"

record ScaleUpAllocation =
  al_resource_uid :: ResourceUid
  al_spec_generation :: u64
  al_desired_replicas :: u32
  al_previous_configuration_id :: ConfigurationId
  al_accepted_configuration_id :: ConfigurationId
  al_target_replica_id :: ReplicaId
  al_operation_id :: OperationId
  al_previous_operation_id :: "OperationId option"
  al_scaffolding_requested :: bool
  al_pod_uid :: "PodUid option"
  al_pvc_uid :: "PvcUid option"
  al_cancellation_started :: bool

definition allocation_expected_operation_id :: "(bytes \<Rightarrow> bytes) \<Rightarrow> ScaleUpAllocation \<Rightarrow> OperationId" where
  "allocation_expected_operation_id H a =
     ''scale-up-allocation-'' @ digest_parts H
       ([al_resource_uid a, u64_to_string (al_spec_generation a), u32_to_string (al_desired_replicas a),
         al_previous_configuration_id a, i64_to_string (al_target_replica_id a)]
        @ (case al_previous_operation_id a of None \<Rightarrow> [] | Some p \<Rightarrow> [p]))"

definition observation_target :: "ScaleUpAllocation \<Rightarrow> ReplicaIdentity" where
  "observation_target a =
     \<lparr>replica_id = al_target_replica_id a, instance_id = al_operation_id a,
      agent_generation = al_operation_id a\<rparr>"

datatype ProvisioningKind = ProvReplacement | ProvScaleUp

record ProvisioningPurpose =
  pp_kind :: ProvisioningKind
  pp_replaces :: "ReplicaIdentity option"
  pp_scale_up :: "ScaleUpProvisioning option"

definition purpose_replacement :: "ReplicaIdentity \<Rightarrow> ProvisioningPurpose" where
  "purpose_replacement r = \<lparr>pp_kind = ProvReplacement, pp_replaces = Some r, pp_scale_up = None\<rparr>"

definition purpose_scale_up :: "ScaleUpProvisioning \<Rightarrow> ProvisioningPurpose" where
  "purpose_scale_up s = \<lparr>pp_kind = ProvScaleUp, pp_replaces = None, pp_scale_up = Some s\<rparr>"

record ProvisioningIntent =
  pi_purpose :: ProvisioningPurpose
  pi_pod_uid :: PodUid
  pi_pvc_uid :: PvcUid
  pi_operation_id :: OperationId

definition pi_replica_id :: "ProvisioningIntent \<Rightarrow> ReplicaId" where
  "pi_replica_id i =
     (case pp_kind (pi_purpose i) of
        ProvReplacement \<Rightarrow> (case pp_replaces (pi_purpose i) of None \<Rightarrow> 0 | Some r \<Rightarrow> replica_id r)
      | ProvScaleUp \<Rightarrow> (case pp_scale_up (pi_purpose i) of None \<Rightarrow> 0 | Some s \<Rightarrow> sp_target_replica_id s))"

definition pi_replacement :: "ProvisioningIntent \<Rightarrow> ReplicaIdentity option" where
  "pi_replacement i = (if pp_kind (pi_purpose i) = ProvReplacement then pp_replaces (pi_purpose i) else None)"

definition pi_scale_up :: "ProvisioningIntent \<Rightarrow> ScaleUpProvisioning option" where
  "pi_scale_up i = (if pp_kind (pi_purpose i) = ProvScaleUp then pp_scale_up (pi_purpose i) else None)"

definition pi_instance_id :: "ProvisioningIntent \<Rightarrow> ReplicaInstanceId" where
  "pi_instance_id i = pi_pod_uid i"

definition pi_initialization_id :: "(bytes \<Rightarrow> bytes) \<Rightarrow> ProvisioningIntent \<Rightarrow> ResourceUid \<Rightarrow> InitializationId" where
  "pi_initialization_id H i uid =
     derive_initialization_id H uid (pi_replica_id i) (pi_pod_uid i) (pi_pvc_uid i)"

definition assigned_agent_generation :: "(bytes \<Rightarrow> bytes) \<Rightarrow> ProvisioningIntent \<Rightarrow> ResourceUid \<Rightarrow> AgentGeneration" where
  "assigned_agent_generation H i uid = derive_agent_generation H (pi_initialization_id H i uid)"

definition target_identity :: "(bytes \<Rightarrow> bytes) \<Rightarrow> ProvisioningIntent \<Rightarrow> ResourceUid \<Rightarrow> ReplicaIdentity" where
  "target_identity H i uid =
     \<lparr>replica_id = pi_replica_id i, instance_id = pi_instance_id i,
      agent_generation = assigned_agent_generation H i uid\<rparr>"

definition pi_expected_operation_id :: "(bytes \<Rightarrow> bytes) \<Rightarrow> ProvisioningIntent \<Rightarrow> OperationId" where
  "pi_expected_operation_id H i =
     (case pp_kind (pi_purpose i) of
        ProvReplacement \<Rightarrow> pi_operation_id i
      | ProvScaleUp \<Rightarrow>
          (case pp_scale_up (pi_purpose i) of
             None \<Rightarrow> ''''
           | Some s \<Rightarrow> ''scale-up-provisioning-'' @ digest_parts H
               [sp_resource_uid s, u64_to_string (sp_spec_generation s),
                u32_to_string (sp_desired_replicas s),
                configuration_id (sp_previous_configuration s),
                i64_to_string (sp_target_replica_id s), pi_pod_uid i, pi_pvc_uid i]))"

definition scale_up_build_id :: "(bytes \<Rightarrow> bytes) \<Rightarrow> ProvisioningIntent \<Rightarrow> ResourceUid \<Rightarrow> OperationId option" where
  "scale_up_build_id H i uid =
     map_option (\<lambda>_. let t = target_identity H i uid
       in ''scale-up-build-'' @ digest_parts H
            [pi_operation_id i, i64_to_string (replica_id t), instance_id t, agent_generation t])
       (pi_scale_up i)"

datatype BuildAuthorityKind = BuildBootstrap | BuildProvisioning | BuildFailover

record BuildAuthority =
  ba_build_id :: OperationId
  ba_kind :: BuildAuthorityKind
  ba_source :: ReplicaIdentity
  ba_target :: ReplicaIdentity
  ba_current_configuration :: ConfigurationDescriptor
  ba_replication_boundary_lsn :: i64

section \<open>Planned switchover\<close>

datatype PlannedSwitchoverResolution =
    RequestedTarget | RestoringOldPrimary | CompensatingOldPrimary | ResolutionUnsafe

record SwitchoverPreparationId =
  spi_generation :: u64
  spi_operation_id :: OperationId

record SwitchoverHandoff =
  sh_preparation_generation :: u64
  sh_preparation_operation_id :: OperationId
  sh_request_id :: SwitchoverRequestId
  sh_source :: ReplicaIdentity
  sh_target :: ReplicaIdentity
  sh_starting_configuration_id :: ConfigurationId
  sh_starting_epoch :: Epoch
  sh_handoff_lsn :: i64

definition sh_preparation :: "SwitchoverHandoff \<Rightarrow> SwitchoverPreparationId" where
  "sh_preparation h =
     \<lparr>spi_generation = sh_preparation_generation h, spi_operation_id = sh_preparation_operation_id h\<rparr>"

record PlannedSwitchoverIntent =
  si_preparation_generation :: u64
  si_request_id :: SwitchoverRequestId
  si_source :: ReplicaIdentity
  si_target :: ReplicaIdentity
  si_requested_configuration :: ConfigurationDescriptor
  si_resolution :: PlannedSwitchoverResolution
  si_handoff :: "SwitchoverHandoff option"

datatype PlannedSwitchoverOutcome =
    RequestedTargetCompleted | OldPrimaryRestored | OldPrimaryCompensated | Rejected | OutcomeUnsafe

record PlannedSwitchoverReceipt =
  sr_request_id :: SwitchoverRequestId
  sr_requested_target_replica_id :: ReplicaId
  sr_accepted_target :: "ReplicaIdentity option"
  sr_resulting_primary :: "ReplicaIdentity option"
  sr_outcome :: PlannedSwitchoverOutcome

end
