(* ===== verification/Protocol_Evidence.thy ===== *)
theory Protocol_Evidence
  imports Protocol_Intents
begin

text \<open>
  The membership-change part of \<open>kuberic-runtime/src/protocol/types.rs\<close>: the immutable
  intents of a scale-up and of a secondary removal, the quorum witnesses collected at each
  stage, the failover evidence carried by a scale-up, cleanup identities and receipts, and
  the operation identifiers every stage derives.
\<close>

section \<open>Cleanup identities\<close>

datatype CleanupResourceIdentity = Present string string | Absent string

fun cleanup_name :: "CleanupResourceIdentity \<Rightarrow> string" where
  "cleanup_name (Present n u) = n"
| "cleanup_name (Absent n) = n"

text \<open>\<open>matches!(r, Present { uid, .. } if P uid)\<close>.\<close>

definition present_uid :: "CleanupResourceIdentity \<Rightarrow> (string \<Rightarrow> bool) \<Rightarrow> bool" where
  "present_uid r P \<longleftrightarrow> (case r of Present n u \<Rightarrow> P u | Absent n \<Rightarrow> False)"

lemma present_uid_simps [simp]:
  "present_uid (Present n u) P = P u" "present_uid (Absent n) P = False"
  by (simp_all add: present_uid_def)

record ReplicaCleanupIdentity =
  ci_pod :: CleanupResourceIdentity
  ci_pvc :: CleanupResourceIdentity
  ci_endpoint :: CleanupResourceIdentity

section \<open>Scale-up\<close>

record ScaleUpIntent =
  su_operation_id :: OperationId
  su_resource_uid :: ResourceUid
  su_spec_generation :: u64
  su_desired_replicas :: u32
  su_previous_configuration :: ConfigurationDescriptor
  su_current_configuration :: ConfigurationDescriptor
  su_previous_policy :: EffectivePolicy
  su_current_policy :: EffectivePolicy
  su_primary :: ReplicaIdentity
  su_target :: ReplicaIdentity
  su_build_id :: OperationId
  su_snapshot_boundary_lsn :: i64
  su_catch_up_boundary_lsn :: i64

datatype ScaleUpStage = SuPreviousCurrent | SuCurrentOnly | SuAcceptCommit

fun scale_up_stage_tag :: "ScaleUpStage \<Rightarrow> string" where
  "scale_up_stage_tag SuPreviousCurrent = ''pc-cc''"
| "scale_up_stage_tag SuCurrentOnly = ''current-only''"
| "scale_up_stage_tag SuAcceptCommit = ''accept-commit''"

definition su_expected_operation_id :: "(bytes \<Rightarrow> bytes) \<Rightarrow> ScaleUpIntent \<Rightarrow> OperationId" where
  "su_expected_operation_id H i =
     ''scale-up-'' @ digest_parts H
       [su_resource_uid i, u64_to_string (su_spec_generation i), u32_to_string (su_desired_replicas i),
        configuration_id (su_previous_configuration i), configuration_id (su_current_configuration i),
        i64_to_string (replica_id (su_target i)), instance_id (su_target i),
        agent_generation (su_target i), su_build_id i,
        i64_to_string (su_snapshot_boundary_lsn i), i64_to_string (su_catch_up_boundary_lsn i)]"

definition su_command_operation_id ::
    "(bytes \<Rightarrow> bytes) \<Rightarrow> ScaleUpIntent \<Rightarrow> ScaleUpStage \<Rightarrow> ReplicaIdentity \<Rightarrow> ConfigurationDescriptor
      \<Rightarrow> OperationId" where
  "su_command_operation_id H i stage t a =
     ''scale-up-command-'' @ digest_parts H
       [su_operation_id i, scale_up_stage_tag stage, i64_to_string (replica_id t), instance_id t,
        agent_generation t, configuration_id a]"

definition su_transition_id ::
    "(bytes \<Rightarrow> bytes) \<Rightarrow> ScaleUpIntent \<Rightarrow> TransitionKind \<Rightarrow> ConfigurationDescriptor \<Rightarrow> TransitionId" where
  "su_transition_id H i kind a =
     ''scale-up-transition-'' @ digest_parts H
       [su_operation_id i, transition_tag kind, configuration_id a]"

record ScaleUpWitness =
  uw_resource_uid :: ResourceUid
  uw_identity :: ReplicaIdentity
  uw_role :: ReplicaRole
  uw_process_session_id :: ProcessSessionId
  uw_report_sequence :: u64
  uw_epoch :: Epoch
  uw_previous_configuration_id :: "ConfigurationId option"
  uw_current_configuration_id :: ConfigurationId
  uw_verified_replication_lsn :: i64
  uw_write_status :: AccessStatus
  uw_pending_operation_id :: "OperationId option"
  uw_retained_operation_id :: "OperationId option"

record ScaleUpFinalWitness =
  fw_replica_id :: ReplicaId
  fw_process_session_id :: ProcessSessionId
  fw_report_sequence :: u64
  fw_current_progress :: i64
  fw_committed_lsn :: i64
  fw_deactivated_lsn :: i64
  fw_fence_operation_id :: OperationId

record ScaleUpFinalElectionEvidence =
  fe_selected_primary_replica_id :: ReplicaId
  fe_witnesses :: "ScaleUpFinalWitness list"
  fe_previous_read_quorum :: "ReplicaId list"
  fe_current_read_quorum :: "ReplicaId list"

definition fe_selected_primary ::
    "ScaleUpFinalElectionEvidence \<Rightarrow> ConfigurationDescriptor \<Rightarrow> ReplicaIdentity option" where
  "fe_selected_primary f prov =
     map_option m_identity
       (find (\<lambda>m. m_replica_id m = fe_selected_primary_replica_id f) (members prov))"

definition fe_final_configuration ::
    "(bytes \<Rightarrow> bytes) \<Rightarrow> ScaleUpFinalElectionEvidence \<Rightarrow> ConfigurationDescriptor
      \<Rightarrow> ConfigurationDescriptor option" where
  "fe_final_configuration H f prov =
     (case fe_selected_primary f prov of
        None \<Rightarrow> None
      | Some selected \<Rightarrow>
          (case i64_checked_add (configuration_number (c_epoch prov)) 1 of
             None \<Rightarrow> None
           | Some n \<Rightarrow>
               Some (configuration_new H (epoch_new (data_loss_number (c_epoch prov)) n)
                 (fe_selected_primary_replica_id f)
                 (map (\<lambda>m. \<lparr>m_identity = m_identity m,
                             m_role = (if m_identity m = selected then Primary else ActiveSecondary)\<rparr>)
                   (members prov))
                 (write_quorum prov))))"

definition fe_witness :: "ScaleUpFinalElectionEvidence \<Rightarrow> ReplicaId \<Rightarrow> ScaleUpFinalWitness option" where
  "fe_witness f r = find (\<lambda>w. fw_replica_id w = r) (fe_witnesses f)"

definition fe_safe_lsn :: "ScaleUpFinalElectionEvidence \<Rightarrow> i64 option" where
  "fe_safe_lsn f =
     map_option (\<lambda>w. min (fw_current_progress w) (fw_deactivated_lsn w))
       (fe_witness f (fe_selected_primary_replica_id f))"

record ScaleUpFailoverEvidence =
  sf_intent :: ScaleUpIntent
  sf_provisional_configuration :: ConfigurationDescriptor
  sf_previous_read_quorum :: "ScaleUpWitness list"
  sf_current_read_quorum :: "ScaleUpWitness list"
  sf_final_election :: "ScaleUpFinalElectionEvidence option"

definition same_provisional_authority :: "ScaleUpFailoverEvidence \<Rightarrow> ScaleUpFailoverEvidence \<Rightarrow> bool" where
  "same_provisional_authority a b \<longleftrightarrow>
     sf_intent a = sf_intent b
     \<and> sf_provisional_configuration a = sf_provisional_configuration b
     \<and> sf_previous_read_quorum a = sf_previous_read_quorum b
     \<and> sf_current_read_quorum a = sf_current_read_quorum b"

datatype ScaleUpConfigurationEvidence =
    Admission ScaleUpIntent | FailoverEvidence ScaleUpFailoverEvidence

fun sce_intent :: "ScaleUpConfigurationEvidence \<Rightarrow> ScaleUpIntent" where
  "sce_intent (Admission i) = i"
| "sce_intent (FailoverEvidence e) = sf_intent e"

record ScaleUpCleanup =
  sc_provisioning :: ProvisioningIntent
  sc_target :: ReplicaIdentity
  sc_resources :: ReplicaCleanupIdentity

record ScaleUpFailoverReceiptEvidence =
  fr_provisional_primary_replica_id :: ReplicaId
  fr_previous_read_quorum :: "ScaleUpWitness list"
  fr_current_read_quorum :: "ScaleUpWitness list"
  fr_final_election :: ScaleUpFinalElectionEvidence

definition fr_from_evidence :: "ScaleUpFailoverEvidence \<Rightarrow> ScaleUpFailoverReceiptEvidence option" where
  "fr_from_evidence e =
     map_option (\<lambda>f. \<lparr>fr_provisional_primary_replica_id = primary_id (sf_provisional_configuration e),
                     fr_previous_read_quorum = sf_previous_read_quorum e,
                     fr_current_read_quorum = sf_current_read_quorum e,
                     fr_final_election = f\<rparr>)
       (sf_final_election e)"

definition fr_expand ::
    "(bytes \<Rightarrow> bytes) \<Rightarrow> ScaleUpFailoverReceiptEvidence \<Rightarrow> ScaleUpIntent \<Rightarrow> ScaleUpFailoverEvidence option" where
  "fr_expand H r i =
     (if \<not> (\<exists>m \<in> set (members (su_current_configuration i)).
              m_replica_id m = fr_provisional_primary_replica_id r)
      then None
      else case i64_checked_add (configuration_number (c_epoch (su_current_configuration i))) 1 of
        None \<Rightarrow> None
      | Some n \<Rightarrow>
          Some \<lparr>sf_intent = i,
            sf_provisional_configuration =
              configuration_new H (epoch_new (data_loss_number (c_epoch (su_current_configuration i))) n)
                (fr_provisional_primary_replica_id r)
                (map (\<lambda>m. \<lparr>m_identity = m_identity m,
                           m_role = (if m_replica_id m = fr_provisional_primary_replica_id r
                                     then Primary else ActiveSecondary)\<rparr>)
                  (members (su_current_configuration i)))
                (p_write_quorum (su_current_policy i)),
            sf_previous_read_quorum = fr_previous_read_quorum r,
            sf_current_read_quorum = fr_current_read_quorum r,
            sf_final_election = Some (fr_final_election r)\<rparr>)"

record ScaleUpReceipt =
  ur_intent :: ScaleUpIntent
  ur_accepted_configuration :: ConfigurationDescriptor
  ur_failover_evidence :: "ScaleUpFailoverReceiptEvidence option"
  ur_failover_safe_lsn :: "i64 option"
  ur_current_only_write_quorum :: "ScaleUpWitness list"

definition expanded_failover_evidence ::
    "(bytes \<Rightarrow> bytes) \<Rightarrow> ScaleUpReceipt \<Rightarrow> ScaleUpFailoverEvidence option" where
  "expanded_failover_evidence H r =
     (case ur_failover_evidence r of None \<Rightarrow> None | Some e \<Rightarrow> fr_expand H e (ur_intent r))"

section \<open>Replacement cleanup\<close>

record ReplacementCleanup =
  rc_resource_uid :: ResourceUid
  rc_target :: ReplicaIdentity
  rc_resources :: ReplicaCleanupIdentity

fun cleanup_parts :: "CleanupResourceIdentity \<Rightarrow> string list" where
  "cleanup_parts (Present n u) = [''present'', n, u]"
| "cleanup_parts (Absent n) = [''absent'', n, '''']"

definition rc_provenance :: "(bytes \<Rightarrow> bytes) \<Rightarrow> ReplacementCleanup \<Rightarrow> string" where
  "rc_provenance H c =
     digest_parts H
       ([rc_resource_uid c, i64_to_string (replica_id (rc_target c)), instance_id (rc_target c),
         agent_generation (rc_target c)]
        @ cleanup_parts (ci_pod (rc_resources c)) @ cleanup_parts (ci_pvc (rc_resources c))
        @ cleanup_parts (ci_endpoint (rc_resources c)))"

definition rc_provisioning_operation_id ::
    "(bytes \<Rightarrow> bytes) \<Rightarrow> ReplacementCleanup \<Rightarrow> PodUid \<Rightarrow> PvcUid \<Rightarrow> OperationId" where
  "rc_provisioning_operation_id H c pod pvc =
     ''replacement-provisioning-'' @ digest_parts H [rc_provenance H c, pod, pvc]"

definition rc_transition_id ::
    "(bytes \<Rightarrow> bytes) \<Rightarrow> ReplacementCleanup \<Rightarrow> TransitionKind \<Rightarrow> ConfigurationId \<Rightarrow> TransitionId" where
  "rc_transition_id H c kind cid =
     ''transition-'' @ digest_parts H [rc_provenance H c, transition_tag kind, cid]"

section \<open>Secondary removal\<close>

record SecondaryScaleDownIntent =
  sd_operation_id :: OperationId
  sd_resource_uid :: ResourceUid
  sd_spec_generation :: u64
  sd_desired_replicas :: u32
  sd_previous_configuration :: ConfigurationDescriptor
  sd_current_configuration :: ConfigurationDescriptor
  sd_previous_policy :: EffectivePolicy
  sd_current_policy :: EffectivePolicy
  sd_primary :: ReplicaIdentity
  sd_target :: ReplicaIdentity
  sd_cleanup :: ReplicaCleanupIdentity

datatype SecondaryRemovalStage =
    RemPrepare | RemPreviousCurrent | RemCurrentOnly | RemAcceptCommit | RemRetire

fun removal_stage_tag :: "SecondaryRemovalStage \<Rightarrow> string" where
  "removal_stage_tag RemPrepare = ''prepare''"
| "removal_stage_tag RemPreviousCurrent = ''pc-cc''"
| "removal_stage_tag RemCurrentOnly = ''current-only''"
| "removal_stage_tag RemAcceptCommit = ''accept-commit''"
| "removal_stage_tag RemRetire = ''retire''"

definition sd_expected_operation_id :: "(bytes \<Rightarrow> bytes) \<Rightarrow> SecondaryScaleDownIntent \<Rightarrow> OperationId" where
  "sd_expected_operation_id H i =
     ''secondary-scale-down-'' @ digest_parts H
       [sd_resource_uid i, u64_to_string (sd_spec_generation i), u32_to_string (sd_desired_replicas i),
        configuration_id (sd_previous_configuration i), configuration_id (sd_current_configuration i),
        i64_to_string (replica_id (sd_target i)), instance_id (sd_target i),
        agent_generation (sd_target i)]"

definition sd_command_operation_id ::
    "(bytes \<Rightarrow> bytes) \<Rightarrow> SecondaryScaleDownIntent \<Rightarrow> SecondaryRemovalStage \<Rightarrow> ReplicaIdentity \<Rightarrow> OperationId" where
  "sd_command_operation_id H i stage t =
     ''secondary-removal-'' @ digest_parts H
       [sd_operation_id i, removal_stage_tag stage, i64_to_string (replica_id t), instance_id t,
        agent_generation t]"

record SecondaryRemovalPreparation =
  rp_intent :: SecondaryScaleDownIntent
  rp_operation_id :: OperationId
  rp_process_session_id :: ProcessSessionId
  rp_report_sequence :: u64
  rp_boundary_lsn :: i64

record SecondaryRemovalWitness =
  rw_resource_uid :: ResourceUid
  rw_identity :: ReplicaIdentity
  rw_role :: ReplicaRole
  rw_process_session_id :: ProcessSessionId
  rw_report_sequence :: u64
  rw_epoch :: Epoch
  rw_previous_configuration_id :: "ConfigurationId option"
  rw_current_configuration_id :: ConfigurationId
  rw_verified_replication_lsn :: i64
  rw_write_status :: AccessStatus
  rw_pending_operation_id :: "OperationId option"
  rw_retained_operation_id :: "OperationId option"

record SecondaryRemovalEvidence =
  re_preparation :: SecondaryRemovalPreparation
  re_previous_read_quorum :: "SecondaryRemovalWitness list"
  re_reduced_write_quorum :: "SecondaryRemovalWitness list"

record ReplicaRetirementReport =
  rr_intent :: SecondaryScaleDownIntent
  rr_operation_id :: OperationId
  rr_process_session_id :: ProcessSessionId
  rr_report_sequence :: u64
  rr_epoch :: Epoch
  rr_role :: ReplicaRole
  rr_read_status :: AccessStatus
  rr_write_status :: AccessStatus
  rr_application_closed :: bool
  rr_peers_fenced :: bool

record SecondaryScaleDownCleanup =
  sdc_evidence :: SecondaryRemovalEvidence
  sdc_current_only_write_quorum :: "SecondaryRemovalWitness list"
  sdc_retirement :: "ReplicaRetirementReport option"

record SecondaryRemovalReceipt =
  rmr_evidence :: SecondaryRemovalEvidence
  rmr_current_only_write_quorum :: "SecondaryRemovalWitness list"

definition rmr_committed :: "SecondaryRemovalReceipt \<Rightarrow> SecondaryScaleDownCleanup" where
  "rmr_committed r =
     \<lparr>sdc_evidence = rmr_evidence r, sdc_current_only_write_quorum = rmr_current_only_write_quorum r,
      sdc_retirement = None\<rparr>"

section \<open>The active transition\<close>

record ReplicaRepairIntent =
  ri_operation_id :: OperationId
  ri_target :: ReplicaIdentity

record TransitionIntent =
  ti_transition_id :: TransitionId
  ti_kind :: TransitionKind
  ti_spec_generation :: u64
  ti_effective_policy :: EffectivePolicy
  ti_previous_configuration_id :: "ConfigurationId option"
  ti_current_configuration :: ConfigurationDescriptor
  ti_election_lsn :: "i64 option"
  ti_build_id :: "OperationId option"
  ti_repair :: "ReplicaRepairIntent option"
  ti_switchover :: "PlannedSwitchoverIntent option"
  ti_secondary_scale_down :: "SecondaryScaleDownIntent option"
  ti_secondary_removal_evidence :: "SecondaryRemovalEvidence option"
  ti_scale_up :: "ScaleUpIntent option"
  ti_scale_up_failover :: "ScaleUpFailoverEvidence option"

record PrimaryFailureObservation =
  pf_primary :: ReplicaIdentity
  pf_started_at_unix_seconds :: i64

record QuorumLossObservation =
  ql_configuration_id :: ConfigurationId

end
