(* ===== verification/Validation.thy ===== *)
theory Validation
  imports Protocol_Evidence
begin

text \<open>
  The leaf checks of \<open>kuberic-runtime/src/protocol/validation.rs\<close>: the error type, the policy
  and configuration checks, the relationship between a Previous and a Current Configuration,
  switchover certificates and receipts, and \<open>BuildAuthority::validate\<close>. Each check is a
  function to \<open>Result<(), ValidationError>\<close> (the type \<open>check\<close>) with the guards in source order.
\<close>

section \<open>Errors\<close>

datatype (plugins only: code) ValidationError =
    InvalidPublicFault string
  | InvalidScaleUp string
  | InvalidSecondaryScaleDown string
  | DesiredReplicasZero
  | InitializedWithoutTopology
  | InitializedWithoutPolicy
  | PolicyBeforeInitialization
  | TransitionPolicyMismatch
  | TopologyBeforeInitialization
  | ProvisioningAndTransition
  | ProvisioningWithoutTopology
  | ConfigurationIdMismatch string string
  | EmptyConfiguration
  | InvalidConfigurationEpoch
  | DuplicateReplicaIds "i64 list"
  | InvalidReplicaId i64
  | DuplicateReplicaIdentity string
  | MissingPrimary i64
  | InvalidPrimaryCount nat
  | ReplicaSetSizeMismatch u32 u32
  | WriteQuorumMismatch u32 u32
  | InvalidEffectivePolicy u32
  | BootstrapHasPreviousConfiguration
  | BootstrapHasTopology
  | TransitionWithoutTopology
  | PreviousConfigurationMismatch "string option" string
  | TransitionDataLossChanged
  | TransitionEpochNotNewer
  | TransitionLogicalMembershipChanged
  | FailoverMembershipChanged
  | FailoverReplacementWithoutBuild
  | InvalidFailoverRepairTarget
  | InvalidFailoverElectionLsn
  | InvalidReplacementMembership
  | InvalidReplacementCleanup
  | ReplacementPrimaryChanged
  | BuildSourceNotPrimary
  | InvalidBootstrapBuildTarget
  | ProvisioningBuildTargetInAuthority
  | NegativeBuildBoundary
  | ProvisioningReusesAcceptedIncarnation
  | InvalidProvisioningReplacement
  | ReplicaObservationKeyMismatch string string
  | KubernetesObservationKeyMismatch
  | ReplicaResourceMismatch i64
  | StaleReportSequence i64 u64 u64
  | StaleReplicaEpoch i64 Epoch Epoch
  | ConflictingReplicaConfiguration i64 Epoch
  | ConflictingReplicaIdentity i64
  | EstablishedStoreMissing i64
  | InvalidReplicaReportAuthority i64
  | UnauthorizedReplicaEpoch i64 Epoch Epoch
  | ProvisioningClaimsAuthority i64
  | UnrelatedReplicaClaimsAuthority i64
  | BootstrapHasUnrelatedAuthority
  | BootstrapWriteGranted i64
  | BootstrapRoleConflict i64
  | ConflictingPrimaryClaims "i64 list"
  | UninitializedScaffoldingMismatch
  | UninitializedProvisioningMismatch
  | BootstrapReportHasPreviousConfiguration i64
  | ReportedPreviousConfigurationMismatch i64
  | PrimaryFailureMismatch
  | QuorumLossMismatch
  | UnexpectedSwitchoverIntent
  | MissingSwitchoverIntent
  | InvalidSwitchoverSource
  | InvalidSwitchoverTarget
  | InvalidSwitchoverResolution
  | InvalidSwitchoverEvidence
  | InvalidSwitchoverHandoff
  | InvalidSwitchoverReceipt

type_synonym check = "(ValidationError, unit) result"

section \<open>Policies and configurations\<close>

definition validate_policy :: "EffectivePolicy \<Rightarrow> check" where
  "validate_policy p =
     and_then (ok_or (fixed_policy (replica_set_size p) (failover_delay_seconds p))
                (InvalidEffectivePolicy (replica_set_size p)))
       (\<lambda>e. if p_write_quorum p \<noteq> p_write_quorum e \<or> read_quorum p \<noteq> read_quorum e
            then Err (InvalidEffectivePolicy (replica_set_size p)) else Ok ())"

fun unique_incarnations :: "(string \<times> string) set \<Rightarrow> ConfigurationMember list \<Rightarrow> check" where
  "unique_incarnations seen [] = Ok ()"
| "unique_incarnations seen (m # ms) =
     (let key = (instance_id (m_identity m), agent_generation (m_identity m))
      in if key \<in> seen then Err (DuplicateReplicaIdentity (fst key @ ''@'' @ snd key))
         else unique_incarnations (insert key seen) ms)"

definition validate_configuration ::
    "(bytes \<Rightarrow> bytes) \<Rightarrow> ConfigurationDescriptor \<Rightarrow> EffectivePolicy option \<Rightarrow> check" where
  "validate_configuration H c policy =
     (if data_loss_number (c_epoch c) < 0 \<or> configuration_number (c_epoch c) < 0
      then Err InvalidConfigurationEpoch
      else if members c = [] then Err EmptyConfiguration
      else if configuration_id c \<noteq> expected_id H c
      then Err (ConfigurationIdMismatch (configuration_id c) (expected_id H c))
      else if duplicate_replica_ids (members c) \<noteq> {}
      then Err (DuplicateReplicaIds (sorted_list_of_set (duplicate_replica_ids (members c))))
      else case find (\<lambda>r. r \<le> 0) (map m_replica_id (members c)) of
        Some r \<Rightarrow> Err (InvalidReplicaId r)
      | None \<Rightarrow>
          and_then (unique_incarnations {} (members c)) (\<lambda>_.
            let primaries = filter (\<lambda>m. m_role m = Primary) (members c)
            in if length primaries \<noteq> 1 then Err (InvalidPrimaryCount (length primaries))
               else if m_replica_id (primaries ! 0) \<noteq> primary_id c
               then Err (MissingPrimary (primary_id c))
               else
          and_then (expect (or_else policy (fixed_policy (word_of_nat (length (members c))) 0)))
            (\<lambda>e. let actual = word_of_nat (length (members c))
                 in if actual \<noteq> replica_set_size e
                    then Err (ReplicaSetSizeMismatch actual (replica_set_size e))
                    else if write_quorum c \<noteq> p_write_quorum e
                    then Err (WriteQuorumMismatch (write_quorum c) (p_write_quorum e))
                    else Ok ())))"

definition exact_identities :: "ConfigurationDescriptor \<Rightarrow> ReplicaIdentity set" where
  "exact_identities c = set (map m_identity (members c))"

definition changed_members ::
    "ConfigurationDescriptor \<Rightarrow> ConfigurationDescriptor \<Rightarrow> ConfigurationMember list" where
  "changed_members previous current =
     filter (\<lambda>p. is_none_or (find (\<lambda>c. m_replica_id c = m_replica_id p) (members current))
                  (\<lambda>c. m_identity c \<noteq> m_identity p))
       (members previous)"

definition valid_single_non_primary_incarnation_change ::
    "ConfigurationDescriptor \<Rightarrow> ConfigurationDescriptor \<Rightarrow> bool" where
  "valid_single_non_primary_incarnation_change previous current \<longleftrightarrow>
     length (changed_members previous current) = 1
     \<and> m_replica_id (changed_members previous current ! 0) \<noteq> primary_id previous"

definition validate_transition_relationship ::
    "(bytes \<Rightarrow> bytes) \<Rightarrow> TransitionKind \<Rightarrow> ConfigurationDescriptor option \<Rightarrow> ConfigurationDescriptor
      \<Rightarrow> EffectivePolicy \<Rightarrow> check" where
  "validate_transition_relationship H kind prev current policy =
     (if kind = SecondaryScaleDown
      then Err (InvalidSecondaryScaleDown ''requires explicit dual-policy removal intent'')
      else if kind = ScaleUp
      then Err (InvalidScaleUp ''requires explicit dual-policy scale-up intent'')
      else and_then (validate_policy policy) (\<lambda>_.
        and_then (validate_configuration H current (Some policy)) (\<lambda>_.
        if kind = Bootstrap
        then (if prev \<noteq> None then Err BootstrapHasPreviousConfiguration else Ok ())
        else and_then (ok_or prev TransitionWithoutTopology) (\<lambda>previous.
          and_then (validate_configuration H previous (Some policy)) (\<lambda>_.
          if data_loss_number (c_epoch current) \<noteq> data_loss_number (c_epoch previous)
          then Err TransitionDataLossChanged
          else if configuration_number (c_epoch current) \<le> configuration_number (c_epoch previous)
          then Err TransitionEpochNotNewer
          else if set (map m_replica_id (members previous)) \<noteq> set (map m_replica_id (members current))
          then Err TransitionLogicalMembershipChanged
          else case kind of
            Failover \<Rightarrow>
              if exact_identities previous \<noteq> exact_identities current
                 \<and> \<not> valid_single_non_primary_incarnation_change previous current
              then Err FailoverMembershipChanged else Ok ()
          | Replacement \<Rightarrow>
              if primary_id current \<noteq> primary_id previous then Err ReplacementPrimaryChanged
              else if length (changed_members previous current) \<noteq> 1
                 \<or> m_replica_id (changed_members previous current ! 0) = primary_id previous
              then Err InvalidReplacementMembership else Ok ()
          | PlannedSwitchover \<Rightarrow>
              if exact_identities previous \<noteq> exact_identities current
              then Err FailoverMembershipChanged else Ok ()
          | _ \<Rightarrow> Panic)))))"

section \<open>Switchover certificates and builds\<close>

definition valid_exact_identity :: "ReplicaIdentity \<Rightarrow> bool" where
  "valid_exact_identity i \<longleftrightarrow> replica_id i > 0 \<and> instance_id i \<noteq> '''' \<and> agent_generation i \<noteq> ''''"

definition validate_switchover_handoff :: "SwitchoverHandoff \<Rightarrow> check" where
  "validate_switchover_handoff h =
     (if sh_preparation_generation h = 0 \<or> sh_preparation_operation_id h = ''''
         \<or> sh_request_id h = '''' \<or> sh_source h = sh_target h
         \<or> \<not> valid_exact_identity (sh_source h) \<or> \<not> valid_exact_identity (sh_target h)
         \<or> sh_starting_configuration_id h = ''''
         \<or> data_loss_number (sh_starting_epoch h) < 0
         \<or> configuration_number (sh_starting_epoch h) < 0 \<or> sh_handoff_lsn h < 0
      then Err InvalidSwitchoverHandoff else Ok ())"

definition validate_switchover_receipt :: "PlannedSwitchoverReceipt \<Rightarrow> check" where
  "validate_switchover_receipt r =
     (if sr_request_id r = '''' \<or> sr_requested_target_replica_id r \<le> 0
      then Err InvalidSwitchoverReceipt
      else if is_some_and (sr_accepted_target r)
                (\<lambda>t. \<not> valid_exact_identity t \<or> replica_id t \<noteq> sr_requested_target_replica_id r)
              \<or> is_some_and (sr_resulting_primary r) (\<lambda>i. \<not> valid_exact_identity i)
      then Err InvalidSwitchoverReceipt
      else case sr_outcome r of
        RequestedTargetCompleted \<Rightarrow>
          if sr_accepted_target r = None \<or> sr_resulting_primary r \<noteq> sr_accepted_target r
          then Err InvalidSwitchoverReceipt else Ok ()
      | OldPrimaryRestored \<Rightarrow>
          if is_none_or (sr_resulting_primary r)
               (\<lambda>p. replica_id p = sr_requested_target_replica_id r)
          then Err InvalidSwitchoverReceipt else Ok ()
      | OldPrimaryCompensated \<Rightarrow>
          if is_none_or (sr_resulting_primary r)
               (\<lambda>p. replica_id p = sr_requested_target_replica_id r)
          then Err InvalidSwitchoverReceipt else Ok ()
      | Rejected \<Rightarrow> Ok ()
      | OutcomeUnsafe \<Rightarrow>
          if sr_resulting_primary r \<noteq> None then Err InvalidSwitchoverReceipt else Ok ())"

definition build_authority_validate :: "(bytes \<Rightarrow> bytes) \<Rightarrow> BuildAuthority \<Rightarrow> check" where
  "build_authority_validate H b =
     and_then (validate_configuration H (ba_current_configuration b) None) (\<lambda>_.
     and_then (expect (find (\<lambda>m. m_replica_id m = primary_id (ba_current_configuration b)
                                 \<and> m_role m = Primary) (members (ba_current_configuration b))))
       (\<lambda>primary.
        if m_identity primary \<noteq> ba_source b then Err BuildSourceNotPrimary
        else let t = find (\<lambda>m. m_identity m = ba_target b) (members (ba_current_configuration b))
        in and_then
          (case ba_kind b of
             BuildProvisioning \<Rightarrow> if t \<noteq> None then Err ProvisioningBuildTargetInAuthority else Ok ()
           | _ \<Rightarrow> if is_none_or t (\<lambda>m. m_role m = Primary)
                  then Err InvalidBootstrapBuildTarget else Ok ())
          (\<lambda>_. if ba_replication_boundary_lsn b < 0 then Err NegativeBuildBoundary else Ok ())))"

end
