(* ===== verification/Configuration_Quorums.thy ===== *)
theory Configuration_Quorums
  imports Validation
begin

text \<open>
  What the policy and configuration checks establish: the arithmetic of the fixed quorum
  policy, a declarative well-formedness predicate that \<open>validate_configuration\<close> decides,
  and the intersection of the quorums of an accepted configuration.
\<close>

section \<open>The fixed policy\<close>

lemma unat_half_succ: "n \<noteq> 0 \<Longrightarrow> unat ((n :: u32) div 2 + 1) = unat n div 2 + 1"
proof -
  assume "n \<noteq> 0"
  have "unat (n div 2) = unat n div 2" by (simp add: unat_div)
  moreover have "unat n div 2 + 1 < 2 ^ 32" using unat_u32_bound [of n] by simp
  ultimately show ?thesis by (simp add: unat_word_ariths)
qed

lemma fixed_policy_nat:
  assumes "fixed_policy n d = Some p"
  shows "replica_set_size p = n" "unat (p_write_quorum p) = unat n div 2 + 1"
    "unat (read_quorum p) = unat n - unat n div 2" "0 < unat n"
proof -
  have n: "n \<noteq> 0" and p: "p = \<lparr>replica_set_size = n, p_write_quorum = n div 2 + 1,
      read_quorum = n - (n div 2 + 1) + 1, failover_delay_seconds = d\<rparr>"
    using assms by (auto simp: fixed_policy_def Let_def split: if_splits)
  show pos: "0 < unat n" using n by (simp add: unat_gt_0)
  show "replica_set_size p = n" by (simp add: p)
  show "unat (p_write_quorum p) = unat n div 2 + 1" using n by (simp add: p unat_half_succ)
  have "n - (n div 2 + 1) + 1 = n - n div 2" by simp
  moreover have "unat (n - n div 2) = unat n - unat n div 2"
    by (simp add: unat_sub word_le_nat_alt unat_div)
  ultimately show "unat (read_quorum p) = unat n - unat n div 2" by (simp add: p)
qed

lemma validate_policy_iff:
  "validate_policy p = Ok () \<longleftrightarrow> fixed_policy (replica_set_size p) (failover_delay_seconds p) = Some p"
proof
  assume "validate_policy p = Ok ()"
  then obtain e where e: "fixed_policy (replica_set_size p) (failover_delay_seconds p) = Some e"
    and q: "p_write_quorum p = p_write_quorum e" "read_quorum p = read_quorum e"
    by (auto simp: validate_policy_def)
  have "replica_set_size e = replica_set_size p" "failover_delay_seconds e = failover_delay_seconds p"
    using e by (auto simp: fixed_policy_def Let_def split: if_splits)
  with q have "e = p" by simp
  with e show "fixed_policy (replica_set_size p) (failover_delay_seconds p) = Some p" by simp
qed (simp add: validate_policy_def)

section \<open>Well-formed configurations\<close>

abbreviation incarnation :: "ConfigurationMember \<Rightarrow> string \<times> string" where
  "incarnation m \<equiv> (instance_id (m_identity m), agent_generation (m_identity m))"

definition well_formed_configuration :: "(bytes \<Rightarrow> bytes) \<Rightarrow> ConfigurationDescriptor \<Rightarrow> bool" where
  "well_formed_configuration H c \<longleftrightarrow>
     0 \<le> data_loss_number (c_epoch c) \<and> 0 \<le> configuration_number (c_epoch c)
     \<and> members c \<noteq> [] \<and> configuration_id c = expected_id H c
     \<and> distinct (map m_replica_id (members c))
     \<and> (\<forall>m \<in> set (members c). 0 < m_replica_id m)
     \<and> distinct (map incarnation (members c))
     \<and> (\<exists>p \<in> set (members c). m_replica_id p = primary_id c
          \<and> (\<forall>m \<in> set (members c). m_role m = Primary \<longleftrightarrow> m = p))"

lemma duplicate_fold_empty_iff:
  "snd (fold (\<lambda>m (seen, dups).
           if m_replica_id m \<in> seen then (seen, insert (m_replica_id m) dups)
           else (insert (m_replica_id m) seen, dups)) ms (S, D)) = {}
   \<longleftrightarrow> D = {} \<and> distinct (map m_replica_id ms) \<and> S \<inter> set (map m_replica_id ms) = {}"
  by (induction ms arbitrary: S D) auto

lemma duplicate_replica_ids_empty_iff [simp]:
  "duplicate_replica_ids ms = {} \<longleftrightarrow> distinct (map m_replica_id ms)"
  by (simp add: duplicate_replica_ids_def duplicate_fold_empty_iff)

lemma unique_incarnations_Ok_iff [simp]:
  "unique_incarnations S ms = Ok () \<longleftrightarrow>
     distinct (map incarnation ms) \<and> S \<inter> set (map incarnation ms) = {}"
  by (induction ms arbitrary: S) (auto simp: Let_def)

lemma unique_incarnations_not_Panic [simp]: "unique_incarnations S ms \<noteq> Panic"
  by (induction ms arbitrary: S) (auto simp: Let_def)

lemma single_filter_iff:
  assumes "distinct xs"
  shows "length (filter P xs) = 1 \<and> Q (filter P xs ! 0)
     \<longleftrightarrow> (\<exists>p \<in> set xs. Q p \<and> (\<forall>x \<in> set xs. P x \<longleftrightarrow> x = p))"
proof
  assume l: "length (filter P xs) = 1 \<and> Q (filter P xs ! 0)"
  then obtain p where p: "filter P xs = [p]" by (auto simp: length_Suc_conv)
  then have "\<forall>x. x \<in> set xs \<and> P x \<longleftrightarrow> x = p"
    using set_filter [of P xs] by auto
  with l p show "\<exists>p \<in> set xs. Q p \<and> (\<forall>x \<in> set xs. P x \<longleftrightarrow> x = p)" by auto
next
  assume "\<exists>p \<in> set xs. Q p \<and> (\<forall>x \<in> set xs. P x \<longleftrightarrow> x = p)"
  then obtain p where p: "p \<in> set xs" "Q p" "\<forall>x \<in> set xs. P x \<longleftrightarrow> x = p" by blast
  then have "filter P xs = filter (\<lambda>x. x = p) xs" by (auto intro: filter_cong)
  also have "\<dots> = [p]" using assms p(1) by (induction xs) (auto simp: filter_empty_conv)
  finally show "length (filter P xs) = 1 \<and> Q (filter P xs ! 0)" using p(2) by simp
qed

lemma validate_configuration_Ok_iff:
  "validate_configuration H c policy = Ok () \<longleftrightarrow>
     well_formed_configuration H c
     \<and> (\<exists>e. or_else policy (fixed_policy (word_of_nat (length (members c))) 0) = Some e
          \<and> word_of_nat (length (members c)) = replica_set_size e
          \<and> write_quorum c = p_write_quorum e)"
proof -
  have primaries: "distinct (map m_replica_id (members c)) \<Longrightarrow>
      length (filter (\<lambda>m. m_role m = Primary) (members c)) = 1
        \<and> m_replica_id (filter (\<lambda>m. m_role m = Primary) (members c) ! 0) = primary_id c
      \<longleftrightarrow> (\<exists>p \<in> set (members c). m_replica_id p = primary_id c
          \<and> (\<forall>m \<in> set (members c). m_role m = Primary \<longleftrightarrow> m = p))"
    using single_filter_iff [of "members c" "\<lambda>m. m_role m = Primary" "\<lambda>m. m_replica_id m = primary_id c"]
    by (auto simp: distinct_map)
  have ids: "find (\<lambda>r. r \<le> 0) (map m_replica_id (members c)) = None
      \<longleftrightarrow> (\<forall>m \<in> set (members c). 0 < m_replica_id m)"
    by (auto simp: find_None_iff not_le)
  show ?thesis
    unfolding validate_configuration_def well_formed_configuration_def Let_def
      if_Err_Ok_iff case_option_Err_Ok_iff and_then_Ok_iff ids duplicate_replica_ids_empty_iff
    using primaries by (simp add: not_less) blast
qed

lemma well_formed_primary:
  assumes "well_formed_configuration H c"
  shows "\<exists>p \<in> set (members c). m_replica_id p = primary_id c \<and> m_role p = Primary"
  using assms by (auto simp: well_formed_configuration_def)

lemma validated_primary_found:
  assumes "validate_configuration H c policy = Ok ()"
  obtains p where "find (\<lambda>m. m_replica_id m = primary_id c \<and> m_role m = Primary) (members c) = Some p"
    "p \<in> set (members c)" "m_replica_id p = primary_id c" "m_role p = Primary"
    "\<forall>m \<in> set (members c). m_role m = Primary \<longleftrightarrow> m = p"
proof -
  from assms obtain p where p: "p \<in> set (members c)" "m_replica_id p = primary_id c"
    "\<forall>m \<in> set (members c). m_role m = Primary \<longleftrightarrow> m = p"
    by (auto simp: validate_configuration_Ok_iff well_formed_configuration_def)
  then obtain q where q: "find (\<lambda>m. m_replica_id m = primary_id c \<and> m_role m = Primary) (members c) = Some q"
    using find_ex_Some [of p "members c" "\<lambda>m. m_replica_id m = primary_id c \<and> m_role m = Primary"]
    by blast
  then have "q = p" using find_Some_D [OF q] p(3) by blast
  with q p show thesis by (intro that [of p]) auto
qed

lemma fixed_policy_small:
  assumes "0 < n" "n < 4294967296"
  shows "\<exists>p. fixed_policy (word_of_nat n) d = Some p"
proof -
  have "(word_of_nat n :: u32) \<noteq> 0" using assms unat_word_of_nat_u32 [of n] by auto
  then show ?thesis by (simp add: fixed_policy_def Let_def)
qed

lemma validate_configuration_Panic_D:
  "validate_configuration H c policy = Panic \<Longrightarrow>
     members c \<noteq> [] \<and> or_else policy (fixed_policy (word_of_nat (length (members c))) 0) = None"
  by (auto simp: validate_configuration_def Let_def and_then_Panic_iff
      split: option.splits if_splits)

lemma validate_configuration_total:
  assumes "policy = None \<Longrightarrow> length (members c) < 4294967296"
  shows "validate_configuration H c policy \<noteq> Panic"
proof
  assume "validate_configuration H c policy = Panic"
  note D = validate_configuration_Panic_D [OF this]
  then have "policy = None" by (cases policy) auto
  with D assms fixed_policy_small [of "length (members c)" 0] show False by auto
qed

section \<open>Quorum intersection\<close>

text \<open>
  The contract of a quorum system. A client that knows only these laws gets that two write
  quorums share a voter, that a read quorum sees every write quorum, and that the whole
  configuration is a write quorum.
\<close>

locale majority_quorums =
  fixes valid :: "'c \<Rightarrow> bool"
    and voters :: "'c \<Rightarrow> 'a set"
    and wq :: "'c \<Rightarrow> nat"
    and rq :: "'c \<Rightarrow> nat"
  assumes voters_finite: "valid c \<Longrightarrow> finite (voters c)"
    and read_write: "valid c \<Longrightarrow> card (voters c) < wq c + rq c"
    and write_write: "valid c \<Longrightarrow> card (voters c) < 2 * wq c"
    and attainable: "valid c \<Longrightarrow> wq c \<le> card (voters c)"
begin

lemma write_quorums_meet:
  assumes "valid c" "A \<subseteq> voters c" "B \<subseteq> voters c" "wq c \<le> card A" "wq c \<le> card B"
  shows "A \<inter> B \<noteq> {}"
  using assms write_write [of c] by (intro overlap_by_counting [OF voters_finite [of c]]) auto

lemma read_meets_write:
  assumes "valid c" "A \<subseteq> voters c" "B \<subseteq> voters c" "wq c \<le> card A" "rq c \<le> card B"
  shows "A \<inter> B \<noteq> {}"
  using assms read_write [of c] by (intro overlap_by_counting [OF voters_finite [of c]]) auto

lemma write_quorum_survives:
  assumes "valid c" "D \<subseteq> voters c" "card D + wq c \<le> card (voters c)"
  shows "wq c \<le> card (voters c - D)"
  using assms voters_finite [of c] by (simp add: card_Diff_subset finite_subset)

end

definition member_ids :: "ConfigurationDescriptor \<Rightarrow> ReplicaId set" where
  "member_ids c = set (map m_replica_id (members c))"

text \<open>A configuration accepted under a policy; the member count of a real one fits \<open>u32\<close>.\<close>

definition accepted_under :: "(bytes \<Rightarrow> bytes) \<Rightarrow> ConfigurationDescriptor \<times> EffectivePolicy \<Rightarrow> bool" where
  "accepted_under H cp \<longleftrightarrow>
     validate_policy (snd cp) = Ok () \<and> validate_configuration H (fst cp) (Some (snd cp)) = Ok ()
     \<and> length (members (fst cp)) < 4294967296"

lemma accepted_under_counts:
  assumes "accepted_under H (c, p)"
  shows "card (member_ids c) = length (members c)" "unat (replica_set_size p) = length (members c)"
    "unat (write_quorum c) = length (members c) div 2 + 1"
    "unat (read_quorum p) = length (members c) - length (members c) div 2"
    "0 < length (members c)"
proof -
  from assms have wf: "well_formed_configuration H c"
    and n: "replica_set_size p = word_of_nat (length (members c))"
    and w: "write_quorum c = p_write_quorum p" and small: "length (members c) < 4294967296"
    and fixed: "fixed_policy (replica_set_size p) (failover_delay_seconds p) = Some p"
    by (auto simp: accepted_under_def validate_configuration_Ok_iff validate_policy_iff)
  show "card (member_ids c) = length (members c)"
    using wf distinct_card by (fastforce simp: well_formed_configuration_def member_ids_def)
  show size: "unat (replica_set_size p) = length (members c)"
    using small by (simp add: n unat_word_of_nat_u32)
  show "unat (write_quorum c) = length (members c) div 2 + 1"
    "unat (read_quorum p) = length (members c) - length (members c) div 2"
    "0 < length (members c)"
    using fixed_policy_nat [OF fixed] size w by auto
qed

interpretation cq: majority_quorums "accepted_under H" "\<lambda>cp. member_ids (fst cp)"
    "\<lambda>cp. unat (write_quorum (fst cp))" "\<lambda>cp. unat (read_quorum (snd cp))" for H
proof
  fix cp :: "ConfigurationDescriptor \<times> EffectivePolicy"
  assume "accepted_under H cp"
  then have "accepted_under H (fst cp, snd cp)" by simp
  note counts = accepted_under_counts [OF this]
  show "finite (member_ids (fst cp))" by (simp add: member_ids_def)
  show "card (member_ids (fst cp)) < unat (write_quorum (fst cp)) + unat (read_quorum (snd cp))"
    "card (member_ids (fst cp)) < 2 * unat (write_quorum (fst cp))"
    "unat (write_quorum (fst cp)) \<le> card (member_ids (fst cp))"
    unfolding counts(1,3,4) using counts(5) by presburger+
qed

section \<open>Sample configurations\<close>

definition sample_member :: "ReplicaId \<Rightarrow> string \<Rightarrow> ReplicaRole \<Rightarrow> ConfigurationMember" where
  "sample_member r i role =
     \<lparr>m_identity = \<lparr>replica_id = r, instance_id = i, agent_generation = ''g''\<rparr>, m_role = role\<rparr>"

definition sample_configuration :: "(bytes \<Rightarrow> bytes) \<Rightarrow> i64 \<Rightarrow> ConfigurationDescriptor" where
  "sample_configuration H n = configuration_new H (epoch_new 0 n) 1
     [sample_member 1 ''a'' Primary, sample_member 2 ''b'' ActiveSecondary,
      sample_member 3 ''c'' ActiveSecondary] 2"

definition sample_policy :: EffectivePolicy where
  "sample_policy = \<lparr>replica_set_size = 3, p_write_quorum = 2, read_quorum = 2, failover_delay_seconds = 5\<rparr>"

lemma configuration_new_fields [simp]:
  "configuration_id (configuration_new H e p ms q) = expected_id H (configuration_new H e p ms q)"
  "c_epoch (configuration_new H e p ms q) = e" "primary_id (configuration_new H e p ms q) = p"
  "members (configuration_new H e p ms q) = sort_key m_replica_id ms"
  "write_quorum (configuration_new H e p ms q) = q"
  by (simp_all add: configuration_new_def expected_id_def Let_def)

lemma sample_configuration_members:
  "members (sample_configuration H n) = [sample_member 1 ''a'' Primary,
     sample_member 2 ''b'' ActiveSecondary, sample_member 3 ''c'' ActiveSecondary]"
  by (simp add: sample_configuration_def sample_member_def)

lemma sample_configuration_valid:
  assumes "0 \<le> n"
  shows "validate_configuration H (sample_configuration H n) (Some sample_policy) = Ok ()"
proof -
  have "configuration_id (sample_configuration H n) = expected_id H (sample_configuration H n)"
    "c_epoch (sample_configuration H n) = epoch_new 0 n" "primary_id (sample_configuration H n) = 1"
    "write_quorum (sample_configuration H n) = 2"
    by (simp_all add: sample_configuration_def)
  with assms show ?thesis
    by (simp add: validate_configuration_Ok_iff well_formed_configuration_def epoch_new_def
        sample_configuration_members sample_policy_def)
      (simp add: sample_member_def)
qed

lemma sample_policy_valid: "validate_policy sample_policy = Ok ()"
  by (simp add: validate_policy_def sample_policy_def fixed_policy_def Let_def)

section \<open>Properties\<close>

text \<open>The fixed policy exists exactly for a non-zero size, and computed in \<open>u32\<close> without
  overflow its quorums are a strict majority for writes, overlap every write with every read,
  and are attainable.\<close>

theorem fixed_policy_majority:
  "(case fixed_policy n d of
      None \<Rightarrow> n = 0
    | Some p \<Rightarrow> n \<noteq> 0 \<and> replica_set_size p = n
        \<and> unat (p_write_quorum p) + unat (read_quorum p) = unat n + 1
        \<and> unat n < 2 * unat (p_write_quorum p) \<and> unat (p_write_quorum p) \<le> unat n
        \<and> 0 < unat (read_quorum p) \<and> unat (read_quorum p) \<le> unat (p_write_quorum p))"
proof (cases "fixed_policy n d")
  case None
  then show ?thesis by (simp add: fixed_policy_def Let_def split: if_splits)
next
  case (Some p)
  note q = fixed_policy_nat [OF Some]
  have "n \<noteq> 0" using q(4) by auto
  moreover have "unat n div 2 + 1 + (unat n - unat n div 2) = unat n + 1"
    "unat n < 2 * (unat n div 2 + 1)" "unat n div 2 + 1 \<le> unat n"
    "0 < unat n - unat n div 2" "unat n - unat n div 2 \<le> unat n div 2 + 1"
    using q(4) by presburger+
  ultimately show ?thesis unfolding Some option.case q(1,2,3) by blast
qed

text \<open>C20: a configuration of fewer than \<open>2\<^sup>3\<^sup>2\<close> members passes \<open>validate_configuration\<close> without
  a policy exactly when it is well formed (non-negative epoch, content-derived identifier,
  distinct positive replica identifiers, distinct incarnations, exactly one Primary, the named
  one) and its write quorum is the majority; and the check never panics.\<close>

theorem validate_configuration_correct:
  assumes "length (members c) < 4294967296"
  shows "validate_configuration H c None \<noteq> Panic \<and>
    (validate_configuration H c None = Ok () \<longleftrightarrow>
       well_formed_configuration H c \<and> unat (write_quorum c) = length (members c) div 2 + 1)"
proof
  show "validate_configuration H c None \<noteq> Panic"
    using assms by (intro validate_configuration_total) auto
  show "validate_configuration H c None = Ok () \<longleftrightarrow>
       well_formed_configuration H c \<and> unat (write_quorum c) = length (members c) div 2 + 1"
  proof (cases "members c = []")
    case True
    then show ?thesis by (simp add: validate_configuration_Ok_iff well_formed_configuration_def)
  next
    case False
    then obtain e where e: "fixed_policy (word_of_nat (length (members c))) 0 = Some e"
      using assms fixed_policy_small by blast
    have "unat (p_write_quorum e) = length (members c) div 2 + 1"
      "replica_set_size e = word_of_nat (length (members c))"
      using fixed_policy_nat [OF e] unat_word_of_nat_u32 [OF assms] by simp_all
    then show ?thesis
      using e by (auto simp: validate_configuration_Ok_iff word_unat_eq_iff)
  qed
qed

theorem validate_configuration_correct_witness:
  "validate_configuration (\<lambda>_. []) (sample_configuration (\<lambda>_. []) 7) None = Ok ()"
  using validate_configuration_correct [of "sample_configuration (\<lambda>_. []) 7" "\<lambda>_. []"]
    sample_configuration_valid [of 7 "\<lambda>_. []"]
  by (simp add: sample_configuration_members validate_configuration_Ok_iff sample_policy_def)

text \<open>C4: in a configuration accepted under a valid policy any two write quorums share a
  replica, and so do any write quorum and any read quorum.\<close>

theorem accepted_quorums_intersect:
  assumes "validate_policy p = Ok ()" "validate_configuration H c (Some p) = Ok ()"
    and "length (members c) < 4294967296"
    and "A \<subseteq> member_ids c" "B \<subseteq> member_ids c" "unat (write_quorum c) \<le> card A"
    and "unat (write_quorum c) \<le> card B \<or> unat (read_quorum p) \<le> card B"
  shows "A \<inter> B \<noteq> {}"
proof -
  have "accepted_under H (c, p)" using assms(1-3) by (simp add: accepted_under_def)
  with assms cq.write_quorums_meet [of H "(c, p)" A B] cq.read_meets_write [of H "(c, p)" A B]
  show ?thesis by auto
qed

theorem accepted_quorums_intersect_witness:
  "{1, 2} \<inter> {2, 3 :: ReplicaId} \<noteq> {} \<and>
   validate_configuration (\<lambda>_. []) (sample_configuration (\<lambda>_. []) 7) (Some sample_policy) = Ok ()"
  using accepted_quorums_intersect [of sample_policy "\<lambda>_. []" "sample_configuration (\<lambda>_. []) 7" "{1, 2}" "{2, 3}"]
    sample_configuration_valid [of 7 "\<lambda>_. []"] sample_policy_valid
  by (simp add: sample_configuration_members member_ids_def sample_member_def sample_policy_def)

end
