(* ===== verification/Transition_Checks.thy ===== *)
theory Transition_Checks
  imports Configuration_Quorums
begin

text \<open>
  Consequences of the relationship checks between two configurations, of the build-authority
  check, and of the wire format and the content-derived identifier of a configuration.
\<close>

section \<open>Previous and Current Configuration\<close>

lemma transition_Ok_D:
  assumes "validate_transition_relationship H k prev cur p = Ok ()" "k \<noteq> Bootstrap"
  obtains previous where "prev = Some previous" "validate_policy p = Ok ()"
    "validate_configuration H cur (Some p) = Ok ()" "validate_configuration H previous (Some p) = Ok ()"
    "c_epoch previous < c_epoch cur" "data_loss_number (c_epoch cur) = data_loss_number (c_epoch previous)"
    "member_ids previous = member_ids cur" "k \<in> {Failover, Replacement, PlannedSwitchover}"
  using assms
  by (cases k) (auto simp: validate_transition_relationship_def epoch_less_iff member_ids_def not_le)

lemma exact_identities_member: "m \<in> set (members c) \<Longrightarrow> m_identity m \<in> exact_identities c"
  by (simp add: exact_identities_def)

lemma exact_identities_iff: "x \<in> exact_identities c \<longleftrightarrow> (\<exists>m \<in> set (members c). m_identity m = x)"
  by (auto simp: exact_identities_def)

lemma find_same_id:
  assumes "distinct (map m_replica_id ms)" "m \<in> set ms" "m_replica_id m = r"
  shows "find (\<lambda>c. m_replica_id c = r) ms = Some m"
proof -
  obtain y where y: "find (\<lambda>c. m_replica_id c = r) ms = Some y"
    using find_ex_Some [of m ms "\<lambda>c. m_replica_id c = r"] assms by auto
  then have "y \<in> set ms" "m_replica_id y = r" using find_Some_D by fastforce+
  then have "y = m" using assms by (auto simp: distinct_map dest: inj_onD)
  with y show ?thesis by simp
qed

text \<open>The membership of two configurations that differ in one incarnation.\<close>

lemma single_change_identities:
  assumes "distinct (map m_replica_id (members prev))" "distinct (map m_replica_id (members cur))"
    and ids: "member_ids prev = member_ids cur"
    and changed: "changed_members prev cur = [old]"
  obtains fresh where "old \<in> set (members prev)" "fresh \<in> set (members cur)"
    "m_replica_id fresh = m_replica_id old" "m_identity fresh \<noteq> m_identity old"
    "exact_identities cur = insert (m_identity fresh) (exact_identities prev - {m_identity old})"
proof -
  have find_cur: "find (\<lambda>c. m_replica_id c = m_replica_id m) (members cur) = Some m'"
    if "m' \<in> set (members cur)" "m_replica_id m' = m_replica_id m" for m m'
    using find_same_id [OF assms(2) that] .
  have inj_prev: "inj_on m_replica_id (set (members prev))" using assms(1) by (simp add: distinct_map)
  have ch: "m \<in> set (members prev) \<and> is_none_or (find (\<lambda>c. m_replica_id c = m_replica_id m) (members cur))
      (\<lambda>c. m_identity c \<noteq> m_identity m) \<longleftrightarrow> m = old" for m
    using arg_cong [OF changed, of set] by (auto simp: changed_members_def)
  have old: "old \<in> set (members prev)" using ch [of old] by simp
  then have "m_replica_id old \<in> member_ids cur" unfolding ids [symmetric] by (simp add: member_ids_def)
  then obtain fresh where fresh: "fresh \<in> set (members cur)" "m_replica_id fresh = m_replica_id old"
    by (auto simp: member_ids_def)
  have differs: "m_identity fresh \<noteq> m_identity old" using ch [of old] find_cur [OF fresh] by simp
  have kept: "m_identity m \<in> exact_identities cur" if "m \<in> set (members prev)" "m \<noteq> old" for m
  proof -
    note m = that
    obtain c where c: "find (\<lambda>c. m_replica_id c = m_replica_id m) (members cur) = Some c"
      "m_identity c = m_identity m"
      using ch [of m] m unfolding is_none_or_iff by blast
    have "c \<in> set (members cur)" using find_Some_D [OF c(1)] by simp
    from exact_identities_member [OF this] c(2) show ?thesis by simp
  qed
  have onto: "m_identity c \<in> insert (m_identity fresh) (exact_identities prev - {m_identity old})"
    if c: "c \<in> set (members cur)" for c
  proof -
    from c have "m_replica_id c \<in> member_ids prev" unfolding ids by (simp add: member_ids_def)
    then obtain m where m: "m \<in> set (members prev)" "m_replica_id m = m_replica_id c"
      by (auto simp: member_ids_def)
    have c_found: "find (\<lambda>x. m_replica_id x = m_replica_id m) (members cur) = Some c"
      using find_cur [OF c m(2) [symmetric]] .
    show ?thesis
    proof (cases "m = old")
      case True
      then have "c = fresh" using c_found find_cur [OF fresh] by simp
      then show ?thesis by simp
    next
      case False
      then have "\<not> is_none_or (Some c) (\<lambda>x. m_identity x \<noteq> m_identity m)"
        using ch [of m] m(1) unfolding c_found by blast
      then have same: "m_identity c = m_identity m" by simp
      have "m_identity m \<noteq> m_identity old"
        using inj_onD [OF inj_prev _ m(1) old] False by auto
      with exact_identities_member [OF m(1)] same show ?thesis by simp
    qed
  qed
  have "exact_identities prev - {m_identity old} \<subseteq> exact_identities cur"
    using kept by (auto simp: exact_identities_def)
  moreover have "m_identity fresh \<in> exact_identities cur"
    using fresh(1) by (auto simp: exact_identities_def)
  ultimately have "exact_identities cur = insert (m_identity fresh) (exact_identities prev - {m_identity old})"
    using onto by (auto simp: exact_identities_def)
  with old fresh differs show thesis by (intro that)
qed

lemma validated_distinct:
  "validate_configuration H c p = Ok () \<Longrightarrow> distinct (map m_replica_id (members c))"
  by (simp add: validate_configuration_Ok_iff well_formed_configuration_def)

lemma validated_same_length:
  assumes "validate_configuration H c p = Ok ()" "validate_configuration H d q = Ok ()"
    and "member_ids c = member_ids d"
  shows "length (members c) = length (members d)"
proof -
  have "card (member_ids x) = length (members x)"
    if "distinct (map m_replica_id (members x))" for x
    using distinct_card [OF that] by (simp add: member_ids_def)
  then show ?thesis using assms validated_distinct by metis
qed

lemma card_exact_identities:
  assumes "validate_configuration H c p = Ok ()"
  shows "card (exact_identities c) = length (members c)"
proof -
  have "distinct (map m_identity (members c))"
    using validated_distinct [OF assms] by (simp add: distinct_map inj_on_def)
  from distinct_card [OF this] show ?thesis by (simp add: exact_identities_def)
qed

definition sample_replacement :: ConfigurationDescriptor where
  "sample_replacement = configuration_new (\<lambda>_. []) (epoch_new 0 2) 1
     [sample_member 1 ''a'' Primary, sample_member 2 ''d'' ActiveSecondary,
      sample_member 3 ''c'' ActiveSecondary] 2"

lemma sample_replacement_fields:
  "members sample_replacement = [sample_member 1 ''a'' Primary,
     sample_member 2 ''d'' ActiveSecondary, sample_member 3 ''c'' ActiveSecondary]"
  "configuration_id sample_replacement = expected_id (\<lambda>_. []) sample_replacement"
  "c_epoch sample_replacement = epoch_new 0 2" "primary_id sample_replacement = 1"
  "write_quorum sample_replacement = 2"
  by (simp_all add: sample_replacement_def) (simp add: sample_member_def)

section \<open>Properties\<close>



text \<open>C21: an admitted replacement keeps the primary's exact incarnation and swaps exactly one
  other incarnation: the exact identities of the Current Configuration are those of the Previous
  one with one non-primary identity exchanged for a different incarnation of the same replica.\<close>

theorem replacement_changes_one_secondary:
  assumes "validate_transition_relationship H Replacement (Some prev) cur p = Ok ()"
  shows "primary_id cur = primary_id prev \<and>
    (\<exists>old fresh. old \<in> exact_identities prev \<and> fresh \<in> exact_identities cur
       \<and> replica_id old = replica_id fresh \<and> old \<noteq> fresh \<and> replica_id old \<noteq> primary_id prev
       \<and> exact_identities cur = insert fresh (exact_identities prev - {old}))"
proof -
  have P: "validate_configuration H cur (Some p) = Ok ()" "validate_configuration H prev (Some p) = Ok ()"
    "member_ids prev = member_ids cur"
    using transition_Ok_D [OF assms] by auto
  have prim: "primary_id cur = primary_id prev"
    and len: "length (changed_members prev cur) = 1"
    and other: "m_replica_id (changed_members prev cur ! 0) \<noteq> primary_id prev"
    using assms by (auto simp: validate_transition_relationship_def)
  obtain old where old: "changed_members prev cur = [old]" using len by (auto simp: length_Suc_conv)
  obtain fresh where "old \<in> set (members prev)" "fresh \<in> set (members cur)"
    "m_replica_id fresh = m_replica_id old" "m_identity fresh \<noteq> m_identity old"
    "exact_identities cur = insert (m_identity fresh) (exact_identities prev - {m_identity old})"
    using single_change_identities [OF validated_distinct [OF P(2)] validated_distinct [OF P(1)] P(3) old] .
  with prim other old show ?thesis
    by (intro conjI exI [of _ "m_identity old"] exI [of _ "m_identity fresh"])
      (auto simp: exact_identities_def)
qed

theorem replacement_changes_one_secondary_witness:
  "\<exists>old fresh. old \<noteq> fresh \<and> exact_identities sample_replacement
     = insert fresh (exact_identities (sample_configuration (\<lambda>_. []) 1) - {old})"
proof -
  let ?prev = "sample_configuration (\<lambda>_. []) 1"
  have valid: "validate_configuration (\<lambda>_. []) sample_replacement (Some sample_policy) = Ok ()"
    by (simp add: validate_configuration_Ok_iff well_formed_configuration_def epoch_new_def
        sample_replacement_fields sample_policy_def) (simp add: sample_member_def)
  have changed: "changed_members ?prev sample_replacement = [sample_member 2 ''b'' ActiveSecondary]"
    by (simp add: changed_members_def sample_configuration_members sample_replacement_fields)
      (simp add: sample_member_def)
  have prev: "c_epoch ?prev = epoch_new 0 1" "primary_id ?prev = 1" by (simp_all add: sample_configuration_def)
  have ids: "m_replica_id ` set (members ?prev) = m_replica_id ` set (members sample_replacement)"
    by (simp add: sample_configuration_members sample_replacement_fields sample_member_def)
  have "validate_transition_relationship (\<lambda>_. []) Replacement (Some ?prev) sample_replacement sample_policy = Ok ()"
    unfolding validate_transition_relationship_def
    using sample_configuration_valid [of 1 "\<lambda>_. []"] valid sample_policy_valid ids
    by (simp add: prev changed sample_replacement_fields(3,4) epoch_new_def) (simp add: sample_member_def)
  from replacement_changes_one_secondary [OF this] obtain old fresh where "old \<noteq> fresh"
    "exact_identities sample_replacement = insert fresh (exact_identities ?prev - {old})"
    by (elim conjE exE)
  then show ?thesis by (intro exI conjI)
qed

text \<open>A build authority over a configuration of fewer than \<open>2\<^sup>3\<^sup>2\<close> members is validated
  without panicking, and it is accepted exactly when the configuration is valid, the source is
  its primary member, the boundary is not negative, and the target is outside the
  configuration for a provisioning build and a non-primary member of it otherwise.\<close>

theorem build_authority_correct:
  assumes "length (members (ba_current_configuration b)) < 4294967296"
  shows "build_authority_validate H b \<noteq> Panic \<and>
    (build_authority_validate H b = Ok () \<longleftrightarrow>
       validate_configuration H (ba_current_configuration b) None = Ok ()
       \<and> (\<exists>m \<in> set (members (ba_current_configuration b)). m_identity m = ba_source b \<and> m_role m = Primary)
       \<and> 0 \<le> ba_replication_boundary_lsn b
       \<and> (if ba_kind b = BuildProvisioning
          then ba_target b \<notin> exact_identities (ba_current_configuration b)
          else \<exists>m \<in> set (members (ba_current_configuration b)). m_identity m = ba_target b \<and> m_role m \<noteq> Primary))"
proof (cases "validate_configuration H (ba_current_configuration b) None = Ok ()")
  case False
  with validate_configuration_total [of None "ba_current_configuration b" H] assms
  show ?thesis by (cases "validate_configuration H (ba_current_configuration b) None")
      (auto simp: build_authority_validate_def)
next
  case True
  let ?c = "ba_current_configuration b"
  obtain p where p: "find (\<lambda>m. m_replica_id m = primary_id ?c \<and> m_role m = Primary) (members ?c) = Some p"
    "p \<in> set (members ?c)" "\<forall>m \<in> set (members ?c). m_role m = Primary \<longleftrightarrow> m = p"
    using validated_primary_found [OF True] .
  have inj: "m = n" if "m \<in> set (members ?c)" "n \<in> set (members ?c)" "m_identity m = m_identity n" for m n
    using validated_distinct [OF True] that by (simp add: distinct_map inj_on_def)
  have src: "(\<exists>m \<in> set (members ?c). m_identity m = ba_source b \<and> m_role m = Primary)
      \<longleftrightarrow> m_identity p = ba_source b"
    using p(2,3) by auto
  have red: "build_authority_validate H b = (if m_identity p \<noteq> ba_source b then Err BuildSourceNotPrimary
      else let t = find (\<lambda>m. m_identity m = ba_target b) (members ?c)
        in and_then
          (case ba_kind b of
             BuildProvisioning \<Rightarrow> if t \<noteq> None then Err ProvisioningBuildTargetInAuthority else Ok ()
           | _ \<Rightarrow> if is_none_or t (\<lambda>m. m_role m = Primary)
                  then Err InvalidBootstrapBuildTarget else Ok ())
          (\<lambda>_. if ba_replication_boundary_lsn b < 0 then Err NegativeBuildBoundary else Ok ()))"
    by (simp add: build_authority_validate_def True p(1) expect_def)
  show ?thesis
  proof (cases "find (\<lambda>m. m_identity m = ba_target b) (members ?c)")
    case None
    then have out: "\<forall>m \<in> set (members ?c). m_identity m \<noteq> ba_target b" by (simp add: find_None_iff)
    then have "ba_target b \<notin> exact_identities ?c" by (auto simp: exact_identities_def)
    with None out show ?thesis unfolding src red by (cases "ba_kind b") (simp_all add: True not_less)
  next
    case (Some t)
    have t: "t \<in> set (members ?c)" "m_identity t = ba_target b" using find_Some_D [OF Some] by blast+
    have only: "m = t" if "m \<in> set (members ?c)" "m_identity m = ba_target b" for m
      by (rule inj) (simp_all only: that t)
    have role: "(\<exists>m \<in> set (members ?c). m_identity m = ba_target b \<and> m_role m \<noteq> Primary) \<longleftrightarrow> m_role t \<noteq> Primary"
      using only t by blast
    have "ba_target b \<in> exact_identities ?c" using exact_identities_member [OF t(1)] t(2) by simp
    with Some show ?thesis unfolding src red role
      by (cases "ba_kind b") (simp_all add: True not_less)
  qed
qed

theorem build_authority_correct_witness:
  "build_authority_validate (\<lambda>_. [])
     \<lparr>ba_build_id = ''b'', ba_kind = BuildBootstrap,
      ba_source = m_identity (sample_member 1 ''a'' Primary),
      ba_target = m_identity (sample_member 2 ''b'' ActiveSecondary),
      ba_current_configuration = sample_configuration (\<lambda>_. []) 1, ba_replication_boundary_lsn = 0\<rparr> = Ok ()"
  (is "build_authority_validate _ ?b = _")
proof -
  have "validate_configuration (\<lambda>_. []) (sample_configuration (\<lambda>_. []) 1) None = Ok ()"
    using sample_configuration_valid [of 1 "\<lambda>_. []"]
    by (simp add: validate_configuration_Ok_iff sample_configuration_members sample_policy_def
        fixed_policy_def Let_def)
  then show ?thesis
    using build_authority_correct [of ?b "\<lambda>_. []"]
    by (simp add: sample_configuration_members) (simp add: sample_member_def)
qed

end
