(* ===== verification/Scale_Down.thy ===== *)
theory Scale_Down
  imports Transition_Checks
begin

text \<open>
  \<open>kuberic-runtime/src/protocol/validation/scale_down.rs\<close>: the checks on a removal intent, its
  durable preparation, the quorum witnesses of each stage, the evidence, the retirement report
  and the cleanup obligation. The checks on commands and reports are in Report_Checks.
\<close>

section \<open>The removal intent\<close>

definition sd_invalid :: "string \<Rightarrow> ValidationError" where
  "sd_invalid reason = InvalidSecondaryScaleDown reason"

definition removal_membership_changed :: "SecondaryScaleDownIntent \<Rightarrow> ConfigurationMember \<Rightarrow> ConfigurationMember \<Rightarrow> bool" where
  "removal_membership_changed i primary target \<longleftrightarrow>
     sd_primary i \<noteq> m_identity primary \<or> sd_target i \<noteq> m_identity target
     \<or> primary_id (sd_previous_configuration i) \<noteq> primary_id (sd_current_configuration i)
     \<or> (\<exists>m \<in> set (members (sd_previous_configuration i)). m_role m \<notin> {Primary, ActiveSecondary})
     \<or> (\<exists>m \<in> set (filter (\<lambda>m. m_identity m \<noteq> sd_target i) (members (sd_previous_configuration i))).
          m \<notin> set (members (sd_current_configuration i)))
     \<or> (\<exists>m \<in> set (members (sd_current_configuration i)). m_identity m = sd_target i)"

definition validate_removal_cleanup :: "(bytes \<Rightarrow> bytes) \<Rightarrow> SecondaryScaleDownIntent \<Rightarrow> check" where
  "validate_removal_cleanup H i =
     and_then (for_each [ci_pod (sd_cleanup i), ci_pvc (sd_cleanup i), ci_endpoint (sd_cleanup i)]
       (\<lambda>r. if cleanup_name r = '''' \<or> present_uid r (\<lambda>u. u = '''')
            then Err (sd_invalid ''cleanup requires an exact name and UID or positive absence'')
            else Ok ()))
     (\<lambda>_. if present_uid (ci_pod (sd_cleanup i)) (\<lambda>u. u \<noteq> instance_id (sd_target i))
             \<or> cleanup_name (ci_endpoint (sd_cleanup i))
                 \<noteq> derive_replica_endpoint_name H (sd_resource_uid i) (sd_target i)
          then Err (sd_invalid ''cleanup identity differs from frozen target'') else Ok ())"

definition validate_secondary_scale_down :: "(bytes \<Rightarrow> bytes) \<Rightarrow> SecondaryScaleDownIntent \<Rightarrow> check" where
  "validate_secondary_scale_down H i =
     (let previous = sd_previous_configuration i; current = sd_current_configuration i
      in and_then (validate_policy (sd_previous_policy i)) (\<lambda>_.
         and_then (validate_policy (sd_current_policy i)) (\<lambda>_.
         and_then (validate_configuration H previous (Some (sd_previous_policy i))) (\<lambda>_.
         and_then (validate_configuration H current (Some (sd_current_policy i))) (\<lambda>_.
         if \<exists>m \<in> set (members previous).
              instance_id (m_identity m) = '''' \<or> agent_generation (m_identity m) = ''''
         then Err (sd_invalid ''membership requires exact nonempty incarnation and generation'')
         else if sd_resource_uid i = '''' \<or> sd_spec_generation i = 0 \<or> sd_desired_replicas i = 0
            \<or> sd_desired_replicas i > replica_set_size (sd_current_policy i)
            \<or> sd_operation_id i \<noteq> sd_expected_operation_id H i
         then Err (sd_invalid ''invalid frozen request or operation identity'')
         else if data_loss_number (c_epoch previous) < 0 \<or> configuration_number (c_epoch previous) < 0
            \<or> data_loss_number (c_epoch current) \<noteq> data_loss_number (c_epoch previous)
         then Err TransitionDataLossChanged
         else if configuration_number (c_epoch current) \<le> configuration_number (c_epoch previous)
         then Err TransitionEpochNotNewer
         else if failover_delay_seconds (sd_previous_policy i) \<noteq> failover_delay_seconds (sd_current_policy i)
            \<or> length (members previous) \<noteq> length (members current) + 1
         then Err (sd_invalid ''removal must preserve delay and reduce membership by exactly one'')
         else and_then (expect (find (\<lambda>m. m_role m = Primary) (members previous))) (\<lambda>primary.
           and_then (ok_or (max_by_key m_replica_id
                              (filter (\<lambda>m. m_role m = ActiveSecondary) (members previous)))
                       (sd_invalid ''no committed secondary'')) (\<lambda>target.
           if removal_membership_changed i primary target
           then Err (sd_invalid ''target must be the highest committed secondary; retained members cannot change'')
           else validate_removal_cleanup H i)))))))"

section \<open>Preparation, witnesses and evidence\<close>

definition validate_secondary_removal_preparation ::
    "(bytes \<Rightarrow> bytes) \<Rightarrow> SecondaryRemovalPreparation \<Rightarrow> check" where
  "validate_secondary_removal_preparation H p =
     and_then (validate_secondary_scale_down H (rp_intent p)) (\<lambda>_.
       if rp_operation_id p \<noteq> sd_command_operation_id H (rp_intent p) RemPrepare (sd_primary (rp_intent p))
          \<or> rp_process_session_id p = '''' \<or> rp_report_sequence p = 0 \<or> rp_boundary_lsn p < 0
       then Err (sd_invalid ''invalid durable primary preparation'') else Ok ())"

definition removal_witness_check ::
    "(bytes \<Rightarrow> bytes) \<Rightarrow> SecondaryRemovalPreparation \<Rightarrow> SecondaryRemovalStage \<Rightarrow> ReplicaIdentity set
      \<Rightarrow> SecondaryRemovalWitness \<Rightarrow> check" where
  "removal_witness_check H p stage seen w =
     (let i = rp_intent p; old = (stage = RemPrepare);
          c = (if old then sd_previous_configuration i else sd_current_configuration i);
          expected_previous = then_some (stage = RemPreviousCurrent)
                                (configuration_id (sd_previous_configuration i))
      in if rw_resource_uid w \<noteq> sd_resource_uid i \<or> rw_process_session_id w = '''' \<or> rw_report_sequence w = 0
            \<or> \<not> (\<exists>m \<in> set (members (sd_current_configuration i)).
                   m_identity m = rw_identity w \<and> m_role m = rw_role w)
            \<or> rw_identity w \<in> seen
            \<or> rw_epoch w \<noteq> c_epoch c \<or> rw_previous_configuration_id w \<noteq> expected_previous
            \<or> rw_current_configuration_id w \<noteq> configuration_id c
            \<or> rw_verified_replication_lsn w < 0
            \<or> (\<not> old \<and> rw_verified_replication_lsn w < rp_boundary_lsn p)
            \<or> rw_pending_operation_id w \<noteq> None \<or> rw_write_status w = Granted
            \<or> (\<not> old \<and> rw_retained_operation_id w \<noteq> Some (sd_command_operation_id H i stage (rw_identity w)))
         then Err (sd_invalid ''invalid exact quorum witness authority or verified progress'')
         else if old \<and> rw_identity w = sd_primary i
            \<and> ((rw_process_session_id w = rp_process_session_id p \<and> rw_report_sequence w < rp_report_sequence p)
               \<or> rw_verified_replication_lsn w < rp_boundary_lsn p
               \<or> rw_retained_operation_id w \<noteq> Some (rp_operation_id p))
         then Err (sd_invalid ''primary witness does not attest durable preparation'')
         else Ok ())"

definition validate_removal_witnesses ::
    "(bytes \<Rightarrow> bytes) \<Rightarrow> SecondaryRemovalPreparation \<Rightarrow> SecondaryRemovalWitness list \<Rightarrow> SecondaryRemovalStage
      \<Rightarrow> check" where
  "validate_removal_witnesses H p ws stage =
     (let i = rp_intent p; old = (stage = RemPrepare);
          quorum = (if old then read_quorum (sd_previous_policy i) else p_write_quorum (sd_current_policy i))
      in and_then (collect_checked (removal_witness_check H p stage) rw_identity {} ws) (\<lambda>identities.
           if card identities < unat quorum \<or> (\<not> old \<and> sd_primary i \<notin> identities)
           then Err (sd_invalid ''insufficient exact quorum or missing reduced primary'') else Ok ()))"

definition earlier_witness :: "SecondaryRemovalWitness list \<Rightarrow> SecondaryRemovalWitness \<Rightarrow> bool" where
  "earlier_witness ws w \<longleftrightarrow>
     (\<exists>e \<in> set ws. rw_identity e = rw_identity w \<and> rw_process_session_id e = rw_process_session_id w
        \<and> rw_report_sequence e \<ge> rw_report_sequence w)"

definition validate_secondary_removal_evidence ::
    "(bytes \<Rightarrow> bytes) \<Rightarrow> SecondaryRemovalEvidence \<Rightarrow> bool \<Rightarrow> check" where
  "validate_secondary_removal_evidence H e require_reduced =
     (let p = re_preparation e
      in and_then (validate_secondary_removal_preparation H p) (\<lambda>_.
         and_then (validate_removal_witnesses H p (re_previous_read_quorum e) RemPrepare) (\<lambda>_.
         if require_reduced \<or> re_reduced_write_quorum e \<noteq> []
         then and_then (validate_removal_witnesses H p (re_reduced_write_quorum e) RemPreviousCurrent) (\<lambda>_.
           for_each (re_reduced_write_quorum e) (\<lambda>w.
             if earlier_witness (re_previous_read_quorum e) w
                \<or> (rw_identity w = sd_primary (rp_intent p) \<and> rw_process_session_id w = rp_process_session_id p
                   \<and> rw_report_sequence w \<le> rp_report_sequence p)
             then Err (sd_invalid ''reduced-authority evidence is not fresh'') else Ok ()))
         else Ok ())))"

definition validate_replica_retirement :: "(bytes \<Rightarrow> bytes) \<Rightarrow> ReplicaRetirementReport \<Rightarrow> check" where
  "validate_replica_retirement H r =
     and_then (validate_secondary_scale_down H (rr_intent r)) (\<lambda>_.
       if rr_operation_id r \<noteq> sd_command_operation_id H (rr_intent r) RemRetire (sd_target (rr_intent r))
          \<or> rr_process_session_id r = '''' \<or> rr_report_sequence r = 0
          \<or> rr_epoch r \<noteq> c_epoch (sd_current_configuration (rr_intent r))
          \<or> rr_role r \<noteq> RoleNone \<or> rr_read_status r = Granted \<or> rr_write_status r = Granted
          \<or> \<not> rr_application_closed r \<or> \<not> rr_peers_fenced r
       then Err (sd_invalid ''retirement must attest terminal exact local fencing'') else Ok ())"

definition validate_secondary_scale_down_cleanup ::
    "(bytes \<Rightarrow> bytes) \<Rightarrow> SecondaryScaleDownCleanup \<Rightarrow> check" where
  "validate_secondary_scale_down_cleanup H c =
     (let e = sdc_evidence c
      in and_then (validate_secondary_removal_evidence H e True) (\<lambda>_.
         and_then (validate_removal_witnesses H (re_preparation e) (sdc_current_only_write_quorum c)
                     RemCurrentOnly) (\<lambda>_.
         and_then (for_each (sdc_current_only_write_quorum c) (\<lambda>w.
             if earlier_witness (re_previous_read_quorum e @ re_reduced_write_quorum e) w
             then Err (sd_invalid ''current-only evidence is not fresh'') else Ok ())) (\<lambda>_.
         case sdc_retirement c of
           None \<Rightarrow> Ok ()
         | Some r \<Rightarrow>
             and_then (validate_replica_retirement H r) (\<lambda>_.
               if rr_intent r \<noteq> rp_intent (re_preparation e)
               then Err (sd_invalid ''retirement does not bind the committed cleanup obligation'')
               else Ok ())))))"

section \<open>What an accepted removal establishes\<close>

lemma scale_down_Ok_D:
  assumes "validate_secondary_scale_down H i = Ok ()"
  shows "validate_policy (sd_previous_policy i) = Ok ()" "validate_policy (sd_current_policy i) = Ok ()"
    "validate_configuration H (sd_previous_configuration i) (Some (sd_previous_policy i)) = Ok ()"
    "validate_configuration H (sd_current_configuration i) (Some (sd_current_policy i)) = Ok ()"
    "c_epoch (sd_previous_configuration i) < c_epoch (sd_current_configuration i)"
    "length (members (sd_previous_configuration i)) = length (members (sd_current_configuration i)) + 1"
    "sd_operation_id i = sd_expected_operation_id H i"
  using assms
  by (auto simp: validate_secondary_scale_down_def Let_def epoch_less_iff not_le not_less)

lemma scale_down_members_D:
  assumes "validate_secondary_scale_down H i = Ok ()"
  obtains primary target where
    "find (\<lambda>m. m_role m = Primary) (members (sd_previous_configuration i)) = Some primary"
    "max_by_key m_replica_id (filter (\<lambda>m. m_role m = ActiveSecondary) (members (sd_previous_configuration i)))
       = Some target"
    "\<not> removal_membership_changed i primary target"
  using assms by (auto simp: validate_secondary_scale_down_def Let_def)

lemma scale_down_membership:
  assumes ok: "validate_secondary_scale_down H i = Ok ()"
  obtains t where "t \<in> set (members (sd_previous_configuration i))" "m_identity t = sd_target i"
    "m_role t = ActiveSecondary"
    "\<forall>m \<in> set (members (sd_previous_configuration i)). m_role m = ActiveSecondary \<longrightarrow> m_replica_id m \<le> m_replica_id t"
    "set (members (sd_current_configuration i)) = set (members (sd_previous_configuration i)) - {t}"
proof -
  let ?prev = "members (sd_previous_configuration i)" and ?cur = "members (sd_current_configuration i)"
  obtain primary t where t: "max_by_key m_replica_id (filter (\<lambda>m. m_role m = ActiveSecondary) ?prev) = Some t"
    and ch: "\<not> removal_membership_changed i primary t"
    using scale_down_members_D [OF ok] by metis
  have tm: "t \<in> set ?prev" "m_role t = ActiveSecondary"
    "\<forall>m \<in> set ?prev. m_role m = ActiveSecondary \<longrightarrow> m_replica_id m \<le> m_replica_id t"
    using max_by_key_Some_D [OF t] by auto
  have id: "m_identity t = sd_target i"
    and kept: "\<forall>m \<in> set ?prev. m_identity m \<noteq> sd_target i \<longrightarrow> m \<in> set ?cur"
    and gone: "\<forall>m \<in> set ?cur. m_identity m \<noteq> sd_target i"
    using ch by (auto simp: removal_membership_changed_def)
  have dp: "distinct ?prev" "inj_on m_replica_id (set ?prev)" and dc: "distinct ?cur"
    using validated_distinct [OF scale_down_Ok_D(3) [OF ok]] validated_distinct [OF scale_down_Ok_D(4) [OF ok]]
    by (simp_all add: distinct_map)
  have other: "m_identity m \<noteq> sd_target i" if "m \<in> set ?prev" "m \<noteq> t" for m
    using inj_onD [OF dp(2) _ that(1) tm(1)] that(2) id by auto
  have sub: "set ?prev - {t} \<subseteq> set ?cur" using kept other by blast
  have "card (set ?prev - {t}) = card (set ?cur)"
    using tm(1) distinct_card [OF dp(1)] distinct_card [OF dc] scale_down_Ok_D(6) [OF ok] by simp
  then have "set ?cur = set ?prev - {t}"
    using card_subset_eq [OF _ sub] by simp
  with tm id show thesis by (intro that [of t]) auto
qed

text \<open>
  A change of membership in which every quorum of the larger configuration still meets every
  quorum of the smaller one; both directions of scaling provide it.
\<close>

locale membership_step =
  fixes valid :: "'i \<Rightarrow> bool"
    and larger :: "'i \<Rightarrow> 'a set"
    and smaller :: "'i \<Rightarrow> 'a set"
    and wl :: "'i \<Rightarrow> nat"
    and ws :: "'i \<Rightarrow> nat"
    and rl :: "'i \<Rightarrow> nat"
  assumes larger_finite: "valid i \<Longrightarrow> finite (larger i)"
    and smaller_within: "valid i \<Longrightarrow> smaller i \<subseteq> larger i"
    and step_count: "valid i \<Longrightarrow> card (larger i) < wl i + ws i"
    and read_count: "valid i \<Longrightarrow> card (larger i) < wl i + rl i"
begin

lemma write_quorums_meet:
  assumes "valid i" "A \<subseteq> larger i" "B \<subseteq> smaller i" "wl i \<le> card A" "ws i \<le> card B"
  shows "A \<inter> B \<noteq> {}"
proof -
  have "B \<subseteq> larger i" using assms(1,3) smaller_within by blast
  with assms step_count [of i] show ?thesis
    by (intro overlap_by_counting [OF larger_finite [of i]]) auto
qed

lemma read_quorum_sees_writes:
  assumes "valid i" "A \<subseteq> larger i" "B \<subseteq> larger i" "wl i \<le> card A" "rl i \<le> card B"
  shows "A \<inter> B \<noteq> {}"
  using assms read_count [of i] by (intro overlap_by_counting [OF larger_finite [of i]]) auto

end

definition removal_accepted :: "(bytes \<Rightarrow> bytes) \<Rightarrow> SecondaryScaleDownIntent \<Rightarrow> bool" where
  "removal_accepted H i \<longleftrightarrow> validate_secondary_scale_down H i = Ok ()
     \<and> length (members (sd_previous_configuration i)) < 4294967296"

lemma removal_counts:
  assumes "removal_accepted H i"
  shows "accepted_under H (sd_previous_configuration i, sd_previous_policy i)"
    "accepted_under H (sd_current_configuration i, sd_current_policy i)"
    "exact_identities (sd_current_configuration i) \<subseteq> exact_identities (sd_previous_configuration i)"
    "card (exact_identities (sd_previous_configuration i)) = length (members (sd_previous_configuration i))"
proof -
  have ok: "validate_secondary_scale_down H i = Ok ()"
    and small: "length (members (sd_previous_configuration i)) < 4294967296"
    using assms by (auto simp: removal_accepted_def)
  show acc: "accepted_under H (sd_previous_configuration i, sd_previous_policy i)"
    "accepted_under H (sd_current_configuration i, sd_current_policy i)"
    using scale_down_Ok_D [OF ok] small by (auto simp: accepted_under_def)
  obtain t where "set (members (sd_current_configuration i)) = set (members (sd_previous_configuration i)) - {t}"
    using scale_down_membership [OF ok] by metis
  then show "exact_identities (sd_current_configuration i) \<subseteq> exact_identities (sd_previous_configuration i)"
    by (auto simp: exact_identities_def)
  show "card (exact_identities (sd_previous_configuration i)) = length (members (sd_previous_configuration i))"
    using card_exact_identities [OF scale_down_Ok_D(3) [OF ok]] .
qed

interpretation removal: membership_step "removal_accepted H"
    "\<lambda>i. exact_identities (sd_previous_configuration i)" "\<lambda>i. exact_identities (sd_current_configuration i)"
    "\<lambda>i. unat (write_quorum (sd_previous_configuration i))"
    "\<lambda>i. unat (write_quorum (sd_current_configuration i))"
    "\<lambda>i. unat (read_quorum (sd_previous_policy i))" for H
proof
  fix i assume acc: "removal_accepted H i"
  note c = removal_counts [OF acc]
  have len: "length (members (sd_previous_configuration i)) = length (members (sd_current_configuration i)) + 1"
    using acc scale_down_Ok_D(6) by (auto simp: removal_accepted_def)
  show "finite (exact_identities (sd_previous_configuration i))" by (simp add: exact_identities_def)
  show "exact_identities (sd_current_configuration i) \<subseteq> exact_identities (sd_previous_configuration i)"
    by (rule c(3))
  show "card (exact_identities (sd_previous_configuration i))
      < unat (write_quorum (sd_previous_configuration i)) + unat (write_quorum (sd_current_configuration i))"
    unfolding c(4) accepted_under_counts(3) [OF c(1)] accepted_under_counts(3) [OF c(2)] len by presburger
  show "card (exact_identities (sd_previous_configuration i))
      < unat (write_quorum (sd_previous_configuration i)) + unat (read_quorum (sd_previous_policy i))"
    unfolding c(4) accepted_under_counts(3,4) [OF c(1)] by presburger
qed

section \<open>Witness quorums\<close>

lemma removal_witnesses_Ok_D:
  assumes "validate_removal_witnesses H p ws stage = Ok ()"
  shows "distinct (map rw_identity ws)" "\<forall>w \<in> set ws. removal_witness_check H p stage {} w = Ok ()"
    "unat (if stage = RemPrepare then read_quorum (sd_previous_policy (rp_intent p))
           else p_write_quorum (sd_current_policy (rp_intent p))) \<le> card (rw_identity ` set ws)"
    "stage \<noteq> RemPrepare \<Longrightarrow> sd_primary (rp_intent p) \<in> rw_identity ` set ws"
proof -
  have chk: "removal_witness_check H p stage seen w = Ok () \<longleftrightarrow>
      rw_identity w \<notin> seen \<and> removal_witness_check H p stage {} w = Ok ()" for seen w
    by (auto simp: removal_witness_check_def Let_def)
  from assms obtain ids where ids: "collect_checked (removal_witness_check H p stage) rw_identity {} ws = Ok ids"
    and q: "\<not> card ids < unat (if stage = RemPrepare then read_quorum (sd_previous_policy (rp_intent p))
           else p_write_quorum (sd_current_policy (rp_intent p)))"
      "stage = RemPrepare \<or> sd_primary (rp_intent p) \<in> ids"
    by (auto simp: validate_removal_witnesses_def Let_def)
  note D = ids [unfolded collect_checked_Ok_iff [OF chk]]
  show "distinct (map rw_identity ws)" "\<forall>w \<in> set ws. removal_witness_check H p stage {} w = Ok ()"
    using D by auto
  show "unat (if stage = RemPrepare then read_quorum (sd_previous_policy (rp_intent p))
      else p_write_quorum (sd_current_policy (rp_intent p))) \<le> card (rw_identity ` set ws)"
    using D q(1) by auto
  show "stage \<noteq> RemPrepare \<Longrightarrow> sd_primary (rp_intent p) \<in> rw_identity ` set ws"
    using D q(2) by auto
qed

lemma removal_witness_member:
  "removal_witness_check H p stage seen w = Ok () \<Longrightarrow>
     rw_identity w \<in> exact_identities (sd_current_configuration (rp_intent p))"
  unfolding removal_witness_check_def Let_def if_Err_Ok_iff exact_identities_iff by blast

lemma removal_witness_verified:
  "removal_witness_check H p stage seen w = Ok () \<Longrightarrow> stage \<noteq> RemPrepare \<Longrightarrow>
     rp_boundary_lsn p \<le> rw_verified_replication_lsn w"
  by (auto simp: removal_witness_check_def Let_def not_less)

lemma removal_evidence_D:
  assumes "validate_secondary_removal_evidence H e r = Ok ()"
  shows "validate_secondary_scale_down H (rp_intent (re_preparation e)) = Ok ()"
    "validate_removal_witnesses H (re_preparation e) (re_previous_read_quorum e) RemPrepare = Ok ()"
    "r \<Longrightarrow> validate_removal_witnesses H (re_preparation e) (re_reduced_write_quorum e) RemPreviousCurrent = Ok ()"
    "r \<Longrightarrow> \<forall>w \<in> set (re_reduced_write_quorum e). \<not> earlier_witness (re_previous_read_quorum e) w"
  using assms
  by (auto simp: validate_secondary_removal_evidence_def validate_secondary_removal_preparation_def Let_def
      split: if_splits)

lemma removal_prepare_sees_writes:
  assumes ok: "validate_secondary_scale_down H (rp_intent p) = Ok ()"
    and small: "length (members (sd_previous_configuration (rp_intent p))) < 4294967296"
    and ws: "validate_removal_witnesses H p ws RemPrepare = Ok ()"
    and A: "A \<subseteq> exact_identities (sd_previous_configuration (rp_intent p))"
      "unat (write_quorum (sd_previous_configuration (rp_intent p))) \<le> card A"
  shows "\<exists>w \<in> set ws. rw_identity w \<in> A"
proof -
  let ?i = "rp_intent p"
  have acc: "removal_accepted H ?i" using ok small by (simp add: removal_accepted_def)
  have "rw_identity ` set ws \<subseteq> exact_identities (sd_previous_configuration ?i)"
    using removal_witnesses_Ok_D(2) [OF ws] removal_witness_member removal_counts(3) [OF acc] by blast
  moreover have "unat (read_quorum (sd_previous_policy ?i)) \<le> card (rw_identity ` set ws)"
    using removal_witnesses_Ok_D(3) [OF ws] by simp
  ultimately have "A \<inter> rw_identity ` set ws \<noteq> {}"
    by (rule removal.read_quorum_sees_writes [OF acc A(1) _ A(2)])
  then show ?thesis by blast
qed

section \<open>Sample removal\<close>

definition sample_reduced :: ConfigurationDescriptor where
  "sample_reduced = configuration_new (\<lambda>_. []) (epoch_new 0 2) 1
     [sample_member 1 ''a'' Primary, sample_member 2 ''b'' ActiveSecondary] 2"

definition sample_reduced_policy :: EffectivePolicy where
  "sample_reduced_policy =
     \<lparr>replica_set_size = 2, p_write_quorum = 2, read_quorum = 1, failover_delay_seconds = 5\<rparr>"

definition sample_removal :: SecondaryScaleDownIntent where
  "sample_removal =
     \<lparr>sd_operation_id = ''secondary-scale-down-'', sd_resource_uid = ''u'', sd_spec_generation = 1,
      sd_desired_replicas = 2, sd_previous_configuration = sample_configuration (\<lambda>_. []) 1,
      sd_current_configuration = sample_reduced, sd_previous_policy = sample_policy,
      sd_current_policy = sample_reduced_policy,
      sd_primary = m_identity (sample_member 1 ''a'' Primary),
      sd_target = m_identity (sample_member 3 ''c'' ActiveSecondary),
      sd_cleanup = \<lparr>ci_pod = Absent ''p'', ci_pvc = Absent ''v'', ci_endpoint = Absent ''kr-''\<rparr>\<rparr>"

lemma digest_parts_empty [simp]: "digest_parts (\<lambda>_. []) ps = ''''"
  by (simp add: digest_parts_def format_digest_def)

lemma sample_reduced_fields:
  "members sample_reduced = [sample_member 1 ''a'' Primary, sample_member 2 ''b'' ActiveSecondary]"
  "configuration_id sample_reduced = expected_id (\<lambda>_. []) sample_reduced"
  "c_epoch sample_reduced = epoch_new 0 2" "primary_id sample_reduced = 1" "write_quorum sample_reduced = 2"
  by (simp_all add: sample_reduced_def) (simp add: sample_member_def)

lemma sample_reduced_valid:
  "validate_configuration (\<lambda>_. []) sample_reduced (Some sample_reduced_policy) = Ok ()"
  by (simp add: validate_configuration_Ok_iff well_formed_configuration_def sample_reduced_fields
      sample_reduced_policy_def epoch_new_def) (simp add: sample_member_def)

lemma sample_removal_valid: "validate_secondary_scale_down (\<lambda>_. []) sample_removal = Ok ()"
proof -
  have prev: "c_epoch (sample_configuration (\<lambda>_. []) 1) = epoch_new 0 1"
    "primary_id (sample_configuration (\<lambda>_. []) 1) = 1"
    by (simp_all add: sample_configuration_def)
  have "validate_policy sample_reduced_policy = Ok ()"
    by (simp add: validate_policy_def sample_reduced_policy_def fixed_policy_def Let_def)
  then show ?thesis
    using sample_configuration_valid [of 1 "\<lambda>_. []"] sample_reduced_valid sample_policy_valid
    by (simp add: validate_secondary_scale_down_def sample_removal_def Let_def prev sample_reduced_fields
        sample_configuration_members removal_membership_changed_def validate_removal_cleanup_def
        sd_expected_operation_id_def derive_replica_endpoint_name_def epoch_new_def)
      (simp add: sample_member_def sample_policy_def sample_reduced_policy_def)
qed

definition sample_witness :: "SecondaryRemovalStage \<Rightarrow> ReplicaId \<Rightarrow> string \<Rightarrow> ReplicaRole \<Rightarrow> u64 \<Rightarrow> SecondaryRemovalWitness" where
  "sample_witness stage r name role seq =
     \<lparr>rw_resource_uid = ''u'', rw_identity = m_identity (sample_member r name role), rw_role = role,
      rw_process_session_id = ''s'', rw_report_sequence = seq,
      rw_epoch = epoch_new 0 (if stage = RemPrepare then 1 else 2),
      rw_previous_configuration_id = (if stage = RemPreviousCurrent
        then Some (configuration_id (sample_configuration (\<lambda>_. []) 1)) else None),
      rw_current_configuration_id = configuration_id
        (if stage = RemPrepare then sample_configuration (\<lambda>_. []) 1 else sample_reduced),
      rw_verified_replication_lsn = 4, rw_write_status = ReconfigurationPending,
      rw_pending_operation_id = None, rw_retained_operation_id = Some ''secondary-removal-''\<rparr>"

definition sample_cleanup :: SecondaryScaleDownCleanup where
  "sample_cleanup =
     (let ws = \<lambda>stage seq. [sample_witness stage 1 ''a'' Primary seq,
                             sample_witness stage 2 ''b'' ActiveSecondary seq]
      in \<lparr>sdc_evidence =
             \<lparr>re_preparation = \<lparr>rp_intent = sample_removal, rp_operation_id = ''secondary-removal-'',
                rp_process_session_id = ''s'', rp_report_sequence = 1, rp_boundary_lsn = 4\<rparr>,
              re_previous_read_quorum = ws RemPrepare 2, re_reduced_write_quorum = ws RemPreviousCurrent 3\<rparr>,
          sdc_current_only_write_quorum = ws RemCurrentOnly 4, sdc_retirement = None\<rparr>)"

lemma sample_removal_fields:
  "sd_resource_uid sample_removal = ''u''" "sd_previous_policy sample_removal = sample_policy"
  "sd_current_policy sample_removal = sample_reduced_policy"
  "sd_previous_configuration sample_removal = sample_configuration (\<lambda>_. []) 1"
  "sd_current_configuration sample_removal = sample_reduced"
  "sd_primary sample_removal = m_identity (sample_member 1 ''a'' Primary)"
  by (simp_all add: sample_removal_def)

lemma sample_witnesses_valid:
  assumes "stage \<in> {RemPrepare, RemPreviousCurrent, RemCurrentOnly}" "seq \<ge> 2"
  shows "validate_removal_witnesses (\<lambda>_. []) (re_preparation (sdc_evidence sample_cleanup))
    [sample_witness stage 1 ''a'' Primary seq, sample_witness stage 2 ''b'' ActiveSecondary seq] stage = Ok ()"
proof -
  have ep: "c_epoch (sample_configuration (\<lambda>_. []) 1) = epoch_new 0 1" by (simp add: sample_configuration_def)
  have prep: "re_preparation (sdc_evidence sample_cleanup) = \<lparr>rp_intent = sample_removal,
      rp_operation_id = ''secondary-removal-'', rp_process_session_id = ''s'', rp_report_sequence = 1, rp_boundary_lsn = 4\<rparr>"
    by (simp add: sample_cleanup_def Let_def)
  have seq: "seq \<noteq> 0" "\<not> seq < 1" using assms(2) by (auto simp: word_le_nat_alt word_less_nat_alt)
  have chk: "removal_witness_check (\<lambda>_. []) (re_preparation (sdc_evidence sample_cleanup)) stage seen
      (sample_witness stage r name role seq) = Ok ()"
    if "sample_member r name role \<in> set (members sample_reduced)" "m_identity (sample_member r name role) \<notin> seen"
    for seen r name role
  proof -
    have "\<exists>m \<in> set (members sample_reduced). m_identity m = m_identity (sample_member r name role) \<and> m_role m = role"
      by (rule bexI [OF _ that(1)]) (simp add: sample_member_def)
    with that(2) assms(1) seq show ?thesis unfolding prep
      by (auto simp: removal_witness_check_def Let_def sample_witness_def sample_removal_fields
          sd_command_operation_id_def ep sample_reduced_fields(3))
  qed
  have id: "rw_identity (sample_witness stage r name role seq) = m_identity (sample_member r name role)" for r name role
    by (simp add: sample_witness_def)
  have other: "m_identity (sample_member 2 ''b'' ActiveSecondary) \<noteq> m_identity (sample_member 1 ''a'' Primary)"
    by (simp add: sample_member_def)
  have "collect_checked (removal_witness_check (\<lambda>_. []) (re_preparation (sdc_evidence sample_cleanup)) stage)
      rw_identity {} [sample_witness stage 1 ''a'' Primary seq, sample_witness stage 2 ''b'' ActiveSecondary seq]
    = Ok {m_identity (sample_member 2 ''b'' ActiveSecondary), m_identity (sample_member 1 ''a'' Primary)}"
    using other by (simp add: chk id sample_reduced_fields(1))
  then show ?thesis
    using other unfolding validate_removal_witnesses_def Let_def prep
    by (simp add: sample_removal_fields sample_policy_def sample_reduced_policy_def)
qed

lemma sample_cleanup_valid: "validate_secondary_scale_down_cleanup (\<lambda>_. []) sample_cleanup = Ok ()"
proof -
  have ws: "re_previous_read_quorum (sdc_evidence sample_cleanup)
      = [sample_witness RemPrepare 1 ''a'' Primary 2, sample_witness RemPrepare 2 ''b'' ActiveSecondary 2]"
    "re_reduced_write_quorum (sdc_evidence sample_cleanup)
      = [sample_witness RemPreviousCurrent 1 ''a'' Primary 3, sample_witness RemPreviousCurrent 2 ''b'' ActiveSecondary 3]"
    "sdc_current_only_write_quorum sample_cleanup
      = [sample_witness RemCurrentOnly 1 ''a'' Primary 4, sample_witness RemCurrentOnly 2 ''b'' ActiveSecondary 4]"
    "sdc_retirement sample_cleanup = None"
    by (simp_all add: sample_cleanup_def Let_def)
  have "validate_secondary_removal_preparation (\<lambda>_. []) (re_preparation (sdc_evidence sample_cleanup)) = Ok ()"
    using sample_removal_valid
    by (simp add: validate_secondary_removal_preparation_def sample_cleanup_def Let_def sd_command_operation_id_def)
  moreover have "rp_report_sequence (re_preparation (sdc_evidence sample_cleanup)) = 1"
    by (simp add: sample_cleanup_def Let_def)
  ultimately show ?thesis
    unfolding validate_secondary_scale_down_cleanup_def validate_secondary_removal_evidence_def Let_def ws
    by (simp add: sample_witnesses_valid earlier_witness_def) (simp add: sample_witness_def word_le_nat_alt)
qed

section \<open>Properties\<close>

text \<open>C25: an accepted removal raises the epoch and removes exactly one member, the active
  secondary with the highest replica identifier; every other member, the primary included, is
  kept unchanged.\<close>

theorem scale_down_removes_highest_secondary:
  assumes "validate_secondary_scale_down H i = Ok ()"
  shows "c_epoch (sd_previous_configuration i) < c_epoch (sd_current_configuration i) \<and>
    (\<exists>t \<in> set (members (sd_previous_configuration i)).
       m_identity t = sd_target i \<and> m_role t = ActiveSecondary
       \<and> (\<forall>m \<in> set (members (sd_previous_configuration i)).
            m_role m = ActiveSecondary \<longrightarrow> m_replica_id m \<le> m_replica_id t)
       \<and> set (members (sd_current_configuration i)) = set (members (sd_previous_configuration i)) - {t})"
proof -
  obtain t where "t \<in> set (members (sd_previous_configuration i))" "m_identity t = sd_target i"
    "m_role t = ActiveSecondary"
    "\<forall>m \<in> set (members (sd_previous_configuration i)). m_role m = ActiveSecondary \<longrightarrow> m_replica_id m \<le> m_replica_id t"
    "set (members (sd_current_configuration i)) = set (members (sd_previous_configuration i)) - {t}"
    using scale_down_membership [OF assms] .
  with scale_down_Ok_D(5) [OF assms] show ?thesis by blast
qed

theorem scale_down_removes_highest_secondary_witness:
  "\<exists>t \<in> set (members (sample_configuration (\<lambda>_. []) 1)). m_role t = ActiveSecondary
     \<and> set (members sample_reduced) = set (members (sample_configuration (\<lambda>_. []) 1)) - {t}"
  using scale_down_removes_highest_secondary [OF sample_removal_valid] unfolding sample_removal_fields by blast

text \<open>Across an accepted removal every write quorum of the previous configuration shares an
  exact replica with every write quorum of the reduced configuration.\<close>

theorem scale_down_quorums_intersect:
  assumes "validate_secondary_scale_down H i = Ok ()"
    and "length (members (sd_previous_configuration i)) < 4294967296"
    and "A \<subseteq> exact_identities (sd_previous_configuration i)"
    and "B \<subseteq> exact_identities (sd_current_configuration i)"
    and "unat (write_quorum (sd_previous_configuration i)) \<le> card A"
    and "unat (write_quorum (sd_current_configuration i)) \<le> card B"
  shows "A \<inter> B \<noteq> {}"
  using assms removal.write_quorums_meet [of H i A B] by (simp add: removal_accepted_def)

theorem scale_down_quorums_intersect_witness:
  "exact_identities (sample_configuration (\<lambda>_. []) 1) \<inter> exact_identities sample_reduced \<noteq> {}"
proof -
  have "card (exact_identities (sample_configuration (\<lambda>_. []) 1)) = 3" "card (exact_identities sample_reduced) = 2"
    using card_exact_identities [OF sample_configuration_valid [of 1 "\<lambda>_. []"]]
      card_exact_identities [OF sample_reduced_valid]
    by (simp_all add: sample_configuration_members sample_reduced_fields)
  then show ?thesis
    using scale_down_quorums_intersect [OF sample_removal_valid, unfolded sample_removal_fields,
        of "exact_identities (sample_configuration (\<lambda>_. []) 1)" "exact_identities sample_reduced"]
    by (simp add: sample_configuration_members sample_reduced_fields)
      (simp add: sample_configuration_def)
qed

text \<open>C3: an accepted removal cleanup rests on evidence that no committed write is lost. Every
  write quorum of the previous configuration contains a replica of the previous read quorum of
  witnesses. The witnesses of both later stages are members of the reduced configuration, each
  with verified progress at or beyond the frozen boundary, enough for its write quorum, and with
  the primary among them; and a current-only witness is newer than every earlier witness of
  its process session.\<close>

theorem removal_cleanup_evidence_sound:
  assumes ok: "validate_secondary_scale_down_cleanup H c = Ok ()"
    and e: "e = sdc_evidence c" "i = rp_intent (re_preparation e)"
    and small: "length (members (sd_previous_configuration i)) < 4294967296"
  shows "(\<forall>A \<subseteq> exact_identities (sd_previous_configuration i).
        unat (write_quorum (sd_previous_configuration i)) \<le> card A
          \<longrightarrow> (\<exists>w \<in> set (re_previous_read_quorum e). rw_identity w \<in> A))
    \<and> (\<forall>ws \<in> {re_reduced_write_quorum e, sdc_current_only_write_quorum c}.
        sd_primary i \<in> rw_identity ` set ws
        \<and> rw_identity ` set ws \<subseteq> exact_identities (sd_current_configuration i)
        \<and> unat (write_quorum (sd_current_configuration i)) \<le> card (rw_identity ` set ws)
        \<and> (\<forall>w \<in> set ws. rp_boundary_lsn (re_preparation e) \<le> rw_verified_replication_lsn w))
    \<and> (\<forall>w \<in> set (sdc_current_only_write_quorum c).
        \<forall>v \<in> set (re_previous_read_quorum e @ re_reduced_write_quorum e).
          rw_identity v = rw_identity w \<and> rw_process_session_id v = rw_process_session_id w
            \<longrightarrow> rw_report_sequence v < rw_report_sequence w)"
proof -
  let ?p = "re_preparation e"
  have ev: "validate_secondary_removal_evidence H e True = Ok ()"
    and co: "validate_removal_witnesses H ?p (sdc_current_only_write_quorum c) RemCurrentOnly = Ok ()"
    and fresh: "\<forall>w \<in> set (sdc_current_only_write_quorum c).
      \<not> earlier_witness (re_previous_read_quorum e @ re_reduced_write_quorum e) w"
    using ok by (auto simp: validate_secondary_scale_down_cleanup_def Let_def e(1))
  note D = removal_evidence_D [OF ev, folded e(2)]
  have wq: "write_quorum (sd_current_configuration i) = p_write_quorum (sd_current_policy i)"
    using scale_down_Ok_D(4) [OF D(1)] by (auto simp: validate_configuration_Ok_iff)
  have stage: "sd_primary i \<in> rw_identity ` set ws
      \<and> rw_identity ` set ws \<subseteq> exact_identities (sd_current_configuration i)
      \<and> unat (write_quorum (sd_current_configuration i)) \<le> card (rw_identity ` set ws)
      \<and> (\<forall>w \<in> set ws. rp_boundary_lsn ?p \<le> rw_verified_replication_lsn w)"
    if "validate_removal_witnesses H ?p ws s = Ok ()" "s \<noteq> RemPrepare" for ws s
    using removal_witnesses_Ok_D [OF that(1), folded e(2)] that(2) wq
      removal_witness_member [of H ?p s, folded e(2)] removal_witness_verified [of H ?p s]
    by auto
  have "\<exists>w \<in> set (re_previous_read_quorum e). rw_identity w \<in> A"
    if "A \<subseteq> exact_identities (sd_previous_configuration i)"
      "unat (write_quorum (sd_previous_configuration i)) \<le> card A" for A
    using removal_prepare_sees_writes [of H ?p, folded e(2), OF D(1) small D(2) that] .
  moreover have "\<forall>w \<in> set (sdc_current_only_write_quorum c).
        \<forall>v \<in> set (re_previous_read_quorum e @ re_reduced_write_quorum e).
          rw_identity v = rw_identity w \<and> rw_process_session_id v = rw_process_session_id w
            \<longrightarrow> rw_report_sequence v < rw_report_sequence w"
    using fresh unfolding earlier_witness_def by (metis not_le)
  ultimately show ?thesis using stage [OF D(3)] stage [OF co] by simp
qed

theorem removal_cleanup_evidence_sound_witness:
  "sd_primary sample_removal \<in> rw_identity ` set (sdc_current_only_write_quorum sample_cleanup)"
  using removal_cleanup_evidence_sound [OF sample_cleanup_valid refl refl]
  by (simp add: sample_cleanup_def Let_def sample_removal_fields sample_configuration_members)

end
