(* ===== verification/Protocol_Commands.thy ===== *)
theory Protocol_Commands
  imports Protocol_Evidence
begin

text \<open>
  \<open>kuberic-runtime/src/protocol/command.rs\<close>: the fenced commands a controller sends to an
  agent. The fault-injection commands exist only in builds with the \<open>testing\<close> feature and are
  not part of the model.
\<close>

datatype EffectClass = ConvergentEnsure | ReconfigurationAction | Unsupported

record InitializeAgentStore =
  ia_initialization_id :: InitializationId
  ia_resource_uid :: ResourceUid
  ia_local_replica_id :: ReplicaId
  ia_expected_instance_id :: ReplicaInstanceId
  ia_expected_pod_uid :: PodUid
  ia_expected_pvc_uid :: PvcUid
  ia_assigned_agent_generation :: AgentGeneration
  ia_effective_policy :: EffectivePolicy
  ia_bootstrap_configuration :: ConfigurationDescriptor
  ia_provisioning :: "ProvisioningIntent option"

record EnsureConfiguration =
  ec_operation_id :: OperationId
  ec_previous_configuration :: "ConfigurationDescriptor option"
  ec_current_configuration :: ConfigurationDescriptor
  ec_previous_epoch :: "Epoch option"
  ec_current_epoch :: Epoch
  ec_effective_policy :: EffectivePolicy
  ec_previous_policy :: "EffectivePolicy option"
  ec_secondary_removal_evidence :: "SecondaryRemovalEvidence option"
  ec_scale_up_evidence :: "ScaleUpConfigurationEvidence option"
  ec_local_replica_id :: ReplicaId
  ec_expected_instance_id :: ReplicaInstanceId
  ec_expected_agent_generation :: AgentGeneration
  ec_transition_kind :: TransitionKind
  ec_failover_safe_lsn :: "i64 option"
  ec_primary_write_status :: AccessStatus
  ec_current_only :: bool
  ec_retire_build_ids :: "OperationId list"
  ec_switchover_handoff :: "SwitchoverHandoff option"
  ec_retire_switchover_preparation_ids :: "SwitchoverPreparationId list"

definition handoff_restores :: "EnsureConfiguration \<Rightarrow> SwitchoverHandoff \<Rightarrow> bool" where
  "handoff_restores c h \<longleftrightarrow>
     ec_current_epoch c = sh_starting_epoch h
     \<and> c_epoch (ec_current_configuration c) = sh_starting_epoch h
     \<and> configuration_id (ec_current_configuration c) = sh_starting_configuration_id h
     \<and> primary_id (ec_current_configuration c) = replica_id (sh_source h)
     \<and> ec_local_replica_id c = replica_id (sh_source h)
     \<and> ec_expected_instance_id c = instance_id (sh_source h)
     \<and> ec_expected_agent_generation c = agent_generation (sh_source h)
     \<and> ec_retire_switchover_preparation_ids c = [sh_preparation h]"

definition is_switchover_restoration :: "EnsureConfiguration \<Rightarrow> bool" where
  "is_switchover_restoration c \<longleftrightarrow>
     ec_transition_kind c = PlannedSwitchover \<and> \<not> ec_current_only c
     \<and> ec_previous_configuration c = None \<and> ec_previous_epoch c = None
     \<and> ec_primary_write_status c = ReconfigurationPending \<and> ec_failover_safe_lsn c = None
     \<and> ec_retire_build_ids c = [] \<and> ec_current_epoch c = c_epoch (ec_current_configuration c)
     \<and> primary_id (ec_current_configuration c) = ec_local_replica_id c
     \<and> (case ec_retire_switchover_preparation_ids c of
          [p] \<Rightarrow> spi_operation_id p \<noteq> '''' \<and> spi_generation p > 0
        | _ \<Rightarrow> False)
     \<and> is_none_or (ec_switchover_handoff c) (handoff_restores c)"

record PrepareSwitchover =
  ps_preparation_generation :: u64
  ps_operation_id :: OperationId
  ps_request_id :: SwitchoverRequestId
  ps_local_replica_id :: ReplicaId
  ps_expected_instance_id :: ReplicaInstanceId
  ps_expected_agent_generation :: AgentGeneration
  ps_source :: ReplicaIdentity
  ps_target :: ReplicaIdentity
  ps_current_configuration :: ConfigurationDescriptor

record EnsureReplicaBuild =
  eb_operation_id :: OperationId
  eb_local_replica_id :: ReplicaId
  eb_expected_instance_id :: ReplicaInstanceId
  eb_expected_agent_generation :: AgentGeneration
  eb_target :: ReplicaIdentity
  eb_authority :: "BuildAuthority option"
  eb_source_session_id :: "ProcessSessionId option"
  eb_retire :: bool

record PrepareSecondaryRemoval =
  psr_operation_id :: OperationId
  psr_local_replica_id :: ReplicaId
  psr_expected_instance_id :: ReplicaInstanceId
  psr_expected_agent_generation :: AgentGeneration
  psr_intent :: SecondaryScaleDownIntent

record RetireReplica =
  rtr_operation_id :: OperationId
  rtr_local_replica_id :: ReplicaId
  rtr_expected_instance_id :: ReplicaInstanceId
  rtr_expected_agent_generation :: AgentGeneration
  rtr_committed :: SecondaryScaleDownCleanup

record AcceptSecondaryRemovalCommit =
  arc_operation_id :: OperationId
  arc_target :: ReplicaIdentity
  arc_committed :: SecondaryScaleDownCleanup
  arc_local_recovery :: bool

datatype (plugins only: code) ProtocolCommand =
    CmdInitializeAgentStore InitializeAgentStore
  | CmdPrepareSwitchover PrepareSwitchover
  | CmdEnsureConfiguration EnsureConfiguration
  | CmdEnsureReplicaBuild EnsureReplicaBuild
  | CmdPrepareSecondaryRemoval PrepareSecondaryRemoval
  | CmdRetireReplica RetireReplica
  | CmdAcceptSecondaryRemovalCommit AcceptSecondaryRemovalCommit

fun effect_class :: "ProtocolCommand \<Rightarrow> EffectClass" where
  "effect_class (CmdInitializeAgentStore c) = ConvergentEnsure"
| "effect_class (CmdPrepareSwitchover c) = ReconfigurationAction"
| "effect_class (CmdPrepareSecondaryRemoval c) = ReconfigurationAction"
| "effect_class (CmdRetireReplica c) = ReconfigurationAction"
| "effect_class (CmdAcceptSecondaryRemovalCommit c) = ReconfigurationAction"
| "effect_class (CmdEnsureConfiguration c) = ReconfigurationAction"
| "effect_class (CmdEnsureReplicaBuild c) = ReconfigurationAction"

end
