(* ===== verification/Scale_Up.thy ===== *)
theory Scale_Up
  imports Scale_Down Protocol_Commands "HOL-Library.Product_Lexorder"
begin

text \<open>
  \<open>kuberic-runtime/src/protocol/validation/scale_up.rs\<close>: the checks on scale-up provisioning,
  intents, quorum witnesses, failover evidence with its final election, cleanup, receipts and
  configuration commands.
\<close>

definition su_invalid :: "string \<Rightarrow> ValidationError" where
  "su_invalid r = InvalidScaleUp r"

section \<open>Provisioning and allocation\<close>

text \<open>The first ordinal from one to \<open>n\<close> that no member uses.\<close>

definition first_missing_ordinal :: "u32 \<Rightarrow> ConfigurationDescriptor \<Rightarrow> i64 option" where
  "first_missing_ordinal n c = find (\<lambda>r. r \<notin> m_replica_id ` set (members c)) [1..int (unat n)]"

definition validate_scale_up_provisioning_request ::
    "(bytes \<Rightarrow> bytes) \<Rightarrow> ScaleUpProvisioning \<Rightarrow> check" where
  "validate_scale_up_provisioning_request H s =
     and_then (validate_policy (sp_previous_policy s)) (\<lambda>_.
     and_then (validate_policy (sp_current_policy s)) (\<lambda>_.
     and_then (validate_configuration H (sp_previous_configuration s) (Some (sp_previous_policy s))) (\<lambda>_.
       if sp_resource_uid s = '''' \<or> sp_spec_generation s = 0 \<or> sp_desired_replicas s = 0
          \<or> replica_set_size (sp_previous_policy s) = 4294967295
          \<or> replica_set_size (sp_current_policy s) \<noteq> replica_set_size (sp_previous_policy s) + 1
          \<or> sp_desired_replicas s < replica_set_size (sp_current_policy s)
          \<or> failover_delay_seconds (sp_previous_policy s) \<noteq> failover_delay_seconds (sp_current_policy s)
          \<or> (\<exists>m \<in> set (members (sp_previous_configuration s)). m_replica_id m = sp_target_replica_id s)
          \<or> next_configuration_epoch s = None
       then Err (su_invalid ''invalid frozen provisioning request'')
       else if first_missing_ordinal (replica_set_size (sp_current_policy s)) (sp_previous_configuration s)
               \<noteq> Some (sp_target_replica_id s)
       then Err (su_invalid ''scale-up target must restore the first missing ordinal'')
       else Ok ())))"

definition provisioning_purpose_check :: "ProvisioningPurpose \<Rightarrow> check" where
  "provisioning_purpose_check p =
     (case pp_kind p of
        ProvReplacement \<Rightarrow>
          (case pp_replaces p of
             None \<Rightarrow> Err (su_invalid ''replacement provisioning purpose is malformed'')
           | Some r \<Rightarrow>
               if pp_scale_up p \<noteq> None \<or> replica_id r \<le> 0 \<or> instance_id r = '''' \<or> agent_generation r = ''''
               then Err (su_invalid ''replacement provisioning purpose is malformed'') else Ok ())
      | ProvScaleUp \<Rightarrow>
          if pp_replaces p \<noteq> None \<or> pp_scale_up p = None
          then Err (su_invalid ''scale-up provisioning purpose is malformed'') else Ok ())"

definition validate_scale_up_provisioning :: "(bytes \<Rightarrow> bytes) \<Rightarrow> ProvisioningIntent \<Rightarrow> check" where
  "validate_scale_up_provisioning H i =
     (if pi_pod_uid i = '''' \<or> pi_pvc_uid i = '''' \<or> pi_operation_id i = '''' \<or> pi_replica_id i \<le> 0
      then Err (su_invalid ''invalid candidate identity'')
      else and_then (provisioning_purpose_check (pi_purpose i)) (\<lambda>_.
        case pi_scale_up i of
          None \<Rightarrow> Ok ()
        | Some s \<Rightarrow> and_then (validate_scale_up_provisioning_request H s) (\<lambda>_.
            if pi_operation_id i \<noteq> pi_expected_operation_id H i
            then Err (su_invalid ''invalid frozen provisioning request'') else Ok ())))"

definition validate_scale_up_allocation :: "(bytes \<Rightarrow> bytes) \<Rightarrow> ScaleUpAllocation \<Rightarrow> check" where
  "validate_scale_up_allocation H a =
     (if al_resource_uid a = '''' \<or> al_spec_generation a = 0 \<or> al_desired_replicas a = 0
         \<or> al_previous_configuration_id a = '''' \<or> al_accepted_configuration_id a = ''''
         \<or> al_target_replica_id a \<le> 0 \<or> al_operation_id a = ''''
         \<or> al_operation_id a \<noteq> allocation_expected_operation_id H a
         \<or> is_some_and (al_previous_operation_id a) (\<lambda>p. p = '''' \<or> p = al_operation_id a)
         \<or> is_some_and (al_pod_uid a) (\<lambda>u. u = '''') \<or> is_some_and (al_pvc_uid a) (\<lambda>u. u = '''')
         \<or> (al_pod_uid a \<noteq> None \<and> al_pvc_uid a = None)
      then Err (su_invalid ''invalid durable scale-up allocation'') else Ok ())"

section \<open>Intent\<close>

definition added_members :: "ConfigurationDescriptor \<Rightarrow> ConfigurationDescriptor \<Rightarrow> ConfigurationMember list" where
  "added_members previous current =
     filter (\<lambda>m. \<not> (\<exists>x \<in> set (members previous). m_replica_id x = m_replica_id m)) (members current)"

definition scale_up_membership_changed :: "ScaleUpIntent \<Rightarrow> ConfigurationMember \<Rightarrow> bool" where
  "scale_up_membership_changed i primary \<longleftrightarrow>
     (let previous = su_previous_configuration i; current = su_current_configuration i;
          added = added_members previous current
      in su_primary i \<noteq> m_identity primary \<or> primary_id previous \<noteq> primary_id current
         \<or> (case added of
              [x] \<Rightarrow> m_identity x \<noteq> su_target i \<or> m_role x \<noteq> ActiveSecondary
            | _ \<Rightarrow> True)
         \<or> first_missing_ordinal (replica_set_size (su_current_policy i)) previous \<noteq> Some (replica_id (su_target i))
         \<or> (\<exists>m \<in> set (members previous). m \<notin> set (members current)))"

definition validate_scale_up :: "(bytes \<Rightarrow> bytes) \<Rightarrow> ScaleUpIntent \<Rightarrow> check" where
  "validate_scale_up H i =
     (let previous = su_previous_configuration i; current = su_current_configuration i
      in and_then (validate_policy (su_previous_policy i)) (\<lambda>_.
         and_then (validate_policy (su_current_policy i)) (\<lambda>_.
         and_then (validate_configuration H previous (Some (su_previous_policy i))) (\<lambda>_.
         and_then (validate_configuration H current (Some (su_current_policy i))) (\<lambda>_.
         if su_resource_uid i = '''' \<or> su_spec_generation i = 0 \<or> su_desired_replicas i = 0
            \<or> su_build_id i = '''' \<or> instance_id (su_primary i) = '''' \<or> agent_generation (su_primary i) = ''''
            \<or> instance_id (su_target i) = '''' \<or> agent_generation (su_target i) = ''''
            \<or> su_snapshot_boundary_lsn i < 0 \<or> su_catch_up_boundary_lsn i < su_snapshot_boundary_lsn i
            \<or> su_operation_id i \<noteq> su_expected_operation_id H i
         then Err (su_invalid ''invalid frozen request, build, or boundary'')
         else if replica_set_size (su_previous_policy i) = 4294967295
            \<or> replica_set_size (su_current_policy i) \<noteq> replica_set_size (su_previous_policy i) + 1
            \<or> su_desired_replicas i < replica_set_size (su_current_policy i)
            \<or> failover_delay_seconds (su_previous_policy i) \<noteq> failover_delay_seconds (su_current_policy i)
            \<or> length (members previous) + 1 \<noteq> length (members current)
         then Err (su_invalid ''scale-up must preserve delay and increase membership by exactly one'')
         else if data_loss_number (c_epoch previous) < 0 \<or> configuration_number (c_epoch previous) < 0
            \<or> data_loss_number (c_epoch current) \<noteq> data_loss_number (c_epoch previous)
         then Err TransitionDataLossChanged
         else if is_none_or (i64_checked_add (configuration_number (c_epoch previous)) 1)
                   (\<lambda>n. configuration_number (c_epoch current) \<noteq> n)
         then Err TransitionEpochNotNewer
         else and_then (expect (find (\<lambda>m. m_role m = Primary) (members previous))) (\<lambda>primary.
           if scale_up_membership_changed i primary
           then Err (su_invalid ''target must be the next active secondary and retained authority cannot change'')
           else Ok ()))))))"

section \<open>Quorum witnesses\<close>

definition member_role_differs :: "ConfigurationDescriptor \<Rightarrow> ScaleUpWitness \<Rightarrow> bool" where
  "member_role_differs c w \<longleftrightarrow>
     is_none_or (find (\<lambda>m. m_identity m = uw_identity w) (members c)) (\<lambda>m. m_role m \<noteq> uw_role w)"

definition scale_up_witness_check ::
    "(bytes \<Rightarrow> bytes) \<Rightarrow> ScaleUpIntent \<Rightarrow> ConfigurationDescriptor \<Rightarrow> ConfigurationDescriptor \<Rightarrow> bool
      \<Rightarrow> ReplicaIdentity option \<Rightarrow> ReplicaIdentity set \<Rightarrow> ScaleUpWitness \<Rightarrow> check" where
  "scale_up_witness_check H i reported eligible previous_current required seen w =
     (if uw_resource_uid w \<noteq> su_resource_uid i \<or> uw_process_session_id w = '''' \<or> uw_report_sequence w = 0
         \<or> \<not> (\<exists>m \<in> set (members eligible). m_identity m = uw_identity w)
         \<or> member_role_differs reported w \<or> uw_identity w \<in> seen
         \<or> uw_epoch w \<noteq> c_epoch reported
         \<or> uw_previous_configuration_id w
             \<noteq> then_some previous_current (configuration_id (su_previous_configuration i))
         \<or> uw_current_configuration_id w \<noteq> configuration_id reported
         \<or> uw_verified_replication_lsn w < su_catch_up_boundary_lsn i
         \<or> uw_pending_operation_id w \<noteq> None
         \<or> (uw_write_status w = Granted \<and> required \<noteq> Some (uw_identity w))
         \<or> (\<not> previous_current \<and> required = Some (uw_identity w) \<and> uw_write_status w \<noteq> Granted)
         \<or> uw_retained_operation_id w
             \<noteq> Some (su_command_operation_id H i
                      (if previous_current then SuPreviousCurrent else SuCurrentOnly) (uw_identity w) reported)
      then Err (su_invalid ''invalid exact scale-up quorum witness'') else Ok ())"

definition validate_scale_up_witnesses ::
    "(bytes \<Rightarrow> bytes) \<Rightarrow> ScaleUpIntent \<Rightarrow> ConfigurationDescriptor \<Rightarrow> ConfigurationDescriptor
      \<Rightarrow> ScaleUpWitness list \<Rightarrow> u32 \<Rightarrow> bool \<Rightarrow> ReplicaIdentity option \<Rightarrow> check" where
  "validate_scale_up_witnesses H i reported eligible ws quorum previous_current required =
     and_then (collect_checked (scale_up_witness_check H i reported eligible previous_current required)
                 uw_identity {} ws) (\<lambda>identities.
       if card identities < unat quorum \<or> is_some_and required (\<lambda>p. p \<notin> identities)
       then Err (su_invalid ''insufficient scale-up quorum witnesses'') else Ok ())"

definition recovery_stage :: "ScaleUpIntent \<Rightarrow> ScaleUpWitness \<Rightarrow> (ValidationError, ScaleUpStage) result" where
  "recovery_stage i w =
     (case uw_previous_configuration_id w of
        Some p \<Rightarrow>
          if p = configuration_id (su_previous_configuration i) then Ok SuPreviousCurrent
          else Err (su_invalid ''invalid exact scale-up recovery witness'')
      | None \<Rightarrow> Ok SuCurrentOnly)"

definition recovery_witness_check ::
    "(bytes \<Rightarrow> bytes) \<Rightarrow> ScaleUpIntent \<Rightarrow> ConfigurationDescriptor \<Rightarrow> ReplicaIdentity set \<Rightarrow> ScaleUpWitness
      \<Rightarrow> check" where
  "recovery_witness_check H i eligible seen w =
     (let current = su_current_configuration i
      in and_then (recovery_stage i w) (\<lambda>stage.
         if uw_resource_uid w \<noteq> su_resource_uid i \<or> uw_process_session_id w = '''' \<or> uw_report_sequence w = 0
            \<or> \<not> (\<exists>m \<in> set (members eligible). m_identity m = uw_identity w)
            \<or> member_role_differs current w \<or> uw_identity w \<in> seen
            \<or> uw_epoch w \<noteq> c_epoch current \<or> uw_current_configuration_id w \<noteq> configuration_id current
            \<or> uw_verified_replication_lsn w < su_catch_up_boundary_lsn i
            \<or> uw_pending_operation_id w \<noteq> None
            \<or> (uw_write_status w = Granted \<and> uw_identity w \<noteq> su_primary i)
            \<or> (stage = SuCurrentOnly \<and> uw_identity w = su_primary i \<and> uw_write_status w \<noteq> Granted)
            \<or> uw_retained_operation_id w \<noteq> Some (su_command_operation_id H i stage (uw_identity w) current)
         then Err (su_invalid ''invalid exact scale-up recovery witness'') else Ok ()))"

definition validate_recovery_witnesses ::
    "(bytes \<Rightarrow> bytes) \<Rightarrow> ScaleUpIntent \<Rightarrow> ConfigurationDescriptor \<Rightarrow> ScaleUpWitness list \<Rightarrow> u32 \<Rightarrow> check" where
  "validate_recovery_witnesses H i eligible ws quorum =
     and_then (collect_checked (recovery_witness_check H i eligible) uw_identity {} ws) (\<lambda>identities.
       if card identities < unat quorum
       then Err (su_invalid ''insufficient scale-up recovery witnesses'') else Ok ())"

section \<open>Failover during a scale-up\<close>

definition validate_failover_configuration ::
    "(bytes \<Rightarrow> bytes) \<Rightarrow> ScaleUpFailoverEvidence \<Rightarrow> ConfigurationDescriptor \<Rightarrow> EffectivePolicy \<Rightarrow> check" where
  "validate_failover_configuration H e current p =
     (let i = sf_intent e; expanded = su_current_configuration i
      in and_then (validate_policy p) (\<lambda>_.
         and_then (validate_configuration H current (Some p)) (\<lambda>_.
         if p \<noteq> su_current_policy i
            \<or> data_loss_number (c_epoch current) \<noteq> data_loss_number (c_epoch expanded)
            \<or> configuration_number (c_epoch current) \<le> configuration_number (c_epoch expanded)
         then Err (su_invalid ''failover authority did not advance expanded CC'')
         else if exact_identities current \<noteq> exact_identities expanded
         then Err (su_invalid ''failover must preserve exact expanded membership'')
         else Ok ())))"

definition final_witness_check ::
    "(bytes \<Rightarrow> bytes) \<Rightarrow> ScaleUpFailoverEvidence \<Rightarrow> ReplicaId set \<Rightarrow> ScaleUpFinalWitness \<Rightarrow> check" where
  "final_witness_check H e seen w =
     (let i = sf_intent e; prov = sf_provisional_configuration e;
          bad = Err (su_invalid ''invalid exact final scale-up election witness'')
      in if fw_process_session_id w = '''' \<or> fw_report_sequence w = 0 then bad
         else case find (\<lambda>m. m_replica_id m = fw_replica_id w) (members prov) of
             None \<Rightarrow> bad
           | Some m \<Rightarrow>
               if fw_replica_id w \<in> seen
                  \<or> fw_current_progress w < su_catch_up_boundary_lsn i
                  \<or> fw_committed_lsn w < 0 \<or> fw_deactivated_lsn w < 0
                  \<or> fw_fence_operation_id w \<noteq> su_command_operation_id H i SuPreviousCurrent (m_identity m) prov
               then bad else Ok ())"

definition validate_final_witnesses ::
    "(bytes \<Rightarrow> bytes) \<Rightarrow> ScaleUpFailoverEvidence \<Rightarrow> ScaleUpFinalElectionEvidence \<Rightarrow> check" where
  "validate_final_witnesses H e f =
     and_then (collect_checked (final_witness_check H e) fw_replica_id {} (fe_witnesses f)) (\<lambda>_. Ok ())"

definition final_quorum_check ::
    "ScaleUpFinalElectionEvidence \<Rightarrow> ConfigurationDescriptor \<Rightarrow> ReplicaId set \<Rightarrow> ReplicaId \<Rightarrow> check" where
  "final_quorum_check f eligible seen r =
     (if fe_witness f r = None \<or> \<not> (\<exists>m \<in> set (members eligible). m_replica_id m = r) \<or> r \<in> seen
      then Err (su_invalid ''invalid exact final scale-up election quorum'') else Ok ())"

definition validate_final_quorum ::
    "ScaleUpFinalElectionEvidence \<Rightarrow> ConfigurationDescriptor \<Rightarrow> ReplicaId list \<Rightarrow> u32
      \<Rightarrow> ReplicaIdentity option \<Rightarrow> check" where
  "validate_final_quorum f eligible rs quorum required =
     and_then (collect_checked (final_quorum_check f eligible) id {} rs) (\<lambda>ids.
       if card ids < unat quorum \<or> is_some_and required (\<lambda>p. replica_id p \<notin> ids)
       then Err (su_invalid ''insufficient exact final scale-up election witnesses'') else Ok ())"

text \<open>The election order: safe prefix, then progress, then commit, then the smaller replica ID.\<close>

definition final_witness_rank :: "ScaleUpFinalWitness \<Rightarrow> i64 \<times> i64 \<times> i64 \<times> int" where
  "final_witness_rank w =
     (min (fw_current_progress w) (fw_deactivated_lsn w), fw_current_progress w, fw_committed_lsn w,
      - fw_replica_id w)"

definition expected_final_primary ::
    "ScaleUpFailoverEvidence \<Rightarrow> ScaleUpFinalElectionEvidence \<Rightarrow> ScaleUpFinalWitness option" where
  "expected_final_primary e f =
     max_by_key final_witness_rank
       (List.map_filter (fe_witness f)
         (filter (\<lambda>r. r \<noteq> replica_id (su_primary (sf_intent e))) (fe_current_read_quorum f)))"

definition final_selection_check :: "ScaleUpFailoverEvidence \<Rightarrow> ScaleUpFinalElectionEvidence \<Rightarrow> check" where
  "final_selection_check e f =
     (let referenced = set (fe_previous_read_quorum f @ fe_current_read_quorum f)
      in if card referenced \<noteq> length (fe_witnesses f)
            \<or> (\<exists>w \<in> set (fe_witnesses f). fw_replica_id w \<notin> referenced)
         then Err (su_invalid ''final scale-up election contains unreferenced witnesses'')
         else and_then (expect (fe_witness f (fe_selected_primary_replica_id f))) (\<lambda>selected.
           and_then (ok_or (expected_final_primary e f)
                       (su_invalid ''final scale-up election has no surviving candidate'')) (\<lambda>expected.
           if selected \<noteq> expected
           then Err (su_invalid ''selected final primary did not certify the exact safe prefix'')
           else Ok ())))"

definition validate_final_election ::
    "(bytes \<Rightarrow> bytes) \<Rightarrow> ScaleUpFailoverEvidence \<Rightarrow> ScaleUpFinalElectionEvidence \<Rightarrow> check" where
  "validate_final_election H e f =
     (let i = sf_intent e; prov = sf_provisional_configuration e
      in and_then (ok_or (fe_final_configuration H f prov)
                     (su_invalid ''final scale-up election selected an unknown primary'')) (\<lambda>final.
         and_then (ok_or (fe_safe_lsn f)
                     (su_invalid ''final scale-up election omitted the selected witness'')) (\<lambda>safe.
         and_then (validate_failover_configuration H e final (su_current_policy i)) (\<lambda>_.
         if safe < su_catch_up_boundary_lsn i \<or> fe_selected_primary_replica_id f = replica_id (su_primary i)
         then Err (su_invalid ''final scale-up election did not advance the provisional fence'')
         else and_then (ok_or (find (\<lambda>m. m_replica_id m = primary_id final \<and> m_role m = Primary) (members final))
                     (su_invalid ''final scale-up election has no primary'')) (\<lambda>primary.
         and_then (validate_final_witnesses H e f) (\<lambda>_.
         and_then (validate_final_quorum f (su_previous_configuration i) (fe_previous_read_quorum f)
                     (read_quorum (su_previous_policy i)) None) (\<lambda>_.
         and_then (validate_final_quorum f prov (fe_current_read_quorum f)
                     (read_quorum (su_current_policy i)) (Some (m_identity primary))) (\<lambda>_.
         final_selection_check e f))))))))"

definition validate_scale_up_failover_evidence ::
    "(bytes \<Rightarrow> bytes) \<Rightarrow> ScaleUpFailoverEvidence \<Rightarrow> check" where
  "validate_scale_up_failover_evidence H e =
     (let i = sf_intent e; prov = sf_provisional_configuration e
      in and_then (validate_scale_up H i) (\<lambda>_.
         and_then (validate_recovery_witnesses H i (su_previous_configuration i) (sf_previous_read_quorum e)
                     (read_quorum (su_previous_policy i))) (\<lambda>_.
         and_then (validate_recovery_witnesses H i (su_current_configuration i) (sf_current_read_quorum e)
                     (read_quorum (su_current_policy i))) (\<lambda>_.
         and_then (validate_failover_configuration H e prov (su_current_policy i)) (\<lambda>_.
         if is_none_or (i64_checked_add (configuration_number (c_epoch (su_current_configuration i))) 1)
              (\<lambda>n. configuration_number (c_epoch prov) \<noteq> n)
            \<or> primary_id prov = replica_id (su_primary i)
         then Err (su_invalid ''provisional scale-up failover did not advance the expanded authority'')
         else case sf_final_election e of
             None \<Rightarrow> Ok ()
           | Some f \<Rightarrow> validate_final_election H e f)))))"

definition validate_scale_up_failover_transition ::
    "(bytes \<Rightarrow> bytes) \<Rightarrow> ScaleUpFailoverEvidence \<Rightarrow> ConfigurationDescriptor \<Rightarrow> EffectivePolicy \<Rightarrow> check" where
  "validate_scale_up_failover_transition H e current p =
     and_then (validate_scale_up_failover_evidence H e) (\<lambda>_.
     and_then (validate_failover_configuration H e current p) (\<lambda>_.
       if current = sf_provisional_configuration e then Ok ()
       else case Option.bind (sf_final_election e)
                   (\<lambda>f. fe_final_configuration H f (sf_provisional_configuration e)) of
           None \<Rightarrow> Err (su_invalid ''failover authority differs from provisional and final election evidence'')
         | Some final \<Rightarrow>
             if current \<noteq> final
             then Err (su_invalid ''failover authority differs from provisional and final election evidence'')
             else Ok ()))"

section \<open>Cleanup and receipt\<close>

definition validate_scale_up_cleanup :: "(bytes \<Rightarrow> bytes) \<Rightarrow> ScaleUpCleanup \<Rightarrow> check" where
  "validate_scale_up_cleanup H c =
     (let prov = sc_provisioning c; res = sc_resources c
      in and_then (validate_scale_up_provisioning H prov) (\<lambda>_.
         and_then (ok_or (pi_scale_up prov) (su_invalid ''cleanup requires scale-up provisioning'')) (\<lambda>s.
         let target = target_identity H prov (sp_resource_uid s)
         in if sc_target c \<noteq> target
               \<or> \<not> present_uid (ci_pod res) (\<lambda>u. u = pi_pod_uid prov)
               \<or> \<not> present_uid (ci_pvc res) (\<lambda>u. u = pi_pvc_uid prov)
               \<or> cleanup_name (ci_endpoint res) \<noteq> derive_replica_endpoint_name H (sp_resource_uid s) target
            then Err (su_invalid ''cleanup differs from exact candidate'')
            else for_each [ci_pod res, ci_pvc res, ci_endpoint res] (\<lambda>r.
              if cleanup_name r = '''' \<or> present_uid r (\<lambda>u. u = '''')
              then Err (su_invalid ''cleanup requires exact identity or positive absence'') else Ok ()))))"

definition failover_receipt_check ::
    "(bytes \<Rightarrow> bytes) \<Rightarrow> ScaleUpReceipt \<Rightarrow> ConfigurationMember \<Rightarrow> check" where
  "failover_receipt_check H r primary =
     and_then (ok_or (expanded_failover_evidence H r)
                 (su_invalid ''failover receipt has invalid provisional authority'')) (\<lambda>e.
     and_then (ok_or (ur_failover_safe_lsn r)
                 (su_invalid ''failover receipt omitted its fenced safe LSN'')) (\<lambda>safe.
     and_then (validate_scale_up_failover_transition H e (ur_accepted_configuration r)
                 (su_current_policy (ur_intent r))) (\<lambda>_.
     and_then (ok_or (sf_final_election e)
                 (su_invalid ''failover receipt omitted final election evidence'')) (\<lambda>f.
       if fe_final_configuration H f (sf_provisional_configuration e) \<noteq> Some (ur_accepted_configuration r)
          \<or> fe_safe_lsn f \<noteq> Some safe
       then Err (su_invalid ''failover receipt differs from final election evidence'')
       else if \<not> (\<exists>w \<in> set (ur_current_only_write_quorum r).
                    uw_identity w = m_identity primary \<and> uw_verified_replication_lsn w \<ge> safe
                    \<and> uw_write_status w = Granted)
       then Err (su_invalid ''failover receipt primary did not certify the fenced safe LSN'')
       else Ok ()))))"

definition validate_scale_up_receipt :: "(bytes \<Rightarrow> bytes) \<Rightarrow> ScaleUpReceipt \<Rightarrow> check" where
  "validate_scale_up_receipt H r =
     (let accepted = ur_accepted_configuration r; i = ur_intent r
      in and_then (validate_scale_up H i) (\<lambda>_.
         and_then (ok_or (find (\<lambda>m. m_replica_id m = primary_id accepted \<and> m_role m = Primary) (members accepted))
                     (su_invalid ''receipt accepted configuration has no primary'')) (\<lambda>primary.
         and_then
           (if ur_failover_evidence r \<noteq> None then failover_receipt_check H r primary
            else if accepted \<noteq> su_current_configuration i
            then Err (su_invalid ''ordinary receipt accepted configuration differs from scale-up intent'')
            else if ur_failover_safe_lsn r \<noteq> None
            then Err (su_invalid ''ordinary receipt must not carry a failover-safe LSN'')
            else Ok ()) (\<lambda>_.
         validate_scale_up_witnesses H i accepted accepted (ur_current_only_write_quorum r)
           (p_write_quorum (su_current_policy i)) False (Some (m_identity primary))))))"

section \<open>Configuration command\<close>

definition scale_up_evidence_check ::
    "(bytes \<Rightarrow> bytes) \<Rightarrow> EnsureConfiguration \<Rightarrow> ScaleUpConfigurationEvidence \<Rightarrow> check" where
  "scale_up_evidence_check H c ev =
     (case ev of
        Admission i \<Rightarrow>
          if ec_transition_kind c \<noteq> TransitionKind.ScaleUp
             \<or> ec_current_configuration c \<noteq> su_current_configuration i
             \<or> ec_current_epoch c \<noteq> c_epoch (su_current_configuration i)
             \<or> ec_failover_safe_lsn c \<noteq> None
          then Err (su_invalid ''admission command has the wrong transition kind'') else Ok ()
      | FailoverEvidence e \<Rightarrow>
          and_then (validate_scale_up_failover_evidence H e) (\<lambda>_.
          let provisional = (ec_failover_safe_lsn c = None \<and> \<not> ec_current_only c
                \<and> ec_primary_write_status c = ReconfigurationPending
                \<and> sf_final_election e = None
                \<and> ec_current_configuration c = sf_provisional_configuration e);
              finalized = is_some_and (sf_final_election e) (\<lambda>f.
                ec_failover_safe_lsn c = fe_safe_lsn f
                \<and> fe_final_configuration H f (sf_provisional_configuration e) = Some (ec_current_configuration c))
          in if ec_transition_kind c \<noteq> Failover
                \<or> ec_current_epoch c \<noteq> c_epoch (ec_current_configuration c)
                \<or> (\<not> provisional \<and> \<not> finalized)
                \<or> (\<not> ec_current_only c \<and> ec_primary_write_status c = Granted)
                \<or> (ec_current_only c \<and> \<not> finalized)
             then Err (su_invalid ''failover command has the wrong transition kind'') else Ok ()))"

definition scale_up_stage_check :: "EnsureConfiguration \<Rightarrow> ScaleUpIntent \<Rightarrow> check" where
  "scale_up_stage_check c i =
     (if ec_current_only c
      then (if ec_previous_configuration c \<noteq> None \<or> ec_previous_epoch c \<noteq> None
               \<or> su_build_id i \<notin> set (ec_retire_build_ids c)
            then Err (su_invalid ''current-only completion must omit PC and retire the scale-up build'')
            else Ok ())
      else (if ec_previous_configuration c \<noteq> Some (su_previous_configuration i)
               \<or> ec_previous_epoch c \<noteq> Some (c_epoch (su_previous_configuration i))
               \<or> ec_retire_build_ids c \<noteq> []
            then Err (su_invalid ''PC/CC command differs from scale-up authority'') else Ok ()))"

definition ec_target :: "EnsureConfiguration \<Rightarrow> ReplicaIdentity" where
  "ec_target c =
     \<lparr>replica_id = ec_local_replica_id c, instance_id = ec_expected_instance_id c,
      agent_generation = ec_expected_agent_generation c\<rparr>"

definition validate_scale_up_configuration :: "(bytes \<Rightarrow> bytes) \<Rightarrow> EnsureConfiguration \<Rightarrow> check" where
  "validate_scale_up_configuration H c =
     and_then (ok_or (ec_scale_up_evidence c)
                 (su_invalid ''missing scale-up configuration evidence'')) (\<lambda>ev.
     let i = sce_intent ev
     in and_then (validate_scale_up H i) (\<lambda>_.
        if ec_previous_policy c \<noteq> Some (su_previous_policy i)
           \<or> ec_effective_policy c \<noteq> su_current_policy i
           \<or> ec_secondary_removal_evidence c \<noteq> None \<or> ec_switchover_handoff c \<noteq> None
           \<or> ec_retire_switchover_preparation_ids c \<noteq> []
        then Err (su_invalid ''configuration command differs from scale-up authority'')
        else and_then (scale_up_evidence_check H c ev) (\<lambda>_.
        and_then (scale_up_stage_check c i) (\<lambda>_.
        if \<not> (\<exists>m \<in> set (members (su_current_configuration i) @ members (su_previous_configuration i)).
                m_identity m = ec_target c)
        then Err (su_invalid ''command target is outside scale-up authority'')
        else if ec_operation_id c \<noteq> su_command_operation_id H i
                  (if ec_current_only c then SuCurrentOnly else SuPreviousCurrent) (ec_target c)
                  (ec_current_configuration c)
        then Err (su_invalid ''command operation ID differs from scale-up authority'')
        else Ok ()))))"

end
