(* ===== verification/Managed_Configuration.thy ===== *)
theory Managed_Configuration
  imports Scale_Down
begin

text \<open>
  \<open>kuberic-runtime/src/replicator/configuration.rs\<close> with the runtime error type
  (\<open>error.rs\<close>), the replication messages (\<open>transport.rs\<close>) and the authority fence
  (\<open>authority.rs\<close>): the engine's projection of the durable authority and its fence check on
  replication items and acknowledgements.
\<close>

section \<open>Errors and messages\<close>

datatype (plugins only: code) RuntimeError =
    Closed | NotOpen | RtNotPrimary | OperationCancelled | ReplicaRemoved i64
  | RtReconfigurationPending | QueueFull | WriteClosed AccessStatus | ReadClosed AccessStatus
  | AuthorityNotAdmitted | AuthorityMismatch string | InvalidReplication string
  | Application string | ControlPlane string | EffectOutOfOrder u64 u64 | EffectConflict u64
  | WriteCompletionClosed | LocalWritePending string | DataLossFenced

record ReplicationItem =
  it_sender :: ReplicaIdentity
  it_receiver :: ReplicaIdentity
  it_epoch :: Epoch
  it_previous_configuration_id :: "ConfigurationId option"
  it_current_configuration_id :: ConfigurationId
  it_lsn :: i64
  it_committed_lsn :: i64
  it_data :: bytes

record ReplicationAck =
  ack_sender :: ReplicaIdentity
  ack_receiver :: ReplicaIdentity
  ack_epoch :: Epoch
  ack_previous_configuration_id :: "ConfigurationId option"
  ack_current_configuration_id :: ConfigurationId
  ack_received_lsn :: i64
  ack_applied_lsn :: i64
  ack_committed_lsn :: i64

record AuthorityFence =
  f_epoch :: Epoch
  f_previous_configuration_id :: "ConfigurationId option"
  f_current_configuration_id :: ConfigurationId

section \<open>The managed configuration\<close>

record ManagedReplicaConfiguration =
  mc_local_identity :: ReplicaIdentity
  mc_previous_configuration :: "ConfigurationDescriptor option"
  mc_current_configuration :: ConfigurationDescriptor
  mc_switchover_handoff :: "SwitchoverHandoff option"
  mc_secondary_removal :: "SecondaryRemovalEvidence option"
  mc_scale_up :: "ScaleUpConfigurationEvidence option"
  mc_build_kind :: BuildAuthorityKind

definition mc_contains_member :: "ManagedReplicaConfiguration \<Rightarrow> ReplicaIdentity \<Rightarrow> bool" where
  "mc_contains_member a x \<longleftrightarrow>
     (\<exists>m \<in> set (members (mc_current_configuration a)). m_identity m = x)
     \<or> is_some_and (mc_previous_configuration a) (\<lambda>p. \<exists>m \<in> set (members p). m_identity m = x)"

definition mc_validate :: "ManagedReplicaConfiguration \<Rightarrow> (RuntimeError, unit) result" where
  "mc_validate a =
     (if \<not> mc_contains_member a (mc_local_identity a)
      then Err (AuthorityMismatch ''local identity is outside executable replication configuration'')
      else if is_some_and (mc_previous_configuration a)
                (\<lambda>p. c_epoch p \<ge> c_epoch (mc_current_configuration a))
      then Err (AuthorityMismatch ''executable replication configuration did not advance its epoch'')
      else Ok ())"

definition mc_is_current_only_completion_of ::
    "ManagedReplicaConfiguration \<Rightarrow> ManagedReplicaConfiguration \<Rightarrow> bool" where
  "mc_is_current_only_completion_of a existing \<longleftrightarrow>
     mc_local_identity a = mc_local_identity existing
     \<and> mc_current_configuration a = mc_current_configuration existing
     \<and> mc_previous_configuration existing \<noteq> None \<and> mc_previous_configuration a = None
     \<and> mc_switchover_handoff a = mc_switchover_handoff existing
     \<and> mc_scale_up a = mc_scale_up existing
     \<and> (case (mc_secondary_removal a, mc_secondary_removal existing) of
          (Some next, Some old) \<Rightarrow>
            re_preparation next = re_preparation old
            \<and> re_previous_read_quorum next = re_previous_read_quorum old
            \<and> (re_reduced_write_quorum old = []
               \<or> re_reduced_write_quorum next = re_reduced_write_quorum old)
        | (None, None) \<Rightarrow> True
        | _ \<Rightarrow> False)"

definition mc_fence :: "ManagedReplicaConfiguration \<Rightarrow> AuthorityFence" where
  "mc_fence a =
     \<lparr>f_epoch = c_epoch (mc_current_configuration a),
      f_previous_configuration_id = map_option configuration_id (mc_previous_configuration a),
      f_current_configuration_id = configuration_id (mc_current_configuration a)\<rparr>"

definition mc_primary_identity :: "ManagedReplicaConfiguration \<Rightarrow> (RuntimeError, ReplicaIdentity) result" where
  "mc_primary_identity a =
     (let c = mc_current_configuration a
      in expect (map_option m_identity
           (find (\<lambda>m. m_replica_id m = primary_id c \<and> m_role m = Primary) (members c))))"

definition mc_local_role :: "ManagedReplicaConfiguration \<Rightarrow> (RuntimeError, ReplicaRole) result" where
  "mc_local_role a =
     (let at = \<lambda>c. find (\<lambda>m. m_identity m = mc_local_identity a) (members c)
      in expect (map_option m_role
           (or_else (at (mc_current_configuration a)) (Option.bind (mc_previous_configuration a) at))))"

definition mc_validate_fence ::
    "ManagedReplicaConfiguration \<Rightarrow> ReplicaIdentity \<Rightarrow> ReplicaIdentity \<Rightarrow> Epoch \<Rightarrow> ConfigurationId option
      \<Rightarrow> ConfigurationId \<Rightarrow> (RuntimeError, unit) result" where
  "mc_validate_fence a sender receiver e prev cur =
     and_then (mc_primary_identity a) (\<lambda>primary.
       if sender \<noteq> primary
       then Err (AuthorityMismatch ''replication sender is not the exact configured primary'')
       else if \<not> mc_contains_member a receiver
       then Err (AuthorityMismatch ''replication receiver is outside executable configuration'')
       else if e \<noteq> c_epoch (mc_current_configuration a)
            \<or> cur \<noteq> configuration_id (mc_current_configuration a)
            \<or> prev \<noteq> map_option configuration_id (mc_previous_configuration a)
       then Err (AuthorityMismatch ''replication epoch or configuration fence is stale'')
       else Ok ())"

definition mc_validate_envelope ::
    "ManagedReplicaConfiguration \<Rightarrow> ReplicationItem \<Rightarrow> (RuntimeError, unit) result" where
  "mc_validate_envelope a i =
     mc_validate_fence a (it_sender i) (it_receiver i) (it_epoch i) (it_previous_configuration_id i)
       (it_current_configuration_id i)"

definition mc_validate_acknowledgement ::
    "ManagedReplicaConfiguration \<Rightarrow> ReplicationAck \<Rightarrow> (RuntimeError, unit) result" where
  "mc_validate_acknowledgement a k =
     mc_validate_fence a (ack_sender k) (ack_receiver k) (ack_epoch k) (ack_previous_configuration_id k)
       (ack_current_configuration_id k)"

section \<open>Fence lemmas\<close>

lemma mc_validate_fence_Ok_iff [fence_simps]:
  "mc_validate_fence a s r e prev cur = Ok () \<longleftrightarrow>
     mc_primary_identity a = Ok s \<and> mc_contains_member a r
     \<and> \<lparr>f_epoch = e, f_previous_configuration_id = prev, f_current_configuration_id = cur\<rparr> = mc_fence a"
  by (auto simp: mc_validate_fence_def mc_fence_def)

lemma mc_contains_member_iff:
  "mc_contains_member a x \<longleftrightarrow> x \<in> exact_identities (mc_current_configuration a)
     \<or> (\<exists>p. mc_previous_configuration a = Some p \<and> x \<in> exact_identities p)"
  by (auto simp: mc_contains_member_def is_some_and_iff exact_identities_iff)

lemma mc_primary_identity_validated:
  assumes "validate_configuration H (mc_current_configuration a) p = Ok ()"
  shows "\<exists>m \<in> set (members (mc_current_configuration a)).
    mc_primary_identity a = Ok (m_identity m) \<and> m_role m = Primary"
proof -
  obtain m where "find (\<lambda>m. m_replica_id m = primary_id (mc_current_configuration a) \<and> m_role m = Primary)
      (members (mc_current_configuration a)) = Some m"
    and "m \<in> set (members (mc_current_configuration a))" "m_role m = Primary"
    using validated_primary_found [OF assms] .
  then show ?thesis by (intro bexI [of _ m]) (auto simp: mc_primary_identity_def Let_def)
qed

end
