(* ===== verification/Authority.thy ===== *)
theory Authority
  imports Scale_Up Managed_Configuration
begin

text \<open>
  \<open>kuberic-runtime/src/authority.rs\<close>: the durable authority a replica admits, the build
  envelope check, and the values the durable store keeps. \<open>D\<close> renders a validation error as
  text (the \<open>Display\<close> instance derived by the crate \<open>thiserror\<close>).
\<close>

section \<open>Contract errors and messages\<close>

datatype ContractError = CtAuthorityMismatch string | CtPersistence string

fun runtime_error_of_contract :: "ContractError \<Rightarrow> RuntimeError" where
  "runtime_error_of_contract (CtAuthorityMismatch m) = AuthorityMismatch m"
| "runtime_error_of_contract (CtPersistence m) = Application m"

type_synonym 'a contract = "(ContractError, 'a) result"

definition contract_of_check :: "(ValidationError \<Rightarrow> string) \<Rightarrow> check \<Rightarrow> unit contract" where
  "contract_of_check D r = map_err (\<lambda>e. CtAuthorityMismatch (D e)) r"

record CopyItem =
  cpi_build_id :: OperationId
  cpi_sender :: ReplicaIdentity
  cpi_receiver :: ReplicaIdentity
  cpi_epoch :: Epoch
  cpi_current_configuration_id :: ConfigurationId
  cpi_sequence :: u64
  cpi_lsn :: i64
  cpi_committed_lsn :: i64
  cpi_replication_boundary_lsn :: i64
  cpi_catch_up_boundary_lsn :: "i64 option"
  cpi_final_item :: bool
  cpi_snapshot_chunk :: bool
  cpi_data :: bytes

definition validate_build_envelope ::
    "(bytes \<Rightarrow> bytes) \<Rightarrow> (ValidationError \<Rightarrow> string) \<Rightarrow> BuildAuthority \<Rightarrow> CopyItem \<Rightarrow> unit contract" where
  "validate_build_envelope H D a x =
     and_then (contract_of_check D (build_authority_validate H a)) (\<lambda>_.
       if cpi_build_id x \<noteq> ba_build_id a \<or> cpi_sender x \<noteq> ba_source a \<or> cpi_receiver x \<noteq> ba_target a
          \<or> cpi_epoch x \<noteq> c_epoch (ba_current_configuration a)
          \<or> cpi_current_configuration_id x \<noteq> configuration_id (ba_current_configuration a)
          \<or> cpi_replication_boundary_lsn x \<noteq> ba_replication_boundary_lsn a
       then Err (CtAuthorityMismatch ''copy item does not match durable build authority'')
       else if (cpi_final_item x \<noteq> (cpi_catch_up_boundary_lsn x \<noteq> None))
          \<or> (cpi_final_item x \<and> cpi_committed_lsn x \<noteq> ba_replication_boundary_lsn a)
          \<or> is_some_and (cpi_catch_up_boundary_lsn x) (\<lambda>b. b < ba_replication_boundary_lsn a)
       then Err (CtAuthorityMismatch ''copy item has invalid post-enumeration catch-up authority'')
       else Ok ())"

section \<open>Durable values\<close>

record ReplicationProgress =
  rpg_fence :: AuthorityFence
  rpg_verified_lsn :: i64

record DurableBuildProgress =
  bp_authority :: BuildAuthority
  bp_last_sequence :: u64
  bp_durable_lsn :: i64
  bp_completed :: bool
  bp_catch_up_boundary_lsn :: "i64 option"

datatype LocalWritePhase = Reserved | Registered | Committed

record DurableLocalWrite =
  lw_operation_id :: OperationId
  lw_lsn :: i64
  lw_committed_lsn :: i64
  lw_data :: bytes
  lw_phase :: LocalWritePhase

record BuildSelection =
  bs_authority :: BuildAuthority
  bs_generation :: u64

record AdmittedAuthority =
  au_local_identity :: ReplicaIdentity
  au_transition_kind :: "TransitionKind option"
  au_previous_configuration :: "ConfigurationDescriptor option"
  au_current_configuration :: ConfigurationDescriptor
  au_switchover_handoff :: "SwitchoverHandoff option"
  au_secondary_removal :: "SecondaryRemovalEvidence option"
  au_scale_up :: "ScaleUpConfigurationEvidence option"

record RetiredAuthority =
  rta_committed :: SecondaryScaleDownCleanup
  rta_report :: ReplicaRetirementReport

section \<open>Admitted authority\<close>

definition au_is_current_only_completion_of ::
    "(bytes \<Rightarrow> bytes) \<Rightarrow> AdmittedAuthority \<Rightarrow> AdmittedAuthority \<Rightarrow> bool" where
  "au_is_current_only_completion_of H a existing \<longleftrightarrow>
     au_local_identity a = au_local_identity existing
     \<and> au_current_configuration a = au_current_configuration existing
     \<and> au_previous_configuration existing \<noteq> None \<and> au_previous_configuration a = None
     \<and> au_transition_kind a = None
     \<and> au_switchover_handoff a = au_switchover_handoff existing
     \<and> au_scale_up a = au_scale_up existing
     \<and> (case (au_secondary_removal a, au_secondary_removal existing) of
          (Some next, Some old) \<Rightarrow>
            re_preparation next = re_preparation old
            \<and> re_previous_read_quorum next = re_previous_read_quorum old
            \<and> (re_reduced_write_quorum old = []
               \<or> re_reduced_write_quorum next = re_reduced_write_quorum old)
            \<and> is_ok (validate_secondary_removal_evidence H next True)
        | (None, None) \<Rightarrow> True
        | _ \<Rightarrow> False)"

definition au_fence :: "AdmittedAuthority \<Rightarrow> AuthorityFence" where
  "au_fence a =
     \<lparr>f_epoch = c_epoch (au_current_configuration a),
      f_previous_configuration_id = map_option configuration_id (au_previous_configuration a),
      f_current_configuration_id = configuration_id (au_current_configuration a)\<rparr>"

definition au_contains_member :: "AdmittedAuthority \<Rightarrow> ReplicaIdentity \<Rightarrow> bool" where
  "au_contains_member a x \<longleftrightarrow>
     (\<exists>m \<in> set (members (au_current_configuration a)). m_identity m = x)
     \<or> is_some_and (au_previous_configuration a) (\<lambda>p. \<exists>m \<in> set (members p). m_identity m = x)"

text \<open>The kind and the previous configuration agree with those of an intent: both or neither.\<close>

definition previous_matches ::
    "AdmittedAuthority \<Rightarrow> ConfigurationDescriptor \<Rightarrow> TransitionKind \<Rightarrow> bool" where
  "previous_matches a p kind \<longleftrightarrow>
     au_previous_configuration a = map_option (\<lambda>_. p) (au_previous_configuration a)
     \<and> au_transition_kind a = map_option (\<lambda>_. kind) (au_previous_configuration a)"

definition au_validate_removal ::
    "(bytes \<Rightarrow> bytes) \<Rightarrow> (ValidationError \<Rightarrow> string) \<Rightarrow> AdmittedAuthority \<Rightarrow> SecondaryRemovalEvidence
      \<Rightarrow> unit contract" where
  "au_validate_removal H D a e =
     and_then (contract_of_check D
       (validate_secondary_removal_evidence H e (au_previous_configuration a = None))) (\<lambda>_.
       let i = rp_intent (re_preparation e)
       in if au_current_configuration a \<noteq> sd_current_configuration i
             \<or> \<not> previous_matches a (sd_previous_configuration i) SecondaryScaleDown
             \<or> au_switchover_handoff a \<noteq> None \<or> au_scale_up a \<noteq> None
             \<or> \<not> (\<exists>m \<in> set (members (sd_current_configuration i)). m_identity m = au_local_identity a)
          then Err (CtAuthorityMismatch ''reduction differs from exact prepared authority'')
          else Ok ())"

definition au_validate_scale_up ::
    "(bytes \<Rightarrow> bytes) \<Rightarrow> (ValidationError \<Rightarrow> string) \<Rightarrow> AdmittedAuthority \<Rightarrow> ScaleUpConfigurationEvidence
      \<Rightarrow> unit contract" where
  "au_validate_scale_up H D a ev =
     (let i = sce_intent ev
      in and_then (contract_of_check D (validate_scale_up H i)) (\<lambda>_.
         if au_secondary_removal a \<noteq> None \<or> au_switchover_handoff a \<noteq> None
         then Err (CtAuthorityMismatch ''scale-up authority cannot carry removal or switchover evidence'')
         else and_then (case ev of
             Admission _ \<Rightarrow>
               if au_current_configuration a \<noteq> su_current_configuration i
                  \<or> \<not> previous_matches a (su_previous_configuration i) TransitionKind.ScaleUp
               then Err (CtAuthorityMismatch ''admitted authority differs from exact scale-up intent'')
               else Ok ()
           | FailoverEvidence e \<Rightarrow>
               and_then (contract_of_check D (validate_scale_up_failover_evidence H e)) (\<lambda>_.
               and_then (contract_of_check D
                 (validate_scale_up_failover_transition H e (au_current_configuration a) (su_current_policy i))) (\<lambda>_.
               if \<not> previous_matches a (su_previous_configuration i) Failover
               then Err (CtAuthorityMismatch ''admitted failover differs from carried scale-up intent'')
               else Ok ()))) (\<lambda>_.
         if \<not> (\<exists>m \<in> set (members (au_current_configuration a)). m_identity m = au_local_identity a)
         then Err (CtAuthorityMismatch ''local identity is outside admitted scale-up authority'')
         else Ok ())))"

definition au_relationship ::
    "(bytes \<Rightarrow> bytes) \<Rightarrow> (ValidationError \<Rightarrow> string) \<Rightarrow> AdmittedAuthority \<Rightarrow> EffectivePolicy \<Rightarrow> unit contract" where
  "au_relationship H D a policy =
     (case (au_previous_configuration a, au_transition_kind a) of
        (Some previous, Some kind) \<Rightarrow>
          if kind \<in> {Replacement, Failover, PlannedSwitchover}
          then contract_of_check D
            (validate_transition_relationship H kind (Some previous) (au_current_configuration a) policy)
          else Err (CtAuthorityMismatch
            ''Previous Configuration requires replacement, failover, or planned switchover authority'')
      | (Some previous, None) \<Rightarrow> Err (CtAuthorityMismatch
            ''Previous Configuration requires replacement, failover, or planned switchover authority'')
      | (None, None) \<Rightarrow> Ok ()
      | (None, Some kind) \<Rightarrow>
          if kind = Bootstrap then Ok ()
          else Err (CtAuthorityMismatch ''non-bootstrap transition requires a Previous Configuration''))"

definition handoff_previous_valid :: "AdmittedAuthority \<Rightarrow> SwitchoverHandoff \<Rightarrow> ConfigurationDescriptor \<Rightarrow> bool" where
  "handoff_previous_valid a h p =
     (let primary_in = (\<lambda>x. \<exists>m \<in> set (members p). m_identity m = x \<and> m_role m = Primary)
      in if primary_in (sh_source h)
         then configuration_id p = sh_starting_configuration_id h \<and> c_epoch p = sh_starting_epoch h
              \<and> primary_id (au_current_configuration a) = replica_id (sh_target h)
         else primary_in (sh_target h)
              \<and> primary_id (au_current_configuration a) = replica_id (sh_source h)
              \<and> data_loss_number (c_epoch p) = data_loss_number (sh_starting_epoch h)
              \<and> configuration_number (c_epoch p) > configuration_number (sh_starting_epoch h))"

definition au_handoff_check :: "AdmittedAuthority \<Rightarrow> unit contract" where
  "au_handoff_check a =
     (let c = au_current_configuration a
      in case au_switchover_handoff a of
           Some h \<Rightarrow>
             if (au_transition_kind a \<noteq> Some PlannedSwitchover \<and> au_previous_configuration a \<noteq> None)
                \<or> sh_preparation_generation h = 0
                \<or> \<not> is_none_or (au_previous_configuration a) (handoff_previous_valid a h)
                \<or> data_loss_number (sh_starting_epoch h) \<noteq> data_loss_number (c_epoch c)
                \<or> configuration_number (sh_starting_epoch h) \<ge> configuration_number (c_epoch c)
                \<or> sh_source h = sh_target h
                \<or> \<not> (\<exists>m \<in> set (members c). m_identity m = sh_source h)
                \<or> \<not> (\<exists>m \<in> set (members c). m_identity m = sh_target h)
                \<or> (primary_id c \<noteq> replica_id (sh_source h) \<and> primary_id c \<noteq> replica_id (sh_target h))
             then Err (CtAuthorityMismatch ''switchover handoff contradicts admitted authority'')
             else Ok ()
         | None \<Rightarrow>
             if au_transition_kind a = Some PlannedSwitchover
             then Err (CtAuthorityMismatch ''planned switchover authority requires its handoff certificate'')
             else Ok ())"

definition au_validate ::
    "(bytes \<Rightarrow> bytes) \<Rightarrow> (ValidationError \<Rightarrow> string) \<Rightarrow> AdmittedAuthority \<Rightarrow> unit contract" where
  "au_validate H D a =
     (case au_secondary_removal a of
        Some e \<Rightarrow> au_validate_removal H D a e
      | None \<Rightarrow>
          (case au_scale_up a of
             Some ev \<Rightarrow> au_validate_scale_up H D a ev
           | None \<Rightarrow>
               and_then (contract_of_check D (validate_configuration H (au_current_configuration a) None)) (\<lambda>_.
               and_then (ok_or (fixed_policy (word_of_nat (length (members (au_current_configuration a)))) 0)
                           (CtAuthorityMismatch ''configuration must contain members'')) (\<lambda>policy.
               and_then (au_relationship H D a policy) (\<lambda>_.
               and_then (au_handoff_check a) (\<lambda>_.
               if \<not> au_contains_member a (au_local_identity a)
               then Err (CtAuthorityMismatch ''local identity is outside admitted authority'')
               else Ok ()))))))"

definition au_primary_identity :: "AdmittedAuthority \<Rightarrow> (ContractError, ReplicaIdentity) result" where
  "au_primary_identity a =
     (let c = au_current_configuration a
      in expect (map_option m_identity
           (find (\<lambda>m. m_replica_id m = primary_id c \<and> m_role m = Primary) (members c))))"

definition au_local_role :: "AdmittedAuthority \<Rightarrow> (ContractError, ReplicaRole) result" where
  "au_local_role a =
     (let at = \<lambda>c. find (\<lambda>m. m_identity m = au_local_identity a) (members c)
      in expect (map_option m_role
           (or_else (at (au_current_configuration a)) (Option.bind (au_previous_configuration a) at))))"

definition au_validate_fence ::
    "AdmittedAuthority \<Rightarrow> ReplicaIdentity \<Rightarrow> ReplicaIdentity \<Rightarrow> Epoch \<Rightarrow> ConfigurationId option
      \<Rightarrow> ConfigurationId \<Rightarrow> unit contract" where
  "au_validate_fence a sender receiver e prev cur =
     and_then (au_primary_identity a) (\<lambda>primary.
       if sender \<noteq> primary
       then Err (CtAuthorityMismatch ''replication sender is not the exact admitted primary'')
       else if \<not> au_contains_member a receiver
       then Err (CtAuthorityMismatch ''replication receiver is outside admitted authority'')
       else if e \<noteq> c_epoch (au_current_configuration a)
            \<or> cur \<noteq> configuration_id (au_current_configuration a)
            \<or> prev \<noteq> map_option configuration_id (au_previous_configuration a)
       then Err (CtAuthorityMismatch ''replication epoch or configuration fence is stale'')
       else Ok ())"

definition au_validate_envelope :: "AdmittedAuthority \<Rightarrow> ReplicationItem \<Rightarrow> unit contract" where
  "au_validate_envelope a i =
     au_validate_fence a (it_sender i) (it_receiver i) (it_epoch i) (it_previous_configuration_id i)
       (it_current_configuration_id i)"

section \<open>Retired authority\<close>

definition rta_validate ::
    "(bytes \<Rightarrow> bytes) \<Rightarrow> (ValidationError \<Rightarrow> string) \<Rightarrow> RetiredAuthority \<Rightarrow> ReplicaIdentity \<Rightarrow> unit contract" where
  "rta_validate H D r local =
     and_then (contract_of_check D
       (and_then (validate_secondary_scale_down_cleanup H (rta_committed r)) (\<lambda>_.
          validate_replica_retirement H (rta_report r)))) (\<lambda>_.
       if rr_intent (rta_report r) \<noteq> rp_intent (re_preparation (sdc_evidence (rta_committed r)))
          \<or> sd_target (rr_intent (rta_report r)) \<noteq> local
          \<or> is_some_and (sdc_retirement (rta_committed r)) (\<lambda>x. x \<noteq> rta_report r)
       then Err (CtAuthorityMismatch ''retirement target or evidence differs'')
       else Ok ())"

end
