(* ===== verification/Btree_Map.thy ===== *)
theory Btree_Map
  imports Kuberic_Prelude
begin

text \<open>
  The ordered maps of the Rust standard library (\<open>std::collections::BTreeMap\<close>) as
  strictly ascending association lists, and the interface the replication components rely
  on: the locale \<open>ordered_map\<close> states what a lookup returns after each operation and that
  iteration is in key order. The list operations are an interpretation of it.
\<close>

section \<open>Ascending association lists\<close>

type_synonym ('k, 'v) btree_map = "('k \<times> 'v) list"

definition bt_wf :: "('k::linorder, 'v) btree_map \<Rightarrow> bool" where
  "bt_wf m \<longleftrightarrow> sorted_wrt (<) (map fst m)"

definition bt_get :: "('k, 'v) btree_map \<Rightarrow> 'k \<Rightarrow> 'v option" where
  "bt_get m k = map_of m k"

fun bt_insert :: "'k::linorder \<Rightarrow> 'v \<Rightarrow> ('k, 'v) btree_map \<Rightarrow> ('k, 'v) btree_map" where
  "bt_insert k v [] = [(k, v)]"
| "bt_insert k v (e # m) =
     (if k < fst e then (k, v) # e # m
      else if k = fst e then (k, v) # m
      else e # bt_insert k v m)"

definition bt_remove :: "'k \<Rightarrow> ('k, 'v) btree_map \<Rightarrow> ('k, 'v) btree_map" where
  "bt_remove k m = filter (\<lambda>e. fst e \<noteq> k) m"

text \<open>\<open>retain\<close> with a predicate on the key; \<open>split_off\<close> returns the part at or above the key.\<close>

definition bt_retain :: "('k \<Rightarrow> bool) \<Rightarrow> ('k, 'v) btree_map \<Rightarrow> ('k, 'v) btree_map" where
  "bt_retain P m = filter (\<lambda>e. P (fst e)) m"

definition bt_split_off :: "'k::linorder \<Rightarrow> ('k, 'v) btree_map \<Rightarrow> ('k, 'v) btree_map" where
  "bt_split_off k m = filter (\<lambda>e. k \<le> fst e) m"

definition bt_keys :: "('k, 'v) btree_map \<Rightarrow> 'k list" where
  "bt_keys m = map fst m"

definition bt_values :: "('k, 'v) btree_map \<Rightarrow> 'v list" where
  "bt_values m = map snd m"

definition bt_contains_key :: "('k, 'v) btree_map \<Rightarrow> 'k \<Rightarrow> bool" where
  "bt_contains_key m k \<longleftrightarrow> bt_get m k \<noteq> None"

text \<open>\<open>entry(k).and_modify(|p| *p = (*p).max(v)).or_insert(v)\<close>.\<close>

definition bt_raise :: "'k::linorder \<Rightarrow> 'v::linorder \<Rightarrow> ('k, 'v) btree_map \<Rightarrow> ('k, 'v) btree_map" where
  "bt_raise k v m = (case bt_get m k of None \<Rightarrow> bt_insert k v m | Some w \<Rightarrow> bt_insert k (max w v) m)"

text \<open>\<open>entry(k).or_default().push(x)\<close>.\<close>

definition bt_push :: "'k::linorder \<Rightarrow> 'a \<Rightarrow> ('k, 'a list) btree_map \<Rightarrow> ('k, 'a list) btree_map" where
  "bt_push k x m = bt_insert k (unwrap_or (bt_get m k) [] @ [x]) m"

section \<open>Lookup and key laws\<close>

lemma bt_get_Nil [simp]: "bt_get [] k = None"
  by (simp add: bt_get_def)

lemma bt_get_insert [simp]: "bt_get (bt_insert k v m) j = (if j = k then Some v else bt_get m j)"
  by (induction m) (auto simp: bt_get_def)

lemma bt_get_remove [simp]: "bt_get (bt_remove k m) j = (if j = k then None else bt_get m j)"
  by (induction m) (auto simp: bt_get_def bt_remove_def)

lemma bt_get_retain [simp]: "bt_get (bt_retain P m) j = (if P j then bt_get m j else None)"
  by (induction m) (auto simp: bt_get_def bt_retain_def)

lemma bt_get_split_off [simp]: "bt_get (bt_split_off k m) j = (if k \<le> j then bt_get m j else None)"
  by (induction m) (auto simp: bt_get_def bt_split_off_def)

lemma bt_get_raise [simp]:
  "bt_get (bt_raise k v m) j =
     (if j = k then Some (case bt_get m k of None \<Rightarrow> v | Some w \<Rightarrow> max w v) else bt_get m j)"
  by (auto simp: bt_raise_def split: option.splits)

lemma bt_get_push [simp]:
  "bt_get (bt_push k x m) j = (if j = k then Some (unwrap_or (bt_get m k) [] @ [x]) else bt_get m j)"
  by (simp add: bt_push_def)

lemma bt_keys_Nil [simp]: "bt_keys [] = []"
  by (simp add: bt_keys_def)

lemma set_bt_keys: "k \<in> set (bt_keys m) \<longleftrightarrow> bt_get m k \<noteq> None"
  by (simp add: bt_keys_def bt_get_def map_of_eq_None_iff)

lemma set_bt_keys_insert [simp]: "set (bt_keys (bt_insert k v m)) = insert k (set (bt_keys m))"
  by (auto simp: set_bt_keys split: if_splits)

lemma set_bt_values: "bt_wf m \<Longrightarrow> v \<in> set (bt_values m) \<longleftrightarrow> (\<exists>k. bt_get m k = Some v)"
  by (force simp: bt_wf_def bt_values_def bt_get_def strict_sorted_iff intro: map_of_is_SomeI dest: map_of_SomeD)

lemma bt_wf_Nil [simp]: "bt_wf []"
  by (simp add: bt_wf_def)

lemma bt_wf_insert [simp]: "bt_wf m \<Longrightarrow> bt_wf (bt_insert k v m)"
proof (induction m)
  case (Cons e m)
  have "fst ` set (bt_insert k v m) = insert k (fst ` set m)"
    using set_bt_keys_insert [of k v m] by (simp add: bt_keys_def)
  then have "\<forall>x \<in> set (bt_insert k v m). fst x = k \<or> fst x \<in> fst ` set m" by blast
  with Cons show ?case by (fastforce simp: bt_wf_def)
qed (simp add: bt_wf_def)

lemma bt_wf_filter: "bt_wf m \<Longrightarrow> bt_wf (filter P m)"
  by (induction m) (auto simp: bt_wf_def)

lemma bt_wf_remove [simp]: "bt_wf m \<Longrightarrow> bt_wf (bt_remove k m)"
  by (simp add: bt_remove_def bt_wf_filter)

lemma bt_wf_retain [simp]: "bt_wf m \<Longrightarrow> bt_wf (bt_retain P m)"
  by (simp add: bt_retain_def bt_wf_filter)

lemma bt_wf_split_off [simp]: "bt_wf m \<Longrightarrow> bt_wf (bt_split_off k m)"
  by (simp add: bt_split_off_def bt_wf_filter)

lemma bt_wf_raise [simp]: "bt_wf m \<Longrightarrow> bt_wf (bt_raise k v m)"
  by (simp add: bt_raise_def split: option.splits)

lemma bt_wf_push [simp]: "bt_wf m \<Longrightarrow> bt_wf (bt_push k x m)"
  by (simp add: bt_push_def)

section \<open>The interface\<close>

locale ordered_map =
  fixes empty :: "'m"
    and get :: "'m \<Rightarrow> 'k::linorder \<Rightarrow> 'v option"
    and insert :: "'k \<Rightarrow> 'v \<Rightarrow> 'm \<Rightarrow> 'm"
    and remove :: "'k \<Rightarrow> 'm \<Rightarrow> 'm"
    and keys :: "'m \<Rightarrow> 'k list"
    and wf :: "'m \<Rightarrow> bool"
  assumes get_empty: "get empty k = None"
    and get_insert: "wf m \<Longrightarrow> get (insert k v m) j = (if j = k then Some v else get m j)"
    and get_remove: "wf m \<Longrightarrow> get (remove k m) j = (if j = k then None else get m j)"
    and in_keys: "wf m \<Longrightarrow> k \<in> set (keys m) \<longleftrightarrow> get m k \<noteq> None"
    and keys_ascending: "wf m \<Longrightarrow> sorted_wrt (<) (keys m)"
    and wf_empty: "wf empty"
    and wf_insert: "wf m \<Longrightarrow> wf (insert k v m)"
    and wf_remove: "wf m \<Longrightarrow> wf (remove k m)"
begin

lemma keys_distinct: "wf m \<Longrightarrow> distinct (keys m)"
  using keys_ascending strict_sorted_iff by blast

text \<open>An iteration cut off at a bound (\<open>take_while\<close>) visits exactly the keys below it.\<close>

lemma take_while_le:
  assumes "wf m"
  shows "takeWhile (\<lambda>k. k \<le> c) (keys m) = filter (\<lambda>k. k \<le> c) (keys m)"
proof -
  have "sorted_wrt (<) ks \<Longrightarrow> takeWhile (\<lambda>k. k \<le> c) ks = filter (\<lambda>k. k \<le> c) ks" for ks :: "'k list"
    by (induction ks) (fastforce simp: filter_empty_conv eq_commute [of "[]"])+
  with assms keys_ascending show ?thesis by blast
qed

text \<open>Removing a list of keys one after the other removes exactly those keys.\<close>

lemma remove_many:
  "wf m \<Longrightarrow> wf (fold remove ks m) \<and>
     get (fold remove ks m) j = (if j \<in> set ks then None else get m j)"
  by (induction ks arbitrary: m) (auto simp: get_remove wf_remove)

text \<open>The last insertion wins, and a removed key is gone until it is inserted again.\<close>

lemma insert_then_remove: "wf m \<Longrightarrow> get (remove k (insert k v m)) = (get m)(k := None)"
  by (auto simp: fun_eq_iff get_remove get_insert wf_insert)

lemma key_set_insert: "wf m \<Longrightarrow> set (keys (insert k v m)) = {k} \<union> set (keys m)"
  by (auto simp: in_keys get_insert wf_insert split: if_splits)

end

interpretation bt: ordered_map "[]" bt_get bt_insert bt_remove bt_keys bt_wf
  by unfold_locales (auto simp: set_bt_keys bt_wf_def [unfolded bt_keys_def [symmetric]]
      bt_wf_insert [unfolded bt_wf_def bt_keys_def [symmetric]]
      bt_wf_remove [unfolded bt_wf_def bt_keys_def [symmetric]])

lemma bt_first_key_least:
  "bt_wf m \<Longrightarrow> bt_keys m = k # ks \<Longrightarrow> j \<in> set (bt_keys m) \<Longrightarrow> k \<le> j"
  using bt.keys_ascending [of m] by auto

end
