(* ===== verification/Quorum_Tracker.thy ===== *)
theory Quorum_Tracker
  imports Managed_Configuration Btree_Map
begin

text \<open>
  \<open>kuberic-runtime/src/replicator/quorum.rs\<close>: the tracker that counts acknowledgements into
  quorum progress and completes writes. An operation takes the tracker and returns its result
  with the new tracker; on an error return the state is the one the code leaves behind.

  The write end of a \<open>tokio::sync::oneshot\<close> channel is a value of the type variable \<open>'s\<close>,
  handed in by the caller of \<open>register_write\<close>; the sends the tracker performs are appended, in
  order, to \<open>qt_sends\<close>. The parameter \<open>D\<close> renders a validation error (its \<open>Display\<close> instance is
  generated by the \<open>thiserror\<close> crate).
\<close>

section \<open>Quorum functions\<close>

type_synonym progress_map = "(ReplicaIdentity, Lsn) btree_map"

definition progress_of :: "progress_map \<Rightarrow> ReplicaIdentity \<Rightarrow> Lsn" where
  "progress_of progress x = unwrap_or (bt_get progress x) 0"

definition has_quorum :: "ConfigurationDescriptor \<Rightarrow> progress_map \<Rightarrow> Lsn \<Rightarrow> bool" where
  "has_quorum c progress lsn \<longleftrightarrow>
     length (filter (\<lambda>m. progress_of progress (m_identity m) \<ge> lsn) (members c)) \<ge> unat (write_quorum c)"

definition quorum_progress :: "ConfigurationDescriptor \<Rightarrow> progress_map \<Rightarrow> Lsn" where
  "quorum_progress c progress =
     (let values = rev (sort (map (\<lambda>m. progress_of progress (m_identity m)) (members c)));
          index = unat (if write_quorum c = 0 then 0 else write_quorum c - 1)
      in if index < length values then values ! index else 0)"

definition client_commit_ready :: "ManagedReplicaConfiguration \<Rightarrow> progress_map \<Rightarrow> Lsn \<Rightarrow> bool" where
  "client_commit_ready a progress lsn \<longleftrightarrow>
     has_quorum (mc_current_configuration a) progress lsn
     \<and> is_none_or (mc_previous_configuration a) (\<lambda>p. has_quorum p progress lsn)"

definition authority_members :: "ManagedReplicaConfiguration \<Rightarrow> ReplicaIdentity set" where
  "authority_members a =
     set (map m_identity (members (mc_current_configuration a)
       @ (case mc_previous_configuration a of None \<Rightarrow> [] | Some p \<Rightarrow> members p)))"

definition derive_must_catch_up :: "ManagedReplicaConfiguration \<Rightarrow> (RuntimeError, ReplicaIdentity set) result" where
  "derive_must_catch_up a =
     (let required = (case mc_scale_up a of None \<Rightarrow> {} | Some e \<Rightarrow> {su_target (sce_intent e)})
      in case mc_previous_configuration a of
           None \<Rightarrow> Ok required
         | Some previous \<Rightarrow>
             and_then (mc_primary_identity a) (\<lambda>primary.
               if \<exists>m \<in> set (members previous). m_identity m = primary \<and> m_role m = Primary
               then Ok required else Ok (insert primary required)))"

section \<open>The tracker\<close>

record 's QuorumTracker =
  qt_authority :: "ManagedReplicaConfiguration option"
  qt_progress :: progress_map
  qt_pending :: "(Lsn, 's list) btree_map"
  qt_highest_lsn :: Lsn
  qt_committed_lsn :: Lsn
  qt_catch_up_boundary :: "Lsn option"
  qt_must_catch_up :: "ReplicaIdentity set"
  qt_sessions :: "(ReplicaIdentity, ProcessSessionId) btree_map"
  qt_obsolete_sessions :: "(ReplicaIdentity \<times> ProcessSessionId) set"
  qt_verified :: "(ReplicaIdentity, u64 \<times> Lsn) btree_map"
  qt_witnesses :: "(ReplicaIdentity, SecondaryRemovalWitness) btree_map"
  qt_live_commits :: "(ReplicaIdentity, SecondaryScaleDownCleanup) btree_map"
  qt_sends :: "('s \<times> (RuntimeError, Lsn) result) list"

definition qt_default :: "'s QuorumTracker" where
  "qt_default =
     \<lparr>qt_authority = None, qt_progress = [], qt_pending = [], qt_highest_lsn = 0, qt_committed_lsn = 0,
      qt_catch_up_boundary = None, qt_must_catch_up = {}, qt_sessions = [], qt_obsolete_sessions = {},
      qt_verified = [], qt_witnesses = [], qt_live_commits = [], qt_sends = []\<rparr>"

type_synonym 's outcome = "(RuntimeError, unit) result \<times> 's QuorumTracker"

text \<open>\<open>for (_, senders) in std::mem::take(&mut self.pending)\<close>, each sender completed with the error.\<close>

definition fail_all :: "RuntimeError \<Rightarrow> 's QuorumTracker \<Rightarrow> 's QuorumTracker" where
  "fail_all e t =
     t\<lparr>qt_sends := qt_sends t @ concat (map (map (\<lambda>s. (s, Err e))) (bt_values (qt_pending t))),
       qt_pending := []\<rparr>"

definition fail_pending :: "'s QuorumTracker \<Rightarrow> 's QuorumTracker" where
  "fail_pending t = fail_all (WriteClosed ReconfigurationPending) t"

definition configured_boundary :: "ManagedReplicaConfiguration \<Rightarrow> Lsn \<Rightarrow> Lsn option" where
  "configured_boundary a highest =
     or_else (map_option (\<lambda>e. su_catch_up_boundary_lsn (sce_intent e)) (mc_scale_up a))
       (or_else (map_option (\<lambda>e. rp_boundary_lsn (re_preparation e)) (mc_secondary_removal a))
         (map_option (\<lambda>_. case mc_switchover_handoff a of None \<Rightarrow> highest | Some h \<Rightarrow> sh_handoff_lsn h)
           (mc_previous_configuration a)))"

definition configure_prevalidated :: "ManagedReplicaConfiguration \<Rightarrow> Lsn \<Rightarrow> 's QuorumTracker \<Rightarrow> 's outcome" where
  "configure_prevalidated a local_progress t =
     (let same_fence = (qt_authority t = Some a);
          current_only_completion = is_some_and (qt_authority t)
            (\<lambda>existing. mc_scale_up a \<noteq> None \<and> mc_is_current_only_completion_of a existing);
          t1 = (if qt_authority t \<noteq> None \<and> \<not> same_fence
                then let u = fail_all (AuthorityMismatch ''authority changed before the write committed'') t
                     in if current_only_completion then u
                        else u\<lparr>qt_progress := [], qt_verified := [], qt_witnesses := [], qt_live_commits := []\<rparr>
                else t);
          ms = authority_members a;
          t2 = t1\<lparr>qt_sessions := bt_retain (\<lambda>x. x \<in> ms) (qt_sessions t1),
                  qt_progress := bt_raise (mc_local_identity a) local_progress
                    (bt_retain (\<lambda>x. x \<in> ms) (qt_progress t1)),
                  qt_highest_lsn := max (qt_highest_lsn t1) local_progress\<rparr>
      in if same_fence then (Ok (), t2\<lparr>qt_authority := Some a\<rparr>)
         else case derive_must_catch_up a of
                Ok must \<Rightarrow>
                  (Ok (), t2\<lparr>qt_catch_up_boundary := configured_boundary a (qt_highest_lsn t2),
                            qt_must_catch_up := must, qt_authority := Some a\<rparr>)
              | _ \<Rightarrow> (Panic, t2))"

definition configure :: "ManagedReplicaConfiguration \<Rightarrow> Lsn \<Rightarrow> 's QuorumTracker \<Rightarrow> 's outcome" where
  "configure a local_progress t =
     (case mc_validate a of Ok _ \<Rightarrow> configure_prevalidated a local_progress t | r \<Rightarrow> (r, t))"

definition historical_sessions :: "ManagedReplicaConfiguration \<Rightarrow> ReplicaIdentity \<Rightarrow> ProcessSessionId
    \<Rightarrow> (ReplicaIdentity \<times> ProcessSessionId) set" where
  "historical_sessions a x session =
     (case mc_secondary_removal a of
        None \<Rightarrow> {}
      | Some e \<Rightarrow> set (map (\<lambda>w. (x, rw_process_session_id w))
          (filter (\<lambda>w. rw_identity w = x \<and> rw_process_session_id w \<noteq> session)
            (re_previous_read_quorum e @ re_reduced_write_quorum e))))"

definition register_peer_session ::
    "ReplicaIdentity \<Rightarrow> ProcessSessionId \<Rightarrow> 's QuorumTracker \<Rightarrow> 's outcome" where
  "register_peer_session x session t =
     (case qt_authority t of
        None \<Rightarrow> (Err AuthorityNotAdmitted, t)
      | Some a \<Rightarrow>
          if session = '''' \<or> x = mc_local_identity a \<or> \<not> mc_contains_member a x
             \<or> (x, session) \<in> qt_obsolete_sessions t
          then (Err (AuthorityMismatch ''invalid peer session identity''), t)
          else if bt_get (qt_sessions t) x \<noteq> Some session
          then (Ok (), t\<lparr>qt_obsolete_sessions := qt_obsolete_sessions t \<union> historical_sessions a x session
                            \<union> (case bt_get (qt_sessions t) x of None \<Rightarrow> {} | Some old \<Rightarrow> {(x, old)}),
                         qt_progress := bt_remove x (qt_progress t),
                         qt_verified := bt_remove x (qt_verified t),
                         qt_witnesses := bt_remove x (qt_witnesses t),
                         qt_live_commits := bt_remove x (qt_live_commits t),
                         qt_sessions := bt_insert x session (qt_sessions t)\<rparr>)
          else (Ok (), t))"

definition record_verified_local_progress :: "Lsn \<Rightarrow> 's QuorumTracker \<Rightarrow> 's QuorumTracker" where
  "record_verified_local_progress lsn t =
     (case qt_authority t of
        None \<Rightarrow> t
      | Some a \<Rightarrow> t\<lparr>qt_verified := bt_insert (mc_local_identity a) (0, lsn) (qt_verified t)\<rparr>)"

definition register_write :: "Lsn \<Rightarrow> 's \<Rightarrow> 's QuorumTracker \<Rightarrow> 's outcome" where
  "register_write lsn sender t =
     (if qt_authority t = None then (Err AuthorityNotAdmitted, t)
      else (Ok (), t\<lparr>qt_highest_lsn := max (qt_highest_lsn t) lsn,
                     qt_pending := bt_push lsn sender (qt_pending t)\<rparr>))"

definition record_local_progress :: "Lsn \<Rightarrow> 's QuorumTracker \<Rightarrow> 's outcome" where
  "record_local_progress lsn t =
     (case qt_authority t of
        None \<Rightarrow> (Err AuthorityNotAdmitted, t)
      | Some a \<Rightarrow> (Ok (), t\<lparr>qt_progress := bt_raise (mc_local_identity a) lsn (qt_progress t),
                            qt_highest_lsn := max (qt_highest_lsn t) lsn\<rparr>))"

definition record_prepared_build_handoff_progress ::
    "ReplicaIdentity \<Rightarrow> Lsn \<Rightarrow> 's QuorumTracker \<Rightarrow> 's QuorumTracker" where
  "record_prepared_build_handoff_progress x lsn t =
     t\<lparr>qt_progress := bt_raise x lsn (qt_progress t), qt_highest_lsn := max (qt_highest_lsn t) lsn\<rparr>"

definition record_build_handoff_progress :: "ReplicaIdentity \<Rightarrow> Lsn \<Rightarrow> 's QuorumTracker \<Rightarrow> 's outcome" where
  "record_build_handoff_progress x lsn t =
     (case qt_authority t of
        None \<Rightarrow> (Err AuthorityNotAdmitted, t)
      | Some a \<Rightarrow>
          if \<not> mc_contains_member a x
          then (Err (AuthorityMismatch ''durable progress belongs to a replica outside authority''), t)
          else (Ok (), record_prepared_build_handoff_progress x lsn t))"

definition acknowledge :: "ReplicationAck \<Rightarrow> 's QuorumTracker \<Rightarrow> 's outcome" where
  "acknowledge k t =
     (case qt_authority t of
        None \<Rightarrow> (Err AuthorityNotAdmitted, t)
      | Some a \<Rightarrow>
          (case mc_validate_acknowledgement a k of
             Ok _ \<Rightarrow> (Ok (), t\<lparr>qt_progress := bt_raise (ack_receiver k) (ack_applied_lsn k) (qt_progress t)\<rparr>)
           | r \<Rightarrow> (r, t)))"

definition acknowledge_in_session :: "ReplicationAck \<Rightarrow> ProcessSessionId \<Rightarrow> 's QuorumTracker \<Rightarrow> 's outcome" where
  "acknowledge_in_session k session t =
     (if bt_get (qt_sessions t) (ack_receiver k) \<noteq> Some session
      then (Err (AuthorityMismatch ''acknowledgement belongs to an obsolete peer session''), t)
      else acknowledge k t)"

definition current_configuration_quorum_progress :: "'s QuorumTracker \<Rightarrow> Lsn" where
  "current_configuration_quorum_progress t =
     (case qt_authority t of
        None \<Rightarrow> 0 | Some a \<Rightarrow> quorum_progress (mc_current_configuration a) (qt_progress t))"

definition catch_up_complete :: "'s QuorumTracker \<Rightarrow> (RuntimeError, bool) result" where
  "catch_up_complete t =
     (case Option.bind (qt_authority t) (\<lambda>a. map_option (Pair a) (mc_secondary_removal a)) of
        Some (a, e) \<Rightarrow>
          (let boundary = rp_boundary_lsn (re_preparation e);
               at = \<lambda>x. is_some_and (bt_get (qt_verified t) x) (\<lambda>v. snd v \<ge> boundary)
           in and_then (mc_primary_identity a) (\<lambda>primary.
                Ok (at primary \<and> length (filter (\<lambda>m. at (m_identity m)) (members (mc_current_configuration a)))
                      \<ge> unat (write_quorum (mc_current_configuration a)))))
      | None \<Rightarrow>
          (case qt_catch_up_boundary t of
             None \<Rightarrow> Ok True
           | Some boundary \<Rightarrow>
               let q = current_configuration_quorum_progress t
               in Ok (q \<ge> boundary
                      \<and> (\<forall>x \<in> qt_must_catch_up t. is_some_and (bt_get (qt_progress t) x) (\<lambda>p. p \<ge> q)))))"

definition all_caught_up :: "Lsn \<Rightarrow> 's QuorumTracker \<Rightarrow> bool" where
  "all_caught_up lsn t \<longleftrightarrow>
     is_some_and (qt_authority t) (\<lambda>a.
       \<forall>m \<in> set (members (mc_current_configuration a)). progress_of (qt_progress t) (m_identity m) \<ge> lsn)"

definition ready_commit_lsn :: "'s QuorumTracker \<Rightarrow> Lsn option" where
  "ready_commit_lsn t =
     Option.bind (qt_authority t) (\<lambda>a.
       max_by_key id (filter (client_commit_ready a (qt_progress t)) (bt_keys (qt_pending t))))"

definition complete_one :: "Lsn \<Rightarrow> 's QuorumTracker \<Rightarrow> 's QuorumTracker" where
  "complete_one lsn t =
     (case bt_get (qt_pending t) lsn of
        None \<Rightarrow> t
      | Some senders \<Rightarrow> t\<lparr>qt_pending := bt_remove lsn (qt_pending t),
                           qt_sends := qt_sends t @ map (\<lambda>s. (s, Ok lsn)) senders\<rparr>)"

definition complete_through :: "Lsn \<Rightarrow> 's QuorumTracker \<Rightarrow> 's QuorumTracker" where
  "complete_through c t = fold complete_one (takeWhile (\<lambda>lsn. lsn \<le> c) (bt_keys (qt_pending t))) t"

definition finalize_commit :: "Lsn \<Rightarrow> 's QuorumTracker \<Rightarrow> 's outcome" where
  "finalize_commit c t =
     (case ready_commit_lsn t of
        None \<Rightarrow> (Err (Application ''no quorum-ready write can be finalized''), t)
      | Some ready \<Rightarrow>
          if c > ready
          then (Err (Application ''application commit exceeds quorum-ready progress''), t)
          else let u = complete_through c t in (Ok (), u\<lparr>qt_committed_lsn := max (qt_committed_lsn u) c\<rparr>))"

definition restore_committed_lsn :: "Lsn \<Rightarrow> 's QuorumTracker \<Rightarrow> 's QuorumTracker" where
  "restore_committed_lsn c t =
     (let u = complete_through c t
      in u\<lparr>qt_highest_lsn := max (qt_highest_lsn u) c, qt_committed_lsn := max (qt_committed_lsn u) c\<rparr>)"

definition reset_progress_after_data_loss :: "ReplicaIdentity \<Rightarrow> Lsn \<Rightarrow> Lsn \<Rightarrow> 's QuorumTracker \<Rightarrow> 's QuorumTracker" where
  "reset_progress_after_data_loss x progress c t =
     (fail_pending t)\<lparr>qt_progress := [(x, progress)], qt_highest_lsn := progress, qt_committed_lsn := c,
       qt_catch_up_boundary := None, qt_must_catch_up := {}, qt_sessions := [], qt_verified := [],
       qt_witnesses := []\<rparr>"

section \<open>Removal witnesses\<close>

definition removal_witness_stale :: "(bytes \<Rightarrow> bytes) \<Rightarrow> ManagedReplicaConfiguration \<Rightarrow> SecondaryRemovalEvidence
    \<Rightarrow> SecondaryRemovalWitness \<Rightarrow> 's QuorumTracker \<Rightarrow> bool" where
  "removal_witness_stale H a e w t \<longleftrightarrow>
     (let i = rp_intent (re_preparation e);
          stage = (if mc_previous_configuration a \<noteq> None then RemPreviousCurrent else RemCurrentOnly)
      in rw_identity w = mc_local_identity a
         \<or> bt_get (qt_sessions t) (rw_identity w) \<noteq> Some (rw_process_session_id w)
         \<or> rw_resource_uid w \<noteq> sd_resource_uid i
         \<or> \<not> (\<exists>m \<in> set (members (sd_current_configuration i)).
                m_identity m = rw_identity w \<and> m_role m = rw_role w)
         \<or> rw_epoch w \<noteq> c_epoch (mc_current_configuration a)
         \<or> rw_current_configuration_id w \<noteq> configuration_id (mc_current_configuration a)
         \<or> rw_previous_configuration_id w \<noteq> f_previous_configuration_id (mc_fence a)
         \<or> rw_report_sequence w = 0
         \<or> rw_verified_replication_lsn w < rp_boundary_lsn (re_preparation e)
         \<or> rw_pending_operation_id w \<noteq> None \<or> rw_write_status w = Granted
         \<or> rw_retained_operation_id w \<noteq> Some (sd_command_operation_id H i stage (rw_identity w))
         \<or> is_some_and (bt_get (qt_verified t) (rw_identity w)) (\<lambda>v. fst v \<ge> rw_report_sequence w)
         \<or> earlier_witness (re_previous_read_quorum e
              @ (if mc_previous_configuration a = None then re_reduced_write_quorum e else [])) w)"

definition observe_secondary_removal :: "(bytes \<Rightarrow> bytes) \<Rightarrow> SecondaryRemovalWitness \<Rightarrow> 's QuorumTracker \<Rightarrow> 's outcome" where
  "observe_secondary_removal H w t =
     (if bt_get (qt_witnesses t) (rw_identity w) = Some w
         \<and> \<not> bt_contains_key (qt_live_commits t) (rw_identity w)
      then (Ok (), t)
      else case qt_authority t of
        None \<Rightarrow> (Err AuthorityNotAdmitted, t)
      | Some a \<Rightarrow>
          (case mc_secondary_removal a of
             None \<Rightarrow> (Err RtReconfigurationPending, t)
           | Some e \<Rightarrow>
               if removal_witness_stale H a e w t
               then (Err (AuthorityMismatch ''stale or unverified reduced-quorum witness''), t)
               else (Ok (), t\<lparr>qt_verified := bt_insert (rw_identity w)
                                (rw_report_sequence w, rw_verified_replication_lsn w) (qt_verified t),
                              qt_witnesses := bt_insert (rw_identity w) w (qt_witnesses t)\<rparr>)))"

text \<open>\<open>self.live_commits.values().any(..)\<close>: some live proof is about another commit.\<close>

definition live_commit_differs :: "SecondaryScaleDownCleanup \<Rightarrow> 's QuorumTracker \<Rightarrow> bool" where
  "live_commit_differs c t \<longleftrightarrow>
     (\<exists>old \<in> set (bt_values (qt_live_commits t)). sdc_evidence old \<noteq> sdc_evidence c
        \<or> sdc_current_only_write_quorum old \<noteq> sdc_current_only_write_quorum c)"

definition committed_operation_retained :: "(bytes \<Rightarrow> bytes) \<Rightarrow> SecondaryScaleDownIntent \<Rightarrow> SecondaryRemovalWitness \<Rightarrow> bool" where
  "committed_operation_retained H i w \<longleftrightarrow>
     rw_retained_operation_id w = Some (sd_command_operation_id H i RemCurrentOnly (rw_identity w))
     \<or> rw_retained_operation_id w = Some (sd_command_operation_id H i RemAcceptCommit (rw_identity w))
     \<or> (rw_identity w = sd_primary i
        \<and> rw_retained_operation_id w = Some (''availability:'' @ configuration_id (sd_current_configuration i)
            @ '':'' @ (if rw_write_status w = Granted then ''grant-write'' else ''no-write-quorum'')))"

definition committed_progress_invalid :: "(bytes \<Rightarrow> bytes) \<Rightarrow> ManagedReplicaConfiguration \<Rightarrow> SecondaryRemovalWitness
    \<Rightarrow> SecondaryScaleDownCleanup \<Rightarrow> 's QuorumTracker \<Rightarrow> bool" where
  "committed_progress_invalid H a w c t \<longleftrightarrow>
     (let i = rp_intent (re_preparation (sdc_evidence c))
      in mc_previous_configuration a \<noteq> None
         \<or> mc_secondary_removal a \<noteq> Some (sdc_evidence c)
         \<or> mc_current_configuration a \<noteq> sd_current_configuration i
         \<or> rw_identity w = mc_local_identity a
         \<or> bt_get (qt_sessions t) (rw_identity w) \<noteq> Some (rw_process_session_id w)
         \<or> rw_resource_uid w \<noteq> sd_resource_uid i
         \<or> rw_epoch w \<noteq> c_epoch (sd_current_configuration i)
         \<or> rw_previous_configuration_id w \<noteq> None
         \<or> rw_current_configuration_id w \<noteq> configuration_id (sd_current_configuration i)
         \<or> \<not> (\<exists>m \<in> set (members (sd_current_configuration i)).
                m_identity m = rw_identity w \<and> m_role m = rw_role w)
         \<or> rw_report_sequence w = 0
         \<or> rw_verified_replication_lsn w < rp_boundary_lsn (re_preparation (sdc_evidence c))
         \<or> rw_pending_operation_id w \<noteq> None
         \<or> (rw_write_status w = Granted \<and> rw_identity w \<noteq> sd_primary i)
         \<or> \<not> committed_operation_retained H i w
         \<or> live_commit_differs c t)"

definition observe_secondary_removal_progress ::
    "(bytes \<Rightarrow> bytes) \<Rightarrow> (ValidationError \<Rightarrow> string) \<Rightarrow> SecondaryRemovalWitness \<Rightarrow> SecondaryScaleDownCleanup
      \<Rightarrow> 's QuorumTracker \<Rightarrow> 's outcome" where
  "observe_secondary_removal_progress H D w c t =
     (case map_err (\<lambda>e. AuthorityMismatch (D e)) (validate_secondary_scale_down_cleanup H c) of
        Err e \<Rightarrow> (Err e, t)
      | Panic \<Rightarrow> (Panic, t)
      | Ok _ \<Rightarrow>
          (case qt_authority t of
             None \<Rightarrow> (Err AuthorityNotAdmitted, t)
           | Some a \<Rightarrow>
               if committed_progress_invalid H a w c t
               then (Err (AuthorityMismatch ''invalid committed-removal live progress''), t)
               else if bt_get (qt_witnesses t) (rw_identity w) = Some w
                       \<and> bt_contains_key (qt_live_commits t) (rw_identity w)
               then (Ok (), t)
               else if is_some_and (bt_get (qt_verified t) (rw_identity w)) (\<lambda>v. fst v \<ge> rw_report_sequence w)
                       \<or> earlier_witness (sdc_current_only_write_quorum c) w
               then (Err (AuthorityMismatch ''stale committed-removal live progress''), t)
               else (Ok (), t\<lparr>qt_verified := bt_insert (rw_identity w)
                                (rw_report_sequence w, rw_verified_replication_lsn w) (qt_verified t),
                              qt_witnesses := bt_insert (rw_identity w) w (qt_witnesses t),
                              qt_live_commits := bt_insert (rw_identity w) c (qt_live_commits t)\<rparr>)))"

definition validate_secondary_removal_commit ::
    "SecondaryScaleDownCleanup \<Rightarrow> 's QuorumTracker \<Rightarrow> (RuntimeError, unit) result" where
  "validate_secondary_removal_commit c t =
     (if live_commit_differs c t
      then Err (AuthorityMismatch ''commit differs from live progress proof'') else Ok ())"

definition observe_committed_secondary_removal ::
    "(bytes \<Rightarrow> bytes) \<Rightarrow> SecondaryRemovalWitness \<Rightarrow> 's QuorumTracker \<Rightarrow> 's outcome" where
  "observe_committed_secondary_removal H w t =
     (if bt_get (qt_sessions t) (rw_identity w) \<noteq> Some (rw_process_session_id w) then (Ok (), t)
      else if is_some_and (bt_get (qt_witnesses t) (rw_identity w)) (\<lambda>current.
           rw_process_session_id current = rw_process_session_id w
           \<and> rw_resource_uid current = rw_resource_uid w \<and> rw_role current = rw_role w
           \<and> rw_epoch current = rw_epoch w
           \<and> rw_current_configuration_id current = rw_current_configuration_id w
           \<and> rw_previous_configuration_id current = rw_previous_configuration_id w
           \<and> rw_report_sequence current \<ge> rw_report_sequence w
           \<and> rw_verified_replication_lsn current \<ge> rw_verified_replication_lsn w)
      then (Ok (), t)
      else observe_secondary_removal H w t)"

definition restore_committed_secondary_removal ::
    "(bytes \<Rightarrow> bytes) \<Rightarrow> SecondaryRemovalWitness \<Rightarrow> 's QuorumTracker \<Rightarrow> 's outcome" where
  "restore_committed_secondary_removal H w t =
     (if \<not> bt_contains_key (qt_sessions t) (rw_identity w)
      then case register_peer_session (rw_identity w) (rw_process_session_id w) t of
             (Ok _, u) \<Rightarrow> observe_committed_secondary_removal H w u
           | (r, u) \<Rightarrow> (r, u)
      else observe_committed_secondary_removal H w t)"

end
