(* ===== verification/Replication_Log.thy ===== *)
theory Replication_Log
  imports Quorum_Tracker
begin

text \<open>
  \<open>kuberic-runtime/src/replicator/queue.rs\<close> and \<open>replicator/log.rs\<close>: the retained operations
  and the replication log that assigns LSNs, registers local writes and drives the quorum
  tracker. An operation returns its result with the log the code leaves behind. The channel of
  a write is the value \<open>'s\<close> of \<open>Quorum_Tracker\<close>; \<open>rl_sends\<close> records what the log itself sends.
\<close>

section \<open>The retained operations\<close>

record Operation =
  op_lsn :: Lsn
  op_committed_lsn :: Lsn
  op_data :: bytes

record ClientWrite =
  cw_operation_id :: OperationId
  cw_data :: bytes

type_synonym ReplicationQueue = "(Lsn, bytes) btree_map"

definition queue_push :: "Operation \<Rightarrow> ReplicationQueue \<Rightarrow> ReplicationQueue" where
  "queue_push x q = bt_insert (op_lsn x) (op_data x) q"

definition operations_from :: "Lsn \<Rightarrow> ReplicationQueue \<Rightarrow> Operation list" where
  "operations_from from q =
     map (\<lambda>(l, d). \<lparr>op_lsn = l, op_committed_lsn = 0, op_data = d\<rparr>) (filter (\<lambda>(l, d). from \<le> l) q)"

definition first_lsn :: "ReplicationQueue \<Rightarrow> Lsn option" where
  "first_lsn q = (case q of [] \<Rightarrow> None | (l, d) # _ \<Rightarrow> Some l)"

definition truncate_committed :: "Lsn \<Rightarrow> ReplicationQueue \<Rightarrow> ReplicationQueue" where
  "truncate_committed c q = bt_split_off (i64_add c 1) q"

section \<open>The log\<close>

record PendingLocalWrite =
  plw_operation_id :: OperationId
  plw_lsn :: Lsn
  plw_data :: bytes

record 's ReplicationLog =
  rl_local_identity :: ReplicaIdentity
  rl_authority :: "ManagedReplicaConfiguration option"
  rl_open :: bool
  rl_role :: ReplicaRole
  rl_epoch :: Epoch
  rl_next_lsn :: Lsn
  rl_pending_local_write :: "PendingLocalWrite option"
  rl_queue :: ReplicationQueue
  rl_quorum :: "'s QuorumTracker"
  rl_sends :: "('s \<times> (RuntimeError, Lsn) result) list"

record 's PreparedWrite =
  pw_lsn :: Lsn
  pw_items :: "ReplicationItem list"
  pw_completion :: 's

definition log_new :: "ReplicaIdentity \<Rightarrow> 's ReplicationLog" where
  "log_new x =
     \<lparr>rl_local_identity = x, rl_authority = None, rl_open = False, rl_role = RoleNone,
      rl_epoch = epoch_default, rl_next_lsn = 0, rl_pending_local_write = None, rl_queue = [],
      rl_quorum = qt_default, rl_sends = []\<rparr>"

type_synonym ('a, 's) log_outcome = "(RuntimeError, 'a) result \<times> 's ReplicationLog"

text \<open>A tracker operation applied to the log's tracker.\<close>

definition on_quorum :: "('s QuorumTracker \<Rightarrow> (RuntimeError, 'a) result \<times> 's QuorumTracker)
    \<Rightarrow> 's ReplicationLog \<Rightarrow> ('a, 's) log_outcome" where
  "on_quorum f l = (case f (rl_quorum l) of (r, t) \<Rightarrow> (r, l\<lparr>rl_quorum := t\<rparr>))"

definition log_configure_prevalidated :: "ManagedReplicaConfiguration \<Rightarrow> Lsn \<Rightarrow> 's ReplicationLog \<Rightarrow> (unit, 's) log_outcome" where
  "log_configure_prevalidated a local_progress l =
     (let l1 = (if rl_authority l \<noteq> Some a then l\<lparr>rl_pending_local_write := None\<rparr> else l);
          l2 = l1\<lparr>rl_next_lsn := max (rl_next_lsn l1) local_progress\<rparr>
      in case on_quorum (configure_prevalidated a local_progress) l2 of
           (Ok _, l3) \<Rightarrow> (Ok (), l3\<lparr>rl_authority := Some a\<rparr>)
         | (r, l3) \<Rightarrow> (r, l3))"

definition reserve_write :: "ClientWrite \<Rightarrow> 's ReplicationLog \<Rightarrow> (Lsn, 's) log_outcome" where
  "reserve_write w l =
     (case rl_authority l of
        None \<Rightarrow> (Err AuthorityNotAdmitted, l)
      | Some a \<Rightarrow>
          if \<not> rl_open l then (Err NotOpen, l)
          else if rl_epoch l \<noteq> c_epoch (mc_current_configuration a)
          then (Err (AuthorityMismatch ''write authority predates the replicator epoch''), l)
          else if rl_role l \<noteq> Primary then (Err RtNotPrimary, l)
          else case mc_primary_identity a of
            Ok primary \<Rightarrow>
              if primary \<noteq> rl_local_identity l then (Err RtNotPrimary, l)
              else (case rl_pending_local_write l of
                 Some p \<Rightarrow>
                   if plw_operation_id p = cw_operation_id w \<and> plw_data p = cw_data w
                   then (Ok (plw_lsn p), l)
                   else (Err (LocalWritePending (plw_operation_id p)), l)
               | None \<Rightarrow>
                   (let lsn = i64_add (rl_next_lsn l) 1
                    in (Ok lsn, l\<lparr>rl_pending_local_write :=
                          Some \<lparr>plw_operation_id = cw_operation_id w, plw_lsn = lsn, plw_data = cw_data w\<rparr>\<rparr>)))
          | _ \<Rightarrow> (Panic, l))"

definition restore_write_reservation :: "ClientWrite \<Rightarrow> Lsn \<Rightarrow> 's ReplicationLog \<Rightarrow> (unit, 's) log_outcome" where
  "restore_write_reservation w lsn l =
     (case rl_pending_local_write l of
        Some p \<Rightarrow>
          if plw_operation_id p = cw_operation_id w \<and> plw_lsn p = lsn \<and> plw_data p = cw_data w
          then (Ok (), l) else (Err (LocalWritePending (plw_operation_id p)), l)
      | None \<Rightarrow>
          (Ok (), l\<lparr>rl_pending_local_write :=
                      Some \<lparr>plw_operation_id = cw_operation_id w, plw_lsn = lsn, plw_data = cw_data w\<rparr>,
                    rl_next_lsn := max (rl_next_lsn l) (i64_add lsn (- 1))\<rparr>))"

definition replication_targets :: "ManagedReplicaConfiguration \<Rightarrow> ReplicaIdentity \<Rightarrow> ReplicaIdentity set" where
  "replication_targets a self =
     set (filter (\<lambda>x. x \<noteq> self) (map m_identity (members (mc_current_configuration a)
       @ (case mc_previous_configuration a of None \<Rightarrow> [] | Some p \<Rightarrow> members p))))"

definition replication_items :: "Operation \<Rightarrow> 's ReplicationLog \<Rightarrow> (RuntimeError, ReplicationItem list) result" where
  "replication_items x l =
     and_then (ok_or (rl_authority l) AuthorityNotAdmitted) (\<lambda>a.
       Ok (map (\<lambda>receiver.
              \<lparr>it_sender = rl_local_identity l, it_receiver = receiver,
               it_epoch = c_epoch (mc_current_configuration a),
               it_previous_configuration_id = map_option configuration_id (mc_previous_configuration a),
               it_current_configuration_id = configuration_id (mc_current_configuration a),
               it_lsn = op_lsn x, it_committed_lsn = qt_committed_lsn (rl_quorum l), it_data = op_data x\<rparr>)
            (sorted_list_of_set (replication_targets a (rl_local_identity l)))))"

text \<open>The part of the registration after its guards; \<open>s\<close> is the channel of the write.\<close>

definition register_local_write :: "Operation \<Rightarrow> 's \<Rightarrow> 's ReplicationLog \<Rightarrow> ('s PreparedWrite, 's) log_outcome" where
  "register_local_write x s l =
     (let l1 = l\<lparr>rl_queue := queue_push x (rl_queue l)\<rparr>
      in case on_quorum (record_local_progress (op_lsn x)) l1 of
           (Err e, l2) \<Rightarrow> (Err e, l2)
         | (Panic, l2) \<Rightarrow> (Panic, l2)
         | (Ok _, l2) \<Rightarrow>
             (case (if op_lsn x \<le> qt_committed_lsn (rl_quorum l2)
                    then (Ok (), l2\<lparr>rl_sends := rl_sends l2 @ [(s, Ok (op_lsn x))]\<rparr>)
                    else on_quorum (register_write (op_lsn x) s) l2) of
                (Err e, l3) \<Rightarrow> (Err e, l3)
              | (Panic, l3) \<Rightarrow> (Panic, l3)
              | (Ok _, l3) \<Rightarrow>
                  (case replication_items x l3 of
                     Ok items \<Rightarrow>
                       (Ok \<lparr>pw_lsn = op_lsn x, pw_items = items, pw_completion = s\<rparr>,
                        l3\<lparr>rl_queue := truncate_committed (qt_committed_lsn (rl_quorum l3)) (rl_queue l3),
                           rl_next_lsn := max (rl_next_lsn l3) (op_lsn x),
                           rl_pending_local_write := None\<rparr>)
                   | Err e \<Rightarrow> (Err e, l3)
                   | Panic \<Rightarrow> (Panic, l3))))"

definition ensure_local_write_registered :: "Operation \<Rightarrow> 's \<Rightarrow> 's ReplicationLog \<Rightarrow> ('s PreparedWrite, 's) log_outcome" where
  "ensure_local_write_registered x s l =
     (if \<not> rl_open l \<or> rl_role l \<noteq> Primary then (Err RtNotPrimary, l)
      else if map_option (\<lambda>a. c_epoch (mc_current_configuration a)) (rl_authority l) \<noteq> Some (rl_epoch l)
      then (Err (AuthorityMismatch ''write registration belongs to a fenced epoch''), l)
      else if is_some_and (rl_pending_local_write l) (\<lambda>p. plw_lsn p \<noteq> op_lsn x \<or> plw_data p \<noteq> op_data x)
      then (Err (Application ''local write differs from its reserved operation''), l)
      else register_local_write x s l)"

definition log_acknowledge :: "ReplicationAck \<Rightarrow> 's ReplicationLog \<Rightarrow> (unit, 's) log_outcome" where
  "log_acknowledge k l =
     (if ack_epoch k \<noteq> rl_epoch l
      then (Err (AuthorityMismatch ''acknowledgement predates the replicator epoch''), l)
      else on_quorum (acknowledge k) l)"

definition log_acknowledge_in_session :: "ReplicationAck \<Rightarrow> ProcessSessionId \<Rightarrow> 's ReplicationLog \<Rightarrow> (unit, 's) log_outcome" where
  "log_acknowledge_in_session k session l =
     (if ack_epoch k \<noteq> rl_epoch l
      then (Err (AuthorityMismatch ''acknowledgement predates replicator epoch''), l)
      else on_quorum (acknowledge_in_session k session) l)"

definition log_record_local_progress :: "Lsn \<Rightarrow> 's ReplicationLog \<Rightarrow> (unit, 's) log_outcome" where
  "log_record_local_progress lsn l =
     on_quorum (record_local_progress lsn) (l\<lparr>rl_next_lsn := max (rl_next_lsn l) lsn\<rparr>)"

definition log_finalize_commit :: "Lsn \<Rightarrow> 's ReplicationLog \<Rightarrow> (unit, 's) log_outcome" where
  "log_finalize_commit c l =
     (case on_quorum (finalize_commit c) l of
        (Ok _, l1) \<Rightarrow> (Ok (), l1\<lparr>rl_queue := truncate_committed c (rl_queue l1)\<rparr>)
      | (r, l1) \<Rightarrow> (r, l1))"

definition restore_committed_write :: "Operation \<Rightarrow> 's ReplicationLog \<Rightarrow> (unit, 's) log_outcome" where
  "restore_committed_write x l =
     (if is_some_and (rl_pending_local_write l) (\<lambda>p. plw_lsn p \<noteq> op_lsn x \<or> plw_data p \<noteq> op_data x)
      then (Err (Application ''committed write conflicts with the active reservation''), l)
      else case on_quorum (record_local_progress (op_lsn x))
                  (l\<lparr>rl_pending_local_write := None, rl_next_lsn := max (rl_next_lsn l) (op_lsn x)\<rparr>) of
             (Ok _, l1) \<Rightarrow>
               (Ok (), l1\<lparr>rl_quorum := restore_committed_lsn (op_lsn x) (rl_quorum l1),
                         rl_queue := truncate_committed (op_lsn x) (rl_queue l1)\<rparr>)
           | (r, l1) \<Rightarrow> (r, l1))"

definition restore_committed_prefix :: "Lsn \<Rightarrow> 's ReplicationLog \<Rightarrow> 's ReplicationLog" where
  "restore_committed_prefix c l = l\<lparr>rl_quorum := restore_committed_lsn c (rl_quorum l)\<rparr>"

definition fence_client_writes :: "'s ReplicationLog \<Rightarrow> 's ReplicationLog" where
  "fence_client_writes l = l\<lparr>rl_quorum := fail_pending (rl_quorum l)\<rparr>"

definition log_open :: "'s ReplicationLog \<Rightarrow> (unit, 's) log_outcome" where
  "log_open l =
     (if rl_open l then (Err (Application ''replicator already open''), l)
      else (Ok (), l\<lparr>rl_open := True\<rparr>))"

definition update_epoch :: "Epoch \<Rightarrow> 's ReplicationLog \<Rightarrow> (unit, 's) log_outcome" where
  "update_epoch e l =
     (if e < rl_epoch l then (Err (AuthorityMismatch ''replicator epoch cannot regress''), l)
      else let l1 = (if e \<noteq> rl_epoch l then fence_client_writes l else l)
           in (Ok (), l1\<lparr>rl_epoch := e\<rparr>))"

definition change_role :: "Epoch \<Rightarrow> ReplicaRole \<Rightarrow> 's ReplicationLog \<Rightarrow> (unit, 's) log_outcome" where
  "change_role e role l =
     (if \<not> rl_open l then (Err NotOpen, l)
      else case update_epoch e l of
        (Ok _, l1) \<Rightarrow>
          (let l2 = l1\<lparr>rl_role := role\<rparr>
           in (Ok (), if role \<noteq> Primary then fence_client_writes l2 else l2))
      | (r, l1) \<Rightarrow> (r, l1))"

definition admit_prepared_authority :: "ManagedReplicaConfiguration \<Rightarrow> Lsn \<Rightarrow> bool \<Rightarrow> 's ReplicationLog \<Rightarrow> (unit, 's) log_outcome" where
  "admit_prepared_authority a local_progress preserve l =
     (let e = c_epoch (mc_current_configuration a);
          l1 = (if preserve then l\<lparr>rl_epoch := e\<rparr>
                else if e \<noteq> rl_epoch l then (fence_client_writes l)\<lparr>rl_epoch := e\<rparr> else l)
      in log_configure_prevalidated a local_progress l1)"

definition catch_up_capability :: "Lsn \<Rightarrow> 's ReplicationLog \<Rightarrow> Lsn" where
  "catch_up_capability progress l =
     (case first_lsn (rl_queue l) of
        Some lsn \<Rightarrow> lsn | None \<Rightarrow> max progress (qt_highest_lsn (rl_quorum l)))"

definition log_record_prepared_build_handoff_progress :: "ReplicaIdentity \<Rightarrow> Lsn \<Rightarrow> 's ReplicationLog \<Rightarrow> 's ReplicationLog" where
  "log_record_prepared_build_handoff_progress x lsn l =
     l\<lparr>rl_quorum := record_prepared_build_handoff_progress x lsn (rl_quorum l)\<rparr>"

definition log_abort :: "'s ReplicationLog \<Rightarrow> 's ReplicationLog" where
  "log_abort l = (fence_client_writes l)\<lparr>rl_queue := [], rl_open := False, rl_role := RoleNone\<rparr>"

definition log_close :: "'s ReplicationLog \<Rightarrow> (unit, 's) log_outcome" where
  "log_close l =
     (Ok (), (fence_client_writes l)\<lparr>rl_queue := [], rl_open := False, rl_role := RoleNone\<rparr>)"

definition log_reset_progress_after_data_loss :: "Lsn \<Rightarrow> Lsn \<Rightarrow> 's ReplicationLog \<Rightarrow> 's ReplicationLog" where
  "log_reset_progress_after_data_loss progress c l =
     l\<lparr>rl_pending_local_write := None, rl_next_lsn := progress, rl_queue := [],
       rl_quorum := reset_progress_after_data_loss (rl_local_identity l) progress c (rl_quorum l)\<rparr>"

end
