(* ===== verification/Reliable_Sender.thy ===== *)
theory Reliable_Sender
  imports Authority Replication_Log
begin

text \<open>
  \<open>kuberic-runtime/src/replicator/sender.rs\<close>: the bounded windows of messages that were sent and not yet
  acknowledged, one for replication and one for copy items of each peer. An operation returns its
  result with the state the code leaves behind. The window operations that exist only in unit tests
  (\<open>retained\<close>, \<open>catch_up_capability\<close>, \<open>reconnect_from_lsn\<close>, \<open>RoleTransportState\<close>) are left out.
\<close>

section \<open>One window\<close>

record 'a RetainedMessage =
  rm_sequence :: u64
  rm_payload :: 'a

record 'a ReliableWindow =
  win_capacity :: nat
  win_next_sequence :: u64
  win_acknowledged_sequence :: u64
  win_retained :: "(u64, 'a) btree_map"
  win_cancelled :: bool

definition window_new :: "nat \<Rightarrow> (RuntimeError, 'a ReliableWindow) result" where
  "window_new capacity =
     (if capacity = 0 then Err (Application ''reliable send window capacity must be positive'')
      else Ok \<lparr>win_capacity = capacity, win_next_sequence = 1, win_acknowledged_sequence = 0,
               win_retained = [], win_cancelled = False\<rparr>)"

definition window_enqueue ::
    "'a \<Rightarrow> 'a ReliableWindow \<Rightarrow> (RuntimeError, 'a RetainedMessage) result \<times> 'a ReliableWindow" where
  "window_enqueue x w =
     (if win_cancelled w then (Err OperationCancelled, w)
      else if win_capacity w \<le> length (win_retained w) then (Err QueueFull, w)
      else let sequence = win_next_sequence w
           in (Ok \<lparr>rm_sequence = sequence, rm_payload = x\<rparr>,
               w\<lparr>win_next_sequence := sequence + 1,
                 win_retained := bt_insert sequence x (win_retained w)\<rparr>))"

definition acknowledge_through ::
    "u64 \<Rightarrow> 'a ReliableWindow \<Rightarrow> (RuntimeError, unit) result \<times> 'a ReliableWindow" where
  "acknowledge_through sequence w =
     (if sequence < win_acknowledged_sequence w \<or> win_next_sequence w \<le> sequence
      then (Err (InvalidReplication ''acknowledgement is outside the retained send window''), w)
      else (Ok (), w\<lparr>win_acknowledged_sequence := sequence,
                     win_retained := bt_retain (\<lambda>k. sequence < k) (win_retained w)\<rparr>))"

definition window_cancel :: "'a ReliableWindow \<Rightarrow> 'a ReliableWindow" where
  "window_cancel w = w\<lparr>win_cancelled := True, win_retained := []\<rparr>"

text \<open>Acknowledge through the last retained message whose payload satisfies \<open>P\<close>, if there is one.\<close>

definition acknowledge_covered ::
    "('a \<Rightarrow> bool) \<Rightarrow> 'a ReliableWindow \<Rightarrow> (RuntimeError, unit) result \<times> 'a ReliableWindow" where
  "acknowledge_covered P w =
     (case max_by_key id (map fst (filter (\<lambda>e. P (snd e)) (win_retained w))) of
        None \<Rightarrow> (Ok (), w)
      | Some sequence \<Rightarrow> acknowledge_through sequence w)"

section \<open>The sender\<close>

record ReplicaEndpoint =
  rep_build_id :: OperationId
  rep_identity :: ReplicaIdentity
  rep_replication_address :: string

datatype OutboundOperation =
    ObReplication ReplicationItem
  | ObCopy CopyItem
  | ObBuild ReplicaEndpoint
  | ObRemove ReplicaId
  | ObEvict ReplicaIdentity

datatype SenderOutbound =
    SoReplication ReplicaIdentity ProcessSessionId ProcessSessionId "ReplicationItem RetainedMessage"
  | SoCopy ReplicaIdentity ProcessSessionId ProcessSessionId "CopyItem RetainedMessage"
  | SoBuild ReplicaEndpoint
  | SoRemove ReplicaId
  | SoEvict ReplicaIdentity

record PeerWindows =
  pwn_session :: ProcessSessionId
  pwn_replication :: "ReplicationItem ReliableWindow"
  pwn_copy :: "CopyItem ReliableWindow"

record ReliableSender =
  rs_local_session :: ProcessSessionId
  rs_capacity :: nat
  rs_peers :: "(ReplicaIdentity, PeerWindows) btree_map"
  rs_evicted :: "ReplicaIdentity set"

type_synonym 'a sender_outcome = "(RuntimeError, 'a) result \<times> ReliableSender"

definition sender_new :: "ProcessSessionId \<Rightarrow> nat \<Rightarrow> (RuntimeError, ReliableSender) result" where
  "sender_new session capacity =
     and_then (window_new capacity :: (RuntimeError, ReplicationItem ReliableWindow) result) (\<lambda>_.
       Ok \<lparr>rs_local_session = session, rs_capacity = capacity, rs_peers = [], rs_evicted = {}\<rparr>)"

definition put_peer :: "ReplicaIdentity \<Rightarrow> PeerWindows \<Rightarrow> ReliableSender \<Rightarrow> ReliableSender" where
  "put_peer r p s = s\<lparr>rs_peers := bt_insert r p (rs_peers s)\<rparr>"

definition admit_peer :: "ReplicaIdentity \<Rightarrow> ProcessSessionId \<Rightarrow> ReliableSender \<Rightarrow> unit sender_outcome" where
  "admit_peer r session s =
     (if r \<in> rs_evicted s then (Err OperationCancelled, s)
      else case bt_get (rs_peers s) r of
        Some p \<Rightarrow> (Ok (), put_peer r (p\<lparr>pwn_session := session\<rparr>) s)
      | None \<Rightarrow>
          (case and_then (window_new (rs_capacity s)) (\<lambda>w. and_then (window_new (rs_capacity s)) (\<lambda>v.
                  Ok \<lparr>pwn_session = session, pwn_replication = w, pwn_copy = v\<rparr>)) of
             Ok p \<Rightarrow> (Ok (), put_peer r p s)
           | Err e \<Rightarrow> (Err e, s)
           | Panic \<Rightarrow> (Panic, s)))"

text \<open>\<open>retire_peer\<close> cancels the two windows it removes; nothing refers to them afterwards.\<close>

definition retire_peer :: "ReplicaIdentity \<Rightarrow> ReliableSender \<Rightarrow> ReliableSender" where
  "retire_peer r s = s\<lparr>rs_peers := bt_remove r (rs_peers s)\<rparr>"

definition evict_peer :: "ReplicaIdentity \<Rightarrow> ReliableSender \<Rightarrow> ReliableSender" where
  "evict_peer r s = (retire_peer r s)\<lparr>rs_evicted := insert r (rs_evicted s)\<rparr>"

text \<open>The windows of a known peer; an unknown peer waits for its reconfiguration.\<close>

definition with_peer :: "ReplicaIdentity
    \<Rightarrow> (PeerWindows \<Rightarrow> (RuntimeError, 'a) result \<times> PeerWindows) \<Rightarrow> ReliableSender \<Rightarrow> 'a sender_outcome" where
  "with_peer r f s =
     (case bt_get (rs_peers s) r of
        None \<Rightarrow> (Err RtReconfigurationPending, s)
      | Some p \<Rightarrow> (case f p of (x, p') \<Rightarrow> (x, put_peer r p' s)))"

definition sender_queue :: "OutboundOperation \<Rightarrow> ReliableSender \<Rightarrow> SenderOutbound sender_outcome" where
  "sender_queue x s =
     (case x of
        ObReplication item \<Rightarrow>
          with_peer (it_receiver item) (\<lambda>p. case window_enqueue item (pwn_replication p) of (m, w) \<Rightarrow>
            (and_then m (\<lambda>m. Ok (SoReplication (it_receiver item) (rs_local_session s) (pwn_session p) m)),
             p\<lparr>pwn_replication := w\<rparr>)) s
      | ObCopy item \<Rightarrow>
          with_peer (cpi_receiver item) (\<lambda>p. case window_enqueue item (pwn_copy p) of (m, w) \<Rightarrow>
            (and_then m (\<lambda>m. Ok (SoCopy (cpi_receiver item) (rs_local_session s) (pwn_session p) m)),
             p\<lparr>pwn_copy := w\<rparr>)) s
      | ObBuild endpoint \<Rightarrow> (Ok (SoBuild endpoint), s)
      | ObRemove i \<Rightarrow> (Ok (SoRemove i), s)
      | ObEvict r \<Rightarrow> (Ok (SoEvict r), evict_peer r s))"

definition acknowledge_replication :: "ReplicaIdentity \<Rightarrow> i64 \<Rightarrow> ReliableSender \<Rightarrow> unit sender_outcome" where
  "acknowledge_replication r applied =
     with_peer r (\<lambda>p. case acknowledge_covered (\<lambda>x. it_lsn x \<le> applied) (pwn_replication p) of
       (x, w) \<Rightarrow> (x, p\<lparr>pwn_replication := w\<rparr>))"

definition acknowledge_copy :: "ReplicaIdentity \<Rightarrow> u64 \<Rightarrow> ReliableSender \<Rightarrow> unit sender_outcome" where
  "acknowledge_copy r sequence =
     with_peer r (\<lambda>p. case acknowledge_covered (\<lambda>x. cpi_sequence x \<le> sequence) (pwn_copy p) of
       (x, w) \<Rightarrow> (x, p\<lparr>pwn_copy := w\<rparr>))"

definition peer_for_replica :: "ReplicaId \<Rightarrow> ReliableSender \<Rightarrow> ReplicaIdentity option" where
  "peer_for_replica i s = find (\<lambda>r. replica_id r = i) (bt_keys (rs_peers s))"

end
