(* ===== verification/Quorum_Safety.thy ===== *)
theory Quorum_Safety
  imports Quorum_Tracker
begin

text \<open>
  Safety of the quorum tracker: the sort-based quorum progress against the counting
  specification, what a finalized commit guarantees, the step relation over all operations with
  its invariants, and the conservation of write completions.
\<close>

section \<open>Counting and sorting\<close>

lemma descending_nth_iff:
  "sorted_wrt (\<ge>) vs \<Longrightarrow> k < length vs \<Longrightarrow>
     (l :: 'a::linorder) \<le> vs ! k \<longleftrightarrow> k < length (filter (\<lambda>v. l \<le> v) vs)"
proof (induction vs arbitrary: k)
  case (Cons v vs)
  show ?case
  proof (cases "l \<le> v")
    case True
    with Cons show ?thesis by (cases k) auto
  next
    case False
    then have "\<forall>x \<in> set (v # vs). \<not> l \<le> x" using Cons.prems(1) by fastforce
    moreover from this have "\<not> l \<le> (v # vs) ! k" using Cons.prems(2) nth_mem by blast
    ultimately show ?thesis by (simp add: filter_empty_conv)
  qed
qed simp

lemma length_filter_sort: "length (filter P (rev (sort vs))) = length (filter P vs)"
proof -
  have "mset (filter P (rev (sort vs))) = mset (filter P vs)" by simp
  then show ?thesis by (metis size_mset)
qed

lemma has_quorum_antimono: "has_quorum c progress l \<Longrightarrow> k \<le> l \<Longrightarrow> has_quorum c progress k"
proof -
  assume q: "has_quorum c progress l" and k: "k \<le> l"
  have "filter (\<lambda>m. l \<le> progress_of progress (m_identity m)) (members c)
      = filter (\<lambda>m. l \<le> progress_of progress (m_identity m))
          (filter (\<lambda>m. k \<le> progress_of progress (m_identity m)) (members c))"
    using k by (auto intro: filter_cong)
  then have "length (filter (\<lambda>m. l \<le> progress_of progress (m_identity m)) (members c))
      \<le> length (filter (\<lambda>m. k \<le> progress_of progress (m_identity m)) (members c))"
    by (metis length_filter_le)
  with q show ?thesis by (simp add: has_quorum_def)
qed

lemma client_commit_ready_antimono:
  "client_commit_ready a progress l \<Longrightarrow> k \<le> l \<Longrightarrow> client_commit_ready a progress k"
  by (auto simp: client_commit_ready_def is_none_or_iff intro: has_quorum_antimono)

text \<open>The members counted by \<open>has_quorum\<close>, as a set of exact identities.\<close>

definition reached :: "ConfigurationDescriptor \<Rightarrow> progress_map \<Rightarrow> Lsn \<Rightarrow> ReplicaIdentity set" where
  "reached c progress lsn = {x \<in> exact_identities c. lsn \<le> progress_of progress x}"

lemma has_quorum_iff_card:
  assumes "validate_configuration H c p = Ok ()"
  shows "has_quorum c progress lsn \<longleftrightarrow> unat (write_quorum c) \<le> card (reached c progress lsn)"
proof -
  have d: "distinct (map m_identity (members c))"
    using validated_distinct [OF assms] by (simp add: distinct_map inj_on_def)
  have "reached c progress lsn
      = m_identity ` {m \<in> set (members c). lsn \<le> progress_of progress (m_identity m)}"
    by (auto simp: reached_def exact_identities_def)
  with length_filter_eq_card [OF d, of "\<lambda>m. lsn \<le> progress_of progress (m_identity m)"]
  show ?thesis by (simp add: has_quorum_def)
qed

lemma read_quorum_sees_reached:
  assumes p: "validate_policy p = Ok ()" and c: "validate_configuration H c (Some p) = Ok ()"
    and small: "length (members c) < 4294967296"
    and q: "has_quorum c progress lsn"
    and R: "R \<subseteq> exact_identities c" "unat (read_quorum p) \<le> card R"
  shows "\<exists>x \<in> R. lsn \<le> progress_of progress x"
proof -
  have acc: "accepted_under H (c, p)" using p c small by (simp add: accepted_under_def)
  have "reached c progress lsn \<inter> R \<noteq> {}"
  proof (rule overlap_by_counting [of "exact_identities c"])
    show "finite (exact_identities c)" by (simp add: exact_identities_def)
    show "reached c progress lsn \<subseteq> exact_identities c" by (auto simp: reached_def)
    show "R \<subseteq> exact_identities c" by (rule R(1))
    have "unat (write_quorum c) \<le> card (reached c progress lsn)" using q has_quorum_iff_card [OF c] by simp
    moreover have "length (members c) < unat (write_quorum c) + unat (read_quorum p)"
      unfolding accepted_under_counts(3,4) [OF acc] by presburger
    ultimately show "card (exact_identities c) < card (reached c progress lsn) + card R"
      unfolding card_exact_identities [OF c] using R(2) by linarith
  qed
  then show ?thesis by (auto simp: reached_def)
qed

section \<open>Completing writes\<close>

lemma distinct_submset:
  assumes "mset xs \<subseteq># mset ys" "distinct ys"
  shows "distinct xs"
  unfolding distinct_count_atmost_1
proof
  fix a
  have "count (mset xs) a \<le> count (mset ys) a" using assms(1) by (rule mset_subset_eq_count)
  moreover have "count (mset ys) a \<le> 1" using assms(2) by (simp add: distinct_count_atmost_1)
  ultimately have le: "count (mset xs) a \<le> 1" by (rule order_trans)
  show "count (mset xs) a = (if a \<in> set xs then 1 else 0)"
  proof (cases "a \<in> set xs")
    case True
    then have "count (mset xs) a \<noteq> 0" by simp
    with le have "count (mset xs) a = 1" by linarith
    with True show ?thesis by simp
  next
    case False
    then show ?thesis by (simp add: count_eq_zero_iff)
  qed
qed

definition pending_senders :: "(Lsn, 's list) btree_map \<Rightarrow> 's multiset" where
  "pending_senders m = mset (concat (bt_values m))"

definition all_senders :: "'s QuorumTracker \<Rightarrow> 's multiset" where
  "all_senders t = mset (map fst (qt_sends t)) + pending_senders (qt_pending t)"

lemma bt_wf_Cons: "bt_wf (e # m) \<longleftrightarrow> bt_wf m \<and> (\<forall>x \<in> set m. fst e < fst x)"
  by (auto simp: bt_wf_def)

lemma bt_wf_single [simp]: "bt_wf [e]"
  by (simp add: bt_wf_def)

lemma bt_get_below: "\<forall>x \<in> set m. (k :: 'k::linorder) < fst x \<Longrightarrow> bt_get m k = None"
  by (induction m) (auto simp: bt_get_def)

lemma pending_senders_insert:
  "bt_wf m \<Longrightarrow>
     pending_senders (bt_insert k v m) + mset (unwrap_or (bt_get m k) []) = pending_senders m + mset v"
proof (induction m)
  case (Cons e m)
  have "k < fst e \<Longrightarrow> bt_get (e # m) k = None"
    using Cons.prems by (intro bt_get_below) (auto simp: bt_wf_Cons)
  moreover have "k = fst e \<Longrightarrow> bt_get (e # m) k = Some (snd e)" by (simp add: bt_get_def)
  moreover have "k \<noteq> fst e \<Longrightarrow> bt_get (e # m) k = bt_get m k" by (cases e) (auto simp: bt_get_def)
  ultimately show ?case
    using Cons by (auto simp: pending_senders_def bt_values_def bt_wf_Cons ac_simps)
qed (simp add: pending_senders_def bt_values_def)

lemma pending_senders_push:
  "bt_wf m \<Longrightarrow> pending_senders (bt_push k s m) = add_mset s (pending_senders m)"
  using pending_senders_insert [of m k "unwrap_or (bt_get m k) [] @ [s]"] by (simp add: bt_push_def)

lemma pending_senders_remove:
  "bt_wf m \<Longrightarrow> bt_get m k = Some ss \<Longrightarrow> pending_senders m = mset ss + pending_senders (bt_remove k m)"
proof (induction m)
  case (Cons e m)
  show ?case
  proof (cases "fst e = k")
    case True
    then have "bt_remove k m = m"
      using Cons.prems(1) by (auto simp: bt_remove_def bt_wf_Cons filter_id_conv)
    with True Cons.prems show ?thesis
      by (cases e) (simp add: bt_remove_def bt_get_def pending_senders_def bt_values_def)
  next
    case False
    with Cons show ?thesis
      by (cases e) (simp add: bt_remove_def bt_get_def pending_senders_def bt_values_def bt_wf_Cons)
  qed
qed simp

lemma complete_one_fields [simp]:
  "qt_authority (complete_one l t) = qt_authority t" "qt_progress (complete_one l t) = qt_progress t"
  "qt_sessions (complete_one l t) = qt_sessions t" "qt_verified (complete_one l t) = qt_verified t"
  "qt_obsolete_sessions (complete_one l t) = qt_obsolete_sessions t"
  "qt_witnesses (complete_one l t) = qt_witnesses t" "qt_live_commits (complete_one l t) = qt_live_commits t"
  "qt_highest_lsn (complete_one l t) = qt_highest_lsn t" "qt_committed_lsn (complete_one l t) = qt_committed_lsn t"
  by (simp_all add: complete_one_def split: option.splits)

lemma complete_one_pending: "qt_pending (complete_one l t) = bt_remove l (qt_pending t)"
proof (cases "bt_get (qt_pending t) l")
  case None
  then have "bt_remove l (qt_pending t) = qt_pending t"
    by (auto simp: bt_remove_def bt_get_def map_of_eq_None_iff filter_id_conv)
  with None show ?thesis by (simp add: complete_one_def)
qed (simp add: complete_one_def)

lemma complete_one_senders:
  "bt_wf (qt_pending t) \<Longrightarrow> all_senders (complete_one l t) = all_senders t"
  by (cases "bt_get (qt_pending t) l")
    (auto simp: complete_one_def all_senders_def comp_def pending_senders_remove ac_simps)

lemma fold_complete_fields [simp]:
  "qt_authority (fold complete_one ls t) = qt_authority t" "qt_progress (fold complete_one ls t) = qt_progress t"
  "qt_sessions (fold complete_one ls t) = qt_sessions t" "qt_verified (fold complete_one ls t) = qt_verified t"
  "qt_obsolete_sessions (fold complete_one ls t) = qt_obsolete_sessions t"
  "qt_witnesses (fold complete_one ls t) = qt_witnesses t"
  "qt_live_commits (fold complete_one ls t) = qt_live_commits t"
  "qt_highest_lsn (fold complete_one ls t) = qt_highest_lsn t"
  "qt_committed_lsn (fold complete_one ls t) = qt_committed_lsn t"
  by (induction ls arbitrary: t) simp_all

lemma fold_complete_pending: "qt_pending (fold complete_one ls t) = fold bt_remove ls (qt_pending t)"
  by (induction ls arbitrary: t) (simp_all add: complete_one_pending)

lemma fold_complete_senders:
  "bt_wf (qt_pending t) \<Longrightarrow> all_senders (fold complete_one ls t) = all_senders t"
  by (induction ls arbitrary: t) (simp_all add: complete_one_senders complete_one_pending)

lemma complete_through_pending:
  assumes "bt_wf (qt_pending t)"
  shows "bt_wf (qt_pending (complete_through c t))"
    "bt_get (qt_pending (complete_through c t)) l = (if l \<le> c then None else bt_get (qt_pending t) l)"
proof -
  let ?ls = "takeWhile (\<lambda>l. l \<le> c) (bt_keys (qt_pending t))"
  have ls: "set ?ls = {l \<in> set (bt_keys (qt_pending t)). l \<le> c}"
    using bt.take_while_le [OF assms] by auto
  note R = bt.remove_many [OF assms, of ?ls]
  show "bt_wf (qt_pending (complete_through c t))"
    using R by (simp add: complete_through_def fold_complete_pending)
  show "bt_get (qt_pending (complete_through c t)) l = (if l \<le> c then None else bt_get (qt_pending t) l)"
    using R ls by (auto simp: complete_through_def fold_complete_pending set_bt_keys)
qed

text \<open>Every send a completion appends is \<open>Ok lsn\<close> for a write that was pending at \<open>lsn \<le> c\<close>.\<close>

lemma fold_complete_sends:
  "\<exists>sent. qt_sends (fold complete_one ls t) = qt_sends t @ sent
     \<and> (\<forall>(s, r) \<in> set sent. \<exists>l \<in> set ls. \<exists>ss. r = Ok l \<and> bt_get (qt_pending t) l = Some ss \<and> s \<in> set ss)"
proof (induction ls arbitrary: t)
  case (Cons l ls)
  obtain sent where sent: "qt_sends (fold complete_one ls (complete_one l t)) = qt_sends (complete_one l t) @ sent"
    "\<forall>(s, r) \<in> set sent. \<exists>l' \<in> set ls. \<exists>ss. r = Ok l'
       \<and> bt_get (qt_pending (complete_one l t)) l' = Some ss \<and> s \<in> set ss"
    using Cons.IH [of "complete_one l t"] by blast
  have later: "\<forall>(s, r) \<in> set sent. \<exists>l' \<in> set (l # ls). \<exists>ss. r = Ok l'
      \<and> bt_get (qt_pending t) l' = Some ss \<and> s \<in> set ss"
    using sent(2) by (fastforce simp: complete_one_pending split: if_splits)
  show ?case
  proof (cases "bt_get (qt_pending t) l")
    case None
    with sent(1) later show ?thesis by (intro exI [of _ sent]) (simp add: complete_one_def [of l t])
  next
    case (Some ss)
    with sent(1) later show ?thesis
      by (intro exI [of _ "map (\<lambda>s. (s, Ok l)) ss @ sent"]) (auto simp: complete_one_def [of l t])
  qed
qed simp

section \<open>The tracker as a transition system\<close>

datatype (plugins only: code) 's tracker_op =
    OpConfigure ManagedReplicaConfiguration Lsn
  | OpRegisterSession ReplicaIdentity ProcessSessionId
  | OpVerifiedLocal Lsn
  | OpObserve SecondaryRemovalWitness
  | OpObserveProgress SecondaryRemovalWitness SecondaryScaleDownCleanup
  | OpObserveCommitted SecondaryRemovalWitness
  | OpRestoreWitness SecondaryRemovalWitness
  | OpRegisterWrite Lsn 's
  | OpLocalProgress Lsn
  | OpHandoffProgress ReplicaIdentity Lsn
  | OpAcknowledge ReplicationAck ProcessSessionId
  | OpFailPending
  | OpFinalize Lsn
  | OpRestoreCommitted Lsn
  | OpReset ReplicaIdentity Lsn Lsn

fun tracker_step :: "(bytes \<Rightarrow> bytes) \<Rightarrow> (ValidationError \<Rightarrow> string) \<Rightarrow> 's tracker_op \<Rightarrow> 's QuorumTracker \<Rightarrow> 's outcome" where
  "tracker_step H D (OpConfigure a l) t = configure_prevalidated a l t"
| "tracker_step H D (OpRegisterSession x s) t = register_peer_session x s t"
| "tracker_step H D (OpVerifiedLocal l) t = (Ok (), record_verified_local_progress l t)"
| "tracker_step H D (OpObserve w) t = observe_secondary_removal H w t"
| "tracker_step H D (OpObserveProgress w c) t = observe_secondary_removal_progress H D w c t"
| "tracker_step H D (OpObserveCommitted w) t = observe_committed_secondary_removal H w t"
| "tracker_step H D (OpRestoreWitness w) t = restore_committed_secondary_removal H w t"
| "tracker_step H D (OpRegisterWrite l s) t = register_write l s t"
| "tracker_step H D (OpLocalProgress l) t = record_local_progress l t"
| "tracker_step H D (OpHandoffProgress x l) t = (Ok (), record_prepared_build_handoff_progress x l t)"
| "tracker_step H D (OpAcknowledge k s) t = acknowledge_in_session k s t"
| "tracker_step H D OpFailPending t = (Ok (), fail_pending t)"
| "tracker_step H D (OpFinalize c) t = finalize_commit c t"
| "tracker_step H D (OpRestoreCommitted c) t = (Ok (), restore_committed_lsn c t)"
| "tracker_step H D (OpReset x p c) t = (Ok (), reset_progress_after_data_loss x p c t)"

text \<open>The trackers a sequence of calls without a panic can reach from a given one.\<close>

inductive tracker_steps ::
    "(bytes \<Rightarrow> bytes) \<Rightarrow> (ValidationError \<Rightarrow> string) \<Rightarrow> 's QuorumTracker \<Rightarrow> 's tracker_op list
      \<Rightarrow> 's QuorumTracker \<Rightarrow> bool"
  for H D t where
  steps_none: "tracker_steps H D t [] t"
| steps_more: "tracker_steps H D t ops v \<Longrightarrow> tracker_step H D op v = (r, u) \<Longrightarrow> r \<noteq> Panic
    \<Longrightarrow> tracker_steps H D t (ops @ [op]) u"

definition offered :: "'s tracker_op list \<Rightarrow> 's list" where
  "offered ops = concat (map (\<lambda>op. case op of OpRegisterWrite l s \<Rightarrow> [s] | _ \<Rightarrow> []) ops)"

definition maps_wf :: "'s QuorumTracker \<Rightarrow> bool" where
  "maps_wf t \<longleftrightarrow> bt_wf (qt_progress t) \<and> bt_wf (qt_pending t) \<and> bt_wf (qt_sessions t)
     \<and> bt_wf (qt_verified t) \<and> bt_wf (qt_witnesses t) \<and> bt_wf (qt_live_commits t)"

definition sessions_live :: "'s QuorumTracker \<Rightarrow> bool" where
  "sessions_live t \<longleftrightarrow> (\<forall>x s. bt_get (qt_sessions t) x = Some s \<longrightarrow> (x, s) \<notin> qt_obsolete_sessions t)"

lemmas tracker_op_defs = configure_prevalidated_def record_verified_local_progress_def
  register_write_def record_local_progress_def record_prepared_build_handoff_progress_def
  acknowledge_in_session_def acknowledge_def fail_pending_def fail_all_def
  reset_progress_after_data_loss_def

lemma fail_all_fields [simp]:
  "qt_authority (fail_all e t) = qt_authority t" "qt_progress (fail_all e t) = qt_progress t"
  "qt_pending (fail_all e t) = []" "qt_sessions (fail_all e t) = qt_sessions t"
  "qt_obsolete_sessions (fail_all e t) = qt_obsolete_sessions t" "qt_verified (fail_all e t) = qt_verified t"
  "qt_witnesses (fail_all e t) = qt_witnesses t" "qt_live_commits (fail_all e t) = qt_live_commits t"
  "qt_highest_lsn (fail_all e t) = qt_highest_lsn t" "qt_committed_lsn (fail_all e t) = qt_committed_lsn t"
  by (simp_all add: fail_all_def)

lemma fail_all_senders: "all_senders (fail_all e t) = all_senders t"
proof -
  have "map fst (concat (map (map (\<lambda>s. (s, Err e :: (RuntimeError, Lsn) result))) xss)) = concat xss" for xss :: "'a list list"
    by (induction xss) (simp_all add: comp_def)
  from arg_cong [OF this [of "bt_values (qt_pending t)"], of mset]
  show ?thesis by (simp add: all_senders_def fail_all_def pending_senders_def)
    (simp add: bt_values_def)
qed

lemma complete_through_fields [simp]:
  "qt_authority (complete_through c t) = qt_authority t" "qt_progress (complete_through c t) = qt_progress t"
  "qt_sessions (complete_through c t) = qt_sessions t" "qt_verified (complete_through c t) = qt_verified t"
  "qt_obsolete_sessions (complete_through c t) = qt_obsolete_sessions t"
  "qt_witnesses (complete_through c t) = qt_witnesses t"
  "qt_live_commits (complete_through c t) = qt_live_commits t"
  "qt_highest_lsn (complete_through c t) = qt_highest_lsn t"
  "qt_committed_lsn (complete_through c t) = qt_committed_lsn t"
  by (simp_all add: complete_through_def)

text \<open>What the session and removal-witness operations leave alone, and what they keep.\<close>

definition writes_untouched :: "'s QuorumTracker \<Rightarrow> 's QuorumTracker \<Rightarrow> bool" where
  "writes_untouched t u \<longleftrightarrow> qt_pending u = qt_pending t \<and> qt_sends u = qt_sends t
     \<and> qt_committed_lsn u = qt_committed_lsn t \<and> qt_highest_lsn u = qt_highest_lsn t
     \<and> qt_authority u = qt_authority t"

lemma register_peer_session_keeps:
  assumes "register_peer_session x s t = (r, u)"
  shows "writes_untouched t u" "maps_wf t \<Longrightarrow> maps_wf u" "sessions_live t \<Longrightarrow> sessions_live u"
    "qt_obsolete_sessions t \<subseteq> qt_obsolete_sessions u"
  using assms
  by (auto simp: register_peer_session_def writes_untouched_def maps_wf_def sessions_live_def
      historical_sessions_def split: option.splits if_splits)

lemma observe_keeps:
  assumes "observe_secondary_removal H w t = (r, u)"
  shows "writes_untouched t u" "maps_wf t \<Longrightarrow> maps_wf u" "qt_sessions u = qt_sessions t"
    "qt_obsolete_sessions u = qt_obsolete_sessions t"
  using assms
  by (auto simp: observe_secondary_removal_def writes_untouched_def maps_wf_def
      split: option.splits if_splits)

lemma observe_progress_keeps:
  assumes "observe_secondary_removal_progress H D w c t = (r, u)"
  shows "writes_untouched t u" "maps_wf t \<Longrightarrow> maps_wf u" "qt_sessions u = qt_sessions t"
    "qt_obsolete_sessions u = qt_obsolete_sessions t"
  using assms
  by (auto simp: observe_secondary_removal_progress_def writes_untouched_def maps_wf_def
      split: option.splits if_splits result.splits)

lemma observe_committed_keeps:
  assumes "observe_committed_secondary_removal H w t = (r, u)"
  shows "writes_untouched t u" "maps_wf t \<Longrightarrow> maps_wf u" "qt_sessions u = qt_sessions t"
    "qt_obsolete_sessions u = qt_obsolete_sessions t"
proof -
  have "u = t \<or> observe_secondary_removal H w t = (r, u)"
    using assms by (auto simp: observe_committed_secondary_removal_def split: if_splits)
  with observe_keeps [of H w t r u]
  show "writes_untouched t u" "maps_wf t \<Longrightarrow> maps_wf u" "qt_sessions u = qt_sessions t"
    "qt_obsolete_sessions u = qt_obsolete_sessions t"
    by (auto simp: writes_untouched_def)
qed

lemma restore_witness_keeps:
  assumes "restore_committed_secondary_removal H w t = (r, u)"
  shows "writes_untouched t u" "maps_wf t \<Longrightarrow> maps_wf u" "sessions_live t \<Longrightarrow> sessions_live u"
    "qt_obsolete_sessions t \<subseteq> qt_obsolete_sessions u"
proof -
  have "\<exists>v q. (v = t \<or> register_peer_session (rw_identity w) (rw_process_session_id w) t = (q, v))
      \<and> (u = v \<or> observe_committed_secondary_removal H w v = (r, u))"
    using assms by (auto simp: restore_committed_secondary_removal_def split: if_splits prod.splits result.splits)
  then obtain v q where v: "v = t \<or> register_peer_session (rw_identity w) (rw_process_session_id w) t = (q, v)"
    and u: "u = v \<or> observe_committed_secondary_removal H w v = (r, u)"
    by blast
  have "writes_untouched t v \<and> (maps_wf t \<longrightarrow> maps_wf v) \<and> (sessions_live t \<longrightarrow> sessions_live v)
      \<and> qt_obsolete_sessions t \<subseteq> qt_obsolete_sessions v"
    using v register_peer_session_keeps [of "rw_identity w" "rw_process_session_id w" t q v]
    by (elim disjE) (simp_all add: writes_untouched_def)
  moreover have "writes_untouched v u \<and> (maps_wf v \<longrightarrow> maps_wf u) \<and> qt_sessions u = qt_sessions v
      \<and> qt_obsolete_sessions u = qt_obsolete_sessions v"
    using u observe_committed_keeps [of H w v r u] by (auto simp: writes_untouched_def)
  ultimately show "writes_untouched t u" "maps_wf t \<Longrightarrow> maps_wf u" "sessions_live t \<Longrightarrow> sessions_live u"
    "qt_obsolete_sessions t \<subseteq> qt_obsolete_sessions u"
    by (auto simp: writes_untouched_def sessions_live_def)
qed

lemmas witness_op_keeps = register_peer_session_keeps observe_keeps observe_progress_keeps
  observe_committed_keeps restore_witness_keeps

lemma configure_keeps:
  assumes "configure_prevalidated a l t = (r, u)"
  shows "maps_wf t \<Longrightarrow> maps_wf u" "sessions_live t \<Longrightarrow> sessions_live u"
    "qt_obsolete_sessions u = qt_obsolete_sessions t" "all_senders u = all_senders t"
    "qt_committed_lsn u = qt_committed_lsn t"
  using assms fail_all_senders [of "AuthorityMismatch ''authority changed before the write committed''" t]
  by (auto simp: configure_prevalidated_def Let_def maps_wf_def sessions_live_def all_senders_def
      split: if_splits result.splits)

lemma step_invariants:
  assumes step: "tracker_step H D op t = (r, u)" and wf: "maps_wf t" and live: "sessions_live t"
  shows "maps_wf u \<and> sessions_live u \<and> qt_obsolete_sessions t \<subseteq> qt_obsolete_sessions u"
proof (cases op)
  case (OpConfigure a l)
  with assms configure_keeps [of a l t r u] show ?thesis by simp
next
  case (OpRegisterSession x s)
  with assms register_peer_session_keeps [of x s t r u] show ?thesis by simp
next
  case (OpObserve w)
  with assms observe_keeps [of H w t r u] show ?thesis by (simp add: sessions_live_def)
next
  case (OpObserveProgress w c)
  with assms observe_progress_keeps [of H D w c t r u] show ?thesis by (simp add: sessions_live_def)
next
  case (OpObserveCommitted w)
  with assms observe_committed_keeps [of H w t r u] show ?thesis by (simp add: sessions_live_def)
next
  case (OpRestoreWitness w)
  with assms restore_witness_keeps [of H w t r u] show ?thesis by simp
next
  case (OpFinalize c)
  with assms show ?thesis
    by (auto simp: finalize_commit_def Let_def maps_wf_def sessions_live_def complete_through_pending
        split: option.splits if_splits)
next
  case (OpRestoreCommitted c)
  with assms show ?thesis
    by (auto simp: restore_committed_lsn_def Let_def maps_wf_def sessions_live_def complete_through_pending)
qed (use assms in \<open>auto simp: tracker_op_defs Let_def maps_wf_def sessions_live_def
      split: option.splits if_splits result.splits\<close>)

lemma untouched_senders: "writes_untouched t u \<Longrightarrow> all_senders u = all_senders t"
  by (simp add: writes_untouched_def all_senders_def)

lemma step_conserves_senders:
  assumes step: "tracker_step H D op t = (r, u)" and wf: "maps_wf t"
  shows "all_senders u = all_senders t
    + (case op of OpRegisterWrite l s \<Rightarrow> if r = Ok () then {#s#} else {#} | _ \<Rightarrow> {#})"
proof (cases op)
  case (OpConfigure a l)
  with assms configure_keeps [of a l t r u] show ?thesis by simp
next
  case (OpRegisterSession x s)
  with assms register_peer_session_keeps [of x s t r u] untouched_senders show ?thesis by simp
next
  case (OpObserve w)
  with assms observe_keeps [of H w t r u] untouched_senders show ?thesis by simp
next
  case (OpObserveProgress w c)
  with assms observe_progress_keeps [of H D w c t r u] untouched_senders show ?thesis by simp
next
  case (OpObserveCommitted w)
  with assms observe_committed_keeps [of H w t r u] untouched_senders show ?thesis by simp
next
  case (OpRestoreWitness w)
  with assms restore_witness_keeps [of H w t r u] untouched_senders show ?thesis by simp
next
  case (OpRegisterWrite l s)
  with assms show ?thesis
    by (auto simp: register_write_def all_senders_def maps_wf_def pending_senders_push split: if_splits)
next
  case OpFailPending
  with assms fail_all_senders [of _ t] show ?thesis by (auto simp: fail_pending_def)
next
  case (OpReset x p c)
  with assms fail_all_senders [of "WriteClosed ReconfigurationPending" t] show ?thesis
    by (auto simp: reset_progress_after_data_loss_def fail_pending_def all_senders_def)
next
  case (OpFinalize c)
  with assms fold_complete_senders [of t] show ?thesis
    by (auto simp: finalize_commit_def Let_def complete_through_def all_senders_def maps_wf_def
        split: option.splits if_splits)
next
  case (OpRestoreCommitted c)
  with assms fold_complete_senders [of t] show ?thesis
    by (auto simp: restore_committed_lsn_def Let_def complete_through_def all_senders_def maps_wf_def)
qed (use assms in \<open>auto simp: tracker_op_defs all_senders_def split: option.splits if_splits result.splits\<close>)

lemma steps_invariants:
  "tracker_steps H D t ops u \<Longrightarrow> maps_wf t \<Longrightarrow> sessions_live t \<Longrightarrow>
     maps_wf u \<and> sessions_live u \<and> qt_obsolete_sessions t \<subseteq> qt_obsolete_sessions u"
  by (induction rule: tracker_steps.induct) (simp, meson step_invariants order_trans)

lemma default_invariants [simp]: "maps_wf qt_default" "sessions_live qt_default" "all_senders qt_default = {#}"
  by (simp_all add: maps_wf_def sessions_live_def qt_default_def all_senders_def pending_senders_def bt_values_def)

lemma steps_senders:
  "tracker_steps H D t ops u \<Longrightarrow> maps_wf t \<Longrightarrow> sessions_live t \<Longrightarrow>
     all_senders u \<subseteq># all_senders t + mset (offered ops)"
proof (induction rule: tracker_steps.induct)
  case (steps_more ops v op r u)
  have "maps_wf v" using steps_invariants steps_more by blast
  from step_conserves_senders [OF steps_more(2) this]
  have "all_senders u \<subseteq># all_senders v + mset (offered [op])"
    by (auto simp: offered_def split: tracker_op.splits)
  also have "\<dots> \<subseteq># all_senders t + mset (offered ops) + mset (offered [op])"
    using steps_more.IH steps_more.prems by (intro subset_mset.add_right_mono) simp
  finally show ?case by (simp add: offered_def ac_simps)
qed (simp add: offered_def)

section \<open>Sample tracker\<close>

definition sample_managed :: "(bytes \<Rightarrow> bytes) \<Rightarrow> ManagedReplicaConfiguration" where
  "sample_managed H =
     \<lparr>mc_local_identity = m_identity (sample_member 1 ''a'' Primary), mc_previous_configuration = None,
      mc_current_configuration = sample_configuration H 1, mc_switchover_handoff = None,
      mc_secondary_removal = None, mc_scale_up = None, mc_build_kind = BuildBootstrap\<rparr>"

definition sample_tracker :: "nat QuorumTracker" where
  "sample_tracker =
     qt_default\<lparr>qt_authority := Some (sample_managed (\<lambda>_. [])),
       qt_progress := [(m_identity (sample_member 1 ''a'' Primary), 5),
                       (m_identity (sample_member 2 ''b'' ActiveSecondary), 5)],
       qt_pending := [(4, [0]), (5, [1])], qt_highest_lsn := 5\<rparr>"

lemma sample_ready:
  "ready_commit_lsn sample_tracker = Some 5"
  by (simp add: ready_commit_lsn_def sample_tracker_def qt_default_def client_commit_ready_def has_quorum_def
      sample_managed_def sample_configuration_members bt_keys_def progress_of_def bt_get_def)
    (simp add: sample_configuration_def sample_member_def)

section \<open>Properties\<close>

text \<open>C26: the sort-based quorum progress is exact. When the write quorum lies between one and the
  number of members, an LSN has a quorum of members at or beyond it if and only if it does not
  exceed the quorum progress.\<close>

theorem quorum_progress_correct:
  assumes "0 < unat (write_quorum c)" "unat (write_quorum c) \<le> length (members c)"
  shows "has_quorum c progress lsn \<longleftrightarrow> lsn \<le> quorum_progress c progress"
proof -
  let ?vs = "map (\<lambda>m. progress_of progress (m_identity m)) (members c)"
  let ?k = "unat (write_quorum c) - 1"
  have nz: "write_quorum c \<noteq> 0" using assms(1) by auto
  have k: "unat (write_quorum c - 1) = ?k" using nz by (simp add: unat_minus_one)
  have "sorted_wrt (\<ge>) (rev (sort ?vs))" by (simp add: sorted_wrt_rev)
  from descending_nth_iff [OF this, of ?k lsn] assms
  have "lsn \<le> rev (sort ?vs) ! ?k \<longleftrightarrow> ?k < length (filter (\<lambda>v. lsn \<le> v) ?vs)"
    by (simp add: length_filter_sort)
  moreover have "?k < length ?vs" using assms by simp
  ultimately show ?thesis
    using assms(1) nz unfolding has_quorum_def quorum_progress_def Let_def
    by (auto simp: k comp_def length_filter_map)
qed

theorem quorum_progress_correct_witness:
  "5 \<le> quorum_progress (sample_configuration (\<lambda>_. []) 1) (qt_progress sample_tracker)"
proof -
  have "write_quorum (sample_configuration (\<lambda>_. []) 1) = 2" by (simp add: sample_configuration_def)
  moreover have "has_quorum (sample_configuration (\<lambda>_. []) 1) (qt_progress sample_tracker) 5"
    by (simp add: has_quorum_def sample_tracker_def sample_configuration_members progress_of_def bt_get_def
        qt_default_def) (simp add: sample_configuration_def sample_member_def)
  ultimately show ?thesis
    using quorum_progress_correct [of "sample_configuration (\<lambda>_. []) 1" "qt_progress sample_tracker" 5]
    by (simp add: sample_configuration_members)
qed

text \<open>C1: a finalized commit is durable under quorum reads. When \<open>finalize_commit\<close> succeeds for an
  LSN, then in the current configuration, and in the previous one while a transition is in
  flight, every read quorum of a valid policy contains a replica whose recorded progress has
  reached that LSN.\<close>

theorem finalized_commit_seen_by_read_quorums:
  assumes fin: "finalize_commit lsn t = (Ok (), u)" and auth: "qt_authority t = Some a"
    and c: "c = mc_current_configuration a \<or> mc_previous_configuration a = Some c"
    and valid: "validate_policy p = Ok ()" "validate_configuration H c (Some p) = Ok ()"
      "length (members c) < 4294967296"
    and R: "R \<subseteq> exact_identities c" "unat (read_quorum p) \<le> card R"
  shows "\<exists>x \<in> R. lsn \<le> progress_of (qt_progress t) x"
proof -
  obtain ready where r: "ready_commit_lsn t = Some ready" "lsn \<le> ready"
    using fin by (auto simp: finalize_commit_def split: option.splits if_splits)
  have "client_commit_ready a (qt_progress t) ready"
    using max_by_key_Some_D [of id] r(1) auth by (fastforce simp: ready_commit_lsn_def)
  then have "client_commit_ready a (qt_progress t) lsn" using r(2) by (rule client_commit_ready_antimono)
  then have "has_quorum c (qt_progress t) lsn" using c by (auto simp: client_commit_ready_def)
  then show ?thesis by (rule read_quorum_sees_reached [OF valid _ R])
qed

theorem finalized_commit_seen_by_read_quorums_witness:
  "\<exists>x \<in> {m_identity (sample_member 2 ''b'' ActiveSecondary), m_identity (sample_member 3 ''c'' ActiveSecondary)}.
     5 \<le> progress_of (qt_progress sample_tracker) x"
proof -
  have "\<exists>u. finalize_commit 5 sample_tracker = (Ok (), u)" by (simp add: finalize_commit_def sample_ready Let_def)
  then obtain u where fin: "finalize_commit 5 sample_tracker = (Ok (), u)" ..
  have auth: "qt_authority sample_tracker = Some (sample_managed (\<lambda>_. []))" by (simp add: sample_tracker_def)
  have c: "sample_configuration (\<lambda>_. []) 1 = mc_current_configuration (sample_managed (\<lambda>_. []))
      \<or> mc_previous_configuration (sample_managed (\<lambda>_. [])) = Some (sample_configuration (\<lambda>_. []) 1)"
    by (simp add: sample_managed_def)
  have valid: "validate_configuration (\<lambda>_. []) (sample_configuration (\<lambda>_. []) 1) (Some sample_policy) = Ok ()"
    "length (members (sample_configuration (\<lambda>_. []) 1)) < 4294967296"
    using sample_configuration_valid [of 1 "\<lambda>_. []"] by (simp_all add: sample_configuration_members)
  show ?thesis
    by (rule finalized_commit_seen_by_read_quorums [OF fin auth c sample_policy_valid valid])
      (simp_all add: exact_identities_def sample_configuration_members sample_policy_def,
       simp add: sample_member_def)
qed



text \<open>C2: no write completion is duplicated. In every sequence of tracker calls from the initial
  state whose registered senders are distinct, each sender is completed at most once, and no
  completed sender is still pending.\<close>

theorem completions_at_most_once:
  assumes "tracker_steps H D qt_default ops t" "distinct (offered ops)"
  shows "distinct (map fst (qt_sends t)) \<and>
    set (map fst (qt_sends t)) \<inter> set (concat (bt_values (qt_pending t))) = {}"
proof -
  have "all_senders t \<subseteq># mset (offered ops)" using steps_senders [OF assms(1)] by simp
  then have "mset (map fst (qt_sends t) @ concat (bt_values (qt_pending t))) \<subseteq># mset (offered ops)"
    by (simp add: all_senders_def pending_senders_def)
  then have "distinct (map fst (qt_sends t) @ concat (bt_values (qt_pending t)))"
    using assms(2) by (rule distinct_submset)
  then show ?thesis by simp
qed

definition sample_ops :: "nat tracker_op list" where
  "sample_ops = [OpConfigure (sample_managed (\<lambda>_. [])) 0, OpRegisterWrite 1 0, OpRegisterWrite 2 1, OpFailPending]"

lemma sample_configure:
  "configure_prevalidated (sample_managed (\<lambda>_. [])) 0 qt_default
     = (Ok (), (qt_default :: nat QuorumTracker)\<lparr>qt_authority := Some (sample_managed (\<lambda>_. [])),
          qt_progress := [(m_identity (sample_member 1 ''a'' Primary), 0)]\<rparr>)"
  by (simp add: configure_prevalidated_def Let_def qt_default_def derive_must_catch_up_def sample_managed_def
      configured_boundary_def bt_retain_def bt_raise_def)

lemma sample_steps:
  "\<exists>t. tracker_steps H D qt_default sample_ops t \<and> map fst (qt_sends t) = [0, 1]"
proof -
  let ?t1 = "(qt_default :: nat QuorumTracker)\<lparr>qt_authority := Some (sample_managed (\<lambda>_. [])),
      qt_progress := [(m_identity (sample_member 1 ''a'' Primary), 0)]\<rparr>"
  let ?t2 = "snd (register_write 1 0 ?t1)" and ?t3 = "snd (register_write 2 1 (snd (register_write 1 0 ?t1)))"
  have s: "tracker_step H D (OpConfigure (sample_managed (\<lambda>_. [])) 0) qt_default = (Ok (), ?t1)"
    "tracker_step H D (OpRegisterWrite 1 0) ?t1 = (Ok (), ?t2)"
    "tracker_step H D (OpRegisterWrite 2 1) ?t2 = (Ok (), ?t3)"
    "tracker_step H D OpFailPending ?t3 = (Ok (), fail_pending ?t3)"
    by (simp_all add: sample_configure register_write_def)
  have "tracker_steps H D qt_default ([] @ [OpConfigure (sample_managed (\<lambda>_. [])) 0]) ?t1"
    by (rule steps_more [OF steps_none s(1)]) simp
  from steps_more [OF this s(2)] have "tracker_steps H D qt_default
      (([] @ [OpConfigure (sample_managed (\<lambda>_. [])) 0]) @ [OpRegisterWrite 1 0]) ?t2" by simp
  from steps_more [OF steps_more [OF this s(3)] s(4)]
  have "tracker_steps H D qt_default sample_ops (fail_pending ?t3)" by (simp add: sample_ops_def)
  moreover have "map fst (qt_sends (fail_pending ?t3)) = [0, 1]"
    by (simp add: fail_pending_def fail_all_def register_write_def qt_default_def bt_push_def bt_get_def bt_values_def)
  ultimately show ?thesis by (intro exI conjI)
qed

theorem completions_at_most_once_witness:
  "\<exists>t. tracker_steps (\<lambda>_. []) (\<lambda>_. []) qt_default sample_ops t \<and> map fst (qt_sends t) = [0, 1]
     \<and> distinct (map fst (qt_sends t))"
proof -
  obtain t where t: "tracker_steps (\<lambda>_. []) (\<lambda>_. []) qt_default sample_ops t" "map fst (qt_sends t) = [0, 1]"
    using sample_steps [of "\<lambda>_. []" "\<lambda>_. []"] by (elim exE conjE)
  have "distinct (offered sample_ops)" by (simp add: offered_def sample_ops_def)
  from completions_at_most_once [OF t(1) this] have "distinct (map fst (qt_sends t))" by (rule conjunct1)
  with t show ?thesis by (intro exI conjI)
qed

text \<open>No write completion is lost. A single tracker call keeps every sender that was pending or
  completed, each as often as before, and adds exactly the sender of a successful registration.\<close>

theorem completions_conserved:
  assumes "maps_wf t" "tracker_step H D op t = (r, u)"
  shows "mset (map fst (qt_sends u)) + mset (concat (bt_values (qt_pending u)))
    = mset (map fst (qt_sends t)) + mset (concat (bt_values (qt_pending t)))
      + (case op of OpRegisterWrite l s \<Rightarrow> if r = Ok () then {#s#} else {#} | _ \<Rightarrow> {#})"
  using step_conserves_senders [OF assms(2,1)] by (simp add: all_senders_def pending_senders_def)

theorem completions_conserved_witness:
  "mset (map fst (qt_sends (fail_pending sample_tracker))) = {#0, 1#}"
proof -
  have "maps_wf sample_tracker"
    by (simp add: maps_wf_def sample_tracker_def qt_default_def bt_wf_def less_ReplicaIdentity_ext_def sample_member_def)
  from completions_conserved [OF this, of "\<lambda>_. []" "\<lambda>_. []" OpFailPending "Ok ()" "fail_pending sample_tracker"]
  show ?thesis by (simp add: fail_pending_def sample_tracker_def qt_default_def bt_values_def)
qed


definition sample_peer :: ReplicaIdentity where
  "sample_peer = m_identity (sample_member 2 ''b'' ActiveSecondary)"

lemma sample_peer_member:
  "mc_contains_member (sample_managed H) sample_peer" "sample_peer \<noteq> mc_local_identity (sample_managed H)"
  "mc_secondary_removal (sample_managed H) = None"
  by (simp_all add: mc_contains_member_def sample_managed_def sample_configuration_members sample_peer_def)
    (simp add: sample_member_def)

lemma sample_session_steps:
  "\<exists>t. tracker_steps H D (qt_default :: nat QuorumTracker) [OpConfigure (sample_managed (\<lambda>_. [])) 0,
     OpRegisterSession sample_peer ''s1'', OpRegisterSession sample_peer ''s2''] t
     \<and> (sample_peer, ''s1'') \<in> qt_obsolete_sessions t"
proof -
  define t1 where "t1 = (qt_default :: nat QuorumTracker)\<lparr>qt_authority := Some (sample_managed (\<lambda>_. [])),
      qt_progress := [(m_identity (sample_member 1 ''a'' Primary), 0)]\<rparr>"
  define t2 where "t2 = snd (register_peer_session sample_peer ''s1'' t1)"
  define t3 where "t3 = snd (register_peer_session sample_peer ''s2'' t2)"
  have t1: "qt_authority t1 = Some (sample_managed (\<lambda>_. []))" "qt_obsolete_sessions t1 = {}" "qt_sessions t1 = []"
    by (simp_all add: t1_def qt_default_def)
  have r2: "register_peer_session sample_peer ''s1'' t1 = (Ok (), t2)"
    and t2: "qt_authority t2 = Some (sample_managed (\<lambda>_. []))" "qt_obsolete_sessions t2 = {}"
      "bt_get (qt_sessions t2) sample_peer = Some ''s1''"
    unfolding t2_def using sample_peer_member [of "\<lambda>_. []"] t1
    by (simp_all add: register_peer_session_def historical_sessions_def bt_get_def)
  have r3: "register_peer_session sample_peer ''s2'' t2 = (Ok (), t3)"
    and t3: "(sample_peer, ''s1'') \<in> qt_obsolete_sessions t3"
    unfolding t3_def using sample_peer_member [of "\<lambda>_. []"] t2
    by (simp_all add: register_peer_session_def historical_sessions_def)
  have c1: "tracker_step H D (OpConfigure (sample_managed (\<lambda>_. [])) 0) qt_default = (Ok (), t1)"
    by (simp only: tracker_step.simps sample_configure t1_def)
  have s1: "tracker_steps H D qt_default ([] @ [OpConfigure (sample_managed (\<lambda>_. [])) 0]) t1"
    using steps_none c1 by (rule steps_more) simp
  have s2: "tracker_steps H D qt_default (([] @ [OpConfigure (sample_managed (\<lambda>_. [])) 0])
      @ [OpRegisterSession sample_peer ''s1'']) t2"
    using s1 by (rule steps_more [where r = "Ok ()"]) (simp_all add: r2)
  have "tracker_steps H D qt_default ((([] @ [OpConfigure (sample_managed (\<lambda>_. [])) 0])
      @ [OpRegisterSession sample_peer ''s1'']) @ [OpRegisterSession sample_peer ''s2'']) t3"
    using s2 by (rule steps_more [where r = "Ok ()"]) (simp_all add: r3)
  with t3 show ?thesis unfolding append.simps by (intro exI conjI)
qed


text \<open>A change of authority acknowledges nothing. Installing an authority that differs from the
  current one fails every pending write with an authority mismatch, leaves none pending, and,
  unless it completes the same scale-up transition, discards all progress but the local one.\<close>

theorem authority_change_fails_writes:
  assumes "configure_prevalidated a l t = (Ok (), u)" "qt_authority t = Some b" "b \<noteq> a"
  shows "qt_pending u = [] \<and>
    (\<exists>sent. qt_sends u = qt_sends t @ sent
       \<and> (\<forall>(s, r) \<in> set sent. r = Err (AuthorityMismatch ''authority changed before the write committed''))
       \<and> mset (map fst sent) = mset (concat (bt_values (qt_pending t)))) \<and>
    (mc_scale_up a = None \<or> \<not> mc_is_current_only_completion_of a b
       \<longrightarrow> qt_progress u = [(mc_local_identity a, l)])"
proof -
  let ?e = "AuthorityMismatch ''authority changed before the write committed''"
  have u: "qt_pending u = []" "qt_sends u = qt_sends (fail_all ?e t)"
    using assms by (auto simp: configure_prevalidated_def Let_def split: if_splits result.splits)
  have p: "mc_scale_up a = None \<or> \<not> mc_is_current_only_completion_of a b
      \<longrightarrow> qt_progress u = [(mc_local_identity a, l)]"
    using assms by (auto simp: configure_prevalidated_def Let_def bt_retain_def bt_raise_def
        split: if_splits result.splits)
  let ?sent = "concat (map (map (\<lambda>s. (s, Err ?e :: (RuntimeError, Lsn) result))) (bt_values (qt_pending t)))"
  have sent: "qt_sends u = qt_sends t @ ?sent" by (simp add: u(2) fail_all_def)
  have "all_senders (fail_all ?e t) = all_senders t" by (rule fail_all_senders)
  then have "mset (map fst ?sent) = mset (concat (bt_values (qt_pending t)))"
    by (simp add: all_senders_def fail_all_def pending_senders_def) (simp add: bt_values_def)
  with u(1) p sent show ?thesis by (intro conjI exI [of _ ?sent]) auto
qed

theorem authority_change_fails_writes_witness:
  "\<exists>u. configure_prevalidated (sample_managed id) 7 sample_tracker = (Ok (), u)
     \<and> qt_pending u = [] \<and> qt_progress u = [(m_identity (sample_member 1 ''a'' Primary), 7)]"
proof -
  have ne: "sample_managed (\<lambda>_. []) \<noteq> sample_managed id"
  proof
    assume "sample_managed (\<lambda>_. []) = sample_managed id"
    then have "mc_current_configuration (sample_managed (\<lambda>_. [])) = mc_current_configuration (sample_managed id)"
      by (rule arg_cong)
    then have "sample_configuration (\<lambda>_. []) 1 = sample_configuration id 1"
      by (simp only: sample_managed_def ManagedReplicaConfiguration.select_convs)
    from arg_cong [OF this, of "\<lambda>c. length (configuration_id c)"]
    have "length (configuration_preimage (epoch_new 0 1) 1 (members (sample_configuration id 1)) 2) = 0"
      by (simp add: sample_configuration_def expected_id_def calculate_id_def)
    then show False by (simp add: configuration_preimage_def)
  qed
  have auth: "qt_authority sample_tracker = Some (sample_managed (\<lambda>_. []))" by (simp add: sample_tracker_def)
  have "\<exists>u. configure_prevalidated (sample_managed id) 7 sample_tracker = (Ok (), u)"
    using ne by (simp add: configure_prevalidated_def Let_def auth derive_must_catch_up_def)
      (simp add: sample_managed_def)
  then obtain u where u: "configure_prevalidated (sample_managed id) 7 sample_tracker = (Ok (), u)" ..
  have "mc_scale_up (sample_managed id) = None" "mc_local_identity (sample_managed id) = m_identity (sample_member 1 ''a'' Primary)"
    by (simp_all add: sample_managed_def)
  with authority_change_fails_writes [OF u auth ne] u show ?thesis by auto
qed

end
