(* ===== verification/Log_Safety.thy ===== *)
theory Log_Safety
  imports Replication_Log Quorum_Safety
begin

text \<open>
  The retained queue as a refinement of a finite map of LSNs, and the invariant of the
  replication log over all its operations: log and tracker agree on the authority, and no
  committed, pending or retained LSN exceeds the last assigned one.
\<close>

section \<open>The queue interface\<close>

locale retention_queue =
  fixes contents :: "'q \<Rightarrow> Lsn \<Rightarrow> bytes option"
    and wf :: "'q \<Rightarrow> bool"
    and push :: "Operation \<Rightarrow> 'q \<Rightarrow> 'q"
    and truncate :: "Lsn \<Rightarrow> 'q \<Rightarrow> 'q"
    and replay :: "Lsn \<Rightarrow> 'q \<Rightarrow> Operation list"
  assumes wf_push: "wf q \<Longrightarrow> wf (push x q)"
    and wf_truncate: "wf q \<Longrightarrow> wf (truncate c q)"
    and contents_push: "wf q \<Longrightarrow> contents (push x q) = (contents q)(op_lsn x \<mapsto> op_data x)"
    and contents_truncate: "wf q \<Longrightarrow> i64_range (c + 1) \<Longrightarrow>
      contents (truncate c q) l = (if c < l then contents q l else None)"
    and replay_contents: "wf q \<Longrightarrow> x \<in> set (replay from q) \<longleftrightarrow>
      from \<le> op_lsn x \<and> contents q (op_lsn x) = Some (op_data x) \<and> op_committed_lsn x = 0"
    and replay_ascending: "wf q \<Longrightarrow> sorted_wrt (<) (map op_lsn (replay from q))"
begin

lemma replay_determined:
  assumes "wf q" "wf q'" "\<And>l. from \<le> l \<Longrightarrow> contents q l = contents q' l"
  shows "replay from q = replay from q'"
proof -
  have same: "set (replay from q) = set (replay from q')"
    using assms by (auto simp: replay_contents)
  have inj: "inj_on op_lsn (set (replay from q) \<union> set (replay from q'))"
  proof (rule inj_onI)
    fix x y assume xy: "x \<in> set (replay from q) \<union> set (replay from q')"
      "y \<in> set (replay from q) \<union> set (replay from q')" "op_lsn x = op_lsn y"
    then have "x \<in> set (replay from q)" "y \<in> set (replay from q)" using same by auto
    with xy(3) show "x = y" using assms(1) by (simp add: replay_contents)
  qed
  have "map op_lsn (replay from q) = map op_lsn (replay from q')"
    using replay_ascending [OF assms(1)] replay_ascending [OF assms(2)] same
    by (intro strict_sorted_equal) auto
  from this inj show ?thesis by (rule map_inj_on)
qed

text \<open>Truncation at a committed LSN loses nothing a peer that has reached it still needs.\<close>

lemma truncate_keeps_tail:
  "wf q \<Longrightarrow> i64_range (c + 1) \<Longrightarrow> c < from \<Longrightarrow> replay from (truncate c q) = replay from q"
  by (intro replay_determined) (auto simp: wf_truncate contents_truncate)

lemma push_is_replayed:
  "wf q \<Longrightarrow> from \<le> op_lsn x \<Longrightarrow>
     \<exists>y \<in> set (replay from (push x q)). op_lsn y = op_lsn x \<and> op_data y = op_data x"
  by (intro bexI [of _ "x\<lparr>op_committed_lsn := 0\<rparr>"]) (auto simp: replay_contents wf_push contents_push)

end

lemma operations_from_ascending:
  assumes "bt_wf q"
  shows "sorted_wrt (<) (map op_lsn (operations_from from q))"
proof -
  have "map op_lsn (operations_from from q) = map fst (filter (\<lambda>(l, d). from \<le> l) q)"
    by (simp add: operations_from_def comp_def case_prod_beta)
  with bt_wf_filter [OF assms, of "\<lambda>(l, d). from \<le> l"] show ?thesis by (simp add: bt_wf_def)
qed

lemma operations_from_member:
  assumes "bt_wf q"
  shows "x \<in> set (operations_from from q) \<longleftrightarrow>
    from \<le> op_lsn x \<and> bt_get q (op_lsn x) = Some (op_data x) \<and> op_committed_lsn x = 0"
proof -
  have "distinct (map fst q)" using assms by (simp add: bt_wf_def strict_sorted_iff)
  then have get: "bt_get q l = Some d \<longleftrightarrow> (l, d) \<in> set q" for l d by (simp add: bt_get_def)
  have "x \<in> set (operations_from from q) \<longleftrightarrow>
      (\<exists>l d. (l, d) \<in> set q \<and> from \<le> l \<and> x = \<lparr>op_lsn = l, op_committed_lsn = 0, op_data = d\<rparr>)"
    by (auto simp: operations_from_def image_iff)
  then show ?thesis unfolding get by (cases x) auto
qed

interpretation queue: retention_queue bt_get bt_wf queue_push truncate_committed operations_from
proof
  fix q :: ReplicationQueue and x c l "from"
  assume wf: "bt_wf q"
  show "bt_wf (queue_push x q)" "bt_wf (truncate_committed c q)"
    using wf by (simp_all add: queue_push_def truncate_committed_def)
  show "bt_get (queue_push x q) = (bt_get q)(op_lsn x \<mapsto> op_data x)"
    by (auto simp: queue_push_def fun_eq_iff)
  show "i64_range (c + 1) \<Longrightarrow> bt_get (truncate_committed c q) l = (if c < l then bt_get q l else None)"
    by (auto simp: truncate_committed_def i64_add_exact)
  show "x \<in> set (operations_from from q) \<longleftrightarrow>
      from \<le> op_lsn x \<and> bt_get q (op_lsn x) = Some (op_data x) \<and> op_committed_lsn x = 0"
    using wf by (rule operations_from_member)
  show "sorted_wrt (<) (map op_lsn (operations_from from q))" using wf by (rule operations_from_ascending)
qed

section \<open>The log invariant\<close>

definition tracker_bounded :: "Lsn \<Rightarrow> 's QuorumTracker \<Rightarrow> bool" where
  "tracker_bounded n t \<longleftrightarrow> maps_wf t \<and> qt_committed_lsn t \<le> n \<and> (\<forall>k. bt_get (qt_pending t) k \<noteq> None \<longrightarrow> k \<le> n)"

definition log_inv :: "'s ReplicationLog \<Rightarrow> bool" where
  "log_inv l \<longleftrightarrow> tracker_bounded (rl_next_lsn l) (rl_quorum l)
     \<and> rl_authority l = qt_authority (rl_quorum l) \<and> bt_wf (rl_queue l)
     \<and> (\<forall>k. bt_get (rl_queue l) k \<noteq> None \<longrightarrow> k \<le> rl_next_lsn l)"

lemma tracker_bounded_mono: "tracker_bounded n t \<Longrightarrow> n \<le> n' \<Longrightarrow> tracker_bounded n' t"
  by (fastforce simp: tracker_bounded_def)

lemma tracker_bounded_untouched:
  "tracker_bounded n t \<Longrightarrow> writes_untouched t u \<Longrightarrow> maps_wf u \<Longrightarrow> tracker_bounded n u"
  by (simp add: tracker_bounded_def writes_untouched_def)

lemma tracker_bounded_fail: "tracker_bounded n t \<Longrightarrow> tracker_bounded n (fail_pending t)"
  by (simp add: tracker_bounded_def maps_wf_def fail_pending_def)

lemma tracker_bounded_complete:
  "tracker_bounded n t \<Longrightarrow> c \<le> n \<Longrightarrow>
     tracker_bounded n ((complete_through c t)\<lparr>qt_committed_lsn := max (qt_committed_lsn t) c\<rparr>)"
  by (simp add: tracker_bounded_def maps_wf_def complete_through_pending)

lemma ready_commit_bounded: "tracker_bounded n t \<Longrightarrow> ready_commit_lsn t = Some r \<Longrightarrow> r \<le> n"
proof -
  assume b: "tracker_bounded n t" and r: "ready_commit_lsn t = Some r"
  then obtain a where "max_by_key id (filter (client_commit_ready a (qt_progress t)) (bt_keys (qt_pending t))) = Some r"
    by (cases "qt_authority t") (auto simp: ready_commit_lsn_def)
  from max_by_key_Some_D [OF this] have "r \<in> set (bt_keys (qt_pending t))" by simp
  with b show "r \<le> n" by (simp add: tracker_bounded_def set_bt_keys)
qed

lemma finalize_bounded:
  assumes "tracker_bounded n t" "finalize_commit c t = (r, u)"
  shows "tracker_bounded n u" "qt_authority u = qt_authority t"
proof -
  have "u = t \<or> (\<exists>ready. ready_commit_lsn t = Some ready \<and> c \<le> ready
      \<and> u = (complete_through c t)\<lparr>qt_committed_lsn := max (qt_committed_lsn t) c\<rparr>)"
    using assms(2) by (auto simp: finalize_commit_def Let_def split: option.splits if_splits)
  moreover have "tracker_bounded n ((complete_through c t)\<lparr>qt_committed_lsn := max (qt_committed_lsn t) c\<rparr>)"
    if "ready_commit_lsn t = Some ready" "c \<le> ready" for ready
    using tracker_bounded_complete [OF assms(1)] ready_commit_bounded [OF assms(1) that(1)] that(2) by simp
  ultimately show "tracker_bounded n u" "qt_authority u = qt_authority t" using assms(1) by auto
qed

lemma restore_committed_bounded:
  assumes "tracker_bounded n t" "c \<le> n"
  shows "tracker_bounded n (restore_committed_lsn c t)" "qt_authority (restore_committed_lsn c t) = qt_authority t"
  using tracker_bounded_complete [OF assms]
  by (simp_all add: restore_committed_lsn_def Let_def tracker_bounded_def maps_wf_def)

lemma record_local_bounded:
  assumes "tracker_bounded n t" "record_local_progress k t = (r, u)"
  shows "tracker_bounded n u" "qt_authority u = qt_authority t" "qt_committed_lsn u = qt_committed_lsn t"
    "qt_pending u = qt_pending t" "r = Ok () \<longleftrightarrow> qt_authority t \<noteq> None" "r \<noteq> Panic"
  using assms by (auto simp: record_local_progress_def tracker_bounded_def maps_wf_def split: option.splits)

lemma register_write_bounded:
  assumes "tracker_bounded n t" "register_write k s t = (r, u)"
  shows "tracker_bounded (max n k) u" "qt_authority u = qt_authority t" "qt_committed_lsn u = qt_committed_lsn t"
    "r = Ok () \<longleftrightarrow> qt_authority t \<noteq> None" "r \<noteq> Panic"
  using assms
  by (fastforce simp: register_write_def tracker_bounded_def maps_wf_def max_def split: if_splits)+

lemma configure_bounded:
  assumes "tracker_bounded n t" "configure_prevalidated a k t = (r, u)"
  shows "tracker_bounded n u" "r = Ok () \<Longrightarrow> qt_authority u = Some a" "r = Ok () \<or> r = Panic"
proof -
  have wf: "maps_wf u" "qt_committed_lsn u = qt_committed_lsn t"
    using configure_keeps [OF assms(2)] assms(1) by (simp_all add: tracker_bounded_def)
  have "qt_pending u = [] \<or> qt_pending u = qt_pending t"
    using assms(2) by (auto simp: configure_prevalidated_def Let_def split: if_splits result.splits)
  with wf assms(1) show "tracker_bounded n u" by (auto simp: tracker_bounded_def)
  show "r = Ok () \<Longrightarrow> qt_authority u = Some a" "r = Ok () \<or> r = Panic"
    using assms(2) by (auto simp: configure_prevalidated_def Let_def split: if_splits result.splits)
qed

lemma acknowledge_bounded:
  assumes "tracker_bounded n t" "acknowledge_in_session k s t = (r, u) \<or> acknowledge k t = (r, u)"
  shows "tracker_bounded n u" "qt_authority u = qt_authority t"
  using assms
  by (auto simp: acknowledge_in_session_def acknowledge_def tracker_bounded_def maps_wf_def
      split: option.splits result.splits if_splits)

lemma queue_truncate_keys:
  "bt_get (truncate_committed c q) k = Some d \<Longrightarrow> bt_get q k = Some d"
  by (simp add: truncate_committed_def split: if_splits)

text \<open>A tracker call that keeps the bound and the authority keeps the log's invariant.\<close>

lemma log_inv_on_quorum:
  assumes "log_inv l" "on_quorum f l = (r, l')"
    and "\<And>t. f (rl_quorum l) = (r, t) \<Longrightarrow>
      tracker_bounded (rl_next_lsn l) t \<and> qt_authority t = qt_authority (rl_quorum l)"
  shows "log_inv l'"
  using assms by (auto simp: log_inv_def on_quorum_def split: prod.splits)

lemma log_inv_raise: "log_inv l \<Longrightarrow> rl_next_lsn l \<le> n \<Longrightarrow> log_inv (l\<lparr>rl_next_lsn := n\<rparr>)"
  by (fastforce simp: log_inv_def tracker_bounded_mono)

lemma log_inv_bounded: "log_inv l \<Longrightarrow> tracker_bounded (rl_next_lsn l) (rl_quorum l)"
  by (simp add: log_inv_def)

lemma log_inv_truncate: "log_inv l \<Longrightarrow> log_inv (l\<lparr>rl_queue := truncate_committed c (rl_queue l)\<rparr>)"
  unfolding log_inv_def by (auto simp: queue.wf_truncate dest: queue_truncate_keys)

lemma log_inv_clear: "log_inv l \<Longrightarrow> log_inv (l\<lparr>rl_queue := []\<rparr>)"
  by (simp add: log_inv_def)

lemma log_inv_fields [simp]:
  "log_inv (l\<lparr>rl_pending_local_write := p\<rparr>) = log_inv l" "log_inv (l\<lparr>rl_epoch := e\<rparr>) = log_inv l"
  "log_inv (l\<lparr>rl_role := role\<rparr>) = log_inv l" "log_inv (l\<lparr>rl_open := b\<rparr>) = log_inv l"
  "log_inv (l\<lparr>rl_sends := ss\<rparr>) = log_inv l"
  by (simp_all add: log_inv_def)

lemma log_inv_fence: "log_inv l \<Longrightarrow> log_inv (fence_client_writes l)"
  by (simp add: log_inv_def fence_client_writes_def tracker_bounded_fail) (simp add: fail_pending_def fail_all_def)

lemma log_inv_restore: "log_inv l \<Longrightarrow> c \<le> rl_next_lsn l \<Longrightarrow> log_inv (l\<lparr>rl_quorum := restore_committed_lsn c (rl_quorum l)\<rparr>)"
  using restore_committed_bounded [of "rl_next_lsn l" "rl_quorum l" c] by (simp add: log_inv_def)

lemma log_inv_configure:
  assumes inv: "log_inv l" and step: "log_configure_prevalidated a k l = (r, l')" and ok: "r \<noteq> Panic"
  shows "log_inv l'"
proof -
  define l2 where "l2 = (if rl_authority l \<noteq> Some a then l\<lparr>rl_pending_local_write := None\<rparr> else l)
    \<lparr>rl_next_lsn := max (rl_next_lsn l) k\<rparr>"
  obtain r1 t where t: "configure_prevalidated a k (rl_quorum l2) = (r1, t)" by force
  have inv2: "log_inv l2" unfolding l2_def using inv by (auto intro!: log_inv_raise)
  note b = configure_bounded [OF log_inv_bounded [OF inv2] t]
  have "r1 = Ok ()" "l' = l2\<lparr>rl_quorum := t, rl_authority := Some a\<rparr>"
    using step ok b(3) t
    by (auto simp: log_configure_prevalidated_def Let_def on_quorum_def l2_def split: if_splits)
  with b inv2 show ?thesis by (simp add: log_inv_def)
qed

lemma replication_items_Ok: "rl_authority l = Some a \<Longrightarrow> \<exists>items. replication_items x l = Ok items"
  by (simp add: replication_items_def ok_or_def)

lemma log_inv_register:
  assumes inv: "log_inv l" and a: "rl_authority l = Some a"
  shows "\<exists>p l'. register_local_write x s l = (Ok p, l') \<and> log_inv l' \<and> op_lsn x \<le> rl_next_lsn l'"
proof -
  define q where "q = queue_push x (rl_queue l)"
  define n where "n = max (rl_next_lsn l) (op_lsn x)"
  have qa: "qt_authority (rl_quorum l) = Some a" using inv a by (simp add: log_inv_def)
  obtain r t where t: "record_local_progress (op_lsn x) (rl_quorum l) = (r, t)" by force
  note b = record_local_bounded [OF log_inv_bounded [OF inv] t]
  have r: "r = Ok ()" using b(5) qa by simp
  have q: "bt_wf q" "\<And>k. bt_get q k \<noteq> None \<Longrightarrow> k \<le> n"
    using inv unfolding q_def n_def by (auto simp: log_inv_def queue.wf_push queue.contents_push split: if_splits)
  show ?thesis
  proof (cases "op_lsn x \<le> qt_committed_lsn t")
    case True
    let ?l = "l\<lparr>rl_queue := q, rl_quorum := t, rl_sends := rl_sends l @ [(s, Ok (op_lsn x))], rl_next_lsn := n\<rparr>"
    have "log_inv ?l" using b q qa a tracker_bounded_mono [of "rl_next_lsn l" t n] by (simp add: log_inv_def n_def)
    from log_inv_truncate [OF this, of "qt_committed_lsn t"]
    have inv': "log_inv (?l\<lparr>rl_queue := truncate_committed (qt_committed_lsn t) q\<rparr>)" by simp
    obtain items where "replication_items x
        (l\<lparr>rl_queue := q, rl_quorum := t, rl_sends := rl_sends l @ [(s, Ok (op_lsn x))]\<rparr>) = Ok items"
      using replication_items_Ok [of "l\<lparr>rl_queue := q, rl_quorum := t, rl_sends := rl_sends l @ [(s, Ok (op_lsn x))]\<rparr>" a x] a
      by auto
    with inv' True t r show ?thesis
      by (simp add: register_local_write_def Let_def on_quorum_def q_def [symmetric] n_def)
        (simp add: log_inv_def)
  next
    case False
    obtain r2 u where u: "register_write (op_lsn x) s t = (r2, u)" by force
    note c = register_write_bounded [OF b(1) u]
    let ?l = "l\<lparr>rl_queue := q, rl_quorum := u, rl_next_lsn := n\<rparr>"
    have r2: "r2 = Ok ()" using c(4) b(2) qa by simp
    have "log_inv ?l" using c(1,2) b(2) q qa a by (simp add: log_inv_def n_def)
    from log_inv_truncate [OF this, of "qt_committed_lsn u"]
    have inv': "log_inv (?l\<lparr>rl_queue := truncate_committed (qt_committed_lsn u) q\<rparr>)" by simp
    obtain items where "replication_items x (l\<lparr>rl_queue := q, rl_quorum := u\<rparr>) = Ok items"
      using replication_items_Ok [of "l\<lparr>rl_queue := q, rl_quorum := u\<rparr>" a x] a by auto
    with inv' False t r u r2 show ?thesis
      by (simp add: register_local_write_def Let_def on_quorum_def q_def [symmetric] n_def)
        (simp add: log_inv_def)
  qed
qed

lemma log_inv_record_local:
  assumes "log_inv l" "on_quorum (record_local_progress k) l = (r, l')"
  shows "log_inv l'" "rl_next_lsn l' = rl_next_lsn l"
  using log_inv_on_quorum [OF assms] record_local_bounded [OF log_inv_bounded [OF assms(1)]] assms(2)
  by (auto simp: on_quorum_def split: prod.splits)

lemma replication_targets_members:
  "replication_targets a self = {r. mc_contains_member a r} - {self}"
  by (cases "mc_previous_configuration a")
    (auto simp: replication_targets_def mc_contains_member_def is_some_and_iff)

lemma finite_replication_targets: "finite (replication_targets a self)"
  unfolding replication_targets_def by (rule finite_set)

lemma replication_items_exact:
  assumes "replication_items x m = Ok items" "rl_authority m = Some a"
    and "mc_primary_identity a = Ok (rl_local_identity m)"
  shows "distinct (map it_receiver items)
    \<and> set (map it_receiver items) = {r. mc_contains_member a r} - {rl_local_identity m}
    \<and> (\<forall>i \<in> set items. mc_validate_envelope a i = Ok () \<and> it_lsn i = op_lsn x \<and> it_data i = op_data x)"
proof -
  let ?ts = "sorted_list_of_set (replication_targets a (rl_local_identity m))"
  have "map it_receiver items = ?ts"
    using assms(1,2) by (auto simp: replication_items_def ok_or_def comp_def)
  then have "distinct (map it_receiver items)"
    "set (map it_receiver items) = {r. mc_contains_member a r} - {rl_local_identity m}"
    using finite_replication_targets [of a "rl_local_identity m"] by (simp_all add: replication_targets_members)
  moreover have "\<forall>i \<in> set items. mc_validate_envelope a i = Ok () \<and> it_lsn i = op_lsn x \<and> it_data i = op_data x"
    using assms finite_replication_targets [of a "rl_local_identity m"]
    by (auto simp: replication_items_def ok_or_def mc_validate_envelope_def fence_simps mc_fence_def
        replication_targets_members)
  ultimately show ?thesis by blast
qed

lemma register_local_write_outcome:
  assumes "register_local_write x (s :: 's) l = (Ok p, l')" "qt_authority (rl_quorum l) = Some a" "rl_authority l = Some a"
  shows "\<exists>m :: 's ReplicationLog. replication_items x m = Ok (pw_items p) \<and> rl_authority m = Some a
      \<and> rl_local_identity m = rl_local_identity l
    \<and> ((s, Ok (op_lsn x)) \<in> set (rl_sends l')
       \<or> (\<exists>ss. bt_get (qt_pending (rl_quorum l')) (op_lsn x) = Some ss \<and> s \<in> set ss))"
proof -
  obtain t where t: "record_local_progress (op_lsn x) (rl_quorum l) = (Ok (), t)" "qt_authority t = Some a"
    using assms(2) by (simp add: record_local_progress_def)
  show ?thesis
  proof (cases "op_lsn x \<le> qt_committed_lsn t")
    case True
    let ?m = "l\<lparr>rl_queue := queue_push x (rl_queue l), rl_quorum := t, rl_sends := rl_sends l @ [(s, Ok (op_lsn x))]\<rparr>"
    have "replication_items x ?m = Ok (pw_items p)" "(s, Ok (op_lsn x)) \<in> set (rl_sends l')"
      using True assms(1) t by (auto simp: register_local_write_def Let_def on_quorum_def split: result.splits)
    then show ?thesis using assms(3) by (intro exI [of _ ?m]) simp
  next
    case False
    define u where "u = snd (register_write (op_lsn x) s t)"
    have u: "register_write (op_lsn x) s t = (Ok (), u)" "qt_pending u = bt_push (op_lsn x) s (qt_pending t)"
      using t(2) by (auto simp: register_write_def u_def)
    let ?m = "l\<lparr>rl_queue := queue_push x (rl_queue l), rl_quorum := u\<rparr>"
    have "replication_items x ?m = Ok (pw_items p)" "rl_quorum l' = u"
      using False assms(1) t u(1) by (auto simp: register_local_write_def Let_def on_quorum_def split: result.splits)
    then show ?thesis using assms(3) u(2) by (intro exI [of _ ?m]) simp
  qed
qed

section \<open>Sequences of log operations\<close>

datatype (plugins only: code) 's log_op =
    LogConfigure ManagedReplicaConfiguration Lsn
  | LogAdmit ManagedReplicaConfiguration Lsn bool
  | LogReserve ClientWrite
  | LogRestoreReservation ClientWrite Lsn
  | LogRegister Operation 's
  | LogAcknowledge ReplicationAck
  | LogAcknowledgeIn ReplicationAck ProcessSessionId
  | LogProgress Lsn
  | LogFinalize Lsn
  | LogRestoreWrite Operation
  | LogRestorePrefix Lsn
  | LogFence
  | LogOpen
  | LogEpoch Epoch
  | LogRole Epoch ReplicaRole
  | LogHandoff ReplicaIdentity Lsn
  | LogAbort
  | LogClose
  | LogReset Lsn Lsn
  | LogTracker "'s tracker_op"

definition discard :: "('e, 'a) result \<times> 'st \<Rightarrow> ('e, unit) result \<times> 'st" where
  "discard = (\<lambda>(r, s). (and_then r (\<lambda>_. Ok ()), s))"

fun log_step :: "(bytes \<Rightarrow> bytes) \<Rightarrow> (ValidationError \<Rightarrow> string) \<Rightarrow> 's log_op \<Rightarrow> 's ReplicationLog \<Rightarrow> (unit, 's) log_outcome" where
  "log_step H D (LogConfigure a k) l = log_configure_prevalidated a k l"
| "log_step H D (LogAdmit a k preserve) l = admit_prepared_authority a k preserve l"
| "log_step H D (LogReserve w) l = discard (reserve_write w l)"
| "log_step H D (LogRestoreReservation w k) l = restore_write_reservation w k l"
| "log_step H D (LogRegister x s) l = discard (ensure_local_write_registered x s l)"
| "log_step H D (LogAcknowledge k) l = log_acknowledge k l"
| "log_step H D (LogAcknowledgeIn k session) l = log_acknowledge_in_session k session l"
| "log_step H D (LogProgress k) l = log_record_local_progress k l"
| "log_step H D (LogFinalize c) l = log_finalize_commit c l"
| "log_step H D (LogRestoreWrite x) l = restore_committed_write x l"
| "log_step H D (LogRestorePrefix c) l = (Ok (), restore_committed_prefix c l)"
| "log_step H D LogFence l = (Ok (), fence_client_writes l)"
| "log_step H D LogOpen l = log_open l"
| "log_step H D (LogEpoch e) l = update_epoch e l"
| "log_step H D (LogRole e role) l = change_role e role l"
| "log_step H D (LogHandoff x k) l = (Ok (), log_record_prepared_build_handoff_progress x k l)"
| "log_step H D LogAbort l = (Ok (), log_abort l)"
| "log_step H D LogClose l = log_close l"
| "log_step H D (LogReset p c) l = (Ok (), log_reset_progress_after_data_loss p c l)"
| "log_step H D (LogTracker op) l = on_quorum (tracker_step H D op) l"

text \<open>
  The order the runtime keeps: a restored prefix is at most the progress already recorded, a
  reset commits at most the progress it sets, and only the calls the log passes on unchanged
  reach the tracker directly.
\<close>

fun passed_on :: "'s tracker_op \<Rightarrow> bool" where
  "passed_on (OpRegisterSession x s) = True"
| "passed_on (OpVerifiedLocal k) = True"
| "passed_on (OpObserve w) = True"
| "passed_on (OpObserveProgress w c) = True"
| "passed_on (OpObserveCommitted w) = True"
| "passed_on (OpRestoreWitness w) = True"
| "passed_on _ = False"

fun disciplined :: "'s log_op \<Rightarrow> 's ReplicationLog \<Rightarrow> bool" where
  "disciplined (LogRestorePrefix c) l = (c \<le> rl_next_lsn l)"
| "disciplined (LogReset p c) l = (c \<le> p)"
| "disciplined (LogTracker op) l = passed_on op"
| "disciplined _ l = True"

inductive log_steps :: "(bytes \<Rightarrow> bytes) \<Rightarrow> (ValidationError \<Rightarrow> string) \<Rightarrow> 's ReplicationLog \<Rightarrow> 's log_op list
    \<Rightarrow> 's ReplicationLog \<Rightarrow> bool"
  for H D l where
  log_none: "log_steps H D l [] l"
| log_more: "log_steps H D l ops m \<Longrightarrow> disciplined op m \<Longrightarrow> log_step H D op m = (r, n) \<Longrightarrow> r \<noteq> Panic
    \<Longrightarrow> log_steps H D l (ops @ [op]) n"

lemma passed_on_keeps:
  assumes "passed_on op" "tracker_step H D op t = (r, u)" "maps_wf t"
  shows "writes_untouched t u \<and> maps_wf u"
proof (cases op)
  case (OpVerifiedLocal k)
  with assms show ?thesis
    by (auto simp: record_verified_local_progress_def writes_untouched_def maps_wf_def split: option.splits)
qed (use assms in \<open>auto intro: witness_op_keeps(1,2,5,6,9,10,13,14,17,18)\<close>)

lemma log_inv_reserve: "log_inv l \<Longrightarrow> reserve_write w l = (r, l') \<Longrightarrow> log_inv l'"
  by (auto simp: reserve_write_def Let_def split: option.splits if_splits result.splits)

lemma log_inv_ensure:
  assumes "log_inv l" "ensure_local_write_registered x s l = (r, l')"
  shows "log_inv l'"
proof (cases "register_local_write x s l = (r, l') \<and> rl_authority l \<noteq> None")
  case True
  with log_inv_register [OF assms(1), of _ x s] show ?thesis by auto
next
  case False
  with assms show ?thesis by (auto simp: ensure_local_write_registered_def split: if_splits)
qed

lemma log_inv_restore_write:
  assumes inv: "log_inv l" and step: "restore_committed_write x l = (r, l')"
  shows "log_inv l'"
proof -
  define m where "m = l\<lparr>rl_pending_local_write := None, rl_next_lsn := max (rl_next_lsn l) (op_lsn x)\<rparr>"
  have m: "log_inv m" unfolding m_def using log_inv_raise [OF inv, of "max (rl_next_lsn l) (op_lsn x)"]
    by (simp add: log_inv_def)
  obtain q n where n: "on_quorum (record_local_progress (op_lsn x)) m = (q, n)" by force
  note ninv = log_inv_record_local [OF m n]
  have "op_lsn x \<le> rl_next_lsn n" using ninv(2) by (simp add: m_def)
  from log_inv_truncate [OF log_inv_restore [OF ninv(1) this]]
  have "log_inv (n\<lparr>rl_quorum := restore_committed_lsn (op_lsn x) (rl_quorum n),
      rl_queue := truncate_committed (op_lsn x) (rl_queue n)\<rparr>)" by simp
  with step inv ninv(1) n show ?thesis
    by (auto simp: restore_committed_write_def m_def [symmetric] split: if_splits result.splits)
qed

lemma log_inv_finalize:
  assumes inv: "log_inv l" and step: "log_finalize_commit c l = (r, l')"
  shows "log_inv l'"
proof -
  obtain q m where m: "on_quorum (finalize_commit c) l = (q, m)" by force
  have "log_inv m"
    using log_inv_on_quorum [OF inv m] finalize_bounded [OF log_inv_bounded [OF inv]] by blast
  with log_inv_truncate step m show ?thesis by (auto simp: log_finalize_commit_def split: result.splits)
qed

lemma log_inv_epoch: "log_inv l \<Longrightarrow> update_epoch e l = (r, l') \<Longrightarrow> log_inv l'"
  by (auto simp: update_epoch_def Let_def log_inv_fence split: if_splits)

lemma log_inv_role:
  assumes "log_inv l" "change_role e role l = (r, l')"
  shows "log_inv l'"
proof -
  obtain q m where m: "update_epoch e l = (q, m)" by force
  with assms log_inv_epoch [OF assms(1) m] show ?thesis
    by (auto simp: change_role_def Let_def log_inv_fence split: if_splits result.splits)
qed

lemma log_inv_admit:
  assumes "log_inv l" "admit_prepared_authority a k preserve l = (r, l')" "r \<noteq> Panic"
  shows "log_inv l'"
proof -
  have "\<exists>m. log_inv m \<and> log_configure_prevalidated a k m = (r, l')"
    using assms(1,2) log_inv_fence [OF assms(1)]
    unfolding admit_prepared_authority_def Let_def by (intro exI conjI) (auto split: if_splits)
  with assms(3) show ?thesis by (auto intro: log_inv_configure)
qed

lemma log_inv_reset: "log_inv l \<Longrightarrow> c \<le> p \<Longrightarrow> log_inv (log_reset_progress_after_data_loss p c l)"
  by (auto simp: log_inv_def tracker_bounded_def maps_wf_def log_reset_progress_after_data_loss_def
      reset_progress_after_data_loss_def fail_pending_def fail_all_def bt_wf_def)

lemma log_inv_handoff: "log_inv l \<Longrightarrow> log_inv (log_record_prepared_build_handoff_progress x k l)"
  by (auto simp: log_inv_def tracker_bounded_def maps_wf_def log_record_prepared_build_handoff_progress_def
      record_prepared_build_handoff_progress_def)

lemma log_inv_ack:
  assumes inv: "log_inv l"
    and step: "log_acknowledge k l = (r, l') \<or> log_acknowledge_in_session k session l = (r, l')"
  shows "log_inv l'"
proof -
  have "l' = l \<or> on_quorum (acknowledge k) l = (r, l') \<or> on_quorum (acknowledge_in_session k session) l = (r, l')"
    using step by (auto simp: log_acknowledge_def log_acknowledge_in_session_def split: if_splits)
  then show ?thesis
    using inv log_inv_on_quorum [OF inv] acknowledge_bounded [OF log_inv_bounded [OF inv]] by blast
qed

lemma log_inv_passed_on:
  assumes inv: "log_inv l" and "passed_on op" "on_quorum (tracker_step H D op) l = (r, l')"
  shows "log_inv l'"
proof (rule log_inv_on_quorum [OF inv assms(3)])
  fix t assume t: "tracker_step H D op (rl_quorum l) = (r, t)"
  from inv have "maps_wf (rl_quorum l)" by (simp add: log_inv_def tracker_bounded_def)
  from passed_on_keeps [OF assms(2) t this] log_inv_bounded [OF inv]
  show "tracker_bounded (rl_next_lsn l) t \<and> qt_authority t = qt_authority (rl_quorum l)"
    using tracker_bounded_untouched by (auto simp: writes_untouched_def)
qed

lemmas log_inv_ops = log_inv_configure log_inv_admit log_inv_reserve log_inv_ensure log_inv_ack
  log_inv_record_local(1) log_inv_finalize log_inv_restore_write log_inv_restore log_inv_fence
  log_inv_epoch log_inv_role log_inv_handoff log_inv_reset log_inv_passed_on

lemma log_step_inv:
  assumes "log_step H D op l = (r, l')" "log_inv l" "disciplined op l" "r \<noteq> Panic"
  shows "log_inv l'"
proof (cases op)
  case (LogReserve w)
  with assms log_inv_reserve [OF assms(2), of w] show ?thesis by (auto simp: discard_def split: prod.splits)
next
  case (LogRestoreReservation w k)
  with assms log_inv_raise [OF assms(2), of "max (rl_next_lsn l) (i64_add k (- 1))"] show ?thesis
    by (auto simp: restore_write_reservation_def log_inv_def split: option.splits if_splits)
next
  case (LogRegister x s)
  with assms log_inv_ensure [OF assms(2), of x s] show ?thesis by (auto simp: discard_def split: prod.splits)
next
  case (LogProgress k)
  have "log_inv (l\<lparr>rl_next_lsn := max (rl_next_lsn l) k\<rparr>)" using assms(2) by (rule log_inv_raise) simp
  with assms LogProgress show ?thesis by (auto simp: log_record_local_progress_def intro: log_inv_record_local)
next
  case (LogRestorePrefix c)
  with assms log_inv_restore [OF assms(2), of c] show ?thesis by (auto simp: restore_committed_prefix_def)
next
  case LogOpen
  with assms show ?thesis by (auto simp: log_open_def split: if_splits)
next
  case LogAbort
  with assms log_inv_clear [OF log_inv_fence [OF assms(2)]] show ?thesis by (auto simp: log_abort_def)
next
  case LogClose
  with assms log_inv_clear [OF log_inv_fence [OF assms(2)]] show ?thesis by (auto simp: log_close_def)
qed (use assms in \<open>auto intro: log_inv_ops\<close>)

lemma log_steps_inv: "log_steps H D l ops l' \<Longrightarrow> log_inv l \<Longrightarrow> log_inv l'"
  by (induction rule: log_steps.induct) (auto intro: log_step_inv)

lemma log_new_inv [simp]: "log_inv (log_new x)"
  by (simp add: log_inv_def log_new_def tracker_bounded_def) (simp add: qt_default_def)

section \<open>Sample log\<close>

definition sample_write :: ClientWrite where
  "sample_write = \<lparr>cw_operation_id = ''op-1'', cw_data = ''data''\<rparr>"

definition sample_log_ops :: "nat log_op list" where
  "sample_log_ops = [LogAdmit (sample_managed (\<lambda>_. [])) 0 False, LogOpen,
     LogRole (c_epoch (sample_configuration (\<lambda>_. []) 1)) Primary]"

definition sample_log :: "nat ReplicationLog" where
  "sample_log = (log_new (m_identity (sample_member 1 ''a'' Primary)))
     \<lparr>rl_authority := Some (sample_managed (\<lambda>_. [])), rl_open := True, rl_role := Primary,
      rl_epoch := c_epoch (sample_configuration (\<lambda>_. []) 1),
      rl_quorum := qt_default\<lparr>qt_authority := Some (sample_managed (\<lambda>_. [])),
          qt_progress := [(m_identity (sample_member 1 ''a'' Primary), 0)]\<rparr>\<rparr>"

lemma fail_pending_default [simp]: "fail_pending qt_default = qt_default"
  by (simp add: fail_pending_def fail_all_def qt_default_def bt_values_def)

lemma sample_managed_current: "mc_current_configuration (sample_managed H) = sample_configuration H 1"
  by (simp add: sample_managed_def)

lemma sample_log_steps:
  "log_steps H D (log_new (m_identity (sample_member 1 ''a'' Primary))) sample_log_ops sample_log"
proof -
  let ?n = "log_new (m_identity (sample_member 1 ''a'' Primary)) :: nat ReplicationLog"
  let ?e = "c_epoch (sample_configuration (\<lambda>_. []) 1)"
  let ?a = "sample_log\<lparr>rl_open := False, rl_role := RoleNone\<rparr>"
  have "log_step H D (LogAdmit (sample_managed (\<lambda>_. [])) 0 False) ?n = (Ok (), ?a)"
    by (auto simp: admit_prepared_authority_def log_configure_prevalidated_def Let_def on_quorum_def
        fence_client_writes_def sample_log_def log_new_def sample_configure sample_managed_current)
  from log_more [OF log_none _ this] have 1: "log_steps H D ?n [LogAdmit (sample_managed (\<lambda>_. [])) 0 False] ?a" by simp
  have "log_step H D LogOpen ?a = (Ok (), sample_log\<lparr>rl_role := RoleNone\<rparr>)"
    by (simp add: log_open_def sample_log_def log_new_def)
  from log_more [OF 1 _ this] have 2: "log_steps H D ?n [LogAdmit (sample_managed (\<lambda>_. [])) 0 False, LogOpen]
      (sample_log\<lparr>rl_role := RoleNone\<rparr>)" by simp
  have "log_step H D (LogRole ?e Primary) (sample_log\<lparr>rl_role := RoleNone\<rparr>) = (Ok (), sample_log)"
    by (simp add: change_role_def update_epoch_def Let_def sample_log_def log_new_def)
  from log_more [OF 2 _ this] show ?thesis by (simp add: sample_log_ops_def)
qed

lemma sample_primary: "mc_primary_identity (sample_managed (\<lambda>_. [])) = Ok (m_identity (sample_member 1 ''a'' Primary))"
  by (simp add: mc_primary_identity_def Let_def sample_managed_def sample_configuration_members)
    (simp add: sample_configuration_def sample_member_def)

lemma sample_reserve: "\<exists>l. reserve_write sample_write sample_log = (Ok 1, l)"
  by (simp add: reserve_write_def sample_log_def log_new_def Let_def sample_primary)
    (simp add: sample_managed_def i64_add_exact i64_range_def)

section \<open>Properties\<close>



text \<open>C19: only the serving primary reserves a write, and a retry is idempotent. A reservation
  succeeds only in an open log whose role is Primary, whose epoch is that of the admitted
  authority and whose replica is that authority's primary. Repeating it returns the same LSN
  and leaves the log unchanged; a different write is refused with the outstanding operation.\<close>

theorem reservation_guarded_and_idempotent:
  assumes "reserve_write w l = (Ok lsn, l')"
  shows "(\<exists>a. rl_authority l = Some a \<and> rl_open l \<and> rl_role l = Primary
      \<and> rl_epoch l = c_epoch (mc_current_configuration a) \<and> mc_primary_identity a = Ok (rl_local_identity l))
    \<and> reserve_write w l' = (Ok lsn, l')
    \<and> (w' \<noteq> w \<longrightarrow> reserve_write w' l' = (Err (LocalWritePending (cw_operation_id w)), l'))"
proof -
  obtain a where a: "rl_authority l = Some a" "rl_open l" "rl_role l = Primary"
    "rl_epoch l = c_epoch (mc_current_configuration a)" "mc_primary_identity a = Ok (rl_local_identity l)"
    using assms by (auto simp: reserve_write_def split: option.splits if_splits result.splits)
  define p where "p = \<lparr>plw_operation_id = cw_operation_id w, plw_lsn = lsn, plw_data = cw_data w\<rparr>"
  have l': "rl_pending_local_write l' = Some p" "rl_authority l' = rl_authority l" "rl_open l' = rl_open l"
    "rl_role l' = rl_role l" "rl_epoch l' = rl_epoch l" "rl_local_identity l' = rl_local_identity l"
    using assms a by (auto simp: reserve_write_def Let_def p_def split: option.splits if_splits)
  have "w' \<noteq> w \<Longrightarrow> \<not> (cw_operation_id w = cw_operation_id w' \<and> cw_data w = cw_data w')" by auto
  with a l' show ?thesis by (auto simp: reserve_write_def p_def)
qed

theorem reservation_guarded_and_idempotent_witness:
  "\<exists>l. reserve_write sample_write sample_log = (Ok 1, l) \<and> reserve_write sample_write l = (Ok 1, l)
     \<and> reserve_write (sample_write\<lparr>cw_data := []\<rparr>) l = (Err (LocalWritePending ''op-1''), l)"
proof -
  obtain l where l: "reserve_write sample_write sample_log = (Ok 1, l)" using sample_reserve ..
  show ?thesis
    using reservation_guarded_and_idempotent [OF l, of "sample_write\<lparr>cw_data := []\<rparr>"] l
    by (simp add: sample_write_def)
qed

text \<open>C17: the retained queue refines a finite map of LSNs. Pushing an operation updates the map at
  its LSN, truncating at a committed LSN removes exactly the entries up to it, and a replay from
  an LSN lists exactly the entries from there on in strictly ascending order of LSN.\<close>

theorem queue_refines_map:
  assumes "bt_wf q"
  shows "bt_get (queue_push x q) = (bt_get q)(op_lsn x \<mapsto> op_data x)
    \<and> (i64_range (c + 1) \<longrightarrow> bt_get (truncate_committed c q) = (\<lambda>l. if c < l then bt_get q l else None))
    \<and> (\<forall>y. y \<in> set (operations_from from q) \<longleftrightarrow>
          from \<le> op_lsn y \<and> bt_get q (op_lsn y) = Some (op_data y) \<and> op_committed_lsn y = 0)
    \<and> sorted_wrt (<) (map op_lsn (operations_from from q))"
  using queue.contents_push [OF assms] queue.contents_truncate [OF assms]
    queue.replay_contents [OF assms] queue.replay_ascending [OF assms]
  by (intro conjI impI allI) (auto simp: fun_eq_iff)

theorem queue_refines_map_witness:
  "bt_get (queue_push \<lparr>op_lsn = 3, op_committed_lsn = 1, op_data = ''c''\<rparr> [(1, ''a''), (2, ''b'')]) 3 = Some ''c''
   \<and> bt_get (truncate_committed 1 [(1, ''a''), (2, ''b'')]) 1 = None"
proof -
  have "bt_wf [(1 :: int, ''a''), (2, ''b'')]" "i64_range (1 + 1)" by (simp_all add: bt_wf_def i64_range_def)
  with queue_refines_map [of "[(1, ''a''), (2, ''b'')]" "\<lparr>op_lsn = 3, op_committed_lsn = 1, op_data = ''c''\<rparr>" 1 0]
  show ?thesis by simp
qed

text \<open>C18: truncation at commit loses nothing that is uncommitted, and its boundary is safe. After a
  successful \<open>finalize_commit\<close> below the largest \<open>i64\<close>, a replay from any later LSN is unchanged
  and a replay from an earlier one starts right after the commit; at the largest \<open>i64\<close>, where
  the successor wraps around, the queue is kept whole.\<close>

theorem finalize_keeps_uncommitted_tail:
  assumes "log_inv l" "log_finalize_commit c l = (Ok (), l')" "i64_range c"
    and "\<forall>k \<in> set (bt_keys (rl_queue l)). i64_range k"
  shows "(c < 9223372036854775807 \<longrightarrow>
       operations_from from (rl_queue l') = operations_from (max from (c + 1)) (rl_queue l))
    \<and> (c = 9223372036854775807 \<longrightarrow> rl_queue l' = rl_queue l)"
proof -
  have wf: "bt_wf (rl_queue l)" using assms(1) by (simp add: log_inv_def)
  have l': "rl_queue l' = truncate_committed c (rl_queue l)"
    using assms(2) by (auto simp: log_finalize_commit_def on_quorum_def split: prod.splits result.splits)
  have wrap: "i64_add 9223372036854775807 1 = - 9223372036854775808"
    by (simp add: i64_add_def i64_wrap_def)
  have "operations_from from (truncate_committed c (rl_queue l)) = operations_from (max from (c + 1)) (rl_queue l)"
    if "c < 9223372036854775807"
  proof -
    have r: "i64_range (c + 1)" using that assms(3) by (simp add: i64_range_def)
    show ?thesis unfolding operations_from_def truncate_committed_def bt_split_off_def i64_add_exact [OF r]
      by (simp add: filter_filter case_prod_beta conj_commute cong: filter_cong)
  qed
  moreover have "truncate_committed 9223372036854775807 (rl_queue l) = rl_queue l"
    using assms(4) unfolding truncate_committed_def wrap bt_split_off_def
    by (intro filter_True) (auto simp: bt_keys_def i64_range_def)
  ultimately show ?thesis by (auto simp: l')
qed



theorem finalize_keeps_uncommitted_tail_witness:
  "\<exists>l. log_finalize_commit 4 (sample_log\<lparr>rl_quorum := sample_tracker, rl_next_lsn := 5,
       rl_queue := [(4, ''x''), (5, ''y'')]\<rparr>) = (Ok (), l)
     \<and> map op_lsn (operations_from 0 (rl_queue l)) = [5]"
proof -
  let ?l = "sample_log\<lparr>rl_quorum := sample_tracker, rl_next_lsn := 5, rl_queue := [(4, ''x''), (5, ''y'')]\<rparr>"
  have "maps_wf sample_tracker"
    by (simp add: maps_wf_def sample_tracker_def qt_default_def bt_wf_def less_ReplicaIdentity_ext_def sample_member_def)
  then have inv: "log_inv ?l"
    by (simp add: log_inv_def tracker_bounded_def sample_log_def bt_wf_def bt_get_def)
      (simp add: sample_tracker_def qt_default_def bt_get_def)
  have "\<exists>l. log_finalize_commit 4 ?l = (Ok (), l)"
    by (simp add: log_finalize_commit_def on_quorum_def finalize_commit_def sample_ready Let_def)
  then obtain l where l: "log_finalize_commit 4 ?l = (Ok (), l)" ..
  have "i64_range 4" "\<forall>k \<in> set (bt_keys (rl_queue ?l)). i64_range k" by (simp_all add: i64_range_def bt_keys_def)
  from finalize_keeps_uncommitted_tail [OF inv l this, of 0]
  have "operations_from 0 (rl_queue l) = operations_from 5 (rl_queue ?l)" by simp
  then have "map op_lsn (operations_from 0 (rl_queue l)) = [5]" by (simp add: operations_from_def)
  with l show ?thesis by (intro exI conjI)
qed

text \<open>C14: a registered write is sent to every other member of the authority. On the primary, a
  successful registration returns one item for each other member of the current and, during a
  transition, the previous configuration, none for itself and none twice; each item carries the
  write and passes the receiver's envelope check under the same authority. The write's channel
  is either completed at once or left pending at its LSN.\<close>

theorem registered_write_reaches_members:
  assumes "log_inv l" "ensure_local_write_registered x (s :: 's) l = (Ok p, l')" "rl_authority l = Some a"
    and "mc_primary_identity a = Ok (rl_local_identity l)"
  shows "distinct (map it_receiver (pw_items p))
    \<and> set (map it_receiver (pw_items p)) = {r. mc_contains_member a r} - {rl_local_identity l}
    \<and> (\<forall>i \<in> set (pw_items p). mc_validate_envelope a i = Ok () \<and> it_lsn i = op_lsn x \<and> it_data i = op_data x)
    \<and> ((s, Ok (op_lsn x)) \<in> set (rl_sends l')
       \<or> (\<exists>ss. bt_get (qt_pending (rl_quorum l')) (op_lsn x) = Some ss \<and> s \<in> set ss))"
proof -
  have reg: "register_local_write x s l = (Ok p, l')"
    using assms(2) by (simp add: ensure_local_write_registered_def split: if_splits)
  have "qt_authority (rl_quorum l) = Some a" using assms(1,3) by (simp add: log_inv_def)
  from register_local_write_outcome [OF reg this assms(3)] obtain m :: "'s ReplicationLog"
    where m: "replication_items x m = Ok (pw_items p)" "rl_authority m = Some a" "rl_local_identity m = rl_local_identity l"
    and s: "(s, Ok (op_lsn x)) \<in> set (rl_sends l')
       \<or> (\<exists>ss. bt_get (qt_pending (rl_quorum l')) (op_lsn x) = Some ss \<and> s \<in> set ss)" by blast
  from replication_items_exact [OF m(1,2)] assms(4) s m(3) show ?thesis by simp
qed

theorem registered_write_reaches_members_witness:
  "\<exists>p l. ensure_local_write_registered \<lparr>op_lsn = 1, op_committed_lsn = 0, op_data = ''data''\<rparr> 7 sample_log = (Ok p, l)
     \<and> m_identity (sample_member 3 ''c'' ActiveSecondary) \<in> set (map it_receiver (pw_items p))"
proof -
  let ?x = "\<lparr>op_lsn = 1, op_committed_lsn = 0, op_data = ''data''\<rparr>"
  have inv: "log_inv sample_log" using log_steps_inv [OF sample_log_steps] by simp
  have a: "rl_authority sample_log = Some (sample_managed (\<lambda>_. []))" by (simp add: sample_log_def)
  obtain p l where r: "register_local_write ?x 7 sample_log = (Ok p, l)" using log_inv_register [OF inv a] by blast
  have e: "ensure_local_write_registered ?x 7 sample_log = register_local_write ?x 7 sample_log"
    by (simp add: ensure_local_write_registered_def sample_log_def log_new_def sample_managed_current)
  have primary: "mc_primary_identity (sample_managed (\<lambda>_. [])) = Ok (rl_local_identity sample_log)"
    by (simp add: sample_primary sample_log_def log_new_def)
  have "set (map it_receiver (pw_items p))
      = {r. mc_contains_member (sample_managed (\<lambda>_. [])) r} - {rl_local_identity sample_log}"
    using registered_write_reaches_members [OF inv _ a primary] e r by metis
  moreover have "m_identity (sample_member 3 ''c'' ActiveSecondary)
      \<in> {r. mc_contains_member (sample_managed (\<lambda>_. [])) r} - {rl_local_identity sample_log}"
    by (simp add: mc_contains_member_def sample_managed_current sample_configuration_members sample_log_def log_new_def)
      (simp add: sample_member_def)
  ultimately show ?thesis using e r by metis
qed

end
