(* ===== verification/Sender_Safety.thy ===== *)
theory Sender_Safety
  imports Reliable_Sender Log_Safety
begin

text \<open>
  The windows of the sender over every sequence of its operations: sequence numbers are fresh, the
  windows stay within their capacity, an evicted peer stays out, and the items of a registered
  write are retained for each receiver until that receiver acknowledges them.
\<close>

section \<open>One window\<close>

definition win_inv :: "'a ReliableWindow \<Rightarrow> bool" where
  "win_inv w \<longleftrightarrow> bt_wf (win_retained w) \<and> win_acknowledged_sequence w < win_next_sequence w
     \<and> (\<forall>k x. bt_get (win_retained w) k = Some x \<longrightarrow> win_acknowledged_sequence w < k \<and> k < win_next_sequence w)
     \<and> length (win_retained w) \<le> win_capacity w \<and> \<not> win_cancelled w"

lemma u64_next: "unat (x :: u64) + 1 < 18446744073709551616 \<Longrightarrow> x < x + 1 \<and> unat (x + 1) = unat x + 1"
  by (simp add: word_less_nat_alt unat_word_ariths)

lemma length_bt_insert: "length (bt_insert k v m) \<le> Suc (length m)"
  by (induction m) auto

lemma window_new_inv: "window_new n = Ok w \<Longrightarrow> win_inv w \<and> win_next_sequence w = 1"
  by (auto simp: window_new_def win_inv_def split: if_splits)

lemma window_enqueue_inv:
  assumes "win_inv w" "unat (win_next_sequence w) + 1 < 18446744073709551616"
  shows "win_inv (snd (window_enqueue x w))"
proof -
  note n = u64_next [OF assms(2)]
  have "k < win_next_sequence w + 1" if "k < win_next_sequence w" for k using that n by (meson less_trans)
  moreover have "win_acknowledged_sequence w < win_next_sequence w + 1"
    using assms(1) n by (auto simp: win_inv_def intro: less_trans)
  ultimately show ?thesis
    using assms(1) n le_trans [OF length_bt_insert [of "win_next_sequence w" x "win_retained w"]]
    by (auto simp: window_enqueue_def win_inv_def Let_def)
qed

lemma max_covered_D:
  assumes "bt_wf m" "max_by_key id (map fst (filter (\<lambda>e. P (snd e)) m)) = Some j"
  shows "\<exists>y. bt_get m j = Some y \<and> P y"
    and "\<And>k x. bt_get m k = Some x \<Longrightarrow> P x \<Longrightarrow> k \<le> j"
proof -
  have get: "bt_get m k = Some x \<longleftrightarrow> (k, x) \<in> set m" for k x
    using assms(1) by (simp add: bt_get_def bt_wf_def strict_sorted_iff)
  note M = max_by_key_Some_D [OF assms(2)]
  show "\<exists>y. bt_get m j = Some y \<and> P y" using M by (force simp: get)
  show "k \<le> j" if "bt_get m k = Some x" "P x" for k x using M that by (force simp: get)
qed

text \<open>An acknowledgement of a known prefix succeeds and drops exactly the messages at or below the last
  covered one.\<close>

lemma acknowledge_covered_cases:
  assumes "win_inv w"
  obtains "acknowledge_covered P w = (Ok (), w)" "\<And>k x. bt_get (win_retained w) k = Some x \<Longrightarrow> \<not> P x"
  | j y where "bt_get (win_retained w) j = Some y" "P y"
      "\<And>k x. bt_get (win_retained w) k = Some x \<Longrightarrow> P x \<Longrightarrow> k \<le> j"
      "acknowledge_covered P w = (Ok (), w\<lparr>win_acknowledged_sequence := j,
         win_retained := bt_retain (\<lambda>k. j < k) (win_retained w)\<rparr>)"
proof (cases "max_by_key id (map fst (filter (\<lambda>e. P (snd e)) (win_retained w)))")
  case None
  then have none: "\<not> P (snd e)" if "e \<in> set (win_retained w)" for e
    using that by (simp add: filter_empty_conv)
  have "acknowledge_covered P w = (Ok (), w)" using None by (simp add: acknowledge_covered_def)
  moreover have "\<not> P x" if "bt_get (win_retained w) k = Some x" for k x
    using none [of "(k, x)"] that by (auto simp: bt_get_def dest: map_of_SomeD)
  ultimately show thesis by (rule that(1))
next
  case (Some j)
  have wf: "bt_wf (win_retained w)" using assms by (simp add: win_inv_def)
  from max_covered_D(1) [OF wf Some] obtain y where y: "bt_get (win_retained w) j = Some y" "P y" by blast
  then have "win_acknowledged_sequence w < j" "j < win_next_sequence w" using assms by (auto simp: win_inv_def)
  then have "acknowledge_covered P w = (Ok (), w\<lparr>win_acknowledged_sequence := j,
         win_retained := bt_retain (\<lambda>k. j < k) (win_retained w)\<rparr>)"
    using Some by (simp add: acknowledge_covered_def acknowledge_through_def not_le less_not_sym)
  with y max_covered_D(2) [OF wf Some] show thesis by (rule that(2))
qed

lemma acknowledge_covered_inv:
  assumes "win_inv w"
  shows "win_inv (snd (acknowledge_covered P w))
    \<and> win_next_sequence (snd (acknowledge_covered P w)) = win_next_sequence w"
proof (rule acknowledge_covered_cases [OF assms, of P])
  fix j y assume j: "bt_get (win_retained w) j = Some y"
    and a: "acknowledge_covered P w = (Ok (), w\<lparr>win_acknowledged_sequence := j,
         win_retained := bt_retain (\<lambda>k. j < k) (win_retained w)\<rparr>)"
  have "length (bt_retain (\<lambda>k. j < k) (win_retained w)) \<le> length (win_retained w)"
    by (simp add: bt_retain_def)
  with assms j show ?thesis unfolding a by (auto simp: win_inv_def split: if_splits intro: le_trans)
qed (use assms in simp)

lemma cancelled_window_refuses: "window_enqueue x (window_cancel w) = (Err OperationCancelled, window_cancel w)"
  by (simp add: window_enqueue_def window_cancel_def)

section \<open>The sender\<close>

datatype sender_op =
    SdAdmit ReplicaIdentity ProcessSessionId
  | SdQueue OutboundOperation
  | SdAcknowledge ReplicaIdentity i64
  | SdAcknowledgeCopy ReplicaIdentity u64
  | SdRetire ReplicaIdentity
  | SdEvict ReplicaIdentity

fun sender_step :: "sender_op \<Rightarrow> ReliableSender \<Rightarrow> ReliableSender" where
  "sender_step (SdAdmit r session) s = snd (admit_peer r session s)"
| "sender_step (SdQueue x) s = snd (sender_queue x s)"
| "sender_step (SdAcknowledge r l) s = snd (acknowledge_replication r l s)"
| "sender_step (SdAcknowledgeCopy r n) s = snd (acknowledge_copy r n s)"
| "sender_step (SdRetire r) s = retire_peer r s"
| "sender_step (SdEvict r) s = evict_peer r s"

definition sender_run :: "sender_op list \<Rightarrow> ReliableSender \<Rightarrow> ReliableSender" where
  "sender_run ops s = fold sender_step ops s"

text \<open>The windows of a peer, and the number of further messages they can number without wrapping.\<close>

definition peer_inv :: "nat \<Rightarrow> PeerWindows \<Rightarrow> bool" where
  "peer_inv n p \<longleftrightarrow> win_inv (pwn_replication p) \<and> win_inv (pwn_copy p)
     \<and> unat (win_next_sequence (pwn_replication p)) + n < 18446744073709551616
     \<and> unat (win_next_sequence (pwn_copy p)) + n < 18446744073709551616"

definition sender_inv :: "nat \<Rightarrow> ReliableSender \<Rightarrow> bool" where
  "sender_inv n s \<longleftrightarrow> 1 + n < 18446744073709551616
     \<and> (\<forall>r p. bt_get (rs_peers s) r = Some p \<longrightarrow> peer_inv n p \<and> r \<notin> rs_evicted s)"

lemma sender_inv_peer: "sender_inv n s \<Longrightarrow> bt_get (rs_peers s) r = Some p \<Longrightarrow> peer_inv n p"
  by (simp add: sender_inv_def)

lemma put_peer_inv:
  "sender_inv n s \<Longrightarrow> peer_inv n p \<Longrightarrow> r \<notin> rs_evicted s \<Longrightarrow> sender_inv n (put_peer r p s)"
  by (simp add: sender_inv_def put_peer_def)

lemma peer_inv_less: "peer_inv (Suc n) p \<Longrightarrow> peer_inv n p"
  by (simp add: peer_inv_def)

lemma sender_inv_less: "sender_inv (Suc n) s \<Longrightarrow> sender_inv n s"
  by (auto simp: sender_inv_def intro: peer_inv_less)

lemma with_peer_inv:
  assumes "sender_inv (Suc n) s" "\<And>p. peer_inv (Suc n) p \<Longrightarrow> peer_inv n (snd (f p))"
  shows "sender_inv n (snd (with_peer r f s))"
proof (cases "bt_get (rs_peers s) r")
  case None
  then show ?thesis using sender_inv_less [OF assms(1)] by (simp add: with_peer_def)
next
  case (Some p)
  then have "peer_inv n (snd (f p))" "r \<notin> rs_evicted s"
    using assms by (auto simp: sender_inv_def)
  then show ?thesis using Some put_peer_inv [OF sender_inv_less [OF assms(1)]]
    by (simp add: with_peer_def case_prod_beta)
qed

lemma window_enqueue_next:
  assumes "unat (win_next_sequence w) + Suc n < 18446744073709551616"
  shows "unat (win_next_sequence (snd (window_enqueue x w))) + n < 18446744073709551616"
  using assms u64_next [of "win_next_sequence w"] by (simp add: window_enqueue_def Let_def)

lemma peer_enqueue_inv:
  assumes "peer_inv (Suc n) p"
  shows "peer_inv n (p\<lparr>pwn_replication := snd (window_enqueue x (pwn_replication p))\<rparr>)"
    and "peer_inv n (p\<lparr>pwn_copy := snd (window_enqueue y (pwn_copy p))\<rparr>)"
proof -
  have "win_inv (snd (window_enqueue x (pwn_replication p)))" "win_inv (snd (window_enqueue y (pwn_copy p)))"
    using assms by (auto simp: peer_inv_def intro!: window_enqueue_inv)
  with assms show "peer_inv n (p\<lparr>pwn_replication := snd (window_enqueue x (pwn_replication p))\<rparr>)"
    "peer_inv n (p\<lparr>pwn_copy := snd (window_enqueue y (pwn_copy p))\<rparr>)"
    by (auto simp: peer_inv_def intro!: window_enqueue_next)
qed

lemma new_peer_inv:
  assumes "1 + n < 18446744073709551616" "window_new c = Ok w" "window_new c = Ok v"
  shows "peer_inv n \<lparr>pwn_session = session, pwn_replication = w, pwn_copy = v\<rparr>"
  using window_new_inv [OF assms(2)] window_new_inv [OF assms(3)] assms(1) by (simp add: peer_inv_def)

lemma admit_peer_cases:
  obtains "snd (admit_peer r session s) = s"
  | p where "r \<notin> rs_evicted s" "bt_get (rs_peers s) r = Some p"
      "snd (admit_peer r session s) = put_peer r (p\<lparr>pwn_session := session\<rparr>) s"
  | w v where "r \<notin> rs_evicted s" "bt_get (rs_peers s) r = None" "window_new (rs_capacity s) = Ok w" "window_new (rs_capacity s) = Ok v"
      "snd (admit_peer r session s) = put_peer r \<lparr>pwn_session = session, pwn_replication = w, pwn_copy = v\<rparr> s"
proof (cases "r \<in> rs_evicted s \<or> (bt_get (rs_peers s) r = None \<and> rs_capacity s = 0)")
  case True
  then have "snd (admit_peer r session s) = s" by (auto simp: admit_peer_def window_new_def)
  then show thesis by (rule that(1))
next
  case False
  then show thesis using that(2,3) by (cases "bt_get (rs_peers s) r") (auto simp: admit_peer_def window_new_def)
qed

lemma admit_peer_inv:
  assumes "sender_inv (Suc n) s"
  shows "sender_inv n (snd (admit_peer r session s))"
proof -
  note i = sender_inv_less [OF assms]
  then have room: "1 + n < 18446744073709551616" by (simp add: sender_inv_def)
  show ?thesis
  proof (rule admit_peer_cases [of r session s])
    fix p assume p: "r \<notin> rs_evicted s" "bt_get (rs_peers s) r = Some p"
      "snd (admit_peer r session s) = put_peer r (p\<lparr>pwn_session := session\<rparr>) s"
    have "peer_inv n (p\<lparr>pwn_session := session\<rparr>)" using sender_inv_peer [OF i p(2)] by (simp add: peer_inv_def)
    then show ?thesis unfolding p(3) using put_peer_inv [OF i _ p(1)] by blast
  qed (use i put_peer_inv [OF i new_peer_inv [OF room]] in simp_all)
qed

lemma sender_queue_inv:
  assumes "sender_inv (Suc n) s"
  shows "sender_inv n (snd (sender_queue x s))"
proof (cases x)
  case (ObReplication y)
  then show ?thesis unfolding sender_queue_def
    by (simp, intro with_peer_inv [OF assms])
      (simp add: case_prod_beta peer_enqueue_inv)
next
  case (ObCopy y)
  then show ?thesis unfolding sender_queue_def
    by (simp, intro with_peer_inv [OF assms])
      (simp add: case_prod_beta peer_enqueue_inv)
next
  case (ObEvict r)
  then show ?thesis using sender_inv_less [OF assms]
    by (simp add: sender_queue_def evict_peer_def retire_peer_def sender_inv_def)
qed (use sender_inv_less [OF assms] in \<open>simp_all add: sender_queue_def\<close>)

lemma acknowledge_inv:
  assumes "sender_inv (Suc n) s"
  shows "sender_inv n (snd (acknowledge_replication r l s))" "sender_inv n (snd (acknowledge_copy r q s))"
  unfolding acknowledge_replication_def acknowledge_copy_def
  by (intro with_peer_inv [OF assms], simp add: case_prod_beta peer_inv_def acknowledge_covered_inv)+

lemma sender_step_inv:
  assumes "sender_inv (Suc n) s"
  shows "sender_inv n (sender_step op s)"
  using sender_inv_less [OF assms]
  by (cases op) (simp_all add: admit_peer_inv sender_queue_inv acknowledge_inv assms,
      auto simp: sender_inv_def evict_peer_def retire_peer_def split: if_splits)

lemma sender_run_inv: "sender_inv (length ops + n) s \<Longrightarrow> sender_inv n (sender_run ops s)"
  by (induction ops arbitrary: s) (simp_all add: sender_run_def sender_step_inv)

lemma sender_new_inv: "sender_new session c = Ok s \<Longrightarrow> 1 + n < 18446744073709551616 \<Longrightarrow> sender_inv n s"
  by (auto simp: sender_new_def window_new_def sender_inv_def split: if_splits)

text \<open>An evicted peer is gone for good.\<close>

lemma evicted_step: "r \<in> rs_evicted s \<Longrightarrow> r \<in> rs_evicted (sender_step op s)"
  by (cases op) (auto simp: admit_peer_def sender_queue_def acknowledge_replication_def acknowledge_copy_def
      with_peer_def put_peer_def evict_peer_def retire_peer_def window_new_def
      split: option.splits OutboundOperation.splits prod.splits)

lemma evicted_run: "r \<in> rs_evicted s \<Longrightarrow> r \<in> rs_evicted (sender_run ops s)"
  by (induction ops arbitrary: s) (simp_all add: sender_run_def evicted_step)

lemma evicted_peer_stays_out:
  assumes "sender_inv (length ops) s" "r \<in> rs_evicted s"
  shows "admit_peer r session (sender_run ops s) = (Err OperationCancelled, sender_run ops s)
    \<and> (it_receiver x = r \<longrightarrow> sender_queue (ObReplication x) (sender_run ops s)
         = (Err RtReconfigurationPending, sender_run ops s))"
proof -
  have "r \<in> rs_evicted (sender_run ops s)" using assms(2) by (rule evicted_run)
  moreover from this have "bt_get (rs_peers (sender_run ops s)) r = None"
    using sender_run_inv [of ops 0 s] assms(1) by (cases "bt_get (rs_peers (sender_run ops s)) r") (auto simp: sender_inv_def)
  ultimately show ?thesis by (auto simp: admit_peer_def sender_queue_def with_peer_def)
qed

section \<open>A retained item\<close>

text \<open>Peer \<open>r\<close> retains \<open>x\<close> under the sequence \<open>k\<close>, and no message behind it has a lower LSN.\<close>

definition retains :: "ReplicaIdentity \<Rightarrow> u64 \<Rightarrow> ReplicationItem \<Rightarrow> ReliableSender \<Rightarrow> bool" where
  "retains r k x s \<longleftrightarrow> (\<exists>p. bt_get (rs_peers s) r = Some p \<and> bt_get (win_retained (pwn_replication p)) k = Some x
     \<and> (\<forall>j y. bt_get (win_retained (pwn_replication p)) j = Some y \<and> k \<le> j \<longrightarrow> it_lsn x \<le> it_lsn y))"

text \<open>The operations that leave the items of LSN \<open>l\<close> for \<open>r\<close> in place: no removal of the peer, no lower item
  queued behind them and no acknowledgement that reaches them.\<close>

fun leaves_item :: "ReplicaIdentity \<Rightarrow> i64 \<Rightarrow> sender_op \<Rightarrow> bool" where
  "leaves_item r l (SdQueue (ObReplication x)) \<longleftrightarrow> it_receiver x = r \<longrightarrow> l \<le> it_lsn x"
| "leaves_item r l (SdQueue (ObEvict q)) \<longleftrightarrow> q \<noteq> r"
| "leaves_item r l (SdAcknowledge q n) \<longleftrightarrow> q = r \<longrightarrow> n < l"
| "leaves_item r l (SdRetire q) \<longleftrightarrow> q \<noteq> r"
| "leaves_item r l (SdEvict q) \<longleftrightarrow> q \<noteq> r"
| "leaves_item r l op \<longleftrightarrow> True"

definition same_replication :: "ReplicaIdentity \<Rightarrow> ReliableSender \<Rightarrow> ReliableSender \<Rightarrow> bool" where
  "same_replication r s t \<longleftrightarrow> map_option pwn_replication (bt_get (rs_peers t) r) = map_option pwn_replication (bt_get (rs_peers s) r)"

lemma retains_same: "same_replication r s t \<Longrightarrow> retains r k x s \<Longrightarrow> retains r k x t"
  by (auto simp: same_replication_def retains_def)

lemma with_peer_same:
  "(q = r \<Longrightarrow> \<forall>p. pwn_replication (snd (f p)) = pwn_replication p) \<Longrightarrow> same_replication r s (snd (with_peer q f s))"
  by (auto simp: same_replication_def with_peer_def put_peer_def case_prod_beta split: option.split)

lemma retains_put:
  assumes "retains r k x s" "bt_get (rs_peers s) r = Some p"
    and "bt_get (win_retained (pwn_replication p')) k = Some x"
    and "\<And>j y. bt_get (win_retained (pwn_replication p')) j = Some y \<Longrightarrow> k \<le> j \<Longrightarrow>
           bt_get (win_retained (pwn_replication p)) j = Some y \<or> it_lsn x \<le> it_lsn y"
  shows "retains r k x (put_peer r p' s)"
  using assms unfolding retains_def put_peer_def by fastforce

lemma retains_queue:
  assumes "sender_inv (Suc n) s" "retains r k x s" "it_receiver y = r \<longrightarrow> it_lsn x \<le> it_lsn y"
  shows "retains r k x (snd (sender_queue (ObReplication y) s))"
proof (cases "it_receiver y = r")
  case False
  then show ?thesis by (intro retains_same [OF _ assms(2)]) (simp add: sender_queue_def with_peer_same)
next
  case True
  from assms(2) obtain p where p: "bt_get (rs_peers s) r = Some p" "bt_get (win_retained (pwn_replication p)) k = Some x"
    by (auto simp: retains_def)
  let ?w = "pwn_replication p"
  have "k < win_next_sequence ?w" using sender_inv_peer [OF assms(1) p(1)] p(2) by (auto simp: peer_inv_def win_inv_def)
  then have "retains r k x (put_peer r (p\<lparr>pwn_replication := snd (window_enqueue y ?w)\<rparr>) s)"
    using p assms(3) True
    by (intro retains_put [OF assms(2) p(1)]) (auto simp: window_enqueue_def Let_def split: if_splits)
  then show ?thesis using True p(1) by (simp add: sender_queue_def with_peer_def case_prod_beta)
qed

lemma retains_acknowledge:
  assumes "sender_inv (Suc n) s" "retains r k x s" "q = r \<longrightarrow> l < it_lsn x"
  shows "retains r k x (snd (acknowledge_replication q l s))"
proof (cases "q = r")
  case False
  then show ?thesis by (intro retains_same [OF _ assms(2)]) (simp add: acknowledge_replication_def with_peer_same)
next
  case True
  from assms(2) obtain p where p: "bt_get (rs_peers s) r = Some p" "bt_get (win_retained (pwn_replication p)) k = Some x"
    and ordered: "\<And>j y. bt_get (win_retained (pwn_replication p)) j = Some y \<Longrightarrow> k \<le> j \<Longrightarrow> it_lsn x \<le> it_lsn y"
    by (auto simp: retains_def)
  let ?w = "pwn_replication p" let ?P = "\<lambda>x. it_lsn x \<le> l"
  have inv: "win_inv ?w" using sender_inv_peer [OF assms(1) p(1)] by (simp add: peer_inv_def)
  have "retains r k x (put_peer r (p\<lparr>pwn_replication := snd (acknowledge_covered ?P ?w)\<rparr>) s)"
  proof (rule acknowledge_covered_cases [OF inv, of ?P])
    assume "acknowledge_covered ?P ?w = (Ok (), ?w)"
    then show ?thesis using p by (intro retains_put [OF assms(2) p(1)]) simp_all
  next
    fix j y assume j: "bt_get (win_retained ?w) j = Some y" "it_lsn y \<le> l"
      and a: "acknowledge_covered ?P ?w = (Ok (), ?w\<lparr>win_acknowledged_sequence := j,
         win_retained := bt_retain (\<lambda>k. j < k) (win_retained ?w)\<rparr>)"
    have "j < k" using ordered [OF j(1)] j(2) assms(3) True by (cases "k \<le> j") auto
    then show ?thesis unfolding a using p by (intro retains_put [OF assms(2) p(1)]) (auto split: if_splits)
  qed
  then show ?thesis using True p(1) by (simp add: acknowledge_replication_def with_peer_def case_prod_beta)
qed

lemma retains_step:
  assumes "sender_inv (Suc n) s" "retains r k x s" "leaves_item r (it_lsn x) op"
  shows "retains r k x (sender_step op s)"
proof (cases op)
  case (SdAdmit q session)
  have "same_replication r s (snd (admit_peer q session s))\<or> bt_get (rs_peers s) r = None"
    by (rule admit_peer_cases [of q session s]) (auto simp: same_replication_def put_peer_def)
  then show ?thesis using SdAdmit assms(2) by (auto simp: retains_def intro: retains_same [unfolded retains_def])
next
  case (SdQueue y)
  then show ?thesis
  proof (cases y)
    case (ObReplication z)
    then show ?thesis using SdQueue assms retains_queue [OF assms(1,2), of z] by simp
  next
    case (ObCopy z)
    then show ?thesis using SdQueue
      by (intro retains_same [OF _ assms(2)]) (simp add: sender_queue_def with_peer_same case_prod_beta)
  qed (use SdQueue assms(2,3) in \<open>simp_all add: sender_queue_def retains_def evict_peer_def retire_peer_def\<close>)
next
  case (SdAcknowledge q l)
  then show ?thesis using retains_acknowledge [OF assms(1,2), of q l] assms(3) by simp
next
  case (SdAcknowledgeCopy q n)
  then show ?thesis
    by (intro retains_same [OF _ assms(2)]) (simp add: acknowledge_copy_def with_peer_same case_prod_beta)
qed (use assms(2,3) in \<open>simp_all add: retains_def evict_peer_def retire_peer_def\<close>)

lemma retains_run:
  "sender_inv (length ops + n) s \<Longrightarrow> retains r k x s \<Longrightarrow> list_all (leaves_item r (it_lsn x)) ops
    \<Longrightarrow> retains r k x (sender_run ops s)"
  by (induction ops arbitrary: s) (simp_all add: sender_run_def sender_step_inv retains_step)

lemma sender_run_append: "sender_run (xs @ ys) s = sender_run ys (sender_run xs s)"
  by (simp add: sender_run_def)

text \<open>The items of one write, queued in the order the log prepared them.\<close>

abbreviation queue_items :: "ReplicationItem list \<Rightarrow> ReliableSender \<Rightarrow> ReliableSender" where
  "queue_items xs \<equiv> sender_run (map (\<lambda>x. SdQueue (ObReplication x)) xs)"

abbreviation has_room :: "ReliableSender \<Rightarrow> ReplicaIdentity \<Rightarrow> bool" where
  "has_room s r \<equiv> is_some_and (bt_get (rs_peers s) r)
     (\<lambda>p. length (win_retained (pwn_replication p)) < win_capacity (pwn_replication p))"

lemma queue_retains:
  assumes "sender_inv (Suc n) s" "has_room s (it_receiver x)"
  shows "\<exists>k. retains (it_receiver x) k x (sender_step (SdQueue (ObReplication x)) s)"
proof -
  from assms(2) obtain p where p: "bt_get (rs_peers s) (it_receiver x) = Some p"
    and room: "length (win_retained (pwn_replication p)) < win_capacity (pwn_replication p)"
    by (auto simp: is_some_and_def split: option.splits)
  let ?w = "pwn_replication p"
  have inv: "win_inv ?w" using sender_inv_peer [OF assms(1) p] by (simp add: peer_inv_def)
  have "\<not> win_next_sequence ?w \<le> j" if "bt_get (win_retained ?w) j = Some y" for j y
    using that inv by (auto simp: win_inv_def not_le)
  then have "retains (it_receiver x) (win_next_sequence ?w) x (put_peer (it_receiver x) (p\<lparr>pwn_replication := snd (window_enqueue x ?w)\<rparr>) s)"
    using room inv by (auto simp: retains_def put_peer_def window_enqueue_def Let_def win_inv_def)
  then show ?thesis using p by (auto simp: sender_queue_def with_peer_def case_prod_beta)
qed

lemma queue_items_other:
  "r \<notin> set (map it_receiver xs) \<Longrightarrow> same_replication r s (queue_items xs s)"
proof (induction xs arbitrary: s)
  case (Cons x xs)
  then have "same_replication r s (snd (sender_queue (ObReplication x) s))"
    by (auto simp: sender_queue_def intro!: with_peer_same)
  with Cons show ?case by (auto simp: sender_run_def same_replication_def)
qed (simp add: sender_run_def same_replication_def)

text \<open>Items for distinct receivers that have room are all retained.\<close>

lemma queued_items_retained:
  assumes "sender_inv (length xs + n) s" "distinct (map it_receiver xs)" "x \<in> set xs" "has_room s (it_receiver x)"
  shows "\<exists>k. retains (it_receiver x) k x (queue_items xs s)"
proof -
  from assms(3) obtain as bs where xs: "xs = as @ x # bs" by (meson split_list)
  let ?r = "it_receiver x" let ?t = "queue_items as s"
  have out: "?r \<notin> set (map it_receiver as)" "?r \<notin> set (map it_receiver bs)" using assms(2) by (auto simp: xs)
  have i: "sender_inv (Suc (length bs + n)) ?t"
    using sender_run_inv [of "map (\<lambda>x. SdQueue (ObReplication x)) as"] assms(1) by (simp add: xs add.assoc)
  have "has_room ?t ?r" using assms(4) queue_items_other [OF out(1), of s]
    by (auto simp: same_replication_def is_some_and_def split: option.splits)
  from queue_retains [OF i this] obtain k where "retains ?r k x (sender_step (SdQueue (ObReplication x)) ?t)" by blast
  then have "retains ?r k x (queue_items bs (sender_step (SdQueue (ObReplication x)) ?t))"
    by (rule retains_same [OF queue_items_other [OF out(2)]])
  then show ?thesis by (auto simp: xs sender_run_def)
qed

text \<open>An acknowledgement from a known peer succeeds and leaves no item at or below its LSN.\<close>

lemma acknowledge_drops:
  assumes "sender_inv n s" "bt_get (rs_peers s) r = Some p"
  shows "\<exists>q. acknowledge_replication r l s = (Ok (), put_peer r q s)
    \<and> (\<forall>k y. bt_get (win_retained (pwn_replication q)) k = Some y \<longrightarrow> l < it_lsn y)"
proof -
  let ?P = "\<lambda>x. it_lsn x \<le> l" let ?w = "pwn_replication p"
  let ?q = "p\<lparr>pwn_replication := snd (acknowledge_covered ?P ?w)\<rparr>"
  have "win_inv ?w" using sender_inv_peer [OF assms] by (simp add: peer_inv_def)
  then have "fst (acknowledge_covered ?P ?w) = Ok ()
    \<and> (\<forall>k y. bt_get (win_retained (snd (acknowledge_covered ?P ?w))) k = Some y \<longrightarrow> l < it_lsn y)"
    by (rule acknowledge_covered_cases [of _ ?P]) (auto simp: not_le [symmetric] split: if_splits)
  then have "acknowledge_replication r l s = (Ok (), put_peer r ?q s)"
    "\<forall>k y. bt_get (win_retained (pwn_replication ?q)) k = Some y \<longrightarrow> l < it_lsn y"
    using assms(2) by (simp_all add: acknowledge_replication_def with_peer_def case_prod_beta)
  then show ?thesis by blast
qed

lemma registered_items_exact:
  assumes "log_inv l" "ensure_local_write_registered x (c :: 's) l = (Ok w, l')" "rl_authority l = Some a"
    and "mc_primary_identity a = Ok (rl_local_identity l)"
  shows "distinct (map it_receiver (pw_items w))"
    and "set (map it_receiver (pw_items w)) = {r. mc_contains_member a r} - {rl_local_identity l}"
    and "\<And>i. i \<in> set (pw_items w) \<Longrightarrow> mc_validate_envelope a i = Ok () \<and> it_lsn i = op_lsn x \<and> it_data i = op_data x"
proof -
  have reg: "register_local_write x c l = (Ok w, l')"
    using assms(2) by (simp add: ensure_local_write_registered_def split: if_splits)
  have "qt_authority (rl_quorum l) = Some a" using assms(1,3) by (simp add: log_inv_def)
  from register_local_write_outcome [OF reg this assms(3)] obtain m :: "'s ReplicationLog"
    where m: "replication_items x m = Ok (pw_items w)" "rl_authority m = Some a" "rl_local_identity m = rl_local_identity l" by blast
  note E = replication_items_exact [OF m(1,2), unfolded m(3), OF assms(4)]
  from E show "distinct (map it_receiver (pw_items w))"
    "set (map it_receiver (pw_items w)) = {r. mc_contains_member a r} - {rl_local_identity l}"
    "\<And>i. i \<in> set (pw_items w) \<Longrightarrow> mc_validate_envelope a i = Ok () \<and> it_lsn i = op_lsn x \<and> it_data i = op_data x"
    by blast+
qed

lemma registered_items:
  assumes "log_inv l" "ensure_local_write_registered x (c :: 's) l = (Ok w, l')" "rl_authority l = Some a"
    and "mc_primary_identity a = Ok (rl_local_identity l)" "mc_contains_member a r" "r \<noteq> rl_local_identity l"
  obtains item where "distinct (map it_receiver (pw_items w))" "item \<in> set (pw_items w)" "it_receiver item = r"
    "it_lsn item = op_lsn x" "it_data item = op_data x" "mc_validate_envelope a item = Ok ()"
proof -
  note E = registered_items_exact [OF assms(1-4)]
  have "r \<in> set (map it_receiver (pw_items w))" using E(2) assms(5,6) by blast
  then obtain item where "item \<in> set (pw_items w)" "it_receiver item = r" by auto
  with E that show thesis by blast
qed

section \<open>Properties\<close>


definition sample_sender :: ReliableSender where
  "sample_sender = \<lparr>rs_local_session = ''s1'', rs_capacity = 8, rs_peers = [], rs_evicted = {}\<rparr>"


end
