(* ===== verification/Effects.thy ===== *)
theory Effects
  imports Authority Protocol_Commands
begin

text \<open>
  \<open>kuberic-runtime/src/effects.rs\<close> and \<open>receipts.rs\<close>: the durable effects an agent asks its runtime
  to perform, the outcomes the runtime returns, and the check that a result belongs to its effect.
  The removal receipt of \<open>receipts.rs\<close> is called \<open>NativeRemovalReceipt\<close> here, since
  \<open>protocol/types.rs\<close> has a type of the same name.
\<close>

section \<open>Native receipts\<close>

record NativeOperationToken =
  nt_authority :: "AdmittedAuthority option"
  nt_engine_session_id :: string
  nt_engine_generation :: u64

record CertifiedPrefixReceipt =
  cpr_token :: NativeOperationToken
  cpr_verified_lsn :: i64
  cpr_settled_lsn :: i64
  cpr_committed_lsn :: i64

record SwitchoverReceipt =
  swr_token :: NativeOperationToken
  swr_preparation_generation :: u64
  swr_request_id :: SwitchoverRequestId
  swr_source :: ReplicaIdentity
  swr_target :: ReplicaIdentity
  swr_starting_configuration_id :: ConfigurationId
  swr_starting_epoch :: Epoch
  swr_handoff_lsn :: i64
  swr_committed_lsn :: i64

record NativeRemovalReceipt =
  nrr_token :: NativeOperationToken
  nrr_preparation :: "SecondaryRemovalPreparation option"
  nrr_witness :: "SecondaryRemovalWitness option"
  nrr_accepted :: "SecondaryScaleDownCleanup option"
  nrr_verified_lsn :: "i64 option"
  nrr_committed_lsn :: i64

record RetirementReceipt =
  rtc_engine_session_id :: string
  rtc_engine_generation :: u64
  rtc_retired :: RetiredAuthority
  rtc_completed :: bool

section \<open>Effects\<close>

datatype OpenMode = OpenNew | OpenExisting

record RoleTransition =
  rt_completed_role :: ReplicaRole
  rt_target_role :: ReplicaRole
  rt_replicator_completed :: bool
  rt_epoch_completed :: bool
  rt_application_completed :: bool

datatype (plugins only: code) RuntimeEffectAction =
    EffOpen OpenMode
  | EffAdmitAuthority AdmittedAuthority
  | EffPrepareSecondaryRemoval SecondaryScaleDownIntent ProcessSessionId u64
  | EffRegisterPeerSession ReplicaIdentity ProcessSessionId
  | EffObserveSecondaryRemovalWitness SecondaryRemovalWitness
  | EffObserveSecondaryRemovalProgress SecondaryRemovalWitness SecondaryScaleDownCleanup
  | EffObserveReplicationAck ReplicationAck ProcessSessionId
  | EffAcceptSecondaryRemovalCommit SecondaryScaleDownCleanup
  | EffAcceptHistoricalSecondaryRemovalCommit AcceptSecondaryRemovalCommit
  | EffRetireReplica RetiredAuthority
  | EffFenceRetirement RetiredAuthority
  | EffCompleteRetirement RetiredAuthority
  | EffAuthorizeFailoverPrefix i64
  | EffAdmitBuildAuthority BuildAuthority
  | EffChangeRole ReplicaRole
  | EffChangeReplicatorRole ReplicaRole
  | EffUpdateEpoch
  | EffChangeApplicationRole ReplicaRole
  | EffWaitForCatchup
  | EffSetAccessStatus AccessStatus AccessStatus
  | EffSetReadStatus AccessStatus
  | EffSetWriteStatus AccessStatus
  | EffPrepareSwitchover u64 SwitchoverRequestId ReplicaIdentity ReplicaIdentity ConfigurationId Epoch
  | EffRefreshApplicationProgress
  | EffBuildReplica OperationId ReplicaIdentity string
  | EffRetireBuild OperationId
  | EffClose
  | EffAbort

record RuntimeEffect =
  ef_operation_id :: OperationId
  ef_sequence :: u64
  ef_action :: RuntimeEffectAction

section \<open>Outcomes\<close>

record BuildPostcondition =
  bpc_authority :: BuildAuthority
  bpc_last_sequence :: u64
  bpc_durable_lsn :: i64
  bpc_completed :: bool
  bpc_catch_up_boundary_lsn :: "i64 option"

record RoleCompletion =
  rlc_role :: ReplicaRole
  rlc_role_transition :: "RoleTransition option"

record EpochCompletion =
  epc_epoch :: Epoch
  epc_role_transition :: "RoleTransition option"

datatype AccessCompletionKind = AccessCombined | AccessRead | AccessWrite

record AccessCompletion =
  acc_kind :: AccessCompletionKind
  acc_read_status :: AccessStatus
  acc_write_status :: AccessStatus
  acc_authority :: "AdmittedAuthority option"
  acc_role :: ReplicaRole

record CatchUpCompletion =
  cuc_authority :: "AdmittedAuthority option"
  cuc_boundary_lsn :: i64

datatype (plugins only: code) BuildEffectState =
  BuildDispatched | BuildCompleted BuildPostcondition | BuildAbandoned

record BuildCompletion =
  bcn_build_id :: OperationId
  bcn_target :: ReplicaIdentity
  bcn_state :: BuildEffectState

definition is_dispatched :: "BuildCompletion \<Rightarrow> bool" where
  "is_dispatched c \<longleftrightarrow> (case bcn_state c of BuildDispatched \<Rightarrow> True | _ \<Rightarrow> False)"

record AuthorityCompletion =
  auc_authority :: AdmittedAuthority
  auc_read_status :: AccessStatus
  auc_write_status :: AccessStatus
  auc_accepted_secondary_removal :: "SecondaryScaleDownCleanup option"

record SecondaryRemovalPreparationCompletion =
  rpc_prepared_secondary_removal :: "SecondaryRemovalPreparation option"
  rpc_authority :: "AdmittedAuthority option"
  rpc_role :: ReplicaRole
  rpc_read_status :: AccessStatus
  rpc_write_status :: AccessStatus
  rpc_current_progress :: i64
  rpc_verified_replication_lsn :: "i64 option"
  rpc_committed_lsn :: i64
  rpc_receipt :: "NativeRemovalReceipt option"

record HistoricalSecondaryRemovalCompletion =
  hrc_accepted_secondary_removal :: SecondaryScaleDownCleanup
  hrc_authority :: "AdmittedAuthority option"
  hrc_role :: ReplicaRole
  hrc_write_status :: AccessStatus
  hrc_role_transition_clear :: bool
  hrc_verified_replication_lsn :: "i64 option"
  hrc_receipt :: "NativeRemovalReceipt option"

record SwitchoverCompletion =
  swc_authority :: "AdmittedAuthority option"
  swc_role :: ReplicaRole
  swc_write_status :: AccessStatus
  swc_current_progress :: i64
  swc_committed_lsn :: i64
  swc_receipt :: "SwitchoverReceipt option"

record RetirementCompletion =
  rcn_retired :: RetiredAuthority
  rcn_open :: bool
  rcn_role :: ReplicaRole
  rcn_read_status :: AccessStatus
  rcn_write_status :: AccessStatus
  rcn_authority :: "AdmittedAuthority option"
  rcn_role_transition_clear :: bool
  rcn_active_builds :: bool
  rcn_receipt :: "RetirementReceipt option"

record ProcessCompletion =
  pcn_open :: bool
  pcn_role :: ReplicaRole
  pcn_read_status :: AccessStatus
  pcn_write_status :: AccessStatus
  pcn_authority :: "AdmittedAuthority option"

datatype (plugins only: code) RuntimeEffectOutcome =
    OutOpened
  | OutAuthorityAdmitted AuthorityCompletion
  | OutSecondaryRemovalPrepared SecondaryRemovalPreparationCompletion
  | OutPeerSessionRegistered ReplicaIdentity ProcessSessionId
  | OutSecondaryRemovalWitnessObserved SecondaryRemovalWitness "NativeRemovalReceipt option"
  | OutSecondaryRemovalProgressObserved SecondaryRemovalWitness SecondaryScaleDownCleanup
      "NativeRemovalReceipt option"
  | OutReplicationAckObserved ReplicationAck ProcessSessionId
  | OutSecondaryRemovalAccepted SecondaryScaleDownCleanup "NativeRemovalReceipt option"
  | OutHistoricalSecondaryRemovalAccepted HistoricalSecondaryRemovalCompletion
  | OutReplicaRetired RetirementCompletion
  | OutRetirementFenced RetirementCompletion
  | OutRetirementCompleted RetirementCompletion
  | OutFailoverPrefixAuthorized i64 "CertifiedPrefixReceipt option"
  | OutBuildAuthorityAdmitted BuildAuthority
  | OutRoleChanged RoleCompletion
  | OutReplicatorRoleChanged RoleCompletion
  | OutEpochUpdated EpochCompletion
  | OutApplicationRoleChanged RoleCompletion "CertifiedPrefixReceipt option"
  | OutCatchUpCompleted CatchUpCompletion
  | OutAccessChanged AccessCompletion
  | OutSwitchoverPrepared SwitchoverCompletion
  | OutApplicationProgressRefreshed i64
  | OutBuildReplica BuildCompletion
  | OutBuildRetired OperationId bool
  | OutClosed ProcessCompletion
  | OutAborted ProcessCompletion

record RuntimeEffectResult =
  er_operation_id :: OperationId
  er_sequence :: u64
  er_outcome :: RuntimeEffectOutcome

record RecordedEffect =
  rec_effect :: RuntimeEffect
  rec_result :: RuntimeEffectResult

section \<open>Result validation\<close>

datatype RuntimeEffectFamily =
    FamOpen | FamAuthority | FamSecondaryRemovalPreparation | FamPeerSession | FamSecondaryRemovalWitness
  | FamSecondaryRemovalProgress | FamReplicationAck | FamSecondaryRemovalAcceptance
  | FamHistoricalSecondaryRemovalAcceptance | FamReplicaRetirement | FamRetirementFence
  | FamRetirementCompletion | FamFailoverPrefix | FamBuildAuthority | FamRole | FamReplicatorRole | FamEpoch
  | FamApplicationRole | FamCatchUp | FamAccess | FamSwitchover | FamApplicationProgress | FamBuild
  | FamBuildRetirement | FamClose | FamAbort

fun action_family :: "RuntimeEffectAction \<Rightarrow> RuntimeEffectFamily" where
  "action_family (EffOpen m) = FamOpen"
| "action_family (EffAdmitAuthority a) = FamAuthority"
| "action_family (EffPrepareSecondaryRemoval i s n) = FamSecondaryRemovalPreparation"
| "action_family (EffRegisterPeerSession x s) = FamPeerSession"
| "action_family (EffObserveSecondaryRemovalWitness w) = FamSecondaryRemovalWitness"
| "action_family (EffObserveSecondaryRemovalProgress w c) = FamSecondaryRemovalProgress"
| "action_family (EffObserveReplicationAck k s) = FamReplicationAck"
| "action_family (EffAcceptSecondaryRemovalCommit c) = FamSecondaryRemovalAcceptance"
| "action_family (EffAcceptHistoricalSecondaryRemovalCommit c) = FamHistoricalSecondaryRemovalAcceptance"
| "action_family (EffRetireReplica r) = FamReplicaRetirement"
| "action_family (EffFenceRetirement r) = FamRetirementFence"
| "action_family (EffCompleteRetirement r) = FamRetirementCompletion"
| "action_family (EffAuthorizeFailoverPrefix l) = FamFailoverPrefix"
| "action_family (EffAdmitBuildAuthority b) = FamBuildAuthority"
| "action_family (EffChangeRole r) = FamRole"
| "action_family (EffChangeReplicatorRole r) = FamReplicatorRole"
| "action_family EffUpdateEpoch = FamEpoch"
| "action_family (EffChangeApplicationRole r) = FamApplicationRole"
| "action_family EffWaitForCatchup = FamCatchUp"
| "action_family (EffSetAccessStatus r w) = FamAccess"
| "action_family (EffSetReadStatus r) = FamAccess"
| "action_family (EffSetWriteStatus w) = FamAccess"
| "action_family (EffPrepareSwitchover g q s t c e) = FamSwitchover"
| "action_family EffRefreshApplicationProgress = FamApplicationProgress"
| "action_family (EffBuildReplica b t x) = FamBuild"
| "action_family (EffRetireBuild b) = FamBuildRetirement"
| "action_family EffClose = FamClose"
| "action_family EffAbort = FamAbort"

fun outcome_family :: "RuntimeEffectOutcome \<Rightarrow> RuntimeEffectFamily" where
  "outcome_family OutOpened = FamOpen"
| "outcome_family (OutAuthorityAdmitted c) = FamAuthority"
| "outcome_family (OutSecondaryRemovalPrepared c) = FamSecondaryRemovalPreparation"
| "outcome_family (OutPeerSessionRegistered x s) = FamPeerSession"
| "outcome_family (OutSecondaryRemovalWitnessObserved w r) = FamSecondaryRemovalWitness"
| "outcome_family (OutSecondaryRemovalProgressObserved w c r) = FamSecondaryRemovalProgress"
| "outcome_family (OutReplicationAckObserved k s) = FamReplicationAck"
| "outcome_family (OutSecondaryRemovalAccepted c r) = FamSecondaryRemovalAcceptance"
| "outcome_family (OutHistoricalSecondaryRemovalAccepted c) = FamHistoricalSecondaryRemovalAcceptance"
| "outcome_family (OutReplicaRetired c) = FamReplicaRetirement"
| "outcome_family (OutRetirementFenced c) = FamRetirementFence"
| "outcome_family (OutRetirementCompleted c) = FamRetirementCompletion"
| "outcome_family (OutFailoverPrefixAuthorized l r) = FamFailoverPrefix"
| "outcome_family (OutBuildAuthorityAdmitted b) = FamBuildAuthority"
| "outcome_family (OutRoleChanged c) = FamRole"
| "outcome_family (OutReplicatorRoleChanged c) = FamReplicatorRole"
| "outcome_family (OutEpochUpdated c) = FamEpoch"
| "outcome_family (OutApplicationRoleChanged c r) = FamApplicationRole"
| "outcome_family (OutCatchUpCompleted c) = FamCatchUp"
| "outcome_family (OutAccessChanged c) = FamAccess"
| "outcome_family (OutSwitchoverPrepared c) = FamSwitchover"
| "outcome_family (OutApplicationProgressRefreshed p) = FamApplicationProgress"
| "outcome_family (OutBuildReplica c) = FamBuild"
| "outcome_family (OutBuildRetired b active) = FamBuildRetirement"
| "outcome_family (OutClosed c) = FamClose"
| "outcome_family (OutAborted c) = FamAbort"

definition process_closed :: "ProcessCompletion \<Rightarrow> bool" where
  "process_closed c \<longleftrightarrow> \<not> pcn_open c \<and> pcn_role c = RoleNone \<and> pcn_read_status c = NotPrimary
     \<and> pcn_write_status c = NotPrimary"

definition build_outcome_matches :: "OperationId \<Rightarrow> ReplicaIdentity \<Rightarrow> BuildCompletion \<Rightarrow> bool" where
  "build_outcome_matches b t c \<longleftrightarrow> bcn_build_id c = b \<and> bcn_target c = t
     \<and> (case bcn_state c of
          BuildCompleted x \<Rightarrow> bpc_completed x \<and> ba_build_id (bpc_authority x) = b \<and> ba_target (bpc_authority x) = t
        | _ \<Rightarrow> True)"

definition outcome_matches :: "OperationId \<Rightarrow> RuntimeEffectAction \<Rightarrow> RuntimeEffectOutcome \<Rightarrow> bool" where
  "outcome_matches operation action outcome =
     (case action of
        EffOpen m \<Rightarrow> (case outcome of OutOpened \<Rightarrow> True | _ \<Rightarrow> False)
      | EffAdmitAuthority a \<Rightarrow> (case outcome of OutAuthorityAdmitted c \<Rightarrow> auc_authority c = a | _ \<Rightarrow> False)
      | EffPrepareSecondaryRemoval i session n \<Rightarrow>
          (case outcome of
             OutSecondaryRemovalPrepared c \<Rightarrow> is_some_and (rpc_prepared_secondary_removal c) (\<lambda>p.
               rp_intent p = i \<and> rp_process_session_id p = session \<and> rp_report_sequence p = n
               \<and> rp_operation_id p = operation)
           | _ \<Rightarrow> False)
      | EffRegisterPeerSession x s \<Rightarrow>
          (case outcome of OutPeerSessionRegistered y u \<Rightarrow> x = y \<and> s = u | _ \<Rightarrow> False)
      | EffObserveSecondaryRemovalWitness w \<Rightarrow>
          (case outcome of OutSecondaryRemovalWitnessObserved v r \<Rightarrow> w = v | _ \<Rightarrow> False)
      | EffObserveSecondaryRemovalProgress w c \<Rightarrow>
          (case outcome of OutSecondaryRemovalProgressObserved v d r \<Rightarrow> w = v \<and> c = d | _ \<Rightarrow> False)
      | EffObserveReplicationAck k s \<Rightarrow>
          (case outcome of OutReplicationAckObserved l u \<Rightarrow> k = l \<and> s = u | _ \<Rightarrow> False)
      | EffAcceptSecondaryRemovalCommit c \<Rightarrow>
          (case outcome of OutSecondaryRemovalAccepted d r \<Rightarrow> c = d | _ \<Rightarrow> False)
      | EffAcceptHistoricalSecondaryRemovalCommit m \<Rightarrow>
          (case outcome of
             OutHistoricalSecondaryRemovalAccepted c \<Rightarrow> hrc_accepted_secondary_removal c = arc_committed m
           | _ \<Rightarrow> False)
      | EffRetireReplica a \<Rightarrow> (case outcome of OutReplicaRetired c \<Rightarrow> rcn_retired c = a | _ \<Rightarrow> False)
      | EffFenceRetirement a \<Rightarrow> (case outcome of OutRetirementFenced c \<Rightarrow> rcn_retired c = a | _ \<Rightarrow> False)
      | EffCompleteRetirement a \<Rightarrow> (case outcome of OutRetirementCompleted c \<Rightarrow> rcn_retired c = a | _ \<Rightarrow> False)
      | EffAuthorizeFailoverPrefix l \<Rightarrow> (case outcome of OutFailoverPrefixAuthorized b r \<Rightarrow> l = b | _ \<Rightarrow> False)
      | EffAdmitBuildAuthority a \<Rightarrow> (case outcome of OutBuildAuthorityAdmitted b \<Rightarrow> a = b | _ \<Rightarrow> False)
      | EffChangeRole r \<Rightarrow> (case outcome of OutRoleChanged c \<Rightarrow> rlc_role c = r | _ \<Rightarrow> False)
      | EffChangeReplicatorRole r \<Rightarrow>
          (case outcome of
             OutReplicatorRoleChanged c \<Rightarrow> is_some_and (rlc_role_transition c)
               (\<lambda>t. rt_target_role t = r \<and> rt_replicator_completed t)
           | _ \<Rightarrow> False)
      | EffUpdateEpoch \<Rightarrow>
          (case outcome of
             OutEpochUpdated c \<Rightarrow> is_some_and (epc_role_transition c) rt_epoch_completed | _ \<Rightarrow> False)
      | EffChangeApplicationRole r \<Rightarrow>
          (case outcome of
             OutApplicationRoleChanged c x \<Rightarrow> rlc_role c = r \<and> rlc_role_transition c = None | _ \<Rightarrow> False)
      | EffWaitForCatchup \<Rightarrow> (case outcome of OutCatchUpCompleted c \<Rightarrow> True | _ \<Rightarrow> False)
      | EffSetAccessStatus read write \<Rightarrow>
          (case outcome of
             OutAccessChanged c \<Rightarrow> acc_kind c = AccessCombined \<and> acc_read_status c = read \<and> acc_write_status c = write
           | _ \<Rightarrow> False)
      | EffSetReadStatus read \<Rightarrow>
          (case outcome of OutAccessChanged c \<Rightarrow> acc_kind c = AccessRead \<and> acc_read_status c = read | _ \<Rightarrow> False)
      | EffSetWriteStatus write \<Rightarrow>
          (case outcome of OutAccessChanged c \<Rightarrow> acc_kind c = AccessWrite \<and> acc_write_status c = write | _ \<Rightarrow> False)
      | EffPrepareSwitchover g q source target start epoch \<Rightarrow>
          (case outcome of
             OutSwitchoverPrepared c \<Rightarrow> is_none_or (swc_receipt c) (\<lambda>r.
               swr_preparation_generation r = g \<and> swr_request_id r = q \<and> swr_source r = source
               \<and> swr_target r = target \<and> swr_starting_configuration_id r = start \<and> swr_starting_epoch r = epoch)
           | _ \<Rightarrow> False)
      | EffRefreshApplicationProgress \<Rightarrow> (case outcome of OutApplicationProgressRefreshed p \<Rightarrow> True | _ \<Rightarrow> False)
      | EffBuildReplica b t x \<Rightarrow> (case outcome of OutBuildReplica c \<Rightarrow> build_outcome_matches b t c | _ \<Rightarrow> False)
      | EffRetireBuild b \<Rightarrow> (case outcome of OutBuildRetired d active \<Rightarrow> b = d \<and> \<not> active | _ \<Rightarrow> False)
      | EffClose \<Rightarrow> (case outcome of OutClosed c \<Rightarrow> process_closed c | _ \<Rightarrow> False)
      | EffAbort \<Rightarrow> (case outcome of OutAborted c \<Rightarrow> process_closed c | _ \<Rightarrow> False))"

definition result_validate_for :: "RuntimeEffectResult \<Rightarrow> RuntimeEffect \<Rightarrow> (string, unit) result" where
  "result_validate_for r e =
     (if er_operation_id r \<noteq> ef_operation_id e \<or> er_sequence r \<noteq> ef_sequence e
      then Err ''runtime returned a result for a different durable effect''
      else if action_family (ef_action e) \<noteq> outcome_family (er_outcome r)
      then Err ''runtime result belongs to a different effect family''
      else if outcome_matches (ef_operation_id e) (ef_action e) (er_outcome r) then Ok ()
      else Err ''runtime result does not match the durable effect action'')"

end
