(* ===== verification/Public_Operations.thy ===== *)
theory Public_Operations
  imports Protocol_Evidence
begin

text \<open>
  The preview identities, fault actions and frozen operation programs of
  \<open>kuberic-runtime/src/protocol/public_operations.rs\<close>. A \<open>&'static str\<close> error is its text. The
  derived \<open>Debug\<close> text of a whole program or lifecycle input, which the source hashes, is a
  parameter; the \<open>Debug\<close> text of a fieldless variant is its name.
\<close>

section \<open>Preview binding\<close>

definition PUBLIC_OPERATION_PREVIEW_PROTOCOL_VERSION :: u32 where
  "PUBLIC_OPERATION_PREVIEW_PROTOCOL_VERSION = 10"

record PublicOperationPreviewIdentity =
  ppi_protocol_version :: u32
  ppi_generation :: u64

definition preview_identity_new :: "u64 \<Rightarrow> PublicOperationPreviewIdentity" where
  "preview_identity_new g =
     \<lparr>ppi_protocol_version = PUBLIC_OPERATION_PREVIEW_PROTOCOL_VERSION, ppi_generation = g\<rparr>"

definition ppi_is_valid :: "PublicOperationPreviewIdentity \<Rightarrow> bool" where
  "ppi_is_valid p \<longleftrightarrow>
     ppi_protocol_version p = PUBLIC_OPERATION_PREVIEW_PROTOCOL_VERSION \<and> ppi_generation p > 0"

datatype StatePersistence = Persisted | Volatile

record PreviewLifecycleBinding =
  plb_preview :: PublicOperationPreviewIdentity
  plb_resource_uid :: ResourceUid
  plb_spec_generation :: u64
  plb_state_persistence :: StatePersistence

definition plb_validate :: "PreviewLifecycleBinding \<Rightarrow> (string, unit) result" where
  "plb_validate b =
     (if \<not> ppi_is_valid (plb_preview b) then Err ''invalid public-operation preview identity''
      else if plb_resource_uid b = '''' then Err ''preview lifecycle resource UID is empty''
      else if plb_spec_generation b = 0 then Err ''preview lifecycle spec generation must be positive''
      else Ok ())"

section \<open>Fault actions\<close>

datatype PublicFaultActionKind = Restart | DropReplacement

record FrozenReplicaResources =
  frs_pod_name :: string
  frs_pod_uid :: PodUid
  frs_pvc_name :: string
  frs_pvc_uid :: PvcUid
  frs_endpoint_name :: string
  frs_endpoint_uid :: string
  frs_endpoint_resource_version :: string

record PublicFaultAction =
  pfa_action_id :: OperationId
  pfa_fault_operation_id :: OperationId
  pfa_binding :: PreviewLifecycleBinding
  pfa_target :: ReplicaIdentity
  pfa_resources :: FrozenReplicaResources
  pfa_predecessor_session :: ProcessSessionId
  pfa_predecessor_process_id :: u32
  pfa_fault_revision :: u64
  pfa_fault :: FaultType
  pfa_kind :: PublicFaultActionKind

definition expected_kind :: "StatePersistence \<Rightarrow> FaultType \<Rightarrow> PublicFaultActionKind" where
  "expected_kind persistence fault =
     (if fault = Transient \<and> persistence = Persisted then Restart else DropReplacement)"

fun debug_kind :: "PublicFaultActionKind \<Rightarrow> string" where
  "debug_kind Restart = ''Restart''"
| "debug_kind DropReplacement = ''DropReplacement''"

fun debug_fault :: "FaultType \<Rightarrow> string" where
  "debug_fault Transient = ''Transient''"
| "debug_fault Permanent = ''Permanent''"

fun debug_persistence :: "StatePersistence \<Rightarrow> string" where
  "debug_persistence Persisted = ''Persisted''"
| "debug_persistence Volatile = ''Volatile''"

text \<open>The fields of the hashed text, in order; the text joins them with a bar.\<close>

definition fault_action_parts :: "PublicFaultAction \<Rightarrow> string list" where
  "fault_action_parts a =
     (let b = pfa_binding a; r = pfa_resources a; t = pfa_target a
      in [debug_kind (pfa_kind a), debug_fault (pfa_fault a), pfa_fault_operation_id a,
          debug_persistence (plb_state_persistence b), plb_resource_uid b,
          u32_to_string (ppi_protocol_version (plb_preview b)),
          u64_to_string (ppi_generation (plb_preview b)), u64_to_string (plb_spec_generation b),
          i64_to_string (replica_id t), instance_id t, agent_generation t,
          pfa_predecessor_session a, u64_to_string (pfa_fault_revision a), frs_pod_name r,
          u32_to_string (pfa_predecessor_process_id a), frs_pod_uid r, frs_pvc_name r, frs_pvc_uid r,
          frs_endpoint_name r, frs_endpoint_uid r, frs_endpoint_resource_version r])"

fun join_bar :: "string list \<Rightarrow> string" where
  "join_bar [] = ''''"
| "join_bar [x] = x"
| "join_bar (x # xs) = x @ ''|'' @ join_bar xs"

definition pfa_expected_id :: "(bytes \<Rightarrow> bytes) \<Rightarrow> PublicFaultAction \<Rightarrow> OperationId" where
  "pfa_expected_id H a = ''fault-'' @ format_digest (H (join_bar (fault_action_parts a)))"

definition pfa_validate :: "(bytes \<Rightarrow> bytes) \<Rightarrow> PublicFaultAction \<Rightarrow> (string, unit) result" where
  "pfa_validate H a =
     and_then (plb_validate (pfa_binding a)) (\<lambda>_.
     let r = pfa_resources a
     in if pfa_action_id a = '''' \<or> pfa_fault_operation_id a = '''' \<or> pfa_predecessor_session a = ''''
           \<or> pfa_predecessor_process_id a = 0 \<or> pfa_fault_revision a = 0 \<or> frs_pod_name r = ''''
           \<or> frs_pod_uid r = '''' \<or> frs_pvc_name r = '''' \<or> frs_pvc_uid r = ''''
           \<or> frs_endpoint_name r = '''' \<or> frs_endpoint_uid r = '''' \<or> frs_endpoint_resource_version r = ''''
        then Err ''incomplete exact fault action identity''
        else if pfa_kind a \<noteq> expected_kind (plb_state_persistence (pfa_binding a)) (pfa_fault a)
        then Err ''fault action conflicts with persistence classification''
        else if pfa_action_id a \<noteq> pfa_expected_id H a
        then Err ''fault action ID does not match frozen identity''
        else Ok ())"

datatype RestartActionStage = RasAccepted | PredecessorContained | SuccessorLaunching | SuccessorStarted

datatype PublicServiceClearStage = ClearPending | PublishedAbsent

record PublicServiceClear =
  psc_action_id :: OperationId
  psc_stage :: PublicServiceClearStage
  psc_service_uid :: "string option"
  psc_service_resource_version :: "string option"

record RestartActionRecord =
  rar_action :: PublicFaultAction
  rar_stage :: RestartActionStage
  rar_successor_session :: "ProcessSessionId option"
  rar_successor_process_id :: "u32 option"
  rar_launch_nonce :: "string option"

section \<open>Operation programs\<close>

datatype PublicOperationClass =
    ClassAuthority | PlannedSwap | ClassBuild ReplicaId | ClassRemove ReplicaId | ClassClose | ClassAbort
  | TransientFault | PermanentFault | ClassRestart | ClassDropReplacement

definition is_terminal :: "PublicOperationClass \<Rightarrow> bool" where
  "is_terminal c \<longleftrightarrow>
     c \<in> {ClassClose, ClassAbort, TransientFault, PermanentFault, ClassRestart, ClassDropReplacement}"

datatype PublicCatchUpMode = WriteQuorum | CatchUpAll

record PublicConfiguration =
  pcf_current :: ConfigurationDescriptor
  pcf_previous :: "ConfigurationDescriptor option"

definition public_configuration_invalid :: "(bytes \<Rightarrow> bytes) \<Rightarrow> ConfigurationDescriptor \<Rightarrow> bool" where
  "public_configuration_invalid H c \<longleftrightarrow>
     configuration_id c \<noteq> expected_id H c \<or> write_quorum c = 0
     \<or> unat (write_quorum c) > length (members c)
     \<or> length (filter (\<lambda>m. m_role m = Primary) (members c)) \<noteq> 1
     \<or> \<not> (\<exists>m \<in> set (members c). m_replica_id m = primary_id c \<and> m_role m = Primary)
     \<or> card (set (map m_identity (members c))) \<noteq> length (members c)"

definition pcf_validate :: "(bytes \<Rightarrow> bytes) \<Rightarrow> PublicConfiguration \<Rightarrow> (string, unit) result" where
  "pcf_validate H p =
     for_each (pcf_current p # (case pcf_previous p of None \<Rightarrow> [] | Some c \<Rightarrow> [c]))
       (\<lambda>c. if public_configuration_invalid H c then Err ''invalid exact public configuration'' else Ok ())"

record PublicBuildInput =
  pbi_attempt :: OperationId
  pbi_replica :: ReplicaIdentity
  pbi_process_session_id :: ProcessSessionId
  pbi_replication_address :: string

datatype PublicOperationProgram =
    ProgOpen ReplicaIdentity bool
  | ProgRole Epoch ReplicaRole
  | ProgEpoch Epoch
  | ProgConfiguration PublicConfiguration
  | ProgCatchUp PublicConfiguration PublicCatchUpMode
  | ProgProgress bool
  | ProgSwap PublicConfiguration PublicConfiguration Epoch ReplicaRole PublicCatchUpMode
  | ProgBuild PublicBuildInput
  | ProgRemove PublicBuildInput
  | ProgClose
  | ProgAbort

definition build_input_incomplete :: "PublicBuildInput \<Rightarrow> bool" where
  "build_input_incomplete b \<longleftrightarrow>
     pbi_attempt b = '''' \<or> pbi_process_session_id b = '''' \<or> pbi_replication_address b = ''''"

definition program_class ::
    "(bytes \<Rightarrow> bytes) \<Rightarrow> PublicOperationProgram \<Rightarrow> OperationId \<Rightarrow> (string, PublicOperationClass) result" where
  "program_class H p i =
     (case p of
        ProgSwap starting refreshed e handoff _ \<Rightarrow>
          and_then (pcf_validate H starting) (\<lambda>_.
          and_then (pcf_validate H refreshed) (\<lambda>_.
          if c_epoch (pcf_current starting) \<ge> e \<or> c_epoch (pcf_current refreshed) \<noteq> e
             \<or> handoff \<notin> {ActiveSecondary, RoleNone}
          then Err ''invalid swap epoch or handoff'' else Ok PlannedSwap))
      | ProgConfiguration c \<Rightarrow> and_then (pcf_validate H c) (\<lambda>_. Ok ClassAuthority)
      | ProgCatchUp c _ \<Rightarrow> and_then (pcf_validate H c) (\<lambda>_. Ok ClassAuthority)
      | ProgBuild b \<Rightarrow>
          if build_input_incomplete b then Err ''incomplete exact build identity''
          else if pbi_attempt b \<noteq> i then Err ''build operation is not its exact attempt''
          else Ok (ClassBuild (replica_id (pbi_replica b)))
      | ProgRemove b \<Rightarrow>
          if build_input_incomplete b then Err ''incomplete exact build identity''
          else Ok (ClassRemove (replica_id (pbi_replica b)))
      | ProgClose \<Rightarrow> Ok ClassClose
      | ProgAbort \<Rightarrow> Ok ClassAbort
      | _ \<Rightarrow> Ok ClassAuthority)"

definition program_validate ::
    "(bytes \<Rightarrow> bytes) \<Rightarrow> PublicOperationProgram \<Rightarrow> PublicOperationClass \<Rightarrow> OperationId \<Rightarrow> (string, unit) result" where
  "program_validate H p c i =
     and_then (program_class H p i) (\<lambda>expected.
       if c \<noteq> expected then Err ''program does not match operation class'' else Ok ())"

section \<open>Lifecycle input and report\<close>

datatype PossibleDataLossIntent = NotPossible | Possible

datatype PublicLifecycleRecipe = InitialPrimary | FailoverPromotion | SecondaryEpochAdvance

record PublicLifecycleInput =
  pli_recipe :: PublicLifecycleRecipe
  pli_replica :: ReplicaIdentity
  pli_epoch :: Epoch
  pli_possible_data_loss :: PossibleDataLossIntent
  pli_current :: ConfigurationDescriptor
  pli_previous :: "ConfigurationDescriptor option"

definition lifecycle_configuration_invalid :: "(bytes \<Rightarrow> bytes) \<Rightarrow> ConfigurationDescriptor \<Rightarrow> bool" where
  "lifecycle_configuration_invalid H c \<longleftrightarrow>
     configuration_id c \<noteq> expected_id H c \<or> write_quorum c = 0
     \<or> unat (write_quorum c) > length (members c)
     \<or> card (set (map m_identity (members c))) \<noteq> length (members c)
     \<or> length (filter (\<lambda>m. m_role m = Primary) (members c)) \<noteq> 1"

definition lifecycle_role :: "PublicLifecycleInput \<Rightarrow> (string, ReplicaRole) result" where
  "lifecycle_role i =
     (if pli_recipe i = SecondaryEpochAdvance
      then (if pli_possible_data_loss i \<noteq> NotPossible then Err ''secondary epoch update cannot request data loss''
            else Ok ActiveSecondary)
      else if primary_id (pli_current i) \<noteq> replica_id (pli_replica i)
      then Err ''promotion target is not configuration primary''
      else Ok Primary)"

definition pli_validate :: "(bytes \<Rightarrow> bytes) \<Rightarrow> PublicLifecycleInput \<Rightarrow> (string, unit) result" where
  "pli_validate H i =
     (if c_epoch (pli_current i) \<noteq> pli_epoch i then Err ''lifecycle epoch does not match configuration''
      else and_then (for_each (pli_current i # (case pli_previous i of None \<Rightarrow> [] | Some c \<Rightarrow> [c])) (\<lambda>c.
             if lifecycle_configuration_invalid H c then Err ''invalid frozen lifecycle configuration''
             else if is_some_and (pli_previous i) (\<lambda>p. c_epoch p \<ge> pli_epoch i)
             then Err ''lifecycle epoch must advance the previous epoch'' else Ok ())) (\<lambda>_.
           and_then (lifecycle_role i) (\<lambda>role.
           if \<not> (\<exists>m \<in> set (members (pli_current i)). m_identity m = pli_replica i \<and> m_role m = role)
           then Err ''lifecycle target is not an exact configuration member''
           else if pli_recipe i = FailoverPromotion \<and> pli_previous i = None
           then Err ''failover requires frozen previous configuration''
           else Ok ())))"

record PublicOperationIntent =
  poi_preview :: PublicOperationPreviewIdentity
  poi_operation_id :: OperationId
  poi_revision :: u64
  poi_process_session_id :: ProcessSessionId
  poi_class :: PublicOperationClass
  poi_input_digest :: string
  poi_lifecycle :: "PublicLifecycleInput option"
  poi_program :: "PublicOperationProgram option"

text \<open>\<open>digest()\<close>: the hexadecimal hash of the derived \<open>Debug\<close> text.\<close>

definition debug_digest :: "(bytes \<Rightarrow> bytes) \<Rightarrow> ('a \<Rightarrow> string) \<Rightarrow> 'a \<Rightarrow> string" where
  "debug_digest H debug x = format_digest (H (debug x))"

definition poi_validate ::
    "(bytes \<Rightarrow> bytes) \<Rightarrow> (PublicLifecycleInput \<Rightarrow> string) \<Rightarrow> (PublicOperationProgram \<Rightarrow> string)
      \<Rightarrow> PublicOperationIntent \<Rightarrow> (string, unit) result" where
  "poi_validate H debug_lifecycle debug_program i =
     (if \<not> ppi_is_valid (poi_preview i) then Err ''invalid public-operation preview identity''
      else if poi_operation_id i = '''' then Err ''public-operation ID is empty''
      else if poi_revision i = 0 then Err ''public-operation revision must be positive''
      else if poi_process_session_id i = '''' then Err ''public-operation process session is empty''
      else if poi_input_digest i = '''' then Err ''public-operation input digest is empty''
      else and_then (case poi_lifecycle i of
               None \<Rightarrow> Ok ()
             | Some input \<Rightarrow>
                 if poi_program i \<noteq> None then Err ''operation cannot carry two programs''
                 else if poi_class i \<noteq> ClassAuthority then Err ''lifecycle input requires authority operation''
                 else and_then (pli_validate H input) (\<lambda>_.
                   if poi_input_digest i \<noteq> debug_digest H debug_lifecycle input
                   then Err ''lifecycle digest does not match frozen input'' else Ok ())) (\<lambda>_.
           case poi_program i of
             None \<Rightarrow> Ok ()
           | Some p \<Rightarrow>
               and_then (program_validate H p (poi_class i) (poi_operation_id i)) (\<lambda>_.
                 if poi_input_digest i \<noteq> debug_digest H debug_program p
                 then Err ''program digest does not match frozen input'' else Ok ())))"

record ServiceLocation =
  sl_preview :: PublicOperationPreviewIdentity
  sl_resource_uid :: ResourceUid
  sl_operation_id :: OperationId
  sl_replica :: ReplicaIdentity
  sl_process_session_id :: ProcessSessionId
  sl_epoch :: Epoch
  sl_revision :: u64
  sl_address :: string

record PublicLifecycleReport =
  plr_preview :: PublicOperationPreviewIdentity
  plr_binding :: "PreviewLifecycleBinding option"
  plr_resource_uid :: ResourceUid
  plr_replica :: ReplicaIdentity
  plr_process_session_id :: ProcessSessionId
  plr_process_id :: u32
  plr_revision :: u64
  plr_operation_id :: "OperationId option"
  plr_role :: ReplicaRole
  plr_write_access :: bool
  plr_service_location :: "ServiceLocation option"

text \<open>\<open>len().to_le_bytes()\<close> of a 64-bit \<open>usize\<close>.\<close>

definition len_to_le_bytes :: "nat \<Rightarrow> bytes" where
  "len_to_le_bytes n = rev (len_to_be_bytes n)"

definition service_location_address_digest :: "(bytes \<Rightarrow> bytes) \<Rightarrow> ServiceLocation option \<Rightarrow> string" where
  "service_location_address_digest H l =
     format_digest (H (case l of
        Some x \<Rightarrow> ''some:'' @ len_to_le_bytes (length (sl_address x)) @ sl_address x
      | None \<Rightarrow> ''none''))"

end
