(* ===== verification/Observations.thy ===== *)
theory Observations
  imports Protocol_Commands Public_Operations Btree_Map
begin

text \<open>
  What the controller observes: the accepted status of \<open>protocol/types.rs\<close> and the agent
  reports, Kubernetes lookups and snapshot of \<open>kuberic-runtime/src/protocol/observation.rs\<close>.
\<close>

section \<open>Accepted status\<close>

record PlannedSwitchoverRequest =
  psq_request_id :: SwitchoverRequestId
  psq_target_replica_id :: ReplicaId

record LoadMetric =
  lm_name :: string
  lm_value :: i64

datatype ConditionStatus = CondTrue | CondFalse | CondUnknown

record StatusCondition =
  cond_type :: string
  cond_status :: ConditionStatus
  cond_reason :: string
  cond_message :: string

record AcceptedTopology =
  tp_configuration :: ConfigurationDescriptor

record AcceptedStatus =
  st_initialized :: bool
  st_observed_generation :: u64
  st_effective_policy :: "EffectivePolicy option"
  st_topology :: "AcceptedTopology option"
  st_scale_up_allocation :: "ScaleUpAllocation option"
  st_provisioning :: "ProvisioningIntent option"
  st_transition :: "TransitionIntent option"
  st_primary_failure :: "PrimaryFailureObservation option"
  st_quorum_loss :: "QuorumLossObservation option"
  st_last_switchover :: "PlannedSwitchoverReceipt option"
  st_pending_replacement_cleanup :: "ReplacementCleanup option"
  st_last_replacement :: "ReplacementCleanup option"
  st_secondary_scale_down_cleanup :: "SecondaryScaleDownCleanup option"
  st_last_secondary_removal :: "SecondaryRemovalReceipt option"
  st_scale_up_cleanup :: "ScaleUpCleanup option"
  st_last_scale_up :: "ScaleUpReceipt option"
  st_scale_up_admission_started :: "OperationId option"
  st_preview_lifecycle :: "PreviewLifecycleBinding option"
  st_public_fault_action :: "PublicFaultAction option"
  st_public_service_clear :: "PublicServiceClear option"
  st_last_public_fault_action :: "PublicFaultAction option"
  st_conditions :: "StatusCondition list"

definition with_condition :: "StatusCondition \<Rightarrow> AcceptedStatus \<Rightarrow> AcceptedStatus" where
  "with_condition c s =
     s\<lparr>st_conditions := filter (\<lambda>x. cond_type x \<noteq> cond_type c) (st_conditions s) @ [c]\<rparr>"

definition without_condition :: "string \<Rightarrow> AcceptedStatus \<Rightarrow> AcceptedStatus" where
  "without_condition t s = s\<lparr>st_conditions := filter (\<lambda>x. cond_type x \<noteq> t) (st_conditions s)\<rparr>"

text \<open>The accepted configuration and the scale-up intent of the active transition, as the checks
  read them.\<close>

definition st_accepted :: "AcceptedStatus \<Rightarrow> ConfigurationDescriptor option" where
  "st_accepted s = map_option tp_configuration (st_topology s)"

definition ti_active_scale_up :: "TransitionIntent \<Rightarrow> ScaleUpIntent option" where
  "ti_active_scale_up t = or_else (ti_scale_up t) (map_option sf_intent (ti_scale_up_failover t))"

definition st_active_scale_up :: "AcceptedStatus \<Rightarrow> ScaleUpIntent option" where
  "st_active_scale_up s = Option.bind (st_transition s) ti_active_scale_up"

section \<open>Kubernetes and agent observations\<close>

record DesiredState =
  des_generation :: u64
  des_replicas :: u32
  des_image :: string
  des_failover_delay_seconds :: u64
  des_switchover :: "PlannedSwitchoverRequest option"
  des_preview_lifecycle :: "StatePersistence option"

record KubernetesReplicaObservation =
  k_replica_id :: ReplicaId
  k_pod_name :: string
  k_pod_uid :: "PodUid option"
  k_pvc_name :: string
  k_pvc_uid :: "PvcUid option"
  k_image :: "string option"
  k_pod_ready :: bool
  k_peer_endpoint_ready :: bool
  k_endpoint_name :: "string option"
  k_endpoint_uid :: "string option"
  k_endpoint_resource_version :: "string option"

definition has_exact_scaffolding :: "KubernetesReplicaObservation \<Rightarrow> bool" where
  "has_exact_scaffolding k \<longleftrightarrow> k_pod_uid k \<noteq> None \<and> k_pvc_uid k \<noteq> None"

record UninitializedAgentObservation =
  un_protocol_version :: u32
  un_resource_uid :: ResourceUid
  un_replica_id :: ReplicaId
  un_pod_uid :: PodUid
  un_pvc_uid :: PvcUid
  un_process_session_id :: ProcessSessionId
  un_report_sequence :: u64

record AgentBuildReport =
  br_build_id :: OperationId
  br_target :: ReplicaIdentity
  br_last_sequence :: u64
  br_replication_boundary_lsn :: i64
  br_durable_lsn :: i64
  br_completed :: bool
  br_catch_up_boundary_lsn :: "i64 option"

record AgentReport =
  ar_protocol_version :: u32
  ar_resource_uid :: ResourceUid
  ar_identity :: ReplicaIdentity
  ar_process_session_id :: ProcessSessionId
  ar_report_sequence :: u64
  ar_role :: ReplicaRole
  ar_read_status :: AccessStatus
  ar_write_status :: AccessStatus
  ar_healthy :: bool
  ar_epoch :: Epoch
  ar_previous_configuration :: "ConfigurationDescriptor option"
  ar_current_configuration :: "ConfigurationDescriptor option"
  ar_current_progress :: i64
  ar_verified_replication_lsn :: "i64 option"
  ar_committed_lsn :: i64
  ar_catch_up_capability :: "i64 option"
  ar_current_configuration_quorum_progress :: i64
  ar_catch_up_boundary :: "i64 option"
  ar_catch_up_complete :: bool
  ar_deactivated_lsn :: "i64 option"
  ar_deactivation_epoch :: "Epoch option"
  ar_load_metrics :: "LoadMetric list"
  ar_reported_fault :: "FaultType option"
  ar_pending_operation_id :: "OperationId option"
  ar_pending_configuration :: "EnsureConfiguration option"
  ar_retained_operation_id :: "OperationId option"
  ar_builds :: "AgentBuildReport list"
  ar_prepared_switchover :: "SwitchoverHandoff option"
  ar_prepared_secondary_removal :: "SecondaryRemovalPreparation option"
  ar_secondary_removal_evidence :: "SecondaryRemovalEvidence option"
  ar_retired_replica :: "ReplicaRetirementReport option"
  ar_accepted_secondary_removal :: "SecondaryScaleDownCleanup option"
  ar_scale_up_intent :: "ScaleUpIntent option"
  ar_public_lifecycle_report :: "PublicLifecycleReport option"
  ar_restart_action :: "RestartActionRecord option"

definition agent_report_default :: AgentReport where
  "agent_report_default =
     \<lparr>ar_protocol_version = 0, ar_resource_uid = '''',
      ar_identity = \<lparr>replica_id = 0, instance_id = '''', agent_generation = ''''\<rparr>,
      ar_process_session_id = '''', ar_report_sequence = 0, ar_role = RoleNone,
      ar_read_status = NotPrimary, ar_write_status = NotPrimary, ar_healthy = False,
      ar_epoch = epoch_default, ar_previous_configuration = None, ar_current_configuration = None,
      ar_current_progress = 0, ar_verified_replication_lsn = None, ar_committed_lsn = 0,
      ar_catch_up_capability = None, ar_current_configuration_quorum_progress = 0,
      ar_catch_up_boundary = None, ar_catch_up_complete = False, ar_deactivated_lsn = None,
      ar_deactivation_epoch = None, ar_load_metrics = [], ar_reported_fault = None,
      ar_pending_operation_id = None, ar_pending_configuration = None, ar_retained_operation_id = None,
      ar_builds = [], ar_prepared_switchover = None, ar_prepared_secondary_removal = None,
      ar_secondary_removal_evidence = None, ar_retired_replica = None, ar_accepted_secondary_removal = None,
      ar_scale_up_intent = None, ar_public_lifecycle_report = None, ar_restart_action = None\<rparr>"

datatype ExactResourceObservation =
    FrozenUidPresent string | ReplacementPresent string string | NotFound | LookupFailed string

record SecondaryScaleDownResourceObservation =
  sro_resource_uid :: ResourceUid
  sro_target :: ReplicaIdentity
  sro_identity :: ReplicaCleanupIdentity
  sro_pod :: ExactResourceObservation
  sro_pod_allocation_operation_id :: "OperationId option"
  sro_pod_matches_allocation_metadata :: bool
  sro_pvc :: ExactResourceObservation
  sro_pvc_allocation_operation_id :: "OperationId option"
  sro_endpoint :: ExactResourceObservation

section \<open>The snapshot\<close>

record ReplicaObservationKey =
  key_replica_id :: ReplicaId
  key_instance_id :: ReplicaInstanceId

instantiation ReplicaObservationKey_ext :: (linorder) linorder
begin

definition less_eq_ReplicaObservationKey_ext ::
    "'a ReplicaObservationKey_scheme \<Rightarrow> 'a ReplicaObservationKey_scheme \<Rightarrow> bool" where
  "a \<le> b \<longleftrightarrow> (key_replica_id a, key_instance_id a, ReplicaObservationKey.more a)
             \<le> (key_replica_id b, key_instance_id b, ReplicaObservationKey.more b)"

definition less_ReplicaObservationKey_ext ::
    "'a ReplicaObservationKey_scheme \<Rightarrow> 'a ReplicaObservationKey_scheme \<Rightarrow> bool" where
  "a < b \<longleftrightarrow> (key_replica_id a, key_instance_id a, ReplicaObservationKey.more a)
             < (key_replica_id b, key_instance_id b, ReplicaObservationKey.more b)"

instance
  by intro_classes
    (auto simp: less_eq_ReplicaObservationKey_ext_def less_ReplicaObservationKey_ext_def
      intro: ReplicaObservationKey.equality)

end

definition observation_key_new :: "ReplicaId \<Rightarrow> ReplicaInstanceId \<Rightarrow> ReplicaObservationKey" where
  "observation_key_new r i = \<lparr>key_replica_id = r, key_instance_id = i\<rparr>"

datatype (plugins only: code) AgentObservation =
    AgentAbsent
  | AgentUnreachable string
  | AgentInvalid string "UninitializedAgentObservation option"
  | AgentUninitialized UninitializedAgentObservation
  | AgentReported AgentReport

record ReplicaObservation =
  ob_kubernetes :: "KubernetesReplicaObservation option"
  ob_agent :: AgentObservation

record ObservationFailure =
  of_source :: string
  of_message :: string

record ReportWatermark =
  wm_process_session_id :: ProcessSessionId
  wm_report_sequence :: u64

record RoutingObservation =
  ro_service_present :: bool
  ro_unresolved_write_target :: bool
  ro_write_target :: "ReplicaIdentity option"
  ro_preview_service_location_present :: bool
  ro_write_service_uid :: "string option"
  ro_write_service_resource_version :: "string option"
  ro_service_identities :: "(string \<times> string) list"

record ObservationSnapshot =
  sn_resource_uid :: ResourceUid
  sn_resource_version :: string
  sn_desired :: DesiredState
  sn_status :: AcceptedStatus
  sn_replicas :: "(ReplicaObservationKey, ReplicaObservation) btree_map"
  sn_secondary_scale_down_resources :: "SecondaryScaleDownResourceObservation list"
  sn_previous_report_watermarks :: "(ReplicaObservationKey, ReportWatermark) btree_map"
  sn_durable_storage_evidence :: bool
  sn_supporting_resources_ready :: bool
  sn_routing :: RoutingObservation
  sn_observation_failures :: "ObservationFailure list"
  sn_now_unix_seconds :: i64

definition intended_replica_ids :: "ObservationSnapshot \<Rightarrow> ReplicaId list" where
  "intended_replica_ids s = [1..int (unat (des_replicas (sn_desired s)))]"

text \<open>The only element of an iterator, none when there are several.\<close>

fun the_only :: "'a list \<Rightarrow> 'a option" where
  "the_only [x] = Some x"
| "the_only xs = None"

definition scaffolding_for :: "ObservationSnapshot \<Rightarrow> ReplicaId \<Rightarrow> KubernetesReplicaObservation option" where
  "scaffolding_for s r =
     the_only (List.map_filter (\<lambda>(k, ob). ob_kubernetes ob)
       (filter (\<lambda>(k, ob). key_replica_id k = r) (sn_replicas s)))"

definition has_complete_scaffolding :: "ObservationSnapshot \<Rightarrow> bool" where
  "has_complete_scaffolding s \<longleftrightarrow>
     list_all (\<lambda>r. is_some_and (scaffolding_for s r) has_exact_scaffolding) (intended_replica_ids s)"

definition scaffolding_observation_for :: "ObservationSnapshot \<Rightarrow> ReplicaId \<Rightarrow> ReplicaObservation option" where
  "scaffolding_observation_for s r =
     the_only (map snd (filter (\<lambda>(k, ob). key_replica_id k = r \<and> ob_kubernetes ob \<noteq> None) (sn_replicas s)))"

definition observation_for_identity :: "ObservationSnapshot \<Rightarrow> ReplicaIdentity \<Rightarrow> ReplicaObservation option" where
  "observation_for_identity s x =
     bt_get (sn_replicas s) (observation_key_new (replica_id x) (instance_id x))"

end
