(* ===== verification/Agent_State.thy ===== *)
theory Agent_State
  imports Effects Observations
begin

text \<open>
  \<open>kuberic-runtime/src/host/state.rs\<close> and \<open>host/error.rs\<close>: the durable state of a replica agent and the
  errors of its host. The operations on the public-operation preview exist only in builds with the
  \<open>testing\<close> feature; its state is part of the record. Error payloads of other crates are strings.
\<close>

section \<open>Errors\<close>

datatype HostError =
    Uninitialized
  | MissingEstablishedStore
  | IdentityMismatch string
  | SchemaMismatch u32 u32
  | Corrupt string
  | InitializationNotAuthorized string
  | DurableEffectConflict string
  | StaleEffectCompletion string
  | CommandRejected string
  | SessionRejected string
  | Backpressure string
  | HostSqlite string
  | HostSerialization string
  | HostIo string
  | HostRuntime RuntimeError
  | HostContract string

type_synonym 'a host = "(HostError, 'a) result"

text \<open>The \<open>Display\<close> text of a contract error, from its \<open>#[error]\<close> attributes.\<close>

fun contract_error_text :: "ContractError \<Rightarrow> string" where
  "contract_error_text (CtAuthorityMismatch m) = ''authority mismatch: '' @ m"
| "contract_error_text (CtPersistence m) = ''persistence error: '' @ m"

abbreviation reject_check :: "(ValidationError \<Rightarrow> string) \<Rightarrow> check \<Rightarrow> unit host" where
  "reject_check D r \<equiv> map_err (\<lambda>e. CommandRejected (D e)) r"

section \<open>Public-operation preview\<close>

datatype PublicOperationStage =
  WaitingForContainment | OpReady | OpRunning | CallbackApplied | ContainmentPending | OpCompleted

datatype PublicOperationDisposition =
  DispSucceeded | DispFailed string | DispAmbiguous string | DispCancelled | DispAttached OperationId

datatype PublicOperationContainment = NotRequired | ContPending | ContComplete

datatype PublicInstruction =
    InsApplicationOpen | InsReplicatorOpen | InsReplicatorRole | InsApplicationRole | InsProgramEpoch
  | InsConfiguration | InsStartingConfiguration | InsRefreshedConfiguration | InsFirstCatchUp | InsSecondCatchUp
  | InsRevoke | InsProgress | InsBuild | InsRemove | InsReplicatorClose | InsApplicationClose | InsAbort
  | InsCleanup | InsReplicatorPrimary | InsEpoch | InsApplicationPrimary | InsDataLoss
  | InsCurrentConfiguration | InsCatchUpConfiguration | InsCatchUp | InsAccess

datatype PublicCloseChild = CloseReplicator | CloseApplication

datatype DataLossOutcome = DlNotInvoked | DlFalse | DlTrue | DlError string | DlAmbiguous

datatype PublicInstructionOutcome =
    InoDone
  | InoApplicationRole "string option"
  | InoDataLoss DataLossOutcome
  | InoEndpoint string
  | InoProgress i64
  | InoCloseFailure PublicCloseChild string

record PublicLifecycleRecord =
  plc_in_flight :: "PublicInstruction option"
  plc_outcomes :: "PublicInstructionOutcome list"

record PublicOperationRecord =
  por_intent :: PublicOperationIntent
  por_stage :: PublicOperationStage
  por_disposition :: "PublicOperationDisposition option"
  por_containment :: PublicOperationContainment
  por_superseded_by :: "OperationId option"
  por_blockers :: "OperationId set"
  por_lifecycle :: PublicLifecycleRecord

record HistoryAdmissionBarrier =
  hab_intent :: PublicOperationIntent
  hab_outcome :: DataLossOutcome
  hab_retired_by :: "OperationId option"

record PublicOperationPreviewState =
  pps_identity :: PublicOperationPreviewIdentity
  pps_binding :: "PreviewLifecycleBinding option"
  pps_restart_action :: "RestartActionRecord option"
  pps_operations :: "(OperationId, PublicOperationRecord) btree_map"
  pps_history_barriers :: "(OperationId, HistoryAdmissionBarrier) btree_map"
  pps_current_operation :: "OperationId option"
  pps_current_topology_operation :: "OperationId option"
  pps_active_builds :: "(ReplicaId, PublicBuildInput) btree_map"
  pps_absent_builds :: "OperationId set"
  pps_writes_revoked :: bool
  pps_terminal :: bool

section \<open>Journalled work\<close>

record StorageIdentity =
  sto_schema_version :: u32
  sto_resource_uid :: ResourceUid
  sto_pod_uid :: PodUid
  sto_pvc_uid :: PvcUid
  sto_initialization_id :: InitializationId
  sto_local_identity :: ReplicaIdentity
  sto_effective_policy :: EffectivePolicy

record DeactivationState =
  das_epoch :: Epoch
  das_deactivated_lsn :: i64

datatype EffectStage = IntentCommitted | EffectApplied

record PendingEffect =
  pe_effect :: RuntimeEffect
  pe_stage :: EffectStage
  pe_applied_result :: "RuntimeEffectResult option"

record RetainedResult =
  rtn_operation_id :: OperationId
  rtn_record :: RecordedEffect

datatype CoordinatorStage =
    CsAdmitAuthority | CsFailoverPrefix | CsDemote | CsGetLsn | CsCatchup | CsDeactivate | CsReplicatorRole
  | CsEpoch | CsApplicationRole | CsActivate | CsRetireBuild | CsComplete

record ReconfigurationRecord =
  rcr_command :: EnsureConfiguration
  rcr_stage :: CoordinatorStage
  rcr_observed_lsn :: "i64 option"

record RetainedCommandResult =
  rcm_command :: EnsureConfiguration
  rcm_role :: ReplicaRole
  rcm_epoch :: Epoch

record PreparationRetirement =
  prt_starting_configuration_id :: ConfigurationId
  prt_starting_epoch :: Epoch
  prt_generation :: u64

record ApplicationStorageBinding =
  asb_paths :: "(string, string) btree_map"
  asb_initializing :: bool

section \<open>Agent state\<close>

record AgentState =
  ag_identity :: StorageIdentity
  ag_public_operation_preview :: "PublicOperationPreviewState option"
  ag_application_storage :: "ApplicationStorageBinding option"
  ag_scale_up_initialization :: "ProvisioningIntent option"
  ag_admitted_policy :: "EffectivePolicy option"
  ag_previous_policy :: "EffectivePolicy option"
  ag_prepared_secondary_removal :: "SecondaryRemovalPreparation option"
  ag_secondary_removal_evidence :: "SecondaryRemovalEvidence option"
  ag_accepted_secondary_removal :: "SecondaryScaleDownCleanup option"
  ag_retired_authority :: "RetiredAuthority option"
  ag_removal_effects :: "(OperationId, RetainedResult) btree_map"
  ag_removal_commands :: "(OperationId, RetainedCommandResult) btree_map"
  ag_highest_epoch :: Epoch
  ag_previous_configuration :: "ConfigurationDescriptor option"
  ag_current_configuration :: "ConfigurationDescriptor option"
  ag_role :: ReplicaRole
  ag_read_status :: AccessStatus
  ag_write_status :: AccessStatus
  ag_deactivation :: "DeactivationState option"
  ag_reconfiguration_data :: "string option"
  ag_reconfiguration :: "ReconfigurationRecord option"
  ag_retained_command :: "RetainedCommandResult option"
  ag_completed_scale_up :: "RetainedCommandResult option"
  ag_scale_up_evidence :: "ScaleUpConfigurationEvidence option"
  ag_build_commands :: "(OperationId, EnsureReplicaBuild) btree_map"
  ag_build_progress :: "(OperationId, DurableBuildProgress) btree_map"
  ag_retired_builds :: "OperationId set"
  ag_abandoned_builds :: "OperationId set"
  ag_next_effect_sequence :: u64
  ag_load_metrics :: "LoadMetric list"
  ag_reported_fault :: "FaultType option"
  ag_pending_effect :: "PendingEffect option"
  ag_retained_result :: "RetainedResult option"
  ag_prepared_switchover :: "SwitchoverHandoff option"
  ag_retired_switchover :: "SwitchoverHandoff option"
  ag_preparation_retirement :: "PreparationRetirement option"

definition agent_state_new :: "StorageIdentity \<Rightarrow> AgentState" where
  "agent_state_new i =
     \<lparr>ag_identity = i, ag_public_operation_preview = None, ag_application_storage = None,
      ag_scale_up_initialization = None, ag_admitted_policy = None, ag_previous_policy = None,
      ag_prepared_secondary_removal = None, ag_secondary_removal_evidence = None,
      ag_accepted_secondary_removal = None, ag_retired_authority = None, ag_removal_effects = [],
      ag_removal_commands = [], ag_highest_epoch = epoch_default, ag_previous_configuration = None,
      ag_current_configuration = None, ag_role = RoleNone, ag_read_status = NotPrimary,
      ag_write_status = NotPrimary, ag_deactivation = None, ag_reconfiguration_data = None,
      ag_reconfiguration = None, ag_retained_command = None, ag_completed_scale_up = None,
      ag_scale_up_evidence = None, ag_build_commands = [], ag_build_progress = [], ag_retired_builds = {},
      ag_abandoned_builds = {}, ag_next_effect_sequence = 1, ag_load_metrics = [], ag_reported_fault = None,
      ag_pending_effect = None, ag_retained_result = None, ag_prepared_switchover = None,
      ag_retired_switchover = None, ag_preparation_retirement = None\<rparr>"

text \<open>The two effects that stand for an unfinished removal, as three checks match on them.\<close>

fun removal_action :: "RuntimeEffectAction \<Rightarrow> bool" where
  "removal_action (EffPrepareSecondaryRemoval i s n) = True"
| "removal_action (EffRetireReplica r) = True"
| "removal_action _ = False"

abbreviation removal_unaccepted :: "AgentState \<Rightarrow> bool" where
  "removal_unaccepted st \<equiv>
     is_some_and (ag_secondary_removal_evidence st) (\<lambda>e.
       is_none_or (ag_accepted_secondary_removal st) (\<lambda>c. sdc_evidence c \<noteq> e))"

definition removal_pending :: "AgentState \<Rightarrow> bool" where
  "removal_pending st \<longleftrightarrow> ag_prepared_secondary_removal st \<noteq> None
     \<or> is_some_and (ag_pending_effect st) (\<lambda>p. removal_action (ef_action (pe_effect p)))
     \<or> removal_unaccepted st"

abbreviation ag_local :: "AgentState \<Rightarrow> ReplicaIdentity" where
  "ag_local st \<equiv> sto_local_identity (ag_identity st)"

abbreviation ag_policy :: "AgentState \<Rightarrow> EffectivePolicy" where
  "ag_policy st \<equiv> unwrap_or (ag_admitted_policy st) (sto_effective_policy (ag_identity st))"

text \<open>\<open>HostError::CommandRejected\<close>, the replica a command names, and the resource of the store.\<close>

abbreviation rejected :: "string \<Rightarrow> 'a host" where
  "rejected m \<equiv> Err (CommandRejected m)"

abbreviation conflict :: "string \<Rightarrow> 'a host" where
  "conflict m \<equiv> Err (DurableEffectConflict m)"

abbreviation ag_resource_uid :: "AgentState \<Rightarrow> ResourceUid" where
  "ag_resource_uid st \<equiv> sto_resource_uid (ag_identity st)"

end
