(* ===== verification/Report_Checks.thy ===== *)
theory Report_Checks
  imports Scale_Up Observations
begin

text \<open>
  The checks on agent reports: the removal commands and reports of
  \<open>protocol/validation/scale_down.rs\<close> and the internal and authority checks of one report of
  \<open>protocol/validation.rs\<close>. A long Rust function is split at its blank lines; each part keeps the
  order of the tests and their errors.
\<close>

abbreviation re_intent :: "SecondaryRemovalEvidence \<Rightarrow> SecondaryScaleDownIntent" where
  "re_intent e \<equiv> rp_intent (re_preparation e)"

abbreviation sdc_intent :: "SecondaryScaleDownCleanup \<Rightarrow> SecondaryScaleDownIntent" where
  "sdc_intent c \<equiv> re_intent (sdc_evidence c)"

section \<open>Removal commands\<close>

definition validate_accept_secondary_removal_commit ::
    "(bytes \<Rightarrow> bytes) \<Rightarrow> AcceptSecondaryRemovalCommit \<Rightarrow> check" where
  "validate_accept_secondary_removal_commit H c =
     and_then (validate_secondary_scale_down_cleanup H (arc_committed c)) (\<lambda>_.
     let i = sdc_intent (arc_committed c)
     in if arc_target c \<notin> exact_identities (sd_current_configuration i)
           \<or> arc_operation_id c \<noteq> sd_command_operation_id H i RemAcceptCommit (arc_target c)
           \<or> sdc_retirement (arc_committed c) \<noteq> None
           \<or> (arc_local_recovery c \<and> arc_target c = sd_primary i)
        then Err (sd_invalid ''commit publication must bind one retained exact member and immutable acceptance evidence'')
        else Ok ())"

definition validate_secondary_removal_configuration :: "(bytes \<Rightarrow> bytes) \<Rightarrow> EnsureConfiguration \<Rightarrow> check" where
  "validate_secondary_removal_configuration H c =
     and_then (ok_or (ec_secondary_removal_evidence c) (sd_invalid ''missing admission evidence'')) (\<lambda>e.
     and_then (validate_secondary_removal_evidence H e (ec_current_only c)) (\<lambda>_.
     let i = re_intent e; stage = (if ec_current_only c then RemCurrentOnly else RemPreviousCurrent)
     in if ec_transition_kind c \<noteq> SecondaryScaleDown
           \<or> ec_operation_id c \<noteq> sd_command_operation_id H i stage (ec_target c)
           \<or> ec_target c \<notin> exact_identities (sd_current_configuration i)
           \<or> ec_current_configuration c \<noteq> sd_current_configuration i
           \<or> ec_effective_policy c \<noteq> sd_current_policy i
           \<or> ec_previous_policy c \<noteq> Some (sd_previous_policy i)
           \<or> ec_current_epoch c \<noteq> c_epoch (sd_current_configuration i)
           \<or> ec_previous_configuration c \<noteq> then_some (\<not> ec_current_only c) (sd_previous_configuration i)
           \<or> ec_previous_epoch c \<noteq> then_some (\<not> ec_current_only c) (c_epoch (sd_previous_configuration i))
           \<or> ec_primary_write_status c \<noteq> ReconfigurationPending
           \<or> ec_failover_safe_lsn c \<noteq> None \<or> ec_switchover_handoff c \<noteq> None
           \<or> ec_retire_build_ids c \<noteq> [] \<or> ec_retire_switchover_preparation_ids c \<noteq> []
        then Err (sd_invalid ''configuration command differs from frozen write-closed removal authority'')
        else Ok ()))"

section \<open>Removal evidence in a report\<close>

definition accepted_removal_check :: "(bytes \<Rightarrow> bytes) \<Rightarrow> AgentReport \<Rightarrow> SecondaryScaleDownCleanup \<Rightarrow> check" where
  "accepted_removal_check H r c =
     and_then (validate_secondary_scale_down_cleanup H c) (\<lambda>_.
     let i = sdc_intent c; cur = sd_current_configuration i
     in if sd_resource_uid i \<noteq> ar_resource_uid r
           \<or> ar_identity r \<notin> exact_identities cur
           \<or> ar_epoch r < c_epoch cur
           \<or> (ar_epoch r = c_epoch cur
              \<and> (ar_current_configuration r \<noteq> Some cur \<or> ar_previous_configuration r \<noteq> None
                 \<or> is_some_and (ar_prepared_secondary_removal r)
                     (\<lambda>p. sd_previous_configuration (rp_intent p) \<noteq> cur)
                 \<or> ar_secondary_removal_evidence r \<noteq> Some (sdc_evidence c)))
        then Err (sd_invalid ''accepted removal receipt differs from installed current-only authority'')
        else Ok ())"

definition prepared_removal_check :: "(bytes \<Rightarrow> bytes) \<Rightarrow> AgentReport \<Rightarrow> SecondaryRemovalPreparation \<Rightarrow> check" where
  "prepared_removal_check H r p =
     and_then (validate_secondary_removal_preparation H p) (\<lambda>_.
     let i = rp_intent p
     in if sd_primary i \<noteq> ar_identity r \<or> sd_resource_uid i \<noteq> ar_resource_uid r
           \<or> ar_process_session_id r = '''' \<or> ar_report_sequence r = 0
           \<or> (ar_process_session_id r = rp_process_session_id p \<and> ar_report_sequence r < rp_report_sequence p)
           \<or> ar_write_status r = Granted \<or> ar_prepared_switchover r \<noteq> None
           \<or> (ar_secondary_removal_evidence r = None
              \<and> (ar_current_configuration r \<noteq> Some (sd_previous_configuration i)
                 \<or> ar_previous_configuration r \<noteq> None
                 \<or> ar_epoch r \<noteq> c_epoch (sd_previous_configuration i)
                 \<or> ar_role r \<noteq> Primary))
        then Err (sd_invalid ''preparation report differs from write-closed primary'')
        else Ok ())"

definition reduced_evidence_check :: "(bytes \<Rightarrow> bytes) \<Rightarrow> AgentReport \<Rightarrow> SecondaryRemovalEvidence \<Rightarrow> check" where
  "reduced_evidence_check H r e =
     and_then (validate_secondary_removal_evidence H e (ar_previous_configuration r = None)) (\<lambda>_.
     let i = re_intent e
     in if ar_resource_uid r \<noteq> sd_resource_uid i
           \<or> ar_process_session_id r = '''' \<or> ar_report_sequence r = 0
           \<or> ar_current_configuration r \<noteq> Some (sd_current_configuration i)
           \<or> ar_epoch r \<noteq> c_epoch (sd_current_configuration i)
           \<or> is_some_and (ar_previous_configuration r) (\<lambda>p. p \<noteq> sd_previous_configuration i)
           \<or> \<not> (\<exists>m \<in> set (members (sd_current_configuration i)). m_identity m = ar_identity r \<and> m_role m = ar_role r)
           \<or> (ar_previous_configuration r \<noteq> None \<and> ar_write_status r = Granted)
           \<or> is_some_and (ar_prepared_secondary_removal r) (\<lambda>p. p \<noteq> re_preparation e
                \<and> \<not> (ar_previous_configuration r = None
                     \<and> sd_previous_configuration (rp_intent p) = sd_current_configuration i
                     \<and> is_some_and (ar_accepted_secondary_removal r) (\<lambda>c. sdc_evidence c = e)))
        then Err (sd_invalid ''reported reduced authority is not bound to admission evidence'')
        else Ok ())"

definition retired_report_check :: "(bytes \<Rightarrow> bytes) \<Rightarrow> AgentReport \<Rightarrow> ReplicaRetirementReport \<Rightarrow> check" where
  "retired_report_check H r t =
     and_then (validate_replica_retirement H t) (\<lambda>_.
     if sd_target (rr_intent t) \<noteq> ar_identity r \<or> sd_resource_uid (rr_intent t) \<noteq> ar_resource_uid r
        \<or> ar_process_session_id r = '''' \<or> ar_report_sequence r = 0
        \<or> (rr_process_session_id t = ar_process_session_id r \<and> rr_report_sequence t > ar_report_sequence r)
        \<or> rr_epoch t \<noteq> ar_epoch r \<or> ar_role r \<noteq> RoleNone
        \<or> ar_read_status r = Granted \<or> ar_write_status r = Granted
        \<or> ar_previous_configuration r \<noteq> None \<or> ar_current_configuration r \<noteq> None
        \<or> ar_pending_operation_id r \<noteq> None
        \<or> ar_retained_operation_id r \<noteq> Some (rr_operation_id t)
        \<or> ar_prepared_secondary_removal r \<noteq> None \<or> ar_secondary_removal_evidence r \<noteq> None
        \<or> ar_prepared_switchover r \<noteq> None
     then Err (sd_invalid ''retired report still claims active authority'')
     else Ok ())"

text \<open>\<open>if let Some(x) = v \<lbrace> f(x)? \<rbrace>\<close>\<close>

definition check_some :: "'a option \<Rightarrow> ('a \<Rightarrow> ('e, unit) result) \<Rightarrow> ('e, unit) result" where
  "check_some v f = (case v of None \<Rightarrow> Ok () | Some x \<Rightarrow> f x)"

definition validate_secondary_removal_report :: "(bytes \<Rightarrow> bytes) \<Rightarrow> AgentReport \<Rightarrow> check" where
  "validate_secondary_removal_report H r =
     and_then (check_some (ar_accepted_secondary_removal r) (accepted_removal_check H r)) (\<lambda>_.
     and_then (check_some (ar_prepared_secondary_removal r) (prepared_removal_check H r)) (\<lambda>_.
     and_then (check_some (ar_secondary_removal_evidence r) (reduced_evidence_check H r)) (\<lambda>_.
     check_some (ar_retired_replica r) (retired_report_check H r))))"

section \<open>One report on its own\<close>

definition report_invalid :: "AgentReport \<Rightarrow> ValidationError" where
  "report_invalid r = InvalidReplicaReportAuthority (replica_id (ar_identity r))"

definition pending_configuration_differs :: "AgentReport \<Rightarrow> EnsureConfiguration \<Rightarrow> bool" where
  "pending_configuration_differs r c \<longleftrightarrow>
     ar_pending_operation_id r \<noteq> Some (ec_operation_id c)
     \<or> ec_local_replica_id c \<noteq> replica_id (ar_identity r)
     \<or> ec_expected_instance_id c \<noteq> instance_id (ar_identity r)
     \<or> ec_expected_agent_generation c \<noteq> agent_generation (ar_identity r)"

fun build_reports_invalid :: "OperationId set \<Rightarrow> AgentBuildReport list \<Rightarrow> bool" where
  "build_reports_invalid seen [] = False"
| "build_reports_invalid seen (b # bs) =
     (if br_build_id b = '''' \<or> replica_id (br_target b) \<le> 0 \<or> instance_id (br_target b) = ''''
         \<or> agent_generation (br_target b) = '''' \<or> br_replication_boundary_lsn b < 0 \<or> br_durable_lsn b < 0
         \<or> is_some_and (br_catch_up_boundary_lsn b) (\<lambda>l. l < 0) \<or> br_build_id b \<in> seen
      then True else build_reports_invalid (insert (br_build_id b) seen) bs)"

definition scale_up_report_check :: "(bytes \<Rightarrow> bytes) \<Rightarrow> AgentReport \<Rightarrow> ScaleUpIntent \<Rightarrow> check" where
  "scale_up_report_check H r i =
     and_then (validate_scale_up H i) (\<lambda>_.
     and_then (ok_or (ar_current_configuration r) (InvalidScaleUp ''scale-up report requires current authority'')) (\<lambda>cur.
     let expanded = su_current_configuration i;
         current_matches = (cur = expanded
           \<or> (exact_identities cur = exact_identities expanded
              \<and> data_loss_number (c_epoch cur) = data_loss_number (c_epoch expanded)
              \<and> configuration_number (c_epoch cur) > configuration_number (c_epoch expanded)));
         previous_ok = is_none_or (ar_previous_configuration r) (\<lambda>p. p = su_previous_configuration i
           \<or> (cur \<noteq> expanded \<and> exact_identities p = exact_identities cur
              \<and> data_loss_number (c_epoch p) = data_loss_number (c_epoch cur)
              \<and> configuration_number (c_epoch p) < configuration_number (c_epoch cur)))
     in if ar_resource_uid r \<noteq> su_resource_uid i \<or> \<not> current_matches \<or> \<not> previous_ok
           \<or> ar_identity r \<notin> exact_identities cur
        then Err (InvalidScaleUp ''report differs from exact scale-up authority'')
        else Ok ()))"

definition previous_current_differ :: "AgentReport \<Rightarrow> bool" where
  "previous_current_differ r \<longleftrightarrow>
     (case (ar_previous_configuration r, ar_current_configuration r) of
        (Some p, Some c) \<Rightarrow>
          data_loss_number (c_epoch p) \<noteq> data_loss_number (c_epoch c)
          \<or> configuration_number (c_epoch p) \<ge> configuration_number (c_epoch c)
          \<or> (m_replica_id ` set (members p) \<noteq> m_replica_id ` set (members c)
             \<and> ar_secondary_removal_evidence r = None \<and> ar_scale_up_intent r = None)
      | _ \<Rightarrow> False)"

definition report_handoff_check :: "AgentReport \<Rightarrow> SwitchoverHandoff \<Rightarrow> check" where
  "report_handoff_check r h =
     and_then (validate_switchover_handoff h) (\<lambda>_.
       if sh_source h \<noteq> ar_identity r then Err InvalidSwitchoverHandoff else Ok ())"

definition validate_report_internal :: "(bytes \<Rightarrow> bytes) \<Rightarrow> AgentReport \<Rightarrow> check" where
  "validate_report_internal H r =
     (if is_some_and (ar_pending_configuration r) (pending_configuration_differs r)
         \<or> (ar_pending_operation_id r = None \<and> ar_pending_configuration r \<noteq> None)
      then Err (report_invalid r)
      else and_then (validate_secondary_removal_report H r) (\<lambda>_.
      if ar_scale_up_intent r \<noteq> None \<and> ar_secondary_removal_evidence r \<noteq> None
      then Err (InvalidScaleUp ''report cannot combine scale-up and removal evidence'')
      else if build_reports_invalid {} (ar_builds r) then Err (report_invalid r)
      else and_then (check_some (ar_scale_up_intent r) (scale_up_report_check H r)) (\<lambda>_.
      if ar_previous_configuration r \<noteq> None \<and> ar_current_configuration r = None then Err (report_invalid r)
      else if is_some_and (ar_current_configuration r) (\<lambda>c. c_epoch c \<noteq> ar_epoch r) then Err (report_invalid r)
      else if ar_role r = Primary \<and> ar_current_configuration r = None then Err (report_invalid r)
      else if ar_write_status r = Granted \<and> ar_role r \<noteq> Primary then Err (report_invalid r)
      else if is_some_and (ar_verified_replication_lsn r)
                (\<lambda>v. v < 0 \<or> v > ar_current_progress r \<or> ar_current_configuration r = None)
      then Err (report_invalid r)
      else and_then (check_some (ar_prepared_switchover r) (report_handoff_check r)) (\<lambda>_.
      if previous_current_differ r then Err (report_invalid r) else Ok ()))))"

section \<open>A report against the persisted authority\<close>

definition validate_report_sequence ::
    "ObservationSnapshot \<Rightarrow> ReplicaObservationKey \<Rightarrow> ProcessSessionId \<Rightarrow> u64 \<Rightarrow> check" where
  "validate_report_sequence s k session sequence =
     (case bt_get (sn_previous_report_watermarks s) k of
        None \<Rightarrow> Ok ()
      | Some w \<Rightarrow>
          if wm_process_session_id w = session \<and> sequence \<le> wm_report_sequence w
          then Err (StaleReportSequence (key_replica_id k) sequence (wm_report_sequence w))
          else Ok ())"

definition stale_completed :: "AcceptedStatus \<Rightarrow> AgentReport \<Rightarrow> bool" where
  "stale_completed st r \<longleftrightarrow>
     is_some_and (st_last_secondary_removal st) (\<lambda>receipt.
       is_some_and (st_topology st) (\<lambda>t. ar_epoch r < c_epoch (tp_configuration t)
         \<and> ar_identity r \<in> exact_identities (tp_configuration t))
       \<and> ar_write_status r \<noteq> Granted \<and> ar_previous_configuration r = None
       \<and> ar_prepared_secondary_removal r = None
       \<and> ar_current_configuration r = Some (sd_current_configuration (re_intent (rmr_evidence receipt)))
       \<and> ar_secondary_removal_evidence r = Some (rmr_evidence receipt)
       \<and> is_none_or (ar_accepted_secondary_removal r) (\<lambda>c. sdc_evidence c = rmr_evidence receipt
            \<and> sdc_current_only_write_quorum c = rmr_current_only_write_quorum receipt))"

definition committed_removal :: "AcceptedStatus \<Rightarrow> SecondaryScaleDownCleanup option" where
  "committed_removal st =
     or_else (st_secondary_scale_down_cleanup st)
       (map_option rmr_committed (opt_filter (\<lambda>receipt. is_some_and (st_topology st) (\<lambda>t.
          tp_configuration t = sd_current_configuration (re_intent (rmr_evidence receipt))))
        (st_last_secondary_removal st)))"

definition authorized_removal :: "AcceptedStatus \<Rightarrow> SecondaryScaleDownIntent option" where
  "authorized_removal st =
     or_else (Option.bind (st_transition st) ti_secondary_scale_down) (map_option sdc_intent (committed_removal st))"

definition frozen_removal_evidence :: "AcceptedStatus \<Rightarrow> SecondaryRemovalEvidence option" where
  "frozen_removal_evidence st =
     or_else (Option.bind (st_transition st) ti_secondary_removal_evidence)
       (map_option sdc_evidence
         (opt_filter (\<lambda>c. authorized_removal st = Some (sdc_intent c)) (committed_removal st)))"

text \<open>Whether a removal intent in a report belongs to the local history that authority still covers.\<close>

definition historical_removal :: "AcceptedStatus \<Rightarrow> AgentReport \<Rightarrow> SecondaryScaleDownIntent \<Rightarrow> bool" where
  "historical_removal st r i \<longleftrightarrow>
     is_some_and (ar_secondary_removal_evidence r) (\<lambda>e. re_intent e = i
       \<and> ar_previous_configuration r = None
       \<and> is_none_or (ar_prepared_secondary_removal r) (\<lambda>p. authorized_removal st = Some (rp_intent p))
       \<and> ar_current_configuration r = Some (sd_current_configuration i)
       \<and> is_some_and (st_topology st) (\<lambda>t. tp_configuration t = sd_current_configuration i
            \<or> is_some_and (authorized_removal st) (\<lambda>a. sd_previous_configuration a = sd_current_configuration i)))"

definition reported_removals :: "AgentReport \<Rightarrow> SecondaryScaleDownIntent list" where
  "reported_removals r = List.map_filter id
     [map_option rp_intent (ar_prepared_secondary_removal r),
      map_option re_intent (ar_secondary_removal_evidence r),
      map_option rr_intent (ar_retired_replica r)]"

definition reported_removals_check :: "AcceptedStatus \<Rightarrow> AgentReport \<Rightarrow> check" where
  "reported_removals_check st r =
     for_each (reported_removals r) (\<lambda>i.
       if authorized_removal st \<noteq> Some i \<and> \<not> historical_removal st r i
          \<and> \<not> (stale_completed st r
               \<and> is_some_and (st_last_secondary_removal st) (\<lambda>receipt. re_intent (rmr_evidence receipt) = i))
       then Err (InvalidSecondaryScaleDown ''report is not authorized by the frozen removal'')
       else Ok ())"

definition local_acceptance_check :: "AcceptedStatus \<Rightarrow> AgentReport \<Rightarrow> check" where
  "local_acceptance_check st r =
     (if is_some_and (authorized_removal st) (\<lambda>i.
           is_some_and (ar_accepted_secondary_removal r) (\<lambda>c. sdc_intent c = i)
           \<and> is_none_or (committed_removal st) (\<lambda>c. sdc_intent c \<noteq> i))
      then Err (InvalidSecondaryScaleDown ''local acceptance cannot precede committed cluster topology'')
      else if is_some_and (committed_removal st) (\<lambda>c.
           is_some_and (ar_accepted_secondary_removal r) (\<lambda>x. sdc_intent x = sdc_intent c
             \<and> (sdc_evidence x \<noteq> sdc_evidence c
                \<or> sdc_current_only_write_quorum x \<noteq> sdc_current_only_write_quorum c)))
      then Err (InvalidSecondaryScaleDown ''local acceptance must retain the exact committed quorum evidence'')
      else if is_some_and (authorized_removal st) (\<lambda>i.
           ar_current_configuration r = Some (sd_current_configuration i)
           \<and> (ar_secondary_removal_evidence r = None
              \<or> (is_some_and (st_transition st) (\<lambda>t. ti_secondary_scale_down t = Some i)
                 \<and> ar_write_status r = Granted)))
      then Err (InvalidSecondaryScaleDown ''reduced authority requires evidence and pre-commit write closure'')
      else Ok ())"

definition frozen_evidence_check :: "AcceptedStatus \<Rightarrow> AgentReport \<Rightarrow> check" where
  "frozen_evidence_check st r =
     and_then (case ar_secondary_removal_evidence r of
         None \<Rightarrow> Ok ()
       | Some e \<Rightarrow>
           if authorized_removal st \<noteq> Some (re_intent e) then Ok ()
           else and_then (ok_or (frozen_removal_evidence st)
               (InvalidSecondaryScaleDown ''report does not retain the frozen admission evidence'')) (\<lambda>frozen.
             if re_preparation e \<noteq> re_preparation frozen
                \<or> re_previous_read_quorum e \<noteq> re_previous_read_quorum frozen
                \<or> \<not> (re_reduced_write_quorum e = re_reduced_write_quorum frozen
                     \<or> (ar_previous_configuration r \<noteq> None \<and> re_reduced_write_quorum e = []))
             then Err (InvalidSecondaryScaleDown ''report does not retain the frozen admission evidence'')
             else Ok ())) (\<lambda>_.
     if is_some_and (frozen_removal_evidence st) (\<lambda>frozen.
          is_some_and (ar_prepared_secondary_removal r) (\<lambda>p. p \<noteq> re_preparation frozen))
     then Err (InvalidSecondaryScaleDown ''preparation differs from frozen admission boundary'')
     else Ok ())"

definition provisioning_report_check :: "AgentReport \<Rightarrow> check" where
  "provisioning_report_check r =
     (if ar_role r \<notin> {RoleNone, IdleSecondary} \<or> ar_write_status r = Granted \<or> ar_epoch r \<noteq> epoch_default
         \<or> ar_previous_configuration r \<noteq> None \<or> ar_current_configuration r \<noteq> None
      then Err (ProvisioningClaimsAuthority (replica_id (ar_identity r))) else Ok ())"

definition st_current :: "AcceptedStatus \<Rightarrow> ConfigurationDescriptor option" where
  "st_current st = map_option ti_current_configuration (st_transition st)"

definition holds_exact :: "ConfigurationDescriptor option \<Rightarrow> AgentReport \<Rightarrow> bool" where
  "holds_exact c r \<longleftrightarrow> is_some_and c (\<lambda>c. ar_identity r \<in> exact_identities c)"

definition holds_instance :: "ConfigurationDescriptor option \<Rightarrow> AgentReport \<Rightarrow> bool" where
  "holds_instance c r \<longleftrightarrow> is_some_and c (\<lambda>c. \<exists>m \<in> set (members c).
     m_replica_id m = replica_id (ar_identity r) \<and> instance_id (m_identity m) = instance_id (ar_identity r))"

definition bootstrap_report_check :: "AcceptedStatus \<Rightarrow> AgentReport \<Rightarrow> check" where
  "bootstrap_report_check st r =
     check_some (st_transition st) (\<lambda>t.
       let n = replica_id (ar_identity r)
       in if ti_kind t = Bootstrap \<and> holds_exact (st_current st) r
          then if ar_previous_configuration r \<noteq> None then Err (BootstrapReportHasPreviousConfiguration n)
               else if ar_write_status r = Granted then Err (BootstrapWriteGranted n)
               else and_then (expect (find (\<lambda>m. m_identity m = ar_identity r) (members (ti_current_configuration t))))
                 (\<lambda>m. if m_role m \<noteq> Primary \<and> ar_role r = Primary then Err (BootstrapRoleConflict n) else Ok ())
          else Ok ())"

definition switchover_epoch_check :: "AcceptedStatus \<Rightarrow> AgentReport \<Rightarrow> check" where
  "switchover_epoch_check st r =
     check_some (st_transition st) (\<lambda>t.
       if ti_kind t = PlannedSwitchover
       then and_then (expect (st_accepted st)) (\<lambda>a.
         if ar_epoch r > c_epoch a
            \<and> (ar_write_status r = Granted \<or> is_none_or (ti_switchover t) (\<lambda>i. si_handoff i = None))
         then Err InvalidSwitchoverEvidence else Ok ())
       else Ok ())"

definition switchover_report_check :: "AcceptedStatus \<Rightarrow> AgentReport \<Rightarrow> check" where
  "switchover_report_check st r =
     check_some (Option.bind (st_transition st) ti_switchover) (\<lambda>i.
       if holds_exact (st_accepted st) r \<or> holds_exact (st_current st) r
       then check_some (ar_current_configuration r) (\<lambda>reported.
         if reported \<notin> set (List.map_filter id
              [st_accepted st, Some (si_requested_configuration i), st_current st])
         then Err InvalidSwitchoverEvidence
         else if reported = si_requested_configuration i
            \<and> is_some_and (ar_previous_configuration r) (\<lambda>p. Some p \<noteq> st_accepted st)
         then Err (ReportedPreviousConfigurationMismatch (replica_id (ar_identity r)))
         else Ok ())
       else Ok ())"

definition previous_report_check :: "AcceptedStatus \<Rightarrow> AgentReport \<Rightarrow> check" where
  "previous_report_check st r =
     check_some (st_transition st) (\<lambda>t.
       if ti_kind t \<noteq> Bootstrap \<and> ar_epoch r = c_epoch (ti_current_configuration t)
          \<and> is_some_and (ar_current_configuration r)
              (\<lambda>c. configuration_id c = configuration_id (ti_current_configuration t))
       then check_some (ar_previous_configuration r) (\<lambda>reported.
         and_then (expect (or_else
             (map_option si_requested_configuration
               (opt_filter (\<lambda>i. si_resolution i = CompensatingOldPrimary) (ti_switchover t)))
             (st_accepted st))) (\<lambda>previous.
           if reported \<noteq> previous
           then Err (ReportedPreviousConfigurationMismatch (replica_id (ar_identity r))) else Ok ()))
       else Ok ())"

definition unrelated_report_check :: "AcceptedStatus \<Rightarrow> AgentReport \<Rightarrow> check" where
  "unrelated_report_check st r =
     (if is_some_and (st_transition st) (\<lambda>t. ti_kind t = Bootstrap) then Err BootstrapHasUnrelatedAuthority
      else if ar_role r = Primary \<or> ar_write_status r = Granted
      then Err (UnrelatedReplicaClaimsAuthority (replica_id (ar_identity r)))
      else Ok ())"

definition claims :: "AgentReport \<Rightarrow> ConfigurationDescriptor \<Rightarrow> bool" where
  "claims r c \<longleftrightarrow> ar_epoch r = c_epoch c
     \<and> is_some_and (ar_current_configuration r) (\<lambda>x. configuration_id x = configuration_id c)"

definition configuration_claim_check :: "AcceptedStatus \<Rightarrow> AgentReport \<Rightarrow> check" where
  "configuration_claim_check st r =
     (let n = replica_id (ar_identity r);
          requested = map_option si_requested_configuration (Option.bind (st_transition st) ti_switchover)
      in and_then (for_each (List.map_filter id [st_accepted st, requested, st_current st]) (\<lambda>c.
           if ar_epoch r = c_epoch c
              \<and> is_some_and (ar_current_configuration r) (\<lambda>x. configuration_id x \<noteq> configuration_id c)
           then Err (ConflictingReplicaConfiguration n (ar_epoch r)) else Ok ())) (\<lambda>_.
         if ar_write_status r = Granted
            \<and> \<not> (\<exists>c \<in> set (List.map_filter id [st_current st, st_accepted st]). claims r c)
         then Err (ConflictingReplicaConfiguration n (ar_epoch r)) else Ok ()))"

text \<open>The part for a report of a known replica: its epoch is bounded by the authority above it, and
  a replica of the accepted configuration below its epoch may only be a lagging secondary.\<close>

definition known_report_check :: "AcceptedStatus \<Rightarrow> AgentReport \<Rightarrow> check" where
  "known_report_check st r =
     (let n = replica_id (ar_identity r)
      in and_then (expect (or_else (st_current st) (st_accepted st))) (\<lambda>highest.
         if ar_epoch r > c_epoch highest
         then Err (UnauthorizedReplicaEpoch n (ar_epoch r) (c_epoch highest))
         else case opt_filter (\<lambda>a. holds_exact (Some a) r \<and> ar_epoch r < c_epoch a) (st_accepted st) of
             Some a \<Rightarrow>
               and_then (expect (find (\<lambda>m. m_identity m = ar_identity r) (members a))) (\<lambda>m.
                 if st_transition st = None \<and> m_role m \<noteq> Primary then Ok ()
                 else Err (StaleReplicaEpoch n (ar_epoch r) (c_epoch a)))
           | None \<Rightarrow> configuration_claim_check st r))"

definition validate_report_authority ::
    "(bytes \<Rightarrow> bytes) \<Rightarrow> ObservationSnapshot \<Rightarrow> AgentReport \<Rightarrow> check" where
  "validate_report_authority H s r =
     (let st = sn_status s
      in and_then (reported_removals_check st r) (\<lambda>_.
         and_then (local_acceptance_check st r) (\<lambda>_.
         and_then (frozen_evidence_check st r) (\<lambda>_.
         if st_transition st = None
            \<and> is_some_and (st_provisioning st) (\<lambda>p. target_identity H p (sn_resource_uid s) = ar_identity r)
         then provisioning_report_check r
         else
           let known = holds_exact (st_accepted st) r \<or> holds_exact (st_current st) r
           in if \<not> known \<and> (holds_instance (st_accepted st) r \<or> holds_instance (st_current st) r)
              then Err (ConflictingReplicaIdentity (replica_id (ar_identity r)))
              else and_then (bootstrap_report_check st r) (\<lambda>_.
                   and_then (switchover_epoch_check st r) (\<lambda>_.
                   and_then (switchover_report_check st r) (\<lambda>_.
                   and_then (previous_report_check st r) (\<lambda>_.
                   if \<not> known then unrelated_report_check st r else known_report_check st r))))))))"

end
