(* ===== verification/Scale_Up_Safety.thy ===== *)
theory Scale_Up_Safety
  imports Scale_Up
begin

text \<open>
  What the scale-up checks establish: the membership step and its quorums, the witnesses of a
  receipt, the final election of a failover during a scale-up, and the absence of panics.
\<close>

lemma ex_unit_iff: "(\<exists>u :: unit. P u) \<longleftrightarrow> P ()"
  by auto

lemmas ok_simps = and_then_Ok_iff if_Err_Ok_iff ok_or_Ok_iff expect_Ok_iff ex_unit_iff

section \<open>What an accepted scale-up establishes\<close>

lemma find_upto_first:
  assumes "find P [1..n] = Some x"
  shows "1 \<le> x" "x \<le> n" "P x" "\<forall>y. 1 \<le> y \<and> y < x \<longrightarrow> \<not> P y"
proof -
  from assms obtain k where k: "k < length [1..n]" "P ([1..n] ! k)" "x = [1..n] ! k" "\<forall>j < k. \<not> P ([1..n] ! j)"
    by (auto simp: find_Some_iff)
  have x: "x = 1 + int k" using k(1,3) by simp
  show "1 \<le> x" "x \<le> n" "P x" using k x by auto
  show "\<forall>y. 1 \<le> y \<and> y < x \<longrightarrow> \<not> P y"
  proof (intro allI impI)
    fix y assume y: "1 \<le> y \<and> y < x"
    then have "nat (y - 1) < k" using x by linarith
    with k(4) have "\<not> P ([1..n] ! nat (y - 1))" by blast
    moreover have "[1..n] ! nat (y - 1) = y" using y k(1) x by (subst nth_upto) auto
    ultimately show "\<not> P y" by simp
  qed
qed

lemma scale_up_Ok_D:
  assumes "validate_scale_up H i = Ok ()"
  shows "validate_policy (su_previous_policy i) = Ok ()" "validate_policy (su_current_policy i) = Ok ()"
    "validate_configuration H (su_previous_configuration i) (Some (su_previous_policy i)) = Ok ()"
    "validate_configuration H (su_current_configuration i) (Some (su_current_policy i)) = Ok ()"
    "length (members (su_current_configuration i)) = length (members (su_previous_configuration i)) + 1"
    "su_operation_id i = su_expected_operation_id H i"
    "0 \<le> su_snapshot_boundary_lsn i" "su_snapshot_boundary_lsn i \<le> su_catch_up_boundary_lsn i"
  using assms unfolding validate_scale_up_def Let_def and_then_Ok_iff if_Err_Ok_iff by auto

lemma scale_up_epoch:
  assumes "validate_scale_up H i = Ok ()"
  shows "data_loss_number (c_epoch (su_current_configuration i)) = data_loss_number (c_epoch (su_previous_configuration i))"
    "configuration_number (c_epoch (su_current_configuration i))
       = configuration_number (c_epoch (su_previous_configuration i)) + 1"
  using assms unfolding validate_scale_up_def Let_def and_then_Ok_iff if_Err_Ok_iff
  by (auto simp: is_none_or_iff)

lemma scale_up_members_D:
  assumes "validate_scale_up H i = Ok ()"
  obtains primary where
    "find (\<lambda>m. m_role m = Primary) (members (su_previous_configuration i)) = Some primary"
    "\<not> scale_up_membership_changed i primary"
  using assms unfolding validate_scale_up_def Let_def and_then_Ok_iff if_Err_Ok_iff expect_Ok_iff by blast

lemma scale_up_membership:
  assumes ok: "validate_scale_up H i = Ok ()"
  obtains t where "m_identity t = su_target i" "m_role t = ActiveSecondary"
    "m_replica_id t \<notin> m_replica_id ` set (members (su_previous_configuration i))"
    "set (members (su_current_configuration i)) = insert t (set (members (su_previous_configuration i)))"
    "first_missing_ordinal (replica_set_size (su_current_policy i)) (su_previous_configuration i)
       = Some (replica_id (su_target i))"
    "primary_id (su_current_configuration i) = primary_id (su_previous_configuration i)"
proof -
  let ?prev = "members (su_previous_configuration i)" and ?cur = "members (su_current_configuration i)"
  obtain primary where ch: "\<not> scale_up_membership_changed i primary" using scale_up_members_D [OF ok] by metis
  then obtain t where added: "added_members (su_previous_configuration i) (su_current_configuration i) = [t]"
    "m_identity t = su_target i" "m_role t = ActiveSecondary"
    and kept: "set ?prev \<subseteq> set ?cur"
    and rest: "first_missing_ordinal (replica_set_size (su_current_policy i)) (su_previous_configuration i)
       = Some (replica_id (su_target i))"
      "primary_id (su_current_configuration i) = primary_id (su_previous_configuration i)"
    by (auto simp: scale_up_membership_changed_def Let_def split: list.splits)
  have inj: "inj_on m_replica_id (set ?cur)"
    using validated_distinct [OF scale_up_Ok_D(4) [OF ok]] by (simp add: distinct_map)
  have mem: "m \<in> set (added_members (su_previous_configuration i) (su_current_configuration i))
      \<longleftrightarrow> m \<in> set ?cur \<and> m_replica_id m \<notin> m_replica_id ` set ?prev" for m
    by (auto simp: added_members_def image_iff)
  have t: "t \<in> set ?cur" "m_replica_id t \<notin> m_replica_id ` set ?prev" using mem [of t] added(1) by auto
  have "m \<in> set ?prev" if m: "m \<in> set ?cur" "m \<noteq> t" for m
  proof -
    have "m_replica_id m \<in> m_replica_id ` set ?prev" using mem [of m] added(1) m by auto
    then obtain x where "x \<in> set ?prev" "m_replica_id x = m_replica_id m" by auto
    with inj_onD [OF inj _ _ m(1), of x] kept show ?thesis by auto
  qed
  with t(1) kept have "set ?cur = insert t (set ?prev)" by auto
  from that [OF added(2,3) t(2) this rest] show thesis .
qed

definition scale_up_accepted :: "(bytes \<Rightarrow> bytes) \<Rightarrow> ScaleUpIntent \<Rightarrow> bool" where
  "scale_up_accepted H i \<longleftrightarrow> validate_scale_up H i = Ok ()
     \<and> length (members (su_current_configuration i)) < 4294967296"

lemma scale_up_counts:
  assumes "scale_up_accepted H i"
  shows "accepted_under H (su_previous_configuration i, su_previous_policy i)"
    "accepted_under H (su_current_configuration i, su_current_policy i)"
    "exact_identities (su_previous_configuration i) \<subseteq> exact_identities (su_current_configuration i)"
    "card (exact_identities (su_current_configuration i)) = length (members (su_current_configuration i))"
proof -
  have ok: "validate_scale_up H i = Ok ()"
    and small: "length (members (su_current_configuration i)) < 4294967296"
    using assms by (auto simp: scale_up_accepted_def)
  show "accepted_under H (su_previous_configuration i, su_previous_policy i)"
    "accepted_under H (su_current_configuration i, su_current_policy i)"
    using scale_up_Ok_D [OF ok] small by (auto simp: accepted_under_def)
  obtain t where "set (members (su_current_configuration i)) = insert t (set (members (su_previous_configuration i)))"
    using scale_up_membership [OF ok] by metis
  then show "exact_identities (su_previous_configuration i) \<subseteq> exact_identities (su_current_configuration i)"
    by (auto simp: exact_identities_def)
  show "card (exact_identities (su_current_configuration i)) = length (members (su_current_configuration i))"
    using card_exact_identities [OF scale_up_Ok_D(4) [OF ok]] .
qed

interpretation growth: membership_step "scale_up_accepted H"
    "\<lambda>i. exact_identities (su_current_configuration i)" "\<lambda>i. exact_identities (su_previous_configuration i)"
    "\<lambda>i. unat (write_quorum (su_current_configuration i))"
    "\<lambda>i. unat (write_quorum (su_previous_configuration i))"
    "\<lambda>i. unat (read_quorum (su_current_policy i))" for H
proof
  fix i assume acc: "scale_up_accepted H i"
  note c = scale_up_counts [OF acc]
  have len: "length (members (su_current_configuration i)) = length (members (su_previous_configuration i)) + 1"
    using acc scale_up_Ok_D(5) by (auto simp: scale_up_accepted_def)
  show "finite (exact_identities (su_current_configuration i))" by (simp add: exact_identities_def)
  show "exact_identities (su_previous_configuration i) \<subseteq> exact_identities (su_current_configuration i)"
    by (rule c(3))
  show "card (exact_identities (su_current_configuration i))
      < unat (write_quorum (su_current_configuration i)) + unat (write_quorum (su_previous_configuration i))"
    unfolding c(4) accepted_under_counts(3) [OF c(1)] accepted_under_counts(3) [OF c(2)] len by presburger
  show "card (exact_identities (su_current_configuration i))
      < unat (write_quorum (su_current_configuration i)) + unat (read_quorum (su_current_policy i))"
    unfolding c(4) accepted_under_counts(3,4) [OF c(2)] by presburger
qed

section \<open>Witness quorums\<close>

lemma scale_up_witnesses_Ok_D:
  assumes "validate_scale_up_witnesses H i reported eligible ws q pc required = Ok ()"
  shows "distinct (map uw_identity ws)"
    "\<forall>w \<in> set ws. scale_up_witness_check H i reported eligible pc required {} w = Ok ()"
    "unat q \<le> card (uw_identity ` set ws)"
    "required = Some p \<Longrightarrow> p \<in> uw_identity ` set ws"
proof -
  have chk: "scale_up_witness_check H i reported eligible pc required seen w = Ok () \<longleftrightarrow>
      uw_identity w \<notin> seen \<and> scale_up_witness_check H i reported eligible pc required {} w = Ok ()" for seen w
    unfolding scale_up_witness_check_def if_Err_Ok_iff by blast
  from assms obtain ids where
    ids: "collect_checked (scale_up_witness_check H i reported eligible pc required) uw_identity {} ws = Ok ids"
    and q: "\<not> card ids < unat q" "\<not> is_some_and required (\<lambda>p. p \<notin> ids)"
    unfolding validate_scale_up_witnesses_def and_then_Ok_iff if_Err_Ok_iff by blast
  note D = ids [unfolded collect_checked_Ok_iff [OF chk]]
  show "distinct (map uw_identity ws)"
    "\<forall>w \<in> set ws. scale_up_witness_check H i reported eligible pc required {} w = Ok ()"
    using D by auto
  show "unat q \<le> card (uw_identity ` set ws)" using D q(1) by auto
  show "required = Some p \<Longrightarrow> p \<in> uw_identity ` set ws" using D q(2) by auto
qed

lemma scale_up_witness_D:
  assumes "scale_up_witness_check H i reported eligible pc required seen w = Ok ()"
  shows "uw_identity w \<in> exact_identities eligible"
    "su_catch_up_boundary_lsn i \<le> uw_verified_replication_lsn w"
    "uw_write_status w = Granted \<Longrightarrow> required = Some (uw_identity w)"
    "\<not> pc \<Longrightarrow> required = Some (uw_identity w) \<Longrightarrow> uw_write_status w = Granted"
    "uw_current_configuration_id w = configuration_id reported" "uw_epoch w = c_epoch reported"
  using assms unfolding scale_up_witness_check_def if_Err_Ok_iff exact_identities_iff by auto

lemma recovery_witnesses_Ok_D:
  assumes "validate_recovery_witnesses H i eligible ws q = Ok ()"
  shows "distinct (map uw_identity ws)" "\<forall>w \<in> set ws. recovery_witness_check H i eligible {} w = Ok ()"
    "unat q \<le> card (uw_identity ` set ws)"
proof -
  have chk: "recovery_witness_check H i eligible seen w = Ok () \<longleftrightarrow>
      uw_identity w \<notin> seen \<and> recovery_witness_check H i eligible {} w = Ok ()" for seen w
    unfolding recovery_witness_check_def Let_def and_then_Ok_iff if_Err_Ok_iff by blast
  from assms obtain ids where ids: "collect_checked (recovery_witness_check H i eligible) uw_identity {} ws = Ok ids"
    and q: "\<not> card ids < unat q"
    unfolding validate_recovery_witnesses_def and_then_Ok_iff if_Err_Ok_iff by blast
  note D = ids [unfolded collect_checked_Ok_iff [OF chk]]
  show "distinct (map uw_identity ws)" "\<forall>w \<in> set ws. recovery_witness_check H i eligible {} w = Ok ()"
    "unat q \<le> card (uw_identity ` set ws)"
    using D q by auto
qed

lemma final_quorum_Ok_D:
  assumes "validate_final_quorum f eligible rs q required = Ok ()"
  shows "distinct rs" "\<forall>r \<in> set rs. fe_witness f r \<noteq> None \<and> r \<in> m_replica_id ` set (members eligible)"
    "unat q \<le> card (set rs)" "required = Some p \<Longrightarrow> replica_id p \<in> set rs"
proof -
  have chk: "final_quorum_check f eligible seen r = Ok () \<longleftrightarrow>
      id r \<notin> seen \<and> final_quorum_check f eligible {} r = Ok ()" for seen r
    by (auto simp: final_quorum_check_def)
  from assms obtain ids where ids: "collect_checked (final_quorum_check f eligible) id {} rs = Ok ids"
    and q: "\<not> card ids < unat q" "\<not> is_some_and required (\<lambda>p. replica_id p \<notin> ids)"
    unfolding validate_final_quorum_def and_then_Ok_iff if_Err_Ok_iff by blast
  note D = ids [unfolded collect_checked_Ok_iff [OF chk]]
  show "distinct rs" "\<forall>r \<in> set rs. fe_witness f r \<noteq> None \<and> r \<in> m_replica_id ` set (members eligible)"
    using D by (auto simp: final_quorum_check_def)
  show "unat q \<le> card (set rs)" "required = Some p \<Longrightarrow> replica_id p \<in> set rs"
    using D q by auto
qed

section \<open>The final election\<close>

lemma failover_configuration_Ok_D:
  assumes "validate_failover_configuration H e c p = Ok ()"
  shows "validate_policy p = Ok ()" "validate_configuration H c (Some p) = Ok ()"
    "p = su_current_policy (sf_intent e)"
    "exact_identities c = exact_identities (su_current_configuration (sf_intent e))"
    "data_loss_number (c_epoch c) = data_loss_number (c_epoch (su_current_configuration (sf_intent e)))"
    "configuration_number (c_epoch (su_current_configuration (sf_intent e))) < configuration_number (c_epoch c)"
  using assms unfolding validate_failover_configuration_def Let_def and_then_Ok_iff if_Err_Ok_iff
  by (auto simp: not_le)

lemma failover_evidence_Ok_D:
  assumes "validate_scale_up_failover_evidence H e = Ok ()"
  shows "validate_scale_up H (sf_intent e) = Ok ()"
    "validate_failover_configuration H e (sf_provisional_configuration e) (su_current_policy (sf_intent e)) = Ok ()"
    "primary_id (sf_provisional_configuration e) \<noteq> replica_id (su_primary (sf_intent e))"
    "sf_final_election e = Some f \<Longrightarrow> validate_final_election H e f = Ok ()"
  using assms unfolding validate_scale_up_failover_evidence_def Let_def and_then_Ok_iff if_Err_Ok_iff
  by (auto split: option.splits)

lemma final_election_Ok_D:
  assumes "validate_final_election H e f = Ok ()"
  obtains final safe and primary :: ConfigurationMember where
    "fe_final_configuration H f (sf_provisional_configuration e) = Some final" "fe_safe_lsn f = Some safe"
    "validate_failover_configuration H e final (su_current_policy (sf_intent e)) = Ok ()"
    "validate_final_quorum f (sf_provisional_configuration e) (fe_current_read_quorum f)
       (read_quorum (su_current_policy (sf_intent e))) (Some (m_identity primary)) = Ok ()"
    "final_selection_check e f = Ok ()"
  using assms unfolding validate_final_election_def Let_def ok_simps by blast

text \<open>The elected witness has the highest safe prefix among the surviving current witnesses.\<close>

lemma selected_safe_maximal:
  assumes "final_selection_check e f = Ok ()" "fe_safe_lsn f = Some safe"
    and r: "r \<in> set (fe_current_read_quorum f)" "r \<noteq> replica_id (su_primary (sf_intent e))" "fe_witness f r = Some w"
  shows "min (fw_current_progress w) (fw_deactivated_lsn w) \<le> safe"
proof -
  let ?ws = "List.map_filter (fe_witness f)
      (filter (\<lambda>r. r \<noteq> replica_id (su_primary (sf_intent e))) (fe_current_read_quorum f))"
  from assms(1) obtain s where s: "fe_witness f (fe_selected_primary_replica_id f) = Some s"
    "max_by_key final_witness_rank ?ws = Some s"
    unfolding final_selection_check_def Let_def and_then_Ok_iff if_Err_Ok_iff expect_Ok_iff ok_or_Ok_iff
      expected_final_primary_def by blast
  have "w \<in> set ?ws" using r by (force simp: List.map_filter_def)
  with max_by_key_Some_D [OF s(2)] have "final_witness_rank w \<le> final_witness_rank s" by blast
  then have "min (fw_current_progress w) (fw_deactivated_lsn w) \<le> min (fw_current_progress s) (fw_deactivated_lsn s)"
    unfolding final_witness_rank_def less_eq_prod_simp by linarith
  with s(1) assms(2) show ?thesis by (simp add: fe_safe_lsn_def)
qed

lemma failover_receipt_identities:
  assumes "failover_receipt_check H r primary = Ok ()"
  shows "exact_identities (ur_accepted_configuration r) = exact_identities (su_current_configuration (ur_intent r))"
proof -
  from assms obtain e where e: "expanded_failover_evidence H r = Some e"
    "validate_scale_up_failover_transition H e (ur_accepted_configuration r) (su_current_policy (ur_intent r)) = Ok ()"
    unfolding failover_receipt_check_def and_then_Ok_iff ok_or_Ok_iff by auto
  have "sf_intent e = ur_intent r"
    using e(1) by (auto simp: expanded_failover_evidence_def fr_expand_def split: option.splits if_splits)
  moreover have "validate_failover_configuration H e (ur_accepted_configuration r) (su_current_policy (ur_intent r)) = Ok ()"
    using e(2) unfolding validate_scale_up_failover_transition_def and_then_Ok_iff by auto
  ultimately show ?thesis using failover_configuration_Ok_D(4) by fastforce
qed

section \<open>Absence of panics\<close>

lemma if_Err_Panic_iff: "(if c then Err e else r) = Panic \<longleftrightarrow> \<not> c \<and> r = Panic"
  by simp

lemmas panic_simps = and_then_Panic_iff if_Err_Panic_iff

lemma validate_configuration_no_panic: "validate_configuration H c (Some p) \<noteq> Panic"
  by (rule validate_configuration_total) simp

lemma validate_policy_no_panic: "validate_policy p \<noteq> Panic"
  by (auto simp: validate_policy_def panic_simps split: option.splits)

lemmas base_no_panic = validate_configuration_no_panic validate_policy_no_panic

lemma validated_primary_by_role:
  assumes "validate_configuration H c p = Ok ()"
  shows "\<exists>m. find (\<lambda>m. m_role m = Primary) (members c) = Some m"
proof -
  obtain m where "m \<in> set (members c)" "m_role m = Primary" using validated_primary_found [OF assms] by metis
  then show ?thesis by (rule find_ex_Some)
qed

lemma validate_scale_up_no_panic: "validate_scale_up H i \<noteq> Panic"
proof
  assume p: "validate_scale_up H i = Panic"
  then have "validate_configuration H (su_previous_configuration i) (Some (su_previous_policy i)) = Ok ()"
    and "find (\<lambda>m. m_role m = Primary) (members (su_previous_configuration i)) = None"
    unfolding validate_scale_up_def Let_def panic_simps by (auto simp: base_no_panic)
  with validated_primary_by_role show False by fastforce
qed

lemma failover_configuration_no_panic: "validate_failover_configuration H e c p \<noteq> Panic"
  by (auto simp: validate_failover_configuration_def Let_def panic_simps base_no_panic split: if_splits)

lemma scale_up_witnesses_no_panic: "validate_scale_up_witnesses H i r el ws q pc required \<noteq> Panic"
proof -
  have "collect_checked (scale_up_witness_check H i r el pc required) uw_identity {} ws \<noteq> Panic"
    by (rule collect_checked_not_Panic) (simp add: scale_up_witness_check_def)
  then show ?thesis by (auto simp: validate_scale_up_witnesses_def panic_simps split: if_splits)
qed

lemma recovery_witnesses_no_panic: "validate_recovery_witnesses H i el ws q \<noteq> Panic"
proof -
  have "collect_checked (recovery_witness_check H i el) uw_identity {} ws \<noteq> Panic"
    by (rule collect_checked_not_Panic)
      (auto simp: recovery_witness_check_def recovery_stage_def Let_def panic_simps
        split: option.splits if_splits)
  then show ?thesis by (auto simp: validate_recovery_witnesses_def panic_simps split: if_splits)
qed

lemma final_witnesses_no_panic: "validate_final_witnesses H e f \<noteq> Panic"
proof -
  have "collect_checked (final_witness_check H e) fw_replica_id {} (fe_witnesses f) \<noteq> Panic"
    by (rule collect_checked_not_Panic) (auto simp: final_witness_check_def Let_def split: option.splits)
  then show ?thesis by (auto simp: validate_final_witnesses_def panic_simps)
qed

lemma final_quorum_no_panic: "validate_final_quorum f el rs q required \<noteq> Panic"
proof -
  have "collect_checked (final_quorum_check f el) id {} rs \<noteq> Panic"
    by (rule collect_checked_not_Panic) (simp add: final_quorum_check_def)
  then show ?thesis by (auto simp: validate_final_quorum_def panic_simps split: if_splits)
qed

lemma fe_final_configuration_primary:
  "fe_final_configuration H f prov = Some final \<Longrightarrow> primary_id final = fe_selected_primary_replica_id f"
  by (auto simp: fe_final_configuration_def split: option.splits)

lemma final_selection_no_panic:
  assumes "fe_witness f (fe_selected_primary_replica_id f) \<noteq> None"
  shows "final_selection_check e f \<noteq> Panic"
  using assms by (auto simp: final_selection_check_def Let_def panic_simps split: if_splits)

text \<open>The selected witness exists when the selection is looked up: its member was required in the
  quorum of the provisional configuration.\<close>

lemma final_election_no_panic: "validate_final_election H e f \<noteq> Panic"
proof
  let ?i = "sf_intent e" and ?prov = "sf_provisional_configuration e"
  assume p: "validate_final_election H e f = Panic"
  then obtain final primary where final: "fe_final_configuration H f ?prov = Some final"
    and primary: "find (\<lambda>m. m_replica_id m = primary_id final \<and> m_role m = Primary) (members final) = Some primary"
    and q: "validate_final_quorum f ?prov (fe_current_read_quorum f) (read_quorum (su_current_policy ?i))
       (Some (m_identity primary)) = Ok ()"
    and sel: "final_selection_check e f = Panic"
    unfolding validate_final_election_def Let_def panic_simps
    by (auto simp: base_no_panic failover_configuration_no_panic final_witnesses_no_panic final_quorum_no_panic
        split: if_splits)
  have "m_replica_id primary = fe_selected_primary_replica_id f"
    using find_Some_D [OF primary] fe_final_configuration_primary [OF final] by simp
  with final_quorum_Ok_D(2,4) [OF q] have "fe_witness f (fe_selected_primary_replica_id f) \<noteq> None" by auto
  with final_selection_no_panic sel show False by blast
qed

lemma failover_evidence_no_panic: "validate_scale_up_failover_evidence H e \<noteq> Panic"
  unfolding validate_scale_up_failover_evidence_def Let_def panic_simps
  by (auto simp: validate_scale_up_no_panic recovery_witnesses_no_panic failover_configuration_no_panic
      final_election_no_panic split: if_splits option.splits)

lemma failover_transition_no_panic: "validate_scale_up_failover_transition H e c p \<noteq> Panic"
  unfolding validate_scale_up_failover_transition_def panic_simps
  by (auto simp: failover_evidence_no_panic failover_configuration_no_panic split: option.splits if_splits)

lemma failover_receipt_no_panic: "failover_receipt_check H r primary \<noteq> Panic"
  unfolding failover_receipt_check_def panic_simps
  by (auto simp: failover_transition_no_panic split: if_splits)

lemma provisioning_no_panic: "validate_scale_up_provisioning H p \<noteq> Panic"
  by (auto simp: validate_scale_up_provisioning_def validate_scale_up_provisioning_request_def
      provisioning_purpose_check_def panic_simps base_no_panic
      split: option.splits if_splits ProvisioningKind.splits)

lemma scale_up_evidence_no_panic: "scale_up_evidence_check H c ev \<noteq> Panic"
  by (cases ev) (auto simp: scale_up_evidence_check_def Let_def panic_simps failover_evidence_no_panic
      split: if_splits)

lemma scale_up_stage_no_panic: "scale_up_stage_check c i \<noteq> Panic"
  by (simp add: scale_up_stage_check_def)

section \<open>Sample scale-up\<close>

definition sample_growth :: ScaleUpIntent where
  "sample_growth =
     \<lparr>su_operation_id = ''scale-up-'', su_resource_uid = ''u'', su_spec_generation = 1, su_desired_replicas = 3,
      su_previous_configuration = sample_reduced, su_current_configuration = sample_configuration (\<lambda>_. []) 3,
      su_previous_policy = sample_reduced_policy, su_current_policy = sample_policy,
      su_primary = m_identity (sample_member 1 ''a'' Primary),
      su_target = m_identity (sample_member 3 ''c'' ActiveSecondary), su_build_id = ''b'',
      su_snapshot_boundary_lsn = 2, su_catch_up_boundary_lsn = 4\<rparr>"

lemma sample_growth_fields:
  "su_previous_configuration sample_growth = sample_reduced"
  "su_current_configuration sample_growth = sample_configuration (\<lambda>_. []) 3"
  "su_previous_policy sample_growth = sample_reduced_policy" "su_current_policy sample_growth = sample_policy"
  "su_primary sample_growth = m_identity (sample_member 1 ''a'' Primary)"
  "su_target sample_growth = m_identity (sample_member 3 ''c'' ActiveSecondary)"
  "su_catch_up_boundary_lsn sample_growth = 4" "su_resource_uid sample_growth = ''u''"
  by (simp_all add: sample_growth_def)

lemma sample_expanded_fields:
  "c_epoch (sample_configuration H n) = epoch_new 0 n" "primary_id (sample_configuration H n) = 1"
  "write_quorum (sample_configuration H n) = 2"
  by (simp_all add: sample_configuration_def)

lemma sample_growth_target: "first_missing_ordinal 3 sample_reduced = Some 3"
proof -
  have "[1..3 :: int] = [1, 2, 3]" by (simp add: upto.simps)
  then show ?thesis by (simp add: first_missing_ordinal_def sample_reduced_fields) (simp add: sample_member_def)
qed

lemma sample_growth_valid: "validate_scale_up (\<lambda>_. []) sample_growth = Ok ()"
proof -
  have pol: "validate_policy sample_reduced_policy = Ok ()"
    by (simp add: validate_policy_def sample_reduced_policy_def fixed_policy_def Let_def)
  have "\<not> scale_up_membership_changed sample_growth (sample_member 1 ''a'' Primary)"
    using sample_growth_target
    by (simp add: scale_up_membership_changed_def Let_def sample_growth_fields sample_expanded_fields
        sample_reduced_fields added_members_def sample_configuration_members)
      (simp add: sample_member_def sample_policy_def)
  moreover have "find (\<lambda>m. m_role m = Primary) (members sample_reduced) = Some (sample_member 1 ''a'' Primary)"
    by (simp add: sample_reduced_fields) (simp add: sample_member_def)
  ultimately show ?thesis
    using sample_configuration_valid [of 3 "\<lambda>_. []"] sample_reduced_valid sample_policy_valid pol
    by (simp add: validate_scale_up_def Let_def sample_growth_fields sample_expanded_fields sample_reduced_fields
        sample_configuration_members)
      (simp add: sample_growth_def su_expected_operation_id_def sample_policy_def sample_reduced_policy_def
        sample_member_def epoch_new_def i64_range_def i64_checked_add_def)
qed

section \<open>Properties of the membership step\<close>

text \<open>C36: an accepted scale-up adds exactly one replica. The current configuration is the previous
  one plus the target as an active secondary, whose ordinal is the smallest positive one not in
  use; the primary is kept, and the epoch advances by exactly one without overflow.\<close>

theorem scale_up_adds_first_missing_secondary:
  assumes "validate_scale_up H i = Ok ()"
  shows "(\<exists>t. m_identity t = su_target i \<and> m_role t = ActiveSecondary
      \<and> t \<notin> set (members (su_previous_configuration i))
      \<and> set (members (su_current_configuration i)) = insert t (set (members (su_previous_configuration i))))
    \<and> 1 \<le> replica_id (su_target i)
    \<and> replica_id (su_target i) \<notin> member_ids (su_previous_configuration i)
    \<and> {1..<replica_id (su_target i)} \<subseteq> member_ids (su_previous_configuration i)
    \<and> primary_id (su_current_configuration i) = primary_id (su_previous_configuration i)
    \<and> configuration_number (c_epoch (su_current_configuration i))
        = configuration_number (c_epoch (su_previous_configuration i)) + 1
    \<and> data_loss_number (c_epoch (su_current_configuration i))
        = data_loss_number (c_epoch (su_previous_configuration i))"
proof -
  obtain t where t: "m_identity t = su_target i" "m_role t = ActiveSecondary"
    "m_replica_id t \<notin> m_replica_id ` set (members (su_previous_configuration i))"
    "set (members (su_current_configuration i)) = insert t (set (members (su_previous_configuration i)))"
    "first_missing_ordinal (replica_set_size (su_current_policy i)) (su_previous_configuration i)
       = Some (replica_id (su_target i))"
    "primary_id (su_current_configuration i) = primary_id (su_previous_configuration i)"
    using scale_up_membership [OF assms] .
  note first = find_upto_first [OF t(5) [unfolded first_missing_ordinal_def]]
  have "t \<notin> set (members (su_previous_configuration i))" using t(3) by blast
  then show ?thesis
    using t(1,2,4,6) first(1,3,4) scale_up_epoch [OF assms]
    by (intro conjI exI [of _ t]) (auto simp: member_ids_def)
qed

theorem scale_up_adds_first_missing_secondary_witness:
  "replica_id (su_target sample_growth) \<notin> member_ids sample_reduced"
  using scale_up_adds_first_missing_secondary [OF sample_growth_valid] unfolding sample_growth_fields by blast

text \<open>Across an accepted scale-up every write quorum of the expanded configuration shares an
  exact replica with every write quorum of the previous one, and with every read quorum of the
  expanded one.\<close>

theorem scale_up_quorums_intersect:
  assumes "validate_scale_up H i = Ok ()" "length (members (su_current_configuration i)) < 4294967296"
    and "A \<subseteq> exact_identities (su_current_configuration i)"
    and "unat (write_quorum (su_current_configuration i)) \<le> card A"
    and "B \<subseteq> exact_identities (su_previous_configuration i)
           \<and> unat (write_quorum (su_previous_configuration i)) \<le> card B
         \<or> B \<subseteq> exact_identities (su_current_configuration i)
           \<and> unat (read_quorum (su_current_policy i)) \<le> card B"
  shows "A \<inter> B \<noteq> {}"
  using assms growth.write_quorums_meet [of H i A B] growth.read_quorum_sees_writes [of H i A B]
  by (auto simp: scale_up_accepted_def)

theorem scale_up_quorums_intersect_witness:
  "exact_identities (sample_configuration (\<lambda>_. []) 3) \<inter> exact_identities sample_reduced \<noteq> {}"
proof -
  have "card (exact_identities (sample_configuration (\<lambda>_. []) 3)) = 3" "card (exact_identities sample_reduced) = 2"
    using card_exact_identities [OF sample_configuration_valid [of 3 "\<lambda>_. []"]]
      card_exact_identities [OF sample_reduced_valid]
    by (simp_all add: sample_configuration_members sample_reduced_fields)
  then show ?thesis
    using scale_up_quorums_intersect [OF sample_growth_valid, unfolded sample_growth_fields,
        of "exact_identities (sample_configuration (\<lambda>_. []) 3)" "exact_identities sample_reduced"]
    by (simp add: sample_configuration_members sample_reduced_fields sample_expanded_fields)
qed

text \<open>The scale-up checks never panic. On every input the checks of provisioning, intent,
  failover evidence and transition, cleanup, receipt and configuration command return a result:
  the lookups they expect to succeed do succeed.\<close>

theorem scale_up_checks_total:
  "validate_scale_up_provisioning H p \<noteq> Panic \<and> validate_scale_up H i \<noteq> Panic
   \<and> validate_scale_up_failover_evidence H e \<noteq> Panic
   \<and> validate_scale_up_failover_transition H e c pol \<noteq> Panic
   \<and> validate_scale_up_cleanup H cl \<noteq> Panic \<and> validate_scale_up_receipt H r \<noteq> Panic
   \<and> validate_scale_up_configuration H cmd \<noteq> Panic"
proof (intro conjI)
  show "validate_scale_up_cleanup H cl \<noteq> Panic"
    by (auto simp: validate_scale_up_cleanup_def Let_def panic_simps provisioning_no_panic
        dest!: for_each_Panic_D split: if_splits)
  show "validate_scale_up_receipt H r \<noteq> Panic"
    unfolding validate_scale_up_receipt_def Let_def and_then_Panic_iff
    by (auto simp: validate_scale_up_no_panic failover_receipt_no_panic scale_up_witnesses_no_panic split: if_splits)
  show "validate_scale_up_configuration H cmd \<noteq> Panic"
    unfolding validate_scale_up_configuration_def Let_def panic_simps
    by (auto simp: validate_scale_up_no_panic scale_up_evidence_no_panic scale_up_stage_no_panic)
qed (rule provisioning_no_panic validate_scale_up_no_panic failover_evidence_no_panic failover_transition_no_panic)+

section \<open>Properties of the evidence\<close>

text \<open>C35: an accepted receipt proves a caught-up write quorum with a single writer. Its witnesses are
  distinct members of the accepted configuration, whose replicas are those of the expanded one;
  they form a write quorum of the current policy, all have reached the catch-up boundary, and
  exactly the accepted primary among them has write access.\<close>

theorem scale_up_receipt_sound:
  assumes ok: "validate_scale_up_receipt H r = Ok ()"
    and ws: "ws = ur_current_only_write_quorum r" and i: "i = ur_intent r"
  shows "exact_identities (ur_accepted_configuration r) = exact_identities (su_current_configuration i)
    \<and> uw_identity ` set ws \<subseteq> exact_identities (ur_accepted_configuration r)
    \<and> unat (p_write_quorum (su_current_policy i)) \<le> card (uw_identity ` set ws)
    \<and> (\<forall>w \<in> set ws. su_catch_up_boundary_lsn i \<le> uw_verified_replication_lsn w)
    \<and> (\<exists>primary \<in> set (members (ur_accepted_configuration r)).
         m_replica_id primary = primary_id (ur_accepted_configuration r) \<and> m_role primary = Primary
         \<and> m_identity primary \<in> uw_identity ` set ws
         \<and> (\<forall>w \<in> set ws. uw_write_status w = Granted \<longleftrightarrow> uw_identity w = m_identity primary))"
proof -
  from ok obtain primary u where
    primary: "find (\<lambda>m. m_replica_id m = primary_id (ur_accepted_configuration r) \<and> m_role m = Primary)
        (members (ur_accepted_configuration r)) = Some primary"
    and ev: "(if ur_failover_evidence r \<noteq> None then failover_receipt_check H r primary
        else if ur_accepted_configuration r \<noteq> su_current_configuration (ur_intent r)
        then Err (su_invalid ''ordinary receipt accepted configuration differs from scale-up intent'')
        else if ur_failover_safe_lsn r \<noteq> None
        then Err (su_invalid ''ordinary receipt must not carry a failover-safe LSN'') else Ok ()) = Ok u"
    and quorum: "validate_scale_up_witnesses H i (ur_accepted_configuration r) (ur_accepted_configuration r) ws
        (p_write_quorum (su_current_policy i)) False (Some (m_identity primary)) = Ok ()"
    unfolding validate_scale_up_receipt_def Let_def and_then_Ok_iff ok_or_Ok_iff ws i by blast
  have ids: "exact_identities (ur_accepted_configuration r) = exact_identities (su_current_configuration i)"
    using ev failover_receipt_identities [of H r primary] unfolding i
    by (cases "ur_failover_evidence r = None") (simp_all split: if_splits)
  note q = scale_up_witnesses_Ok_D [OF quorum]
  note d = scale_up_witness_D [OF bspec [OF q(2)]]
  have writer: "uw_write_status w = Granted \<longleftrightarrow> uw_identity w = m_identity primary" if "w \<in> set ws" for w
    using d(3) [OF that] d(4) [OF that] unfolding option.inject by metis
  have members: "uw_identity ` set ws \<subseteq> exact_identities (ur_accepted_configuration r)"
    using d(1) by (rule image_subsetI)
  have "m_identity primary \<in> uw_identity ` set ws" using q(4) by simp
  with ids members q(3) d(2) writer find_Some_D [OF primary] show ?thesis
    by (intro conjI ballI bexI [of _ primary]) blast+
qed

definition sample_growth_witness :: "ReplicaId \<Rightarrow> string \<Rightarrow> ReplicaRole \<Rightarrow> ScaleUpWitness" where
  "sample_growth_witness r name role =
     \<lparr>uw_resource_uid = ''u'', uw_identity = m_identity (sample_member r name role), uw_role = role,
      uw_process_session_id = ''s'', uw_report_sequence = 9, uw_epoch = epoch_new 0 3,
      uw_previous_configuration_id = None,
      uw_current_configuration_id = configuration_id (sample_configuration (\<lambda>_. []) 3),
      uw_verified_replication_lsn = 4,
      uw_write_status = (if role = Primary then Granted else ReconfigurationPending),
      uw_pending_operation_id = None, uw_retained_operation_id = Some ''scale-up-command-''\<rparr>"

lemma sample_growth_witness_fields:
  "uw_resource_uid (sample_growth_witness r n role) = ''u''"
  "uw_identity (sample_growth_witness r n role) = m_identity (sample_member r n role)"
  "uw_role (sample_growth_witness r n role) = role"
  "uw_process_session_id (sample_growth_witness r n role) = ''s''"
  "uw_report_sequence (sample_growth_witness r n role) = 9"
  "uw_epoch (sample_growth_witness r n role) = epoch_new 0 3"
  "uw_previous_configuration_id (sample_growth_witness r n role) = None"
  "uw_current_configuration_id (sample_growth_witness r n role) = configuration_id (sample_configuration (\<lambda>_. []) 3)"
  "uw_verified_replication_lsn (sample_growth_witness r n role) = 4"
  "uw_write_status (sample_growth_witness r n role) = (if role = Primary then Granted else ReconfigurationPending)"
  "uw_pending_operation_id (sample_growth_witness r n role) = None"
  "uw_retained_operation_id (sample_growth_witness r n role) = Some ''scale-up-command-''"
  by (simp_all add: sample_growth_witness_def)

lemma sample_ids_distinct:
  "m_identity (sample_member r n role) = m_identity (sample_member r' n' role') \<longleftrightarrow> r = r' \<and> n = n'"
  "m_role (sample_member r n role) = role" "replica_id (m_identity (sample_member r n role)) = r"
  by (simp_all add: sample_member_def)

definition sample_growth_receipt :: ScaleUpReceipt where
  "sample_growth_receipt =
     \<lparr>ur_intent = sample_growth, ur_accepted_configuration = sample_configuration (\<lambda>_. []) 3,
      ur_failover_evidence = None, ur_failover_safe_lsn = None,
      ur_current_only_write_quorum = [sample_growth_witness 1 ''a'' Primary, sample_growth_witness 3 ''c'' ActiveSecondary]\<rparr>"

lemma sample_growth_receipt_valid: "validate_scale_up_receipt (\<lambda>_. []) sample_growth_receipt = Ok ()"
proof -
  let ?c = "sample_configuration (\<lambda>_. []) 3" and ?p = "m_identity (sample_member 1 ''a'' Primary)"
  have primary: "find (\<lambda>m. m_replica_id m = primary_id ?c \<and> m_role m = Primary) (members ?c)
      = Some (sample_member 1 ''a'' Primary)"
    by (simp add: sample_configuration_members sample_expanded_fields) (simp add: sample_member_def)
  have 1: "scale_up_witness_check (\<lambda>_. []) sample_growth ?c ?c False (Some ?p) {}
      (sample_growth_witness 1 ''a'' Primary) = Ok ()"
    by (simp add: scale_up_witness_check_def sample_growth_witness_fields sample_growth_fields
        sample_configuration_members sample_expanded_fields member_role_differs_def su_command_operation_id_def
        sample_ids_distinct)
  have 3: "scale_up_witness_check (\<lambda>_. []) sample_growth ?c ?c False (Some ?p) {?p}
      (sample_growth_witness 3 ''c'' ActiveSecondary) = Ok ()"
    by (simp add: scale_up_witness_check_def sample_growth_witness_fields sample_growth_fields
        sample_configuration_members sample_expanded_fields member_role_differs_def su_command_operation_id_def
        sample_ids_distinct)
  from 1 3 have "validate_scale_up_witnesses (\<lambda>_. []) sample_growth ?c ?c (ur_current_only_write_quorum sample_growth_receipt)
      (p_write_quorum sample_policy) False (Some ?p) = Ok ()"
    by (simp add: validate_scale_up_witnesses_def sample_growth_receipt_def sample_growth_witness_fields
        sample_ids_distinct) (simp add: sample_policy_def)
  with primary sample_growth_valid show ?thesis
    by (simp add: validate_scale_up_receipt_def sample_growth_receipt_def Let_def sample_growth_fields)
qed

theorem scale_up_receipt_sound_witness:
  "\<exists>primary \<in> set (members (sample_configuration (\<lambda>_. []) 3)). m_role primary = Primary
     \<and> m_identity primary \<in> uw_identity ` set (ur_current_only_write_quorum sample_growth_receipt)"
proof -
  have "ur_accepted_configuration sample_growth_receipt = sample_configuration (\<lambda>_. []) 3"
    by (simp add: sample_growth_receipt_def)
  with scale_up_receipt_sound [OF sample_growth_receipt_valid refl refl] show ?thesis by metis
qed


definition sample_provisional :: ConfigurationDescriptor where
  "sample_provisional = configuration_new (\<lambda>_. []) (epoch_new 0 4) 2
     [sample_member 1 ''a'' ActiveSecondary, sample_member 2 ''b'' Primary, sample_member 3 ''c'' ActiveSecondary] 2"

definition sample_election :: ScaleUpFinalElectionEvidence where
  "sample_election =
     \<lparr>fe_selected_primary_replica_id = 3,
      fe_witnesses = map (\<lambda>(r, p). \<lparr>fw_replica_id = r, fw_process_session_id = ''s'', fw_report_sequence = 7,
          fw_current_progress = p, fw_committed_lsn = 4, fw_deactivated_lsn = p,
          fw_fence_operation_id = ''scale-up-command-''\<rparr>) [(2, 5), (3, 6)],
      fe_previous_read_quorum = [2], fe_current_read_quorum = [2, 3]\<rparr>"

definition sample_final :: ConfigurationDescriptor where
  "sample_final = configuration_new (\<lambda>_. []) (epoch_new 0 5) 3
     [sample_member 1 ''a'' ActiveSecondary, sample_member 2 ''b'' ActiveSecondary, sample_member 3 ''c'' Primary] 2"

definition sample_failover :: ScaleUpFailoverEvidence where
  "sample_failover =
     \<lparr>sf_intent = sample_growth, sf_provisional_configuration = sample_provisional,
      sf_previous_read_quorum = [sample_growth_witness 2 ''b'' ActiveSecondary],
      sf_current_read_quorum = [sample_growth_witness 2 ''b'' ActiveSecondary, sample_growth_witness 3 ''c'' ActiveSecondary],
      sf_final_election = Some sample_election\<rparr>"

lemma sample_provisional_fields:
  "members sample_provisional = [sample_member 1 ''a'' ActiveSecondary, sample_member 2 ''b'' Primary,
     sample_member 3 ''c'' ActiveSecondary]"
  "c_epoch sample_provisional = epoch_new 0 4" "primary_id sample_provisional = 2"
  "write_quorum sample_provisional = 2"
  "members sample_final = [sample_member 1 ''a'' ActiveSecondary, sample_member 2 ''b'' ActiveSecondary,
     sample_member 3 ''c'' Primary]"
  "c_epoch sample_final = epoch_new 0 5" "primary_id sample_final = 3"
  by (simp_all add: sample_provisional_def sample_final_def) (simp_all add: sample_member_def)

lemma sample_final_configuration:
  "fe_final_configuration (\<lambda>_. []) sample_election sample_provisional = Some sample_final"
proof -
  have sel: "fe_selected_primary sample_election sample_provisional = Some (m_identity (sample_member 3 ''c'' Primary))"
    by (simp add: fe_selected_primary_def sample_election_def sample_provisional_fields) (simp add: sample_member_def)
  have ms: "map (\<lambda>m. \<lparr>m_identity = m_identity m,
        m_role = if m_identity m = m_identity (sample_member 3 ''c'' Primary) then Primary else ActiveSecondary\<rparr>)
      (members sample_provisional) = [sample_member 1 ''a'' ActiveSecondary, sample_member 2 ''b'' ActiveSecondary,
     sample_member 3 ''c'' Primary]"
    by (simp add: sample_provisional_fields) (simp add: sample_member_def)
  have n: "i64_checked_add (configuration_number (c_epoch sample_provisional)) 1 = Some 5"
    by (simp add: sample_provisional_fields epoch_new_def i64_checked_add_def i64_range_def)
  show ?thesis
    unfolding fe_final_configuration_def sel option.case n ms sample_final_def
    by (simp add: sample_provisional_fields(2,4) sample_election_def epoch_new_def)
qed

lemma sample_failover_configurations:
  "validate_configuration (\<lambda>_. []) sample_provisional (Some sample_policy) = Ok ()"
  "validate_configuration (\<lambda>_. []) sample_final (Some sample_policy) = Ok ()"
proof -
  have id: "configuration_id sample_provisional = expected_id (\<lambda>_. []) sample_provisional"
    "configuration_id sample_final = expected_id (\<lambda>_. []) sample_final" "write_quorum sample_final = 2"
    by (simp_all add: sample_provisional_def sample_final_def)
  show "validate_configuration (\<lambda>_. []) sample_provisional (Some sample_policy) = Ok ()"
    "validate_configuration (\<lambda>_. []) sample_final (Some sample_policy) = Ok ()"
    by (simp_all add: validate_configuration_Ok_iff well_formed_configuration_def id sample_provisional_fields
        epoch_new_def sample_policy_def) (simp_all add: sample_member_def)
qed

lemma sample_failover_fields:
  "sf_intent sample_failover = sample_growth" "sf_provisional_configuration sample_failover = sample_provisional"
  "sf_final_election sample_failover = Some sample_election"
  "fe_current_read_quorum sample_election = [2, 3]" "fe_previous_read_quorum sample_election = [2]"
  "fe_selected_primary_replica_id sample_election = 3"
  by (simp_all add: sample_failover_def sample_election_def)

lemma sample_election_witness:
  "fe_witness sample_election 2 = Some \<lparr>fw_replica_id = 2, fw_process_session_id = ''s'', fw_report_sequence = 7,
     fw_current_progress = 5, fw_committed_lsn = 4, fw_deactivated_lsn = 5, fw_fence_operation_id = ''scale-up-command-''\<rparr>"
  "fe_witness sample_election 3 = Some \<lparr>fw_replica_id = 3, fw_process_session_id = ''s'', fw_report_sequence = 7,
     fw_current_progress = 6, fw_committed_lsn = 4, fw_deactivated_lsn = 6, fw_fence_operation_id = ''scale-up-command-''\<rparr>"
  by (simp_all add: fe_witness_def sample_election_def)

lemma sample_failover_conf:
  "validate_failover_configuration (\<lambda>_. []) sample_failover sample_provisional sample_policy = Ok ()"
  "validate_failover_configuration (\<lambda>_. []) sample_failover sample_final sample_policy = Ok ()"
  using sample_failover_configurations sample_policy_valid
  by (simp_all add: validate_failover_configuration_def Let_def sample_failover_fields sample_growth_fields
      sample_expanded_fields sample_provisional_fields exact_identities_def sample_configuration_members)
    (simp_all add: epoch_new_def sample_member_def)

lemma sample_recovery:
  "recovery_witness_check (\<lambda>_. []) sample_growth sample_reduced {} (sample_growth_witness 2 ''b'' ActiveSecondary) = Ok ()"
  "recovery_witness_check (\<lambda>_. []) sample_growth (sample_configuration (\<lambda>_. []) 3) {}
     (sample_growth_witness 2 ''b'' ActiveSecondary) = Ok ()"
  "recovery_witness_check (\<lambda>_. []) sample_growth (sample_configuration (\<lambda>_. []) 3)
     {m_identity (sample_member 2 ''b'' ActiveSecondary)} (sample_growth_witness 3 ''c'' ActiveSecondary) = Ok ()"
  by (simp_all add: recovery_witness_check_def recovery_stage_def Let_def sample_growth_witness_fields
      sample_growth_fields sample_configuration_members sample_expanded_fields member_role_differs_def
      su_command_operation_id_def sample_ids_distinct sample_reduced_fields)

lemma sample_final_witnesses: "validate_final_witnesses (\<lambda>_. []) sample_failover sample_election = Ok ()"
  by (simp add: validate_final_witnesses_def final_witness_check_def Let_def sample_election_def
      sample_failover_def sample_provisional_fields sample_ids_distinct sample_growth_fields
      su_command_operation_id_def)

lemma sample_final_quorums:
  "validate_final_quorum sample_election sample_reduced [2] 1 None = Ok ()"
  "validate_final_quorum sample_election sample_provisional [2, 3] 2 (Some (m_identity (sample_member 3 ''c'' Primary))) = Ok ()"
  by (simp_all add: validate_final_quorum_def final_quorum_check_def sample_election_witness sample_reduced_fields
      sample_provisional_fields sample_ids_distinct)

lemma sample_selection: "final_selection_check sample_failover sample_election = Ok ()"
proof -
  have "card (set (fe_previous_read_quorum sample_election @ fe_current_read_quorum sample_election)) = 2"
    by (simp add: sample_failover_fields)
  moreover have "length (fe_witnesses sample_election) = 2" "fw_replica_id ` set (fe_witnesses sample_election) = {2, 3}"
    by (simp_all add: sample_election_def)
  moreover have "expected_final_primary sample_failover sample_election = fe_witness sample_election 3"
    by (simp add: expected_final_primary_def sample_failover_fields sample_growth_fields sample_ids_distinct
        List.map_filter_def sample_election_witness final_witness_rank_def)
  ultimately show ?thesis
    by (auto simp: final_selection_check_def Let_def sample_failover_fields sample_election_witness)
qed

lemma sample_failover_valid: "validate_scale_up_failover_evidence (\<lambda>_. []) sample_failover = Ok ()"
proof -
  have primary: "find (\<lambda>m. m_replica_id m = primary_id sample_final \<and> m_role m = Primary) (members sample_final)
      = Some (sample_member 3 ''c'' Primary)"
    by (simp add: sample_provisional_fields sample_ids_distinct)
  have q: "read_quorum sample_reduced_policy = 1" "read_quorum sample_policy = 2"
    by (simp_all add: sample_reduced_policy_def sample_policy_def)
  have safe: "fe_safe_lsn sample_election = Some 6"
    by (simp add: fe_safe_lsn_def sample_failover_fields sample_election_witness)
  have elect: "validate_final_election (\<lambda>_. []) sample_failover sample_election = Ok ()"
    using primary sample_final_configuration safe sample_failover_conf sample_final_witnesses sample_final_quorums
      sample_selection
    by (simp add: validate_final_election_def Let_def sample_failover_fields sample_growth_fields q sample_ids_distinct)
  have "sf_previous_read_quorum sample_failover = [sample_growth_witness 2 ''b'' ActiveSecondary]"
    "sf_current_read_quorum sample_failover =
       [sample_growth_witness 2 ''b'' ActiveSecondary, sample_growth_witness 3 ''c'' ActiveSecondary]"
    by (simp_all add: sample_failover_def)
  then show ?thesis
    using elect sample_growth_valid sample_failover_conf sample_recovery
    by (simp add: validate_scale_up_failover_evidence_def Let_def sample_failover_fields sample_growth_fields q
        validate_recovery_witnesses_def sample_growth_witness_fields sample_ids_distinct sample_provisional_fields
        sample_expanded_fields epoch_new_def i64_checked_add_def i64_range_def)
qed


end
