(* ===== verification/Neighbour_Quorums.thy ===== *)
theory Neighbour_Quorums
  imports Scale_Up_Safety
begin

text \<open>
  The common shape of every change of configuration: two accepted configurations, one within the
  other and at most one member apart, have intersecting write quorums. Removal, scale-up, failover
  during a scale-up and the changes that keep the membership are instances.
\<close>

text \<open>Neighbouring configurations: both accepted, one within the other, at most one member apart.\<close>

definition neighbours :: "(bytes \<Rightarrow> bytes) \<Rightarrow> ConfigurationDescriptor \<Rightarrow> ConfigurationDescriptor \<Rightarrow> bool" where
  "neighbours H p c \<longleftrightarrow> (\<exists>pp cp. accepted_under H (p, pp) \<and> accepted_under H (c, cp))
     \<and> (member_ids p \<subseteq> member_ids c \<and> length (members c) \<le> length (members p) + 1
        \<or> member_ids c \<subseteq> member_ids p \<and> length (members p) \<le> length (members c) + 1)"

lemma neighbours_quorums_meet:
  assumes "neighbours H p c" and A: "A \<subseteq> member_ids p" "unat (write_quorum p) \<le> card A"
    and B: "B \<subseteq> member_ids c" "unat (write_quorum c) \<le> card B"
  shows "A \<inter> B \<noteq> {}"
proof -
  obtain pp cp where acc: "accepted_under H (p, pp)" "accepted_under H (c, cp)"
    using assms(1) by (auto simp: neighbours_def)
  note P = accepted_under_counts [OF acc(1)] and C = accepted_under_counts [OF acc(2)]
  have fin: "finite (member_ids x)" for x by (simp add: member_ids_def)
  from assms(1) consider
      "member_ids p \<subseteq> member_ids c" "length (members c) \<le> length (members p) + 1"
    | "member_ids c \<subseteq> member_ids p" "length (members p) \<le> length (members c) + 1"
    by (auto simp: neighbours_def)
  then show ?thesis
  proof cases
    case 1
    then have "card (member_ids c) < card A + card B" using A(2) B(2) unfolding P(3) C(1,3) by linarith
    with 1 A(1) B(1) show ?thesis by (intro overlap_by_counting [OF fin [of c]]) auto
  next
    case 2
    then have "card (member_ids p) < card A + card B" using A(2) B(2) unfolding P(1,3) C(3) by linarith
    with 2 A(1) B(1) show ?thesis by (intro overlap_by_counting [OF fin [of p]]) auto
  qed
qed

lemma member_ids_exact: "member_ids c = replica_id ` exact_identities c"
  by (auto simp: member_ids_def exact_identities_def)

lemma removal_neighbours:
  assumes "validate_secondary_scale_down H i = Ok ()"
    and "length (members (sd_previous_configuration i)) < 4294967296"
  shows "neighbours H (sd_previous_configuration i) (sd_current_configuration i)"
proof -
  have acc: "removal_accepted H i" using assms by (simp add: removal_accepted_def)
  note c = removal_counts [OF acc]
  have "member_ids (sd_current_configuration i) \<subseteq> member_ids (sd_previous_configuration i)"
    unfolding member_ids_exact using c(3) by (rule image_mono)
  then show ?thesis using c(1,2) scale_down_Ok_D(6) [OF assms(1)] unfolding neighbours_def by auto
qed

lemma growth_neighbours:
  assumes "validate_scale_up H i = Ok ()" "accepted_under H (c, su_current_policy i)"
    and "exact_identities c = exact_identities (su_current_configuration i)"
    and "length (members (su_current_configuration i)) < 4294967296"
  shows "neighbours H (su_previous_configuration i) c"
proof -
  have acc: "scale_up_accepted H i" using assms by (simp add: scale_up_accepted_def)
  note k = scale_up_counts [OF acc]
  have ids: "member_ids c = member_ids (su_current_configuration i)" using assms(3) by (simp add: member_ids_exact)
  have "member_ids (su_previous_configuration i) \<subseteq> member_ids c"
    unfolding ids unfolding member_ids_exact using k(3) by (rule image_mono)
  moreover have "length (members c) = length (members (su_current_configuration i))"
    using accepted_under_counts(1) [OF assms(2)] accepted_under_counts(1) [OF k(2)] ids by simp
  ultimately show ?thesis using k(1) assms(2) scale_up_Ok_D(5) [OF assms(1)] unfolding neighbours_def by auto
qed

lemma relationship_neighbours:
  assumes "validate_transition_relationship H k (Some p) c policy = Ok ()" "k \<noteq> Bootstrap"
    and "length (members p) < 4294967296" "length (members c) < 4294967296"
  shows "neighbours H p c" "c_epoch p < c_epoch c"
proof -
  from transition_Ok_D [OF assms(1,2)] have T: "validate_policy policy = Ok ()"
    "validate_configuration H c (Some policy) = Ok ()" "validate_configuration H p (Some policy) = Ok ()"
    "c_epoch p < c_epoch c" "member_ids p = member_ids c" by auto
  have acc: "accepted_under H (p, policy)" "accepted_under H (c, policy)"
    using T assms(3,4) by (auto simp: accepted_under_def)
  with T accepted_under_counts(1) [OF acc(1)] accepted_under_counts(1) [OF acc(2)]
  show "neighbours H p c" "c_epoch p < c_epoch c" unfolding neighbours_def by auto
qed

end
