(* ===== verification/Agent_Admission.thy ===== *)
theory Agent_Admission
  imports Agent_State Report_Checks Neighbour_Quorums
begin

text \<open>
  \<open>kuberic-runtime/src/host/command.rs\<close> and \<open>host/removal.rs\<close>: which commands an agent admits, given its
  durable state. An admission returns the authority to install, or a rejection; it changes nothing.
  The long functions are split at their blank lines; every part keeps the order of the tests.
\<close>

section \<open>Removal commands\<close>

definition admit_commit ::
    "(bytes \<Rightarrow> bytes) \<Rightarrow> (ValidationError \<Rightarrow> string) \<Rightarrow> AcceptSecondaryRemovalCommit \<Rightarrow> AgentState \<Rightarrow> unit host" where
  "admit_commit H D c st =
     and_then (reject_check D (validate_accept_secondary_removal_commit H c)) (\<lambda>_.
     let i = sdc_intent (arc_committed c)
     in if ag_local st \<noteq> arc_target c
           \<or> ag_resource_uid st \<noteq> sd_resource_uid i
           \<or> ag_retired_authority st \<noteq> None
           \<or> ag_reconfiguration st \<noteq> None
           \<or> ag_previous_configuration st \<noteq> None
           \<or> ag_current_configuration st \<noteq> Some (sd_current_configuration i)
           \<or> ag_secondary_removal_evidence st \<noteq> Some (sdc_evidence (arc_committed c))
           \<or> ag_highest_epoch st \<noteq> c_epoch (sd_current_configuration i)
           \<or> is_some_and (ag_accepted_secondary_removal st) (\<lambda>x. x \<noteq> arc_committed c)
           \<or> (arc_local_recovery c
              \<and> (ag_role st \<noteq> ActiveSecondary \<or> ag_write_status st = Granted
                 \<or> ag_prepared_secondary_removal st \<noteq> None \<or> ag_prepared_switchover st \<noteq> None))
        then rejected ''commit certificate differs from completed local reduced authority''
        else Ok ())"

definition admit_preparation ::
    "(bytes \<Rightarrow> bytes) \<Rightarrow> (ValidationError \<Rightarrow> string) \<Rightarrow> PrepareSecondaryRemoval \<Rightarrow> AgentState \<Rightarrow> unit host" where
  "admit_preparation H D c st =
     and_then (reject_check D (validate_secondary_scale_down H (psr_intent c))) (\<lambda>_.
     let i = psr_intent c; local = ag_local st
     in if ag_retired_authority st \<noteq> None
           \<or> sd_resource_uid i \<noteq> ag_resource_uid st
           \<or> sd_primary i \<noteq> local
           \<or> psr_local_replica_id c \<noteq> replica_id local
           \<or> psr_expected_instance_id c \<noteq> instance_id local
           \<or> psr_expected_agent_generation c \<noteq> agent_generation local
           \<or> psr_operation_id c \<noteq> sd_command_operation_id H i RemPrepare local
           \<or> ag_highest_epoch st > c_epoch (sd_current_configuration i)
           \<or> ag_prepared_switchover st \<noteq> None
        then rejected ''removal preparation differs from exact primary authority''
        else (case bt_get (ag_removal_effects st) (psr_operation_id c) of
          Some retained \<Rightarrow>
            (case ef_action (rec_effect (rtn_record retained)) of
               EffPrepareSecondaryRemoval existing s n \<Rightarrow>
                 if existing = i then Ok () else rejected ''removal preparation operation was mutated''
             | _ \<Rightarrow> rejected ''removal preparation operation was mutated'')
        | None \<Rightarrow>
            if ag_reconfiguration st \<noteq> None
               \<or> ag_previous_configuration st \<noteq> None
               \<or> ag_current_configuration st \<noteq> Some (sd_previous_configuration i)
               \<or> ag_policy st \<noteq> sd_previous_policy i
               \<or> ag_role st \<noteq> Primary
               \<or> removal_unaccepted st
               \<or> is_some_and (ag_prepared_secondary_removal st) (\<lambda>p.
                   rp_intent p \<noteq> i
                   \<and> c_epoch (sd_previous_configuration i) < c_epoch (sd_current_configuration (rp_intent p)))
            then rejected ''removal preparation requires installed current-only primary authority''
            else Ok ()))"

definition admit_retirement ::
    "(bytes \<Rightarrow> bytes) \<Rightarrow> (ValidationError \<Rightarrow> string) \<Rightarrow> RetireReplica \<Rightarrow> AgentState \<Rightarrow> unit host" where
  "admit_retirement H D c st =
     and_then (reject_check D (validate_secondary_scale_down_cleanup H (rtr_committed c))) (\<lambda>_.
     let i = sdc_intent (rtr_committed c); local = ag_local st
     in if sd_resource_uid i \<noteq> ag_resource_uid st
           \<or> sd_target i \<noteq> local
           \<or> rtr_local_replica_id c \<noteq> replica_id local
           \<or> rtr_expected_instance_id c \<noteq> instance_id local
           \<or> rtr_expected_agent_generation c \<noteq> agent_generation local
           \<or> rtr_operation_id c \<noteq> sd_command_operation_id H i RemRetire local
           \<or> ag_highest_epoch st > c_epoch (sd_current_configuration i)
           \<or> ag_reconfiguration st \<noteq> None
           \<or> ag_prepared_switchover st \<noteq> None
        then rejected ''retirement differs from exact excluded incarnation''
        else (case ag_retired_authority st of
          Some retired \<Rightarrow>
            if rta_committed retired = rtr_committed c
               \<and> rr_operation_id (rta_report retired) = rtr_operation_id c
            then Ok () else rejected ''retirement operation was mutated''
        | None \<Rightarrow>
            if ag_current_configuration st \<noteq> Some (sd_previous_configuration i)
               \<or> ag_previous_configuration st \<noteq> None
               \<or> ag_policy st \<noteq> sd_previous_policy i
               \<or> ag_role st \<noteq> ActiveSecondary
            then rejected ''retirement requires the exact previous secondary authority''
            else Ok ()))"

text \<open>\<open>removal::admit_configuration\<close>; the middle part compares with the authority already installed.\<close>

definition removal_replay_check ::
    "EnsureConfiguration \<Rightarrow> SecondaryRemovalEvidence \<Rightarrow> AgentState \<Rightarrow> bool \<Rightarrow> unit host" where
  "removal_replay_check c e st persisted =
     (let i = re_intent e
      in if ag_current_configuration st = Some (sd_current_configuration i)
         then and_then (ok_or (ag_secondary_removal_evidence st)
                          (CommandRejected ''missing frozen admission evidence'')) (\<lambda>old.
           if re_preparation old \<noteq> re_preparation e
              \<or> re_previous_read_quorum old \<noteq> re_previous_read_quorum e
              \<or> (re_reduced_write_quorum old \<noteq> [] \<and> re_reduced_write_quorum old \<noteq> re_reduced_write_quorum e)
              \<or> ag_admitted_policy st \<noteq> Some (sd_current_policy i)
              \<or> (\<not> ec_current_only c \<and> ag_previous_configuration st = None)
              \<or> (ec_current_only c \<and> ag_previous_configuration st = None \<and> \<not> persisted)
           then rejected ''reduction replay changed frozen admission evidence''
           else Ok ())
         else if ec_current_only c
                 \<or> ag_previous_configuration st \<noteq> None
                 \<or> ag_current_configuration st \<noteq> Some (sd_previous_configuration i)
                 \<or> ag_policy st \<noteq> sd_previous_policy i
         then rejected ''reduction does not follow installed previous authority''
         else Ok ())"

definition admit_removal_configuration ::
    "(bytes \<Rightarrow> bytes) \<Rightarrow> (ValidationError \<Rightarrow> string) \<Rightarrow> EnsureConfiguration \<Rightarrow> AgentState \<Rightarrow> bool
      \<Rightarrow> AdmittedAuthority host" where
  "admit_removal_configuration H D c st persisted =
     and_then (reject_check D (validate_secondary_removal_configuration H c)) (\<lambda>_.
     and_then (expect (ec_secondary_removal_evidence c)) (\<lambda>e.
     let i = re_intent e
     in if ag_retired_authority st \<noteq> None
           \<or> sd_resource_uid i \<noteq> ag_resource_uid st
           \<or> ag_prepared_switchover st \<noteq> None
           \<or> ec_local_replica_id c \<noteq> replica_id (ag_local st)
           \<or> ec_expected_instance_id c \<noteq> instance_id (ag_local st)
           \<or> ec_expected_agent_generation c \<noteq> agent_generation (ag_local st)
           \<or> ec_current_epoch c < ag_highest_epoch st
           \<or> is_some_and (ag_reconfiguration st) (\<lambda>r. rcr_command r \<noteq> c)
           \<or> is_some_and (ag_pending_effect st) (\<lambda>p. removal_action (ef_action (pe_effect p)))
        then rejected ''reduction differs from durable local authority''
        else and_then (removal_replay_check c e st persisted) (\<lambda>_.
          if ag_local st = sd_primary i \<and> ag_prepared_secondary_removal st \<noteq> Some (re_preparation e)
          then rejected ''reduction primary lacks the exact durable preparation''
          else if ec_primary_write_status c = Granted
          then rejected ''reduction coordination cannot grant writes''
          else let a = \<lparr>au_local_identity = ag_local st,
                        au_transition_kind = then_some (\<not> ec_current_only c) (ec_transition_kind c),
                        au_previous_configuration = ec_previous_configuration c,
                        au_current_configuration = ec_current_configuration c,
                        au_switchover_handoff = None, au_secondary_removal = Some e, au_scale_up = None\<rparr>
               in and_then (map_err (\<lambda>x. CommandRejected (contract_error_text x)) (au_validate H D a)) (\<lambda>_.
                  Ok a))))"

section \<open>Build and switchover commands\<close>

definition admit_target_build ::
    "(bytes \<Rightarrow> bytes) \<Rightarrow> (ValidationError \<Rightarrow> string) \<Rightarrow> EnsureReplicaBuild \<Rightarrow> BuildAuthority \<Rightarrow> AgentState
      \<Rightarrow> unit host" where
  "admit_target_build H D c a st =
     and_then (reject_check D (build_authority_validate H a)) (\<lambda>_.
       if ba_build_id a \<noteq> eb_operation_id c
          \<or> ba_target a \<noteq> eb_target c
          \<or> ba_target a \<noteq> ag_local st
          \<or> is_none_or (eb_source_session_id c) (\<lambda>s. s = '''')
       then rejected ''target build command differs from admitted build authority''
       else Ok ())"

definition admit_source_build :: "EnsureReplicaBuild \<Rightarrow> AgentState \<Rightarrow> unit host" where
  "admit_source_build c st =
     (if eb_source_session_id c \<noteq> None
      then rejected ''source build command cannot carry a peer session''
      else and_then (ok_or (ag_current_configuration st)
                       (CommandRejected ''build source has no Current Configuration'')) (\<lambda>cur.
           and_then (expect (find (\<lambda>m. m_replica_id m = primary_id cur) (members cur))) (\<lambda>primary.
             if m_identity primary \<noteq> ag_local st \<or> replica_id (eb_target c) = replica_id (ag_local st)
             then rejected ''source build command must target another logical replica from the primary''
             else Ok ())))"

definition admit_build_command ::
    "(bytes \<Rightarrow> bytes) \<Rightarrow> (ValidationError \<Rightarrow> string) \<Rightarrow> EnsureReplicaBuild \<Rightarrow> AgentState \<Rightarrow> unit host" where
  "admit_build_command H D c st =
     (if ag_retired_authority st \<noteq> None \<or> removal_pending st
      then rejected ''secondary removal fences replica builds''
      else if eb_retire c
      then (if eb_authority c \<noteq> None \<or> eb_source_session_id c \<noteq> None
            then rejected ''build retirement cannot carry delivery authority''
            else and_then (ok_or (bt_get (ag_build_commands st) (eb_operation_id c))
                   (CommandRejected ''build retirement requires exact durable build authority'')) (\<lambda>existing.
              if eb_retire existing
                 \<or> eb_local_replica_id existing \<noteq> eb_local_replica_id c
                 \<or> eb_expected_instance_id existing \<noteq> eb_expected_instance_id c
                 \<or> eb_expected_agent_generation existing \<noteq> eb_expected_agent_generation c
                 \<or> eb_target existing \<noteq> eb_target c
                 \<or> eb_authority existing \<noteq> None
              then rejected ''build retirement differs from exact durable source authority''
              else Ok ()))
      else if eb_operation_id c \<in> ag_retired_builds st \<or> eb_operation_id c \<in> ag_abandoned_builds st
      then rejected ''abandoned or retired build authority cannot be reopened''
      else if eb_operation_id c = ''''
              \<or> eb_local_replica_id c \<noteq> replica_id (ag_local st)
              \<or> eb_expected_instance_id c \<noteq> instance_id (ag_local st)
              \<or> eb_expected_agent_generation c \<noteq> agent_generation (ag_local st)
      then rejected ''build command target does not match durable replica identity''
      else (case eb_authority c of
              Some a \<Rightarrow> admit_target_build H D c a st
            | None \<Rightarrow> admit_source_build c st))"

definition prepared_replay :: "PrepareSwitchover \<Rightarrow> SwitchoverHandoff \<Rightarrow> AgentState \<Rightarrow> bool" where
  "prepared_replay c p st \<longleftrightarrow>
     sh_preparation_operation_id p = ps_operation_id c
     \<and> sh_preparation_generation p = ps_preparation_generation c
     \<and> sh_request_id p = ps_request_id c
     \<and> sh_source p = ps_source c
     \<and> sh_target p = ps_target c
     \<and> sh_starting_configuration_id p = configuration_id (ps_current_configuration c)
     \<and> ag_current_configuration st = Some (ps_current_configuration c)"

definition admit_switchover_preparation ::
    "(bytes \<Rightarrow> bytes) \<Rightarrow> PrepareSwitchover \<Rightarrow> AgentState \<Rightarrow> unit host" where
  "admit_switchover_preparation H c st =
     (let local = ag_local st; cc = ps_current_configuration c
      in if ag_retired_authority st \<noteq> None \<or> removal_pending st
         then rejected ''secondary removal fences switchover preparation''
         else if ps_preparation_generation c = 0
                 \<or> ps_operation_id c = '''' \<or> ps_request_id c = ''''
                 \<or> ps_operation_id c \<noteq> derive_switchover_preparation_operation_id H (ag_resource_uid st)
                     (ps_request_id c) (ps_preparation_generation c) (configuration_id cc) (ps_source c) (ps_target c)
                 \<or> ps_local_replica_id c \<noteq> replica_id local
                 \<or> ps_expected_instance_id c \<noteq> instance_id local
                 \<or> ps_expected_agent_generation c \<noteq> agent_generation local
                 \<or> ps_source c \<noteq> local
         then rejected ''planned switchover preparation target does not match durable identity''
         else if is_some_and (ag_preparation_retirement st) (\<lambda>r.
                   prt_starting_epoch r = c_epoch cc
                   \<and> prt_starting_configuration_id r = configuration_id cc
                   \<and> ps_preparation_generation c \<le> prt_generation r)
         then rejected ''planned switchover preparation has already been retired''
         else case ag_prepared_switchover st of
           Some p \<Rightarrow>
             if prepared_replay c p st then Ok ()
             else rejected ''another planned switchover preparation is retained''
         | None \<Rightarrow>
             if ag_reconfiguration st \<noteq> None
             then rejected ''configuration work is already pending''
             else if ag_role st \<noteq> Primary \<or> ag_write_status st \<noteq> Granted
             then rejected ''planned switchover preparation requires the writable primary''
             else and_then (ok_or (ag_current_configuration st)
                    (CommandRejected ''planned switchover preparation requires installed authority'')) (\<lambda>cur.
               if cur \<noteq> cc
               then rejected ''planned switchover preparation differs from installed authority''
               else and_then (expect (find (\<lambda>m. m_replica_id m = primary_id cur) (members cur))) (\<lambda>primary.
                 if m_identity primary \<noteq> ps_source c
                    \<or> replica_id (ps_target c) = primary_id cur
                    \<or> \<not> (\<exists>m \<in> set (members cur). m_identity m = ps_target c \<and> m_role m \<noteq> Primary)
                 then rejected ''planned switchover preparation source or target differs from authority''
                 else Ok ())))"

section \<open>Scale-up configurations\<close>

text \<open>
  The carried failover of a scale-up: the three flags are \<open>historical_failover_current_only\<close>,
  \<open>original_failover_basis\<close> and \<open>exact_failover_progression\<close>.
\<close>

definition new_primary_witness ::
    "(bytes \<Rightarrow> bytes) \<Rightarrow> EnsureConfiguration \<Rightarrow> ScaleUpFailoverEvidence \<Rightarrow> ReplicaIdentity \<Rightarrow> bool" where
  "new_primary_witness H c e primary \<longleftrightarrow>
     (if ec_failover_safe_lsn c = None
      then \<exists>w \<in> set (sf_current_read_quorum e). uw_identity w = primary
      else is_some_and (sf_final_election e) (\<lambda>f.
        fe_final_configuration H f (sf_provisional_configuration e) = Some (ec_current_configuration c)
        \<and> ec_failover_safe_lsn c = fe_safe_lsn f
        \<and> is_some_and (fe_witness f (replica_id primary)) (\<lambda>w.
            replica_id primary \<in> set (fe_current_read_quorum f)
            \<and> Some (min (fw_current_progress w) (fw_deactivated_lsn w)) = fe_safe_lsn f)))"

definition admit_scale_up_failover ::
    "(bytes \<Rightarrow> bytes) \<Rightarrow> EnsureConfiguration \<Rightarrow> AgentState \<Rightarrow> bool \<Rightarrow> ScaleUpFailoverEvidence
      \<Rightarrow> (bool \<times> bool \<times> bool) host" where
  "admit_scale_up_failover H c st persisted e =
     and_then (expect (find (\<lambda>m. m_replica_id m = primary_id (ec_current_configuration c) \<and> m_role m = Primary)
                         (members (ec_current_configuration c)))) (\<lambda>new_primary.
     let i = sf_intent e;
         witnessed = new_primary_witness H c e (m_identity new_primary);
         original_attempt_installed =
           (ag_scale_up_evidence st = Some (Admission i)
            \<and> ag_current_configuration st = Some (su_current_configuration i)
            \<and> (ag_previous_configuration st = Some (su_previous_configuration i)
               \<or> ag_previous_configuration st = None));
         original_authority_failover =
           (\<not> ec_current_only c \<and> ag_previous_configuration st = None
            \<and> ag_current_configuration st = Some (su_previous_configuration i)
            \<and> ag_highest_epoch st = c_epoch (su_previous_configuration i)
            \<and> ag_admitted_policy st = Some (su_previous_policy i)
            \<and> (\<exists>m \<in> set (members (su_previous_configuration i)).
                 m_identity m = ag_local st \<and> m_role m = ag_role st));
         first_failover_admission = (\<not> ec_current_only c \<and> original_attempt_installed);
         historical = (ec_current_only c \<and> original_attempt_installed
            \<and> ag_current_configuration st \<noteq> Some (ec_current_configuration c));
         exact_pc_cc = (\<not> ec_current_only c \<and> ag_previous_configuration st = ec_previous_configuration c);
         exact_current_only = (ec_current_only c
            \<and> (ag_previous_configuration st = Some (su_previous_configuration i)
               \<or> (persisted \<and> ag_previous_configuration st = None)));
         exact_installed = (ag_scale_up_evidence st = ec_scale_up_evidence c
            \<and> ag_current_configuration st = Some (ec_current_configuration c)
            \<and> (exact_pc_cc \<or> exact_current_only));
         fenced = (\<not> ec_current_only c \<and> ag_scale_up_evidence st = ec_scale_up_evidence c
            \<and> ag_highest_epoch st < ec_current_epoch c
            \<and> is_some_and (ag_current_configuration st) (\<lambda>cfg.
                validate_scale_up_failover_transition H e cfg (su_current_policy i) = Ok ()));
         provisional_return = (\<not> ec_current_only c \<and> ec_failover_safe_lsn c \<noteq> None
            \<and> ag_previous_configuration st = Some (su_previous_configuration i)
            \<and> ag_current_configuration st = Some (sf_provisional_configuration e)
            \<and> ag_highest_epoch st = c_epoch (sf_provisional_configuration e)
            \<and> (case ag_scale_up_evidence st of
                 Some (FailoverEvidence installed) \<Rightarrow>
                   sf_final_election installed = None \<and> same_provisional_authority installed e
               | _ \<Rightarrow> False))
     in if \<not> witnessed
           \<or> (\<not> first_failover_admission \<and> \<not> original_authority_failover \<and> \<not> historical
              \<and> \<not> fenced \<and> \<not> provisional_return
              \<and> \<not> (exact_installed \<and> (ec_current_only c \<or> persisted)))
        then rejected ''carried scale-up failover lacks durable PC/CC authority or a new-primary witness''
        else Ok (historical, original_attempt_installed \<or> original_authority_failover,
                 exact_installed \<or> fenced \<or> provisional_return))"

definition candidate_initialized ::
    "(bytes \<Rightarrow> bytes) \<Rightarrow> ScaleUpIntent \<Rightarrow> ProvisioningIntent \<Rightarrow> ScaleUpProvisioning \<Rightarrow> bool" where
  "candidate_initialized H i p s \<longleftrightarrow>
     sp_resource_uid s = su_resource_uid i
     \<and> sp_spec_generation s = su_spec_generation i
     \<and> sp_desired_replicas s = su_desired_replicas i
     \<and> sp_previous_configuration s = su_previous_configuration i
     \<and> sp_previous_policy s = su_previous_policy i
     \<and> sp_current_policy s = su_current_policy i
     \<and> target_identity H p (su_resource_uid i) = su_target i
     \<and> scale_up_build_id H p (su_resource_uid i) = Some (su_build_id i)"

definition scale_up_candidate_check ::
    "(bytes \<Rightarrow> bytes) \<Rightarrow> EnsureConfiguration \<Rightarrow> AgentState \<Rightarrow> bool \<Rightarrow> ScaleUpIntent \<Rightarrow> bool \<times> bool \<times> bool
      \<Rightarrow> unit host" where
  "scale_up_candidate_check H c st persisted i flags =
     (case flags of (historical, basis, progression) \<Rightarrow>
      and_then (ok_or (ag_scale_up_initialization st)
        (CommandRejected ''candidate lacks durable scale-up initialization authority'')) (\<lambda>p.
      and_then (ok_or (pi_scale_up p)
        (CommandRejected ''candidate initialization is not tagged for scale-up'')) (\<lambda>s.
      if \<not> candidate_initialized H i p s
      then rejected ''candidate authority differs from durable scale-up initialization''
      else
      and_then (ok_or (bt_get (ag_build_commands st) (su_build_id i))
        (CommandRejected ''candidate has not durably admitted the exact scale-up build'')) (\<lambda>build.
      and_then (ok_or (eb_authority build)
        (CommandRejected ''candidate build command lacks immutable receiver authority'')) (\<lambda>a.
      and_then (ok_or (bt_get (ag_build_progress st) (su_build_id i))
        (CommandRejected ''candidate lacks durable exact scale-up build progress'')) (\<lambda>progress.
      if (su_build_id i \<in> ag_retired_builds st
          \<and> \<not> (ec_current_only c \<and> (persisted \<or> historical)) \<and> \<not> basis \<and> \<not> progression)
         \<or> eb_target build \<noteq> su_target i
         \<or> ba_build_id a \<noteq> su_build_id i
         \<or> ba_source a \<noteq> su_primary i
         \<or> ba_target a \<noteq> su_target i
         \<or> ba_current_configuration a \<noteq> su_previous_configuration i
         \<or> ba_replication_boundary_lsn a \<noteq> su_snapshot_boundary_lsn i
         \<or> bp_authority progress \<noteq> a
         \<or> \<not> bp_completed progress
         \<or> bp_catch_up_boundary_lsn progress \<noteq> Some (su_catch_up_boundary_lsn i)
         \<or> bp_durable_lsn progress < su_catch_up_boundary_lsn i
      then rejected ''candidate requires exact completed build progress through the frozen boundary''
      else Ok ()))))))"

definition carried_failover ::
    "(bytes \<Rightarrow> bytes) \<Rightarrow> EnsureConfiguration \<Rightarrow> AgentState \<Rightarrow> ScaleUpConfigurationEvidence \<Rightarrow> bool" where
  "carried_failover H c st ev \<longleftrightarrow>
     (case ev of
        Admission i \<Rightarrow> False
      | FailoverEvidence e \<Rightarrow> is_some_and (ag_current_configuration st) (\<lambda>cfg.
          cfg = su_current_configuration (sf_intent e)
          \<or> cfg = ec_current_configuration c
          \<or> (case ag_scale_up_evidence st of
               Some (FailoverEvidence installed) \<Rightarrow>
                 cfg = sf_provisional_configuration e \<and> sf_final_election installed = None
                 \<and> same_provisional_authority installed e
             | _ \<Rightarrow> False)
          \<or> (ag_scale_up_evidence st = Some ev \<and> ag_highest_epoch st < ec_current_epoch c
             \<and> validate_scale_up_failover_transition H e cfg (su_current_policy (sf_intent e)) = Ok ())))"

definition scale_up_start_check ::
    "(bytes \<Rightarrow> bytes) \<Rightarrow> EnsureConfiguration \<Rightarrow> AgentState \<Rightarrow> bool \<Rightarrow> ScaleUpConfigurationEvidence \<Rightarrow> bool
      \<Rightarrow> unit host" where
  "scale_up_start_check H c st persisted ev historical =
     (let i = sce_intent ev; prev = su_previous_configuration i;
          replay = (persisted \<and> ec_current_only c
            \<and> ag_current_configuration st = Some (ec_current_configuration c)
            \<and> ag_previous_configuration st = None)
      in if ec_current_only c
         then (if \<not> replay \<and> \<not> historical
                  \<and> (ag_current_configuration st \<noteq> Some (ec_current_configuration c)
                     \<or> ag_previous_configuration st \<noteq> Some prev)
               then rejected ''scale-up current-only completion lacks durable PC/CC authority''
               else Ok ())
         else let prior_member = (\<exists>m \<in> set (members prev). m_identity m = ag_local st);
                  same_attempt_replay = (ag_current_configuration st = Some (ec_current_configuration c)
                    \<and> ag_previous_configuration st = Some prev);
                  admission_start = (prior_member \<and> ag_current_configuration st = Some prev
                    \<and> ag_previous_configuration st = None);
                  candidate_start = (ag_local st = su_target i \<and> ag_current_configuration st = None
                    \<and> ag_previous_configuration st = None)
              in if \<not> same_attempt_replay \<and> \<not> admission_start \<and> \<not> candidate_start
                    \<and> \<not> carried_failover H c st ev
                 then rejected ''scale-up PC/CC command does not extend durable accepted authority''
                 else Ok ())"

definition sequential_supersession :: "ScaleUpIntent \<Rightarrow> AgentState \<Rightarrow> bool" where
  "sequential_supersession i st \<longleftrightarrow>
     is_some_and (ag_scale_up_evidence st) (\<lambda>existing.
       sce_intent existing \<noteq> i
       \<and> ag_previous_configuration st = None
       \<and> ag_current_configuration st = Some (su_previous_configuration i)
       \<and> ag_admitted_policy st = Some (su_previous_policy i)
       \<and> su_build_id (sce_intent existing) \<in> ag_retired_builds st
       \<and> is_some_and (ag_completed_scale_up st) (\<lambda>r.
           ec_current_only (rcm_command r)
           \<and> ec_scale_up_evidence (rcm_command r) = Some existing
           \<and> ec_current_configuration (rcm_command r) = su_previous_configuration i))"

definition admit_scale_up_configuration ::
    "(bytes \<Rightarrow> bytes) \<Rightarrow> (ValidationError \<Rightarrow> string) \<Rightarrow> EnsureConfiguration \<Rightarrow> AgentState \<Rightarrow> bool
      \<Rightarrow> AdmittedAuthority host" where
  "admit_scale_up_configuration H D c st persisted =
     and_then (reject_check D (validate_scale_up_configuration H c)) (\<lambda>_.
     and_then (expect (ec_scale_up_evidence c)) (\<lambda>ev.
     let i = sce_intent ev; local = ag_local st
     in if su_resource_uid i \<noteq> ag_resource_uid st
           \<or> ec_local_replica_id c \<noteq> replica_id local
           \<or> ec_expected_instance_id c \<noteq> instance_id local
           \<or> ec_expected_agent_generation c \<noteq> agent_generation local
           \<or> ec_current_epoch c < ag_highest_epoch st
        then rejected ''scale-up command target or epoch differs from durable identity''
        else if is_some_and (ag_scale_up_evidence st) (\<lambda>existing. sce_intent existing \<noteq> i)
                \<and> \<not> sequential_supersession i st
        then rejected ''scale-up command conflicts with incomplete durable attempt authority''
        else
        and_then (case ev of Admission _ \<Rightarrow> Ok (False, False, False)
                  | FailoverEvidence e \<Rightarrow> admit_scale_up_failover H c st persisted e) (\<lambda>flags.
        and_then (if local = su_target i then scale_up_candidate_check H c st persisted i flags else Ok ()) (\<lambda>_.
        and_then (scale_up_start_check H c st persisted ev (fst flags)) (\<lambda>_.
        let a = \<lparr>au_local_identity = local,
                 au_transition_kind = then_some (\<not> ec_current_only c) (ec_transition_kind c),
                 au_previous_configuration = ec_previous_configuration c,
                 au_current_configuration = ec_current_configuration c,
                 au_switchover_handoff = None, au_secondary_removal = None, au_scale_up = Some ev\<rparr>
        in and_then (map_err (\<lambda>x. CommandRejected (contract_error_text x)) (au_validate H D a)) (\<lambda>_.
           and_then (map_err (\<lambda>x. CommandRejected (contract_error_text x)) (au_local_role a)) (\<lambda>r.
           if r = RoleNone
           then rejected ''scale-up authority does not assign the local replica''
           else Ok a)))))))"

section \<open>Configurations\<close>

definition is_access_only_configuration :: "EnsureConfiguration \<Rightarrow> AgentState \<Rightarrow> bool" where
  "is_access_only_configuration c st \<longleftrightarrow>
     \<not> ec_current_only c
     \<and> ec_previous_configuration c = None
     \<and> ag_previous_configuration st = None
     \<and> ag_current_configuration st = Some (ec_current_configuration c)
     \<and> ec_current_epoch c = ag_highest_epoch st
     \<and> ec_failover_safe_lsn c = None
     \<and> ec_retire_build_ids c = []
     \<and> ((ec_switchover_handoff c = None \<and> ec_retire_switchover_preparation_ids c = [])
        \<or> is_switchover_restoration c)
     \<and> is_some_and (find (\<lambda>m. m_identity m = ag_local st) (members (ec_current_configuration c)))
         (\<lambda>m. m_role m = ag_role st)"

abbreviation current_only_completion :: "EnsureConfiguration \<Rightarrow> AgentState \<Rightarrow> bool" where
  "current_only_completion c st \<equiv>
     ec_current_epoch c = ag_highest_epoch st
     \<and> ag_current_configuration st = Some (ec_current_configuration c)
     \<and> ag_previous_configuration st \<noteq> None \<and> ec_previous_configuration c = None"

abbreviation completed_current_only_replay :: "bool \<Rightarrow> EnsureConfiguration \<Rightarrow> AgentState \<Rightarrow> bool" where
  "completed_current_only_replay persisted c st \<equiv>
     persisted \<and> ec_current_only c \<and> ec_current_epoch c = ag_highest_epoch st
     \<and> ag_current_configuration st = Some (ec_current_configuration c)
     \<and> ag_previous_configuration st = None \<and> ec_previous_configuration c = None"

definition admit_command_fences :: "EnsureConfiguration \<Rightarrow> AgentState \<Rightarrow> bool \<Rightarrow> unit host" where
  "admit_command_fences c st persisted =
     (if ec_secondary_removal_evidence c \<noteq> None
         \<or> is_some_and (ec_previous_policy c) (\<lambda>p. p \<noteq> ec_effective_policy c)
      then rejected ''secondary scale-down execution is not enabled''
      else if ec_operation_id c = '''' then rejected ''operation ID must not be empty''
      else if ec_local_replica_id c \<noteq> replica_id (ag_local st)
              \<or> ec_expected_instance_id c \<noteq> instance_id (ag_local st)
              \<or> ec_expected_agent_generation c \<noteq> agent_generation (ag_local st)
      then rejected ''command target does not match durable replica identity''
      else if ec_current_epoch c \<noteq> c_epoch (ec_current_configuration c)
      then rejected ''current epoch differs from Current Configuration''
      else if map_option c_epoch (ec_previous_configuration c) \<noteq> ec_previous_epoch c
      then rejected ''previous epoch differs from Previous Configuration''
      else if ec_current_epoch c < ag_highest_epoch st
      then rejected ''command epoch regresses durable authority''
      else let exempt = (current_only_completion c st \<or> completed_current_only_replay persisted c st)
      in if ec_current_epoch c = ag_highest_epoch st \<and> \<not> exempt
            \<and> is_some_and (ag_current_configuration st) (\<lambda>cur. cur \<noteq> ec_current_configuration c)
         then rejected ''same-epoch command conflicts with durable Current Configuration''
         else if ec_current_epoch c = ag_highest_epoch st \<and> \<not> exempt
                 \<and> ag_previous_configuration st \<noteq> ec_previous_configuration c
         then rejected ''same-epoch command conflicts with durable Previous Configuration''
         else if ec_effective_policy c \<noteq> ag_policy st
         then rejected ''command policy differs from admitted policy''
         else Ok ())"

text \<open>A restoration names exactly one preparation, so \<open>retire_switchover_preparation_ids[0]\<close> exists.\<close>

definition admit_restoration :: "EnsureConfiguration \<Rightarrow> AgentState \<Rightarrow> bool \<Rightarrow> AdmittedAuthority host" where
  "admit_restoration c st persisted =
     (let retained = or_else (ag_prepared_switchover st) (if persisted then ag_retired_switchover st else None);
          retirement = hd (ec_retire_switchover_preparation_ids c)
      in if \<not> is_access_only_configuration c st
            \<or> (\<not> persisted \<and> is_some_and (ag_preparation_retirement st) (\<lambda>r.
                 prt_starting_epoch r = ec_current_epoch c
                 \<and> prt_starting_configuration_id r = configuration_id (ec_current_configuration c)
                 \<and> spi_generation retirement \<le> prt_generation r))
            \<or> is_some_and (ec_switchover_handoff c) (\<lambda>h. Some h \<noteq> retained)
            \<or> is_some_and (ag_prepared_switchover st) (\<lambda>p. retirement \<noteq> sh_preparation p)
         then rejected ''restoration requires exact starting authority and the whole retained certificate''
         else Ok \<lparr>au_local_identity = ag_local st, au_transition_kind = None,
                  au_previous_configuration = None,
                  au_current_configuration = ec_current_configuration c,
                  au_switchover_handoff = None, au_secondary_removal = None, au_scale_up = None\<rparr>)"

definition admit_write_grant :: "EnsureConfiguration \<Rightarrow> AgentState \<Rightarrow> unit host" where
  "admit_write_grant c st =
     (let local = ag_local st; cur = ec_current_configuration c;
          transition_grant =
            (ec_transition_kind c \<in> {Replacement, Failover, PlannedSwitchover}
             \<and> \<not> ec_current_only c
             \<and> ag_current_configuration st = ec_previous_configuration c
             \<and> primary_id cur = replica_id local
             \<and> (\<exists>m \<in> set (members cur). m_identity m = local \<and> m_role m = Primary));
          installed_grant = (ag_current_configuration st = Some cur \<and> ag_role st = Primary)
      in if ec_primary_write_status c = Granted \<and> ag_prepared_switchover st \<noteq> None
         then rejected ''retained switchover preparation forbids write grants''
         else if ec_primary_write_status c = Granted \<and> \<not> transition_grant \<and> \<not> installed_grant
         then rejected ''write grant requires the exact installed primary authority''
         else Ok ())"

definition admit_completion_shape ::
    "(bytes \<Rightarrow> bytes) \<Rightarrow> (ValidationError \<Rightarrow> string) \<Rightarrow> EnsureConfiguration \<Rightarrow> AgentState \<Rightarrow> bool \<Rightarrow> unit host" where
  "admit_completion_shape H D c st persisted =
     (if ec_current_only c
      then (if ec_previous_configuration c \<noteq> None
               \<or> (\<not> current_only_completion c st \<and> \<not> completed_current_only_replay persisted c st)
               \<or> ec_transition_kind c = Bootstrap
            then rejected ''current-only completion does not match durable PC/CC authority''
            else if ec_transition_kind c = Replacement \<and> ec_retire_build_ids c = []
            then rejected ''replacement current-only completion must retire its build''
            else Ok ())
      else if ec_retire_build_ids c \<noteq> []
      then rejected ''build retirement is valid only for current-only completion''
      else if ec_retire_switchover_preparation_ids c \<noteq> []
      then rejected ''switchover preparation retirement is valid only for current-only completion''
      else reject_check D (validate_transition_relationship H (ec_transition_kind c)
             (ec_previous_configuration c) (ec_current_configuration c) (ec_effective_policy c)))"

definition starting_authority_matches ::
    "EnsureConfiguration \<Rightarrow> SwitchoverHandoff \<Rightarrow> ConfigurationDescriptor \<Rightarrow> bool" where
  "starting_authority_matches c h cfg \<longleftrightarrow>
     (\<exists>m \<in> set (members cfg). m_identity m = sh_source h) \<and> (\<exists>m \<in> set (members cfg). m_identity m = sh_target h)
     \<and> (if \<exists>m \<in> set (members cfg). m_identity m = sh_source h \<and> m_role m = Primary
        then configuration_id cfg = sh_starting_configuration_id h \<and> c_epoch cfg = sh_starting_epoch h
        else (\<exists>m \<in> set (members cfg). m_identity m = sh_target h \<and> m_role m = Primary)
             \<and> primary_id (ec_current_configuration c) = replica_id (sh_source h)
             \<and> data_loss_number (c_epoch cfg) = data_loss_number (sh_starting_epoch h)
             \<and> configuration_number (c_epoch cfg) > configuration_number (sh_starting_epoch h))"

definition handoff_admissible :: "EnsureConfiguration \<Rightarrow> AgentState \<Rightarrow> bool \<Rightarrow> SwitchoverHandoff \<Rightarrow> bool" where
  "handoff_admissible c st persisted h \<longleftrightarrow>
     (let local = ag_local st; cur = ec_current_configuration c;
          ids = ec_retire_switchover_preparation_ids c;
          replay = completed_current_only_replay persisted c st;
          exact_command = (is_some_and (ag_reconfiguration st) (\<lambda>r. rcr_command r = c)
            \<or> is_some_and (ag_retained_command st) (\<lambda>r. rcm_command r = c));
          source_matches = (local \<noteq> sh_source h
            \<or> ag_prepared_switchover st = Some h
            \<or> (ag_retired_switchover st = Some h \<and> primary_id cur = replica_id (sh_source h)
               \<and> ec_current_epoch c > sh_starting_epoch h)
            \<or> (replay \<and> exact_command \<and> ag_prepared_switchover st = None))
      in source_matches
         \<and> ((replay \<and> exact_command)
            \<or> is_some_and (or_else (ec_previous_configuration c) (ag_previous_configuration st))
                (starting_authority_matches c h))
         \<and> (\<exists>m \<in> set (members cur). m_identity m = sh_source h)
         \<and> (\<exists>m \<in> set (members cur). m_identity m = sh_target h)
         \<and> (primary_id cur = replica_id (sh_source h) \<or> primary_id cur = replica_id (sh_target h))
         \<and> distinct ids
         \<and> (\<forall>p \<in> set ids. spi_operation_id p \<noteq> '''' \<and> spi_generation p \<noteq> 0)
         \<and> \<not> (ec_current_only c \<and> local = sh_source h \<and> ids \<noteq> [sh_preparation h])
         \<and> \<not> (ec_current_only c \<and> local \<noteq> sh_source h \<and> ids \<noteq> []))"

definition admit_handoff :: "EnsureConfiguration \<Rightarrow> AgentState \<Rightarrow> bool \<Rightarrow> unit host" where
  "admit_handoff c st persisted =
     (if ec_transition_kind c = PlannedSwitchover
      then (if ec_primary_write_status c = Granted
            then rejected ''planned switchover must remain write-closed until stable access convergence''
            else and_then (ok_or (ec_switchover_handoff c)
              (CommandRejected ''planned switchover authority requires a handoff certificate'')) (\<lambda>h.
              if \<not> handoff_admissible c st persisted h
              then rejected ''planned switchover handoff differs from configuration authority''
              else Ok ()))
      else if ec_switchover_handoff c \<noteq> None \<or> ec_retire_switchover_preparation_ids c \<noteq> []
      then rejected ''non-switchover command contains switchover evidence''
      else Ok ())"

definition admit_ordinary_configuration ::
    "(bytes \<Rightarrow> bytes) \<Rightarrow> (ValidationError \<Rightarrow> string) \<Rightarrow> EnsureConfiguration \<Rightarrow> AgentState \<Rightarrow> bool
      \<Rightarrow> AdmittedAuthority host" where
  "admit_ordinary_configuration H D c st persisted =
     (if ec_transition_kind c = Failover \<and> is_none_or (ec_failover_safe_lsn c) (\<lambda>l. l < 0)
      then rejected ''failover command requires a non-negative election-safe LSN''
      else if ec_transition_kind c \<in> {Bootstrap, Replacement, PlannedSwitchover}
              \<and> ec_failover_safe_lsn c \<noteq> None
      then rejected ''only failover authority can carry an election-safe LSN''
      else
      and_then (admit_write_grant c st) (\<lambda>_.
      and_then (admit_completion_shape H D c st persisted) (\<lambda>_.
      and_then (admit_handoff c st persisted) (\<lambda>_.
      let access_only = is_access_only_configuration c st;
          a = \<lparr>au_local_identity = ag_local st,
               au_transition_kind = then_some (\<not> ec_current_only c \<and> \<not> access_only) (ec_transition_kind c),
               au_previous_configuration = ec_previous_configuration c,
               au_current_configuration = ec_current_configuration c,
               au_switchover_handoff = ec_switchover_handoff c,
               au_secondary_removal = (if access_only then ag_secondary_removal_evidence st else None),
               au_scale_up = (if access_only then ag_scale_up_evidence st else None)\<rparr>
      in and_then (map_err (\<lambda>x. CommandRejected (contract_error_text x)) (au_validate H D a)) (\<lambda>_.
         if ec_transition_kind c \<noteq> Bootstrap then Ok a
         else and_then (map_err (\<lambda>x. CommandRejected (contract_error_text x)) (au_local_role a)) (\<lambda>r.
           if r = RoleNone then rejected ''bootstrap authority must assign a runtime role'' else Ok a))))))"

definition admit_configuration_with_replay ::
    "(bytes \<Rightarrow> bytes) \<Rightarrow> (ValidationError \<Rightarrow> string) \<Rightarrow> EnsureConfiguration \<Rightarrow> AgentState \<Rightarrow> bool
      \<Rightarrow> AdmittedAuthority host" where
  "admit_configuration_with_replay H D c st persisted =
     (if ag_retired_authority st \<noteq> None
      then rejected ''retired incarnation cannot admit authority''
      else if ec_transition_kind c = SecondaryScaleDown
      then admit_removal_configuration H D c st persisted
      else if removal_pending st
      then rejected ''prepared removal may only roll forward''
      else if ec_scale_up_evidence c \<noteq> None \<or> ec_transition_kind c = ScaleUp
      then admit_scale_up_configuration H D c st persisted
      else and_then (admit_command_fences c st persisted) (\<lambda>_.
        if is_switchover_restoration c then admit_restoration c st persisted
        else admit_ordinary_configuration H D c st persisted))"

definition admit_configuration ::
    "(bytes \<Rightarrow> bytes) \<Rightarrow> (ValidationError \<Rightarrow> string) \<Rightarrow> EnsureConfiguration \<Rightarrow> AgentState \<Rightarrow> AdmittedAuthority host" where
  "admit_configuration H D c st = admit_configuration_with_replay H D c st False"

definition admit_persisted_configuration ::
    "(bytes \<Rightarrow> bytes) \<Rightarrow> (ValidationError \<Rightarrow> string) \<Rightarrow> EnsureConfiguration \<Rightarrow> AgentState \<Rightarrow> AdmittedAuthority host" where
  "admit_persisted_configuration H D c st = admit_configuration_with_replay H D c st True"

end
