(* ===== verification/Provisioning.thy ===== *)
theory Provisioning
  imports Agent_Admission
begin

text \<open>
  \<open>kuberic-runtime/src/host/provisioning.rs\<close>: who may initialize a fresh agent store, and the check
  that an established store still belongs to its process. A store that was initialized for an
  observation passes the later check for the same observation.
\<close>

record ObservedStorageIdentity =
  obs_resource_uid :: ResourceUid
  obs_pod_uid :: PodUid
  obs_pvc_uid :: PvcUid
  obs_instance_id :: ReplicaInstanceId

datatype (plugins only: code) InitializationAuthority =
  InitBootstrap TransitionIntent | InitReplacement ProvisioningIntent | InitScaleUp ProvisioningIntent

abbreviation not_authorized :: "string \<Rightarrow> 'a host" where
  "not_authorized m \<equiv> Err (InitializationNotAuthorized m)"

definition ia_local_identity :: "InitializeAgentStore \<Rightarrow> ReplicaIdentity" where
  "ia_local_identity c = \<lparr>replica_id = ia_local_replica_id c, instance_id = ia_expected_instance_id c,
     agent_generation = ia_assigned_agent_generation c\<rparr>"

text \<open>The command names the replica, Pod, PVC and derived identities of the provisioning intent.\<close>

definition provisioning_matches :: "(bytes \<Rightarrow> bytes) \<Rightarrow> InitializeAgentStore \<Rightarrow> ProvisioningIntent \<Rightarrow> bool" where
  "provisioning_matches H c p \<longleftrightarrow>
     pi_replica_id p = ia_local_replica_id c \<and> pi_instance_id p = ia_expected_instance_id c
     \<and> pi_pod_uid p = ia_expected_pod_uid c \<and> pi_pvc_uid p = ia_expected_pvc_uid c
     \<and> pi_initialization_id H p (ia_resource_uid c) = ia_initialization_id c
     \<and> assigned_agent_generation H p (ia_resource_uid c) = ia_assigned_agent_generation c"

definition authorize_scale_up ::
    "(bytes \<Rightarrow> bytes) \<Rightarrow> (ValidationError \<Rightarrow> string) \<Rightarrow> InitializeAgentStore \<Rightarrow> ProvisioningIntent \<Rightarrow> unit host" where
  "authorize_scale_up H D c p =
     and_then (map_err (\<lambda>e. InitializationNotAuthorized (D e)) (validate_scale_up_provisioning H p)) (\<lambda>_.
     and_then (ok_or (pi_scale_up p)
       (InitializationNotAuthorized ''missing persisted scale-up provisioning authority'')) (\<lambda>s.
     and_then (expect (find (\<lambda>m. m_replica_id m = primary_id (sp_previous_configuration s))
                         (members (sp_previous_configuration s)))) (\<lambda>primary.
     if ia_provisioning c \<noteq> Some p
        \<or> sp_resource_uid s \<noteq> ia_resource_uid c
        \<or> \<not> provisioning_matches H c p
        \<or> ia_bootstrap_configuration c \<noteq> sp_previous_configuration s
        \<or> ia_effective_policy c \<noteq> sp_current_policy s
        \<or> m_role primary \<noteq> Primary
     then not_authorized ''command does not match exact persisted scale-up provisioning authority''
     else Ok ())))"

definition authorize_initialization ::
    "(bytes \<Rightarrow> bytes) \<Rightarrow> (ValidationError \<Rightarrow> string) \<Rightarrow> InitializeAgentStore \<Rightarrow> ObservedStorageIdentity
      \<Rightarrow> InitializationAuthority \<Rightarrow> StorageIdentity host" where
  "authorize_initialization H D c observed authority =
     (if ia_resource_uid c \<noteq> obs_resource_uid observed
         \<or> ia_expected_pod_uid c \<noteq> obs_pod_uid observed
         \<or> ia_expected_pvc_uid c \<noteq> obs_pvc_uid observed
         \<or> ia_expected_instance_id c \<noteq> obs_instance_id observed
      then not_authorized ''resource, Pod, PVC, or replica incarnation does not match observation''
      else if ia_initialization_id c
                \<noteq> derive_initialization_id H (ia_resource_uid c) (ia_local_replica_id c) (ia_expected_pod_uid c)
                    (ia_expected_pvc_uid c)
              \<or> ia_assigned_agent_generation c \<noteq> derive_agent_generation H (ia_initialization_id c)
      then not_authorized
        ''initialization ID or durable generation is not derived from exact storage identity''
      else and_then (case authority of
          InitBootstrap t \<Rightarrow>
            if ti_kind t \<noteq> Bootstrap
               \<or> ti_previous_configuration_id t \<noteq> None
               \<or> ti_effective_policy t \<noteq> ia_effective_policy c
               \<or> ti_current_configuration t \<noteq> ia_bootstrap_configuration c
               \<or> \<not> (\<exists>m \<in> set (members (ti_current_configuration t)). m_identity m = ia_local_identity c)
            then not_authorized ''command does not match the persisted Bootstrap transition''
            else Ok ()
        | InitReplacement p \<Rightarrow>
            if pi_replacement p = None \<or> \<not> provisioning_matches H c p
            then not_authorized ''command does not match persisted replacement provisioning''
            else Ok ()
        | InitScaleUp p \<Rightarrow> authorize_scale_up H D c p) (\<lambda>_.
      Ok \<lparr>sto_schema_version = 6, sto_resource_uid = ia_resource_uid c, sto_pod_uid = ia_expected_pod_uid c,
          sto_pvc_uid = ia_expected_pvc_uid c, sto_initialization_id = ia_initialization_id c,
          sto_local_identity = ia_local_identity c, sto_effective_policy = ia_effective_policy c\<rparr>))"

definition admit_initialization ::
    "(bytes \<Rightarrow> bytes) \<Rightarrow> (ValidationError \<Rightarrow> string) \<Rightarrow> InitializeAgentStore \<Rightarrow> ObservedStorageIdentity
      \<Rightarrow> InitializationAuthority \<Rightarrow> StorageIdentity host" where
  "admit_initialization H D c observed authority = authorize_initialization H D c observed authority"

definition validate_established_identity ::
    "StorageIdentity \<Rightarrow> ObservedStorageIdentity \<Rightarrow> ReplicaId \<Rightarrow> unit host" where
  "validate_established_identity x observed r =
     (if sto_resource_uid x \<noteq> obs_resource_uid observed
         \<or> sto_pod_uid x \<noteq> obs_pod_uid observed
         \<or> sto_pvc_uid x \<noteq> obs_pvc_uid observed
         \<or> replica_id (sto_local_identity x) \<noteq> r
         \<or> instance_id (sto_local_identity x) \<noteq> obs_instance_id observed
      then Err (IdentityMismatch
        ''established resource, Pod, PVC, or replica incarnation differs from this process'')
      else Ok ())"

lemma initialized_store_is_established:
  assumes "admit_initialization H D c observed authority = Ok x"
  shows "validate_established_identity x observed (ia_local_replica_id c) = Ok ()"
    "agent_generation (sto_local_identity x) = derive_agent_generation H (derive_initialization_id H
       (obs_resource_uid observed) (ia_local_replica_id c) (obs_pod_uid observed) (obs_pvc_uid observed))"
  using assms
  by (auto simp: admit_initialization_def authorize_initialization_def validate_established_identity_def
      ia_local_identity_def split: if_splits)

text \<open>The \<open>expect\<close> on the primary of the previous configuration is covered by its validation.\<close>

lemma admit_initialization_no_panic: "admit_initialization H D c observed authority \<noteq> Panic"
proof -
  have "authorize_scale_up H D c p \<noteq> Panic" for p
  proof
    assume panic: "authorize_scale_up H D c p = Panic"
    then obtain s where s: "pi_scale_up p = Some s" "validate_scale_up_provisioning H p = Ok ()"
      "find (\<lambda>m. m_replica_id m = primary_id (sp_previous_configuration s)) (members (sp_previous_configuration s)) = None"
      unfolding authorize_scale_up_def panic_simps by (auto simp: provisioning_no_panic split: if_splits)
    then have "validate_configuration H (sp_previous_configuration s) (Some (sp_previous_policy s)) = Ok ()"
      by (auto simp: validate_scale_up_provisioning_def validate_scale_up_provisioning_request_def
          provisioning_purpose_check_def pi_scale_up_def Let_def split: if_splits option.splits ProvisioningKind.splits)
    then obtain m where "m \<in> set (members (sp_previous_configuration s))"
      "m_replica_id m = primary_id (sp_previous_configuration s)" by (rule validated_primary_found)
    with find_ex_Some [of m _ "\<lambda>m. m_replica_id m = primary_id (sp_previous_configuration s)"] s(3)
    show False by fastforce
  qed
  then show ?thesis
    by (cases authority) (auto simp: admit_initialization_def authorize_initialization_def panic_simps)
qed

end
