(* ===== verification/Durable_Store.thy ===== *)
theory Durable_Store
  imports Authority Btree_Map
begin

text \<open>
  The durable authority, progress, write-journal and build tables of
  \<open>kuberic-runtime/src/host/sqlite_store.rs\<close>, behind the store traits of \<open>authority.rs\<close>. A table
  with a text key is a map from that key, and a row holds the value its JSON text encodes. An
  operation is one transaction: an error leaves every table as it was. The errors of the
  database itself (I/O, a poisoned lock, malformed JSON) are not modelled.
\<close>

section \<open>The tables\<close>

record DurableStore =
  ds_local_identity :: ReplicaIdentity
  ds_resource_uid :: ResourceUid
  ds_state_retired :: "RetiredAuthority option"
  ds_retired_builds :: "OperationId set"
  ds_abandoned_builds :: "OperationId set"
  ds_state_build_progress :: "(OperationId, DurableBuildProgress) btree_map"
  ds_authority :: "AdmittedAuthority option"
  ds_preparation :: "SecondaryRemovalPreparation option"
  ds_retired :: "RetiredAuthority option"
  ds_retirement_started :: "RetiredAuthority option"
  ds_commit :: "SecondaryScaleDownCleanup option"
  ds_selections :: "(ReplicaId, BuildSelection) btree_map"
  ds_replication_progress :: "(AuthorityFence \<times> ReplicationProgress) list"
  ds_local_writes :: "(OperationId, DurableLocalWrite) btree_map"
  ds_build_authority :: "(OperationId, BuildAuthority) btree_map"
  ds_build_progress :: "(OperationId, DurableBuildProgress) btree_map"

definition store_new :: "ReplicaIdentity \<Rightarrow> ResourceUid \<Rightarrow> DurableStore" where
  "store_new x uid =
     \<lparr>ds_local_identity = x, ds_resource_uid = uid, ds_state_retired = None, ds_retired_builds = {},
      ds_abandoned_builds = {}, ds_state_build_progress = [], ds_authority = None, ds_preparation = None,
      ds_retired = None, ds_retirement_started = None, ds_commit = None, ds_selections = [],
      ds_replication_progress = [], ds_local_writes = [], ds_build_authority = [], ds_build_progress = []\<rparr>"

text \<open>\<open>contract_transaction\<close>: commit on success, roll back on an error.\<close>

definition contract_transaction ::
    "(DurableStore \<Rightarrow> ('a \<times> DurableStore) contract) \<Rightarrow> DurableStore \<Rightarrow> 'a contract \<times> DurableStore" where
  "contract_transaction f s =
     (case f s of Ok (x, s') \<Rightarrow> (Ok x, s') | Err e \<Rightarrow> (Err e, s) | Panic \<Rightarrow> (Panic, s))"

section \<open>Authority\<close>

definition admit_body ::
    "(bytes \<Rightarrow> bytes) \<Rightarrow> AdmittedAuthority \<Rightarrow> DurableStore \<Rightarrow> (unit \<times> DurableStore) contract" where
  "admit_body H a s =
     (if ds_retired s \<noteq> None \<or> ds_retirement_started s \<noteq> None \<or> ds_state_retired s \<noteq> None
         \<or> au_local_identity a \<noteq> ds_local_identity s
      then Err (CtAuthorityMismatch ''retired or mismatched local authority'')
      else case ds_authority s of
          None \<Rightarrow> Ok ((), s\<lparr>ds_authority := Some a\<rparr>)
        | Some existing \<Rightarrow>
            if existing = a then Ok ((), s)
            else if c_epoch (au_current_configuration a) < c_epoch (au_current_configuration existing)
            then Err (CtAuthorityMismatch ''replica authority epoch regressed'')
            else if c_epoch (au_current_configuration a) = c_epoch (au_current_configuration existing)
                 \<and> \<not> au_is_current_only_completion_of H a existing
            then Err (CtAuthorityMismatch ''replica authority changed without a newer epoch'')
            else Ok ((), s\<lparr>ds_authority := Some a\<rparr>))"

definition store_admit ::
    "(bytes \<Rightarrow> bytes) \<Rightarrow> (ValidationError \<Rightarrow> string) \<Rightarrow> AdmittedAuthority \<Rightarrow> DurableStore
      \<Rightarrow> unit contract \<times> DurableStore" where
  "store_admit H D a s =
     (case au_validate H D a of
        Ok _ \<Rightarrow> contract_transaction (admit_body H a) s
      | Err e \<Rightarrow> (Err e, s)
      | Panic \<Rightarrow> (Panic, s))"

definition record_secondary_removal ::
    "(bytes \<Rightarrow> bytes) \<Rightarrow> (ValidationError \<Rightarrow> string) \<Rightarrow> SecondaryRemovalPreparation \<Rightarrow> DurableStore
      \<Rightarrow> unit contract \<times> DurableStore" where
  "record_secondary_removal H D p s =
     contract_transaction (\<lambda>s.
       and_then (contract_of_check D (validate_secondary_removal_preparation H p)) (\<lambda>_.
       if sd_primary (rp_intent p) \<noteq> ds_local_identity s \<or> sd_resource_uid (rp_intent p) \<noteq> ds_resource_uid s
          \<or> ds_state_retired s \<noteq> None
       then Err (CtAuthorityMismatch ''preparation belongs to another primary'')
       else case ds_preparation s of
           None \<Rightarrow> Ok ((), s\<lparr>ds_preparation := Some p\<rparr>)
         | Some existing \<Rightarrow>
             if existing = p then Ok ((), s)
             else if rp_operation_id existing = rp_operation_id p
                  \<or> c_epoch (sd_previous_configuration (rp_intent p))
                      < c_epoch (sd_current_configuration (rp_intent existing))
             then Err (CtAuthorityMismatch ''preparation regresses durable high-water authority'')
             else Ok ((), s\<lparr>ds_preparation := Some p\<rparr>))) s"

definition record_secondary_removal_commit ::
    "(bytes \<Rightarrow> bytes) \<Rightarrow> (ValidationError \<Rightarrow> string) \<Rightarrow> SecondaryScaleDownCleanup \<Rightarrow> DurableStore
      \<Rightarrow> unit contract \<times> DurableStore" where
  "record_secondary_removal_commit H D c s =
     contract_transaction (\<lambda>s.
       and_then (contract_of_check D (validate_secondary_scale_down_cleanup H c)) (\<lambda>_.
       if is_none_or (ds_authority s) (\<lambda>a. au_previous_configuration a \<noteq> None
            \<or> au_secondary_removal a \<noteq> Some (sdc_evidence c))
       then Err (CtAuthorityMismatch ''commit differs from admitted reduction'')
       else if is_some_and (ds_commit s) (\<lambda>old. old \<noteq> c
            \<and> c_epoch (sd_current_configuration (rp_intent (re_preparation (sdc_evidence old))))
                \<ge> c_epoch (sd_current_configuration (rp_intent (re_preparation (sdc_evidence c)))))
       then Err (CtAuthorityMismatch ''commit was mutated or regressed'')
       else Ok ((), s\<lparr>ds_commit := Some c\<rparr>))) s"

text \<open>Whether the exact retirement is already recorded; an error when it conflicts.\<close>

definition validate_retirement ::
    "(bytes \<Rightarrow> bytes) \<Rightarrow> (ValidationError \<Rightarrow> string) \<Rightarrow> RetiredAuthority \<Rightarrow> DurableStore \<Rightarrow> bool contract" where
  "validate_retirement H D r s =
     and_then (rta_validate H D r (ds_local_identity s)) (\<lambda>_.
     if sd_resource_uid (rr_intent (rta_report r)) \<noteq> ds_resource_uid s
     then Err (CtAuthorityMismatch ''retirement resource differs'')
     else if is_some_and (ds_retired s) (\<lambda>x. x \<noteq> r) \<or> is_some_and (ds_retirement_started s) (\<lambda>x. x \<noteq> r)
          \<or> is_some_and (ds_state_retired s) (\<lambda>x. x \<noteq> r)
     then Err (CtAuthorityMismatch ''conflicting durable retirement'')
     else if ds_retired s \<noteq> None then Ok True
     else if is_some_and (ds_authority s) (\<lambda>a. au_local_identity a \<noteq> ds_local_identity s
            \<or> au_current_configuration a \<noteq> sd_previous_configuration (rr_intent (rta_report r))
            \<or> au_previous_configuration a \<noteq> None)
     then Err (CtAuthorityMismatch ''retirement differs from installed authority'')
     else Ok False)"

definition record_retirement_started ::
    "(bytes \<Rightarrow> bytes) \<Rightarrow> (ValidationError \<Rightarrow> string) \<Rightarrow> RetiredAuthority \<Rightarrow> DurableStore
      \<Rightarrow> unit contract \<times> DurableStore" where
  "record_retirement_started H D r s =
     contract_transaction (\<lambda>s. and_then (validate_retirement H D r s) (\<lambda>already.
       if already then Ok ((), s) else Ok ((), s\<lparr>ds_retirement_started := Some r\<rparr>))) s"

definition store_retire ::
    "(bytes \<Rightarrow> bytes) \<Rightarrow> (ValidationError \<Rightarrow> string) \<Rightarrow> RetiredAuthority \<Rightarrow> DurableStore
      \<Rightarrow> unit contract \<times> DurableStore" where
  "store_retire H D r s =
     contract_transaction (\<lambda>s. and_then (validate_retirement H D r s) (\<lambda>already.
       if already then Ok ((), s)
       else Ok ((), s\<lparr>ds_retired := Some r, ds_authority := None, ds_retirement_started := None\<rparr>))) s"

text \<open>The loads of the authority rows.\<close>

definition store_load :: "DurableStore \<Rightarrow> AdmittedAuthority option" where
  "store_load s = ds_authority s"

definition load_secondary_removal :: "DurableStore \<Rightarrow> SecondaryRemovalPreparation option" where
  "load_secondary_removal s = ds_preparation s"

definition load_retired_authority :: "DurableStore \<Rightarrow> RetiredAuthority option" where
  "load_retired_authority s = ds_retired s"

definition load_retirement_started :: "DurableStore \<Rightarrow> RetiredAuthority option" where
  "load_retirement_started s = ds_retirement_started s"

definition load_secondary_removal_commit :: "DurableStore \<Rightarrow> SecondaryScaleDownCleanup option" where
  "load_secondary_removal_commit s = ds_commit s"

section \<open>Replication progress\<close>

definition load_replication_progress :: "AuthorityFence \<Rightarrow> DurableStore \<Rightarrow> ReplicationProgress option" where
  "load_replication_progress f s = map_of (ds_replication_progress s) f"

text \<open>\<open>ORDER BY verified_lsn DESC LIMIT 1\<close>: a row of the largest LSN. SQL leaves open which one of
  several; the model takes the last inserted.\<close>

definition load_configuration_progress ::
    "Epoch \<Rightarrow> ConfigurationId \<Rightarrow> DurableStore \<Rightarrow> ReplicationProgress option" where
  "load_configuration_progress e c s =
     map_option snd (max_by_key (\<lambda>(f, p). rpg_verified_lsn p)
       (filter (\<lambda>(f, p). f_epoch f = e \<and> f_current_configuration_id f = c) (ds_replication_progress s)))"

text \<open>\<open>INSERT ... ON CONFLICT(fence_json) DO UPDATE\<close>.\<close>

fun upsert :: "'k \<Rightarrow> 'v \<Rightarrow> ('k \<times> 'v) list \<Rightarrow> ('k \<times> 'v) list" where
  "upsert k v [] = [(k, v)]"
| "upsert k v ((l, w) # t) = (if l = k then (k, v) # t else (l, w) # upsert k v t)"

definition record_replication_progress ::
    "ReplicationProgress \<Rightarrow> DurableStore \<Rightarrow> unit contract \<times> DurableStore" where
  "record_replication_progress p s =
     contract_transaction (\<lambda>s.
       if is_some_and (load_replication_progress (rpg_fence p) s) (\<lambda>x. rpg_verified_lsn x > rpg_verified_lsn p)
       then Err (CtAuthorityMismatch ''replication progress regressed'')
       else Ok ((), s\<lparr>ds_replication_progress := upsert (rpg_fence p) p (ds_replication_progress s)\<rparr>)) s"

section \<open>Local write journal\<close>

fun phase_tag :: "LocalWritePhase \<Rightarrow> i64" where
  "phase_tag Reserved = 0"
| "phase_tag Registered = 1"
| "phase_tag Committed = 2"

definition load_local_write :: "OperationId \<Rightarrow> DurableStore \<Rightarrow> DurableLocalWrite option" where
  "load_local_write i s = bt_get (ds_local_writes s) i"

text \<open>The unfinished writes \<open>ORDER BY lsn, operation_id\<close>: a stable sort by LSN of the ordered table.\<close>

definition load_local_writes :: "DurableStore \<Rightarrow> DurableLocalWrite list" where
  "load_local_writes s =
     sort_key lw_lsn (filter (\<lambda>w. lw_phase w \<noteq> Committed) (bt_values (ds_local_writes s)))"

definition record_local_write :: "DurableLocalWrite \<Rightarrow> DurableStore \<Rightarrow> unit contract \<times> DurableStore" where
  "record_local_write w s =
     contract_transaction (\<lambda>s.
       case load_local_write (lw_operation_id w) s of
         Some x \<Rightarrow>
           if lw_lsn x \<noteq> lw_lsn w \<or> lw_committed_lsn x \<noteq> lw_committed_lsn w \<or> lw_data x \<noteq> lw_data w
           then Err (CtAuthorityMismatch ''local write identity or payload changed'')
           else if phase_tag (lw_phase w) < phase_tag (lw_phase x)
           then Err (CtAuthorityMismatch ''local write phase regressed'')
           else Ok ((), s\<lparr>ds_local_writes := bt_insert (lw_operation_id w) w (ds_local_writes s)\<rparr>)
       | None \<Rightarrow> Ok ((), s\<lparr>ds_local_writes := bt_insert (lw_operation_id w) w (ds_local_writes s)\<rparr>)) s"

definition reset_local_writes_after_data_loss :: "i64 \<Rightarrow> DurableStore \<Rightarrow> unit contract \<times> DurableStore" where
  "reset_local_writes_after_data_loss c s =
     contract_transaction (\<lambda>s. Ok ((), s\<lparr>ds_local_writes :=
       filter (\<lambda>(k, w). \<not> (lw_phase w \<noteq> Committed \<or> lw_lsn w > c)) (ds_local_writes s)\<rparr>)) s"

section \<open>Builds\<close>

definition build_closed :: "OperationId \<Rightarrow> DurableStore \<Rightarrow> bool" where
  "build_closed b s \<longleftrightarrow> b \<in> ds_retired_builds s \<or> b \<in> ds_abandoned_builds s"

definition load_build :: "OperationId \<Rightarrow> DurableStore \<Rightarrow> BuildAuthority option" where
  "load_build b s = (if build_closed b s then None else bt_get (ds_build_authority s) b)"

definition load_builds :: "DurableStore \<Rightarrow> BuildAuthority list" where
  "load_builds s = map snd (filter (\<lambda>(b, a). \<not> build_closed b s) (ds_build_authority s))"

definition admit_build ::
    "(bytes \<Rightarrow> bytes) \<Rightarrow> (ValidationError \<Rightarrow> string) \<Rightarrow> BuildAuthority \<Rightarrow> DurableStore
      \<Rightarrow> unit contract \<times> DurableStore" where
  "admit_build H D a s =
     contract_transaction (\<lambda>s.
       and_then (contract_of_check D (build_authority_validate H a)) (\<lambda>_.
       if build_closed (ba_build_id a) s
       then Err (CtAuthorityMismatch ''retired build authority cannot be admitted again'')
       else case bt_get (ds_build_authority s) (ba_build_id a) of
           Some x \<Rightarrow>
             if x \<noteq> a then Err (CtAuthorityMismatch ''build ID was reused with different authority'')
             else Ok ((), s)
         | None \<Rightarrow> Ok ((), s\<lparr>ds_build_authority := bt_insert (ba_build_id a) a (ds_build_authority s)\<rparr>))) s"

definition install_selection ::
    "BuildAuthority \<Rightarrow> u64 option \<Rightarrow> OperationId set \<Rightarrow> DurableStore \<Rightarrow> (BuildSelection \<times> DurableStore) contract" where
  "install_selection a generation dropped s =
     (case generation of
        None \<Rightarrow> Err (CtAuthorityMismatch ''build selection generation exhausted'')
      | Some g \<Rightarrow>
          let selection = \<lparr>bs_authority = a, bs_generation = g\<rparr>
          in Ok (selection, s\<lparr>ds_selections := bt_insert (replica_id (ba_target a)) selection (ds_selections s),
                             ds_abandoned_builds := ds_abandoned_builds s \<union> dropped\<rparr>))"

definition select_build :: "BuildAuthority \<Rightarrow> DurableStore \<Rightarrow> BuildSelection contract \<times> DurableStore" where
  "select_build a s =
     contract_transaction (\<lambda>s.
       if bt_get (ds_build_authority s) (ba_build_id a) \<noteq> Some a \<or> build_closed (ba_build_id a) s
       then Err (CtAuthorityMismatch ''custom build authority is not admitted'')
       else case bt_get (ds_selections s) (replica_id (ba_target a)) of
           None \<Rightarrow> install_selection a (Some 1) {} s
         | Some p \<Rightarrow>
             if bs_authority p = a then Ok (p, s)
             else if c_epoch (ba_current_configuration (bs_authority p)) > c_epoch (ba_current_configuration a)
             then Err (CtAuthorityMismatch ''custom build epoch regressed'')
             else install_selection a
                    (if bs_generation p = 18446744073709551615 then None else Some (bs_generation p + 1))
                    {ba_build_id (bs_authority p)} s) s"

definition load_build_selection :: "ReplicaIdentity \<Rightarrow> DurableStore \<Rightarrow> BuildSelection option" where
  "load_build_selection t s =
     opt_filter (\<lambda>p. ba_target (bs_authority p) = t \<and> \<not> build_closed (ba_build_id (bs_authority p)) s)
       (bt_get (ds_selections s) (replica_id t))"

definition build_progress_regressed :: "DurableBuildProgress \<Rightarrow> DurableBuildProgress \<Rightarrow> bool" where
  "build_progress_regressed existing p \<longleftrightarrow>
     bp_last_sequence p < bp_last_sequence existing \<or> bp_durable_lsn p < bp_durable_lsn existing
     \<or> (bp_completed existing \<and> \<not> bp_completed p)
     \<or> (bp_catch_up_boundary_lsn existing \<noteq> None
        \<and> bp_catch_up_boundary_lsn p \<noteq> bp_catch_up_boundary_lsn existing)"

definition record_build_progress_inner ::
    "DurableBuildProgress \<Rightarrow> BuildSelection option \<Rightarrow> DurableStore \<Rightarrow> unit contract \<times> DurableStore" where
  "record_build_progress_inner p selection s =
     contract_transaction (\<lambda>s.
       let a = bp_authority p; b = ba_build_id a
       in if is_some_and selection (\<lambda>x. bt_get (ds_selections s) (replica_id (ba_target a)) \<noteq> Some x
              \<or> bs_authority x \<noteq> a)
          then Err (CtAuthorityMismatch ''custom build selection was superseded'')
          else if build_closed b s
          then Err (CtAuthorityMismatch ''retired or abandoned build cannot publish progress'')
          else if bt_get (ds_build_authority s) b \<noteq> Some a
          then Err (CtAuthorityMismatch ''build progress lacks matching durable authorization'')
          else if is_some_and (bt_get (ds_build_progress s) b) (\<lambda>x. build_progress_regressed x p)
          then Err (CtAuthorityMismatch ''build progress regressed'')
          else Ok ((), s\<lparr>ds_build_progress := bt_insert b p (ds_build_progress s),
                        ds_state_build_progress := bt_insert b p (ds_state_build_progress s)\<rparr>)) s"

definition load_build_progress :: "OperationId \<Rightarrow> DurableStore \<Rightarrow> DurableBuildProgress option" where
  "load_build_progress b s = bt_get (ds_build_progress s) b"

definition record_build_progress ::
    "DurableBuildProgress \<Rightarrow> DurableStore \<Rightarrow> unit contract \<times> DurableStore" where
  "record_build_progress p s = record_build_progress_inner p None s"

definition record_selected_build_progress ::
    "BuildSelection \<Rightarrow> DurableBuildProgress \<Rightarrow> DurableStore \<Rightarrow> unit contract \<times> DurableStore" where
  "record_selected_build_progress x p s = record_build_progress_inner p (Some x) s"

end
