(* ===== verification/Agent_Store.thy ===== *)
theory Agent_Store
  imports Agent_Admission Durable_Store
begin

text \<open>
  \<open>kuberic-runtime/src/host/sqlite_store.rs\<close>, the \<open>AgentStore\<close> transactions of \<open>host/store.rs\<close>: the effect
  journal, the configuration coordinator and the build commands. The database is the agent's state row
  together with the tables of Durable_Store. A transaction that fails rolls everything back. SQLite and
  serialization errors are not modelled.
\<close>

section \<open>Database\<close>

record AgentStore =
  db_state :: AgentState
  db_tables :: DurableStore

text \<open>
  The fields of the state row that Durable_Store reads are columns of one row: writing the state
  changes them too.
\<close>

definition agent_view :: "AgentState \<Rightarrow> DurableStore \<Rightarrow> DurableStore" where
  "agent_view st t = t\<lparr>ds_local_identity := ag_local st, ds_resource_uid := ag_resource_uid st,
     ds_state_retired := ag_retired_authority st, ds_retired_builds := ag_retired_builds st,
     ds_abandoned_builds := ag_abandoned_builds st, ds_state_build_progress := ag_build_progress st\<rparr>"

definition write_agent_state :: "AgentState \<Rightarrow> AgentStore \<Rightarrow> AgentStore" where
  "write_agent_state st db = \<lparr>db_state = st, db_tables = agent_view st (db_tables db)\<rparr>"

definition with_transaction ::
    "(AgentStore \<Rightarrow> ('a \<times> AgentStore) host) \<Rightarrow> AgentStore \<Rightarrow> 'a host \<times> AgentStore" where
  "with_transaction f db =
     (case f db of Ok (x, db') \<Rightarrow> (Ok x, db') | Err e \<Rightarrow> (Err e, db) | Panic \<Rightarrow> (Panic, db))"

text \<open>A transaction that only reads and writes the state row.\<close>

definition state_transaction ::
    "(AgentState \<Rightarrow> ('a \<times> AgentState) host) \<Rightarrow> AgentStore \<Rightarrow> 'a host \<times> AgentStore" where
  "state_transaction f = with_transaction (\<lambda>db.
     and_then (f (db_state db)) (\<lambda>(x, st). Ok (x, write_agent_state st db)))"

definition complete_application_initialization :: "AgentStore \<Rightarrow> unit host \<times> AgentStore" where
  "complete_application_initialization = state_transaction (\<lambda>st.
     Ok ((), st\<lparr>ag_application_storage :=
       map_option (\<lambda>b. b\<lparr>asb_initializing := False\<rparr>) (ag_application_storage st)\<rparr>))"

section \<open>Beginning and applying an effect\<close>

datatype (plugins only: code) BeginEffect =
    BeginExecute RuntimeEffect
  | BeginPending RuntimeEffect
  | BeginApplied RuntimeEffect RuntimeEffectResult
  | BeginCompleted RuntimeEffectResult

definition conversion_authority :: "AcceptSecondaryRemovalCommit \<Rightarrow> AdmittedAuthority" where
  "conversion_authority c =
     \<lparr>au_local_identity = arc_target c, au_transition_kind = None, au_previous_configuration = None,
      au_current_configuration = sd_current_configuration (sdc_intent (arc_committed c)),
      au_switchover_handoff = None, au_secondary_removal = Some (sdc_evidence (arc_committed c)),
      au_scale_up = None\<rparr>"

definition validate_acceptance_conversion :: "AcceptSecondaryRemovalCommit \<Rightarrow> DurableStore \<Rightarrow> unit host" where
  "validate_acceptance_conversion c t =
     (let expected = conversion_authority c
      in if ds_authority t \<noteq> Some expected
            \<or> is_none_or (load_replication_progress (au_fence expected) t) (\<lambda>p.
                rpg_fence p \<noteq> au_fence expected
                \<or> rpg_verified_lsn p < rp_boundary_lsn (re_preparation (sdc_evidence (arc_committed c))))
         then rejected ''acceptance conversion requires exact durable authority and verified boundary''
         else Ok ())"

text \<open>The admission test of a historical acceptance and the fence of a retired incarnation.\<close>

definition begin_effect_guard ::
    "(bytes \<Rightarrow> bytes) \<Rightarrow> (ValidationError \<Rightarrow> string) \<Rightarrow> RuntimeEffect \<Rightarrow> AgentState \<Rightarrow> unit host" where
  "begin_effect_guard H D e st =
     and_then (case ef_action e of
         EffAcceptHistoricalSecondaryRemovalCommit c \<Rightarrow>
           and_then (admit_commit H D c st) (\<lambda>_.
             if \<not> arc_local_recovery c \<or> ef_operation_id e \<noteq> arc_operation_id c
             then rejected ''historical acceptance effect identity differs''
             else Ok ())
       | _ \<Rightarrow> Ok ()) (\<lambda>_.
     if ag_retired_authority st \<noteq> None \<and> (case ef_action e of EffRetireReplica r \<Rightarrow> False | _ \<Rightarrow> True)
     then rejected ''retired incarnation is permanently fenced''
     else Ok ())"

definition resume_pending ::
    "RuntimeEffect \<Rightarrow> PendingEffect \<Rightarrow> AgentStore \<Rightarrow> (BeginEffect \<times> AgentStore) host" where
  "resume_pending e p db =
     (if pe_effect p \<noteq> e
      then (case (ef_action (pe_effect p), ef_action e) of
              (EffAcceptSecondaryRemovalCommit committed, EffAcceptHistoricalSecondaryRemovalCommit c) \<Rightarrow>
                if ef_operation_id (pe_effect p) = ef_operation_id e \<and> ef_sequence (pe_effect p) = ef_sequence e
                   \<and> committed = arc_committed c
                then and_then (validate_acceptance_conversion c (db_tables db)) (\<lambda>_.
                  Ok (BeginPending e, write_agent_state ((db_state db)\<lparr>ag_pending_effect :=
                    Some \<lparr>pe_effect = e, pe_stage = IntentCommitted, pe_applied_result = None\<rparr>\<rparr>) db))
                else conflict ''another durable effect is pending''
            | _ \<Rightarrow> conflict ''another durable effect is pending'')
      else (case (pe_stage p, pe_applied_result p) of
              (IntentCommitted, None) \<Rightarrow> Ok (BeginPending (pe_effect p), db)
            | (EffectApplied, Some r) \<Rightarrow> Ok (BeginApplied (pe_effect p) r, db)
            | _ \<Rightarrow> Err (Corrupt ''pending effect stage and canonical result disagree'')))"

definition begin_effect_body ::
    "(bytes \<Rightarrow> bytes) \<Rightarrow> (ValidationError \<Rightarrow> string) \<Rightarrow> RuntimeEffect \<Rightarrow> AgentStore
      \<Rightarrow> (BeginEffect \<times> AgentStore) host" where
  "begin_effect_body H D e db =
     (let st = db_state db
      in and_then (begin_effect_guard H D e st) (\<lambda>_.
      case bt_get (ag_removal_effects st) (ef_operation_id e) of
        Some retained \<Rightarrow>
          if rec_effect (rtn_record retained) \<noteq> e then conflict ''removal effect operation was mutated''
          else Ok (BeginCompleted (rec_result (rtn_record retained)), db)
      | None \<Rightarrow>
        (case opt_filter (\<lambda>r. rtn_operation_id r = ef_operation_id e) (ag_retained_result st) of
           Some retained \<Rightarrow>
             if rec_effect (rtn_record retained) \<noteq> e
             then conflict ''operation ID was reused with a different effect''
             else Ok (BeginCompleted (rec_result (rtn_record retained)), db)
         | None \<Rightarrow>
             if ag_next_effect_sequence st = 18446744073709551615 \<or> ef_sequence e = 18446744073709551615
             then conflict ''effect sequence exhausted''
             else (case ag_pending_effect st of
               Some p \<Rightarrow> resume_pending e p db
             | None \<Rightarrow> Ok (BeginExecute e, write_agent_state (st\<lparr>ag_pending_effect :=
                 Some \<lparr>pe_effect = e, pe_stage = IntentCommitted, pe_applied_result = None\<rparr>\<rparr>) db)))))"

definition begin_effect ::
    "(bytes \<Rightarrow> bytes) \<Rightarrow> (ValidationError \<Rightarrow> string) \<Rightarrow> RuntimeEffect \<Rightarrow> AgentStore
      \<Rightarrow> BeginEffect host \<times> AgentStore" where
  "begin_effect H D e = with_transaction (begin_effect_body H D e)"

definition mark_effect_applied ::
    "RuntimeEffect \<Rightarrow> RuntimeEffectResult \<Rightarrow> AgentStore \<Rightarrow> unit host \<times> AgentStore" where
  "mark_effect_applied e r = state_transaction (\<lambda>st.
     and_then (ok_or (ag_pending_effect st) (DurableEffectConflict ''runtime effect has no durable intent'')) (\<lambda>p.
     if pe_effect p \<noteq> e
     then conflict ''runtime effect does not match durable intent''
     else and_then (map_err DurableEffectConflict (result_validate_for r e)) (\<lambda>_.
     if is_some_and (pe_applied_result p) (\<lambda>x. x \<noteq> r)
     then conflict ''runtime effect produced a changed canonical result''
     else Ok ((), st\<lparr>ag_pending_effect :=
            Some (p\<lparr>pe_stage := EffectApplied, pe_applied_result := Some r\<rparr>)\<rparr>))))"

definition cancel_effect :: "RuntimeEffect \<Rightarrow> AgentStore \<Rightarrow> unit host \<times> AgentStore" where
  "cancel_effect e = state_transaction (\<lambda>st.
     and_then (ok_or (ag_pending_effect st) (DurableEffectConflict ''runtime effect has no durable intent'')) (\<lambda>p.
     if pe_effect p \<noteq> e
     then conflict ''cancelled runtime effect does not match durable intent''
     else if pe_stage p = EffectApplied
             \<and> \<not> (case ef_action (pe_effect p) of
                    EffBuildReplica b t s \<Rightarrow> b \<in> ag_abandoned_builds st | _ \<Rightarrow> False)
     then conflict ''applied effect cancellation requires durable build abandonment''
     else Ok ((), st\<lparr>ag_pending_effect := None\<rparr>)))"

section \<open>Completing an effect\<close>

definition switchover_receipt_matches ::
    "SwitchoverReceipt \<Rightarrow> u64 \<Rightarrow> SwitchoverRequestId \<Rightarrow> ReplicaIdentity \<Rightarrow> ReplicaIdentity \<Rightarrow> ConfigurationId \<Rightarrow> Epoch
      \<Rightarrow> bool" where
  "switchover_receipt_matches r g q source target cid e \<longleftrightarrow>
     swr_preparation_generation r = g \<and> swr_request_id r = q \<and> swr_source r = source \<and> swr_target r = target
     \<and> swr_starting_configuration_id r = cid \<and> swr_starting_epoch r = e \<and> swr_handoff_lsn r \<ge> 0"

definition validate_native_token :: "NativeOperationToken \<Rightarrow> AdmittedAuthority option \<Rightarrow> unit host" where
  "validate_native_token t auth =
     (if nt_engine_session_id t = '''' \<or> nt_authority t \<noteq> auth
      then Err (StaleEffectCompletion ''topology receipt authority or engine session is stale'')
      else Ok ())"

text \<open>The policies that a newly admitted authority installs: the admitted and the previous one.\<close>

definition admitted_policies :: "AdmittedAuthority \<Rightarrow> AgentState \<Rightarrow> EffectivePolicy \<times> EffectivePolicy option" where
  "admitted_policies a st =
     (let prev = (\<lambda>p. map_option (\<lambda>_. p) (au_previous_configuration a))
      in case au_scale_up a of
           Some ev \<Rightarrow> (su_current_policy (sce_intent ev), prev (su_previous_policy (sce_intent ev)))
         | None \<Rightarrow>
             (case au_secondary_removal a of
                Some e \<Rightarrow> (sd_current_policy (re_intent e), prev (sd_previous_policy (re_intent e)))
              | None \<Rightarrow> (ag_policy st, prev (ag_policy st))))"

definition apply_admitted_authority :: "AuthorityCompletion \<Rightarrow> AgentState \<Rightarrow> AgentState" where
  "apply_admitted_authority c st =
     (let a = auc_authority c; cur = au_current_configuration a; policies = admitted_policies a st;
          kept = opt_filter (\<lambda>p. \<not> c_epoch cur > c_epoch (sd_current_configuration (rp_intent p)))
                   (ag_prepared_secondary_removal st);
          accepted = auc_accepted_secondary_removal c
      in st\<lparr>ag_read_status := auc_read_status c, ag_write_status := auc_write_status c,
            ag_previous_configuration := au_previous_configuration a,
            ag_current_configuration := Some cur,
            ag_highest_epoch := max (ag_highest_epoch st) (c_epoch cur),
            ag_secondary_removal_evidence := au_secondary_removal a,
            ag_scale_up_evidence := au_scale_up a,
            ag_admitted_policy := Some (fst policies), ag_previous_policy := snd policies,
            ag_accepted_secondary_removal := accepted,
            ag_prepared_secondary_removal :=
              (if is_some_and accepted (\<lambda>x. kept = Some (re_preparation (sdc_evidence x)))
               then None else kept)\<rparr>)"

definition apply_process_completion :: "ProcessCompletion \<Rightarrow> AgentState \<Rightarrow> AgentState" where
  "apply_process_completion c st =
     st\<lparr>ag_role := pcn_role c, ag_read_status := pcn_read_status c, ag_write_status := pcn_write_status c,
        ag_previous_configuration := Option.bind (pcn_authority c) au_previous_configuration,
        ag_current_configuration := map_option au_current_configuration (pcn_authority c)\<rparr>"

text \<open>One definition for each group of arms of the \<open>match\<close> of \<open>complete_effect\<close>.\<close>

definition complete_preparation ::
    "(bytes \<Rightarrow> bytes) \<Rightarrow> (ValidationError \<Rightarrow> string) \<Rightarrow> AdmittedAuthority option \<Rightarrow> OperationId
      \<Rightarrow> SecondaryScaleDownIntent \<Rightarrow> ProcessSessionId \<Rightarrow> u64 \<Rightarrow> SecondaryRemovalPreparationCompletion
      \<Rightarrow> AgentState \<Rightarrow> AgentState host" where
  "complete_preparation H D auth op i session n c st =
     and_then (ok_or (rpc_prepared_secondary_removal c)
       (DurableEffectConflict ''preparation omitted durable boundary'')) (\<lambda>p.
     and_then (map_err (\<lambda>e. DurableEffectConflict (D e)) (validate_secondary_removal_preparation H p)) (\<lambda>_.
     if rp_intent p \<noteq> i \<or> rp_process_session_id p \<noteq> session \<or> rp_report_sequence p \<noteq> n
        \<or> rp_operation_id p \<noteq> op
        \<or> rpc_role c \<noteq> Primary
        \<or> rpc_read_status c = Granted \<or> rpc_write_status c = Granted
        \<or> rpc_current_progress c < rp_boundary_lsn p
        \<or> is_none_or (rpc_authority c) (\<lambda>a. au_local_identity a \<noteq> sd_primary i
             \<or> au_current_configuration a \<noteq> sd_previous_configuration i \<or> au_previous_configuration a \<noteq> None)
        \<or> is_none_or (rpc_verified_replication_lsn c) (\<lambda>l. l < rp_boundary_lsn p)
        \<or> rpc_committed_lsn c > rp_boundary_lsn p
     then conflict ''preparation returned conflicting authority or progress''
     else and_then (check_some (rpc_receipt c) (\<lambda>r.
       if rpc_authority c \<noteq> auth
       then Err (StaleEffectCompletion ''secondary-removal preparation completed under a different authority'')
       else and_then (validate_native_token (nrr_token r) auth) (\<lambda>_.
         if nrr_preparation r \<noteq> Some p
         then conflict ''secondary-removal receipt does not match preparation'' else Ok ()))) (\<lambda>_.
     Ok (st\<lparr>ag_read_status := rpc_read_status c, ag_write_status := rpc_write_status c,
            ag_prepared_secondary_removal := Some p\<rparr>))))"

text \<open>A removal receipt, when present, carries a current token and matches the effect.\<close>

definition removal_receipt_check ::
    "AdmittedAuthority option \<Rightarrow> (NativeRemovalReceipt \<Rightarrow> bool) \<Rightarrow> string \<Rightarrow> NativeRemovalReceipt option
      \<Rightarrow> unit host" where
  "removal_receipt_check auth matching message receipt =
     check_some receipt (\<lambda>r. and_then (validate_native_token (nrr_token r) auth) (\<lambda>_.
       if \<not> matching r then conflict message else Ok ()))"

definition accept_removal :: "SecondaryScaleDownCleanup \<Rightarrow> AgentState \<Rightarrow> AgentState" where
  "accept_removal c st =
     st\<lparr>ag_accepted_secondary_removal := Some c,
        ag_prepared_secondary_removal :=
          (if ag_prepared_secondary_removal st = Some (re_preparation (sdc_evidence c)) then None
           else ag_prepared_secondary_removal st)\<rparr>"

definition complete_historical ::
    "(bytes \<Rightarrow> bytes) \<Rightarrow> (ValidationError \<Rightarrow> string) \<Rightarrow> AdmittedAuthority option \<Rightarrow> OperationId
      \<Rightarrow> AcceptSecondaryRemovalCommit \<Rightarrow> HistoricalSecondaryRemovalCompletion \<Rightarrow> AgentState \<Rightarrow> AgentState host" where
  "complete_historical H D auth op c r st =
     and_then (map_err (\<lambda>e. DurableEffectConflict (D e)) (validate_accept_secondary_removal_commit H c)) (\<lambda>_.
     let i = sdc_intent (arc_committed c)
     in if \<not> arc_local_recovery c
           \<or> arc_operation_id c \<noteq> op
           \<or> arc_target c \<noteq> ag_local st
           \<or> sd_resource_uid i \<noteq> ag_resource_uid st
           \<or> hrc_accepted_secondary_removal r \<noteq> arc_committed c
           \<or> hrc_role r \<noteq> ActiveSecondary
           \<or> hrc_write_status r = Granted
           \<or> \<not> hrc_role_transition_clear r
           \<or> is_none_or (hrc_authority r) (\<lambda>a. au_local_identity a \<noteq> arc_target c
                \<or> au_previous_configuration a \<noteq> None
                \<or> au_current_configuration a \<noteq> sd_current_configuration i
                \<or> au_secondary_removal a \<noteq> Some (sdc_evidence (arc_committed c)))
           \<or> is_none_or (hrc_verified_replication_lsn r)
                (\<lambda>l. l < rp_boundary_lsn (re_preparation (sdc_evidence (arc_committed c))))
        then conflict ''historical acceptance omitted exact local postcondition''
        else and_then (check_some (hrc_receipt r) (\<lambda>x.
          if hrc_authority r \<noteq> auth
          then Err (StaleEffectCompletion ''historical acceptance completed under a different authority'')
          else and_then (validate_native_token (nrr_token x) auth) (\<lambda>_.
            if nrr_accepted x \<noteq> Some (arc_committed c)
            then conflict ''historical acceptance receipt differs'' else Ok ()))) (\<lambda>_.
        Ok (accept_removal (arc_committed c) st)))"

definition terminal_closure :: "RetiredAuthority \<Rightarrow> RetirementCompletion \<Rightarrow> bool" where
  "terminal_closure r c \<longleftrightarrow>
     rcn_retired c = r \<and> \<not> rcn_open c \<and> rcn_role c = RoleNone \<and> rcn_read_status c = NotPrimary
     \<and> rcn_write_status c = NotPrimary \<and> rcn_authority c = None \<and> rcn_role_transition_clear c
     \<and> \<not> rcn_active_builds c"

definition retirement_receipt_check ::
    "bool \<Rightarrow> RetiredAuthority \<Rightarrow> string \<Rightarrow> RetirementReceipt option \<Rightarrow> unit host" where
  "retirement_receipt_check finished r message receipt =
     check_some receipt (\<lambda>x.
       if rtc_engine_session_id x = '''' \<or> rtc_completed x \<noteq> finished \<or> rtc_retired x \<noteq> r
       then conflict message else Ok ())"

definition complete_retire_replica ::
    "(bytes \<Rightarrow> bytes) \<Rightarrow> (ValidationError \<Rightarrow> string) \<Rightarrow> RetiredAuthority \<Rightarrow> RetirementCompletion \<Rightarrow> AgentState
      \<Rightarrow> AgentState host" where
  "complete_retire_replica H D r c st =
     and_then (map_err (\<lambda>e. DurableEffectConflict (contract_error_text e)) (rta_validate H D r (ag_local st))) (\<lambda>_.
     if \<not> terminal_closure r c
     then conflict ''retirement omitted terminal closure''
     else and_then (retirement_receipt_check True r ''retirement receipt does not match terminal retirement''
       (rcn_receipt c)) (\<lambda>_.
     Ok (st\<lparr>ag_role := rcn_role c, ag_read_status := rcn_read_status c, ag_write_status := rcn_write_status c,
            ag_previous_configuration := None, ag_current_configuration := None,
            ag_retired_authority := Some r,
            ag_highest_epoch := max (ag_highest_epoch st) (rr_epoch (rta_report r)),
            ag_previous_policy := None, ag_secondary_removal_evidence := None, ag_scale_up_evidence := None,
            ag_accepted_secondary_removal := None, ag_prepared_secondary_removal := None\<rparr>)))"

definition complete_fence_retirement :: "RetiredAuthority \<Rightarrow> RetirementCompletion \<Rightarrow> AgentState \<Rightarrow> AgentState host" where
  "complete_fence_retirement r c st =
     (if rcn_retired c \<noteq> r then conflict ''retirement fence identity differs''
      else and_then (retirement_receipt_check False r ''retirement fence receipt differs'' (rcn_receipt c)) (\<lambda>_.
      Ok (st\<lparr>ag_read_status := rcn_read_status c, ag_write_status := rcn_write_status c,
             ag_previous_configuration := Option.bind (rcn_authority c) au_previous_configuration,
             ag_current_configuration := map_option au_current_configuration (rcn_authority c)\<rparr>)))"

definition complete_retirement :: "RetiredAuthority \<Rightarrow> RetirementCompletion \<Rightarrow> AgentState \<Rightarrow> AgentState host" where
  "complete_retirement r c st =
     (if \<not> terminal_closure r c then conflict ''retirement completion omitted terminal closure''
      else and_then (retirement_receipt_check True r ''retirement completion receipt differs''
        (rcn_receipt c)) (\<lambda>_.
      Ok (st\<lparr>ag_role := rcn_role c, ag_read_status := rcn_read_status c, ag_write_status := rcn_write_status c,
             ag_previous_configuration := None, ag_current_configuration := None\<rparr>)))"

definition complete_epoch :: "AdmittedAuthority option \<Rightarrow> EpochCompletion \<Rightarrow> AgentState \<Rightarrow> AgentState host" where
  "complete_epoch auth c st =
     and_then (ok_or (or_else (map_option (\<lambda>a. c_epoch (au_current_configuration a)) auth)
                        (map_option c_epoch (ag_current_configuration st)))
       (DurableEffectConflict ''epoch completion has no durable authority'')) (\<lambda>expected.
     if epc_epoch c \<noteq> expected then conflict ''epoch completion differs from durable authority''
     else Ok (st\<lparr>ag_highest_epoch := max (ag_highest_epoch st) (epc_epoch c)\<rparr>))"

definition complete_switchover ::
    "AdmittedAuthority option \<Rightarrow> OperationId \<Rightarrow> u64 \<Rightarrow> SwitchoverRequestId \<Rightarrow> ReplicaIdentity \<Rightarrow> ReplicaIdentity
      \<Rightarrow> ConfigurationId \<Rightarrow> Epoch \<Rightarrow> SwitchoverCompletion \<Rightarrow> AgentState \<Rightarrow> AgentState host" where
  "complete_switchover auth op g q source target cid e c st =
     and_then (ok_or (swc_authority c)
       (DurableEffectConflict ''planned switchover preparation omitted admitted authority'')) (\<lambda>a.
     let invalid = ''planned switchover preparation returned an invalid result''; cur = au_current_configuration a
     in if g = 0 \<or> swc_role c \<noteq> Primary \<or> swc_write_status c \<noteq> ReconfigurationPending
           \<or> swc_current_progress c < 0 \<or> swc_committed_lsn c > swc_current_progress c
           \<or> au_local_identity a \<noteq> source \<or> configuration_id cur \<noteq> cid \<or> c_epoch cur \<noteq> e
        then conflict invalid
        else and_then (map_err (\<lambda>x. DurableEffectConflict (contract_error_text x)) (au_primary_identity a)) (\<lambda>primary.
        if primary \<noteq> source
           \<or> \<not> (\<exists>m \<in> set (members cur). m_identity m = target \<and> m_role m \<noteq> Primary)
        then conflict invalid
        else and_then (check_some (swc_receipt c) (\<lambda>r.
          if Some a \<noteq> auth
          then Err (StaleEffectCompletion ''planned switchover completed under a different authority'')
          else and_then (validate_native_token (swr_token r) auth) (\<lambda>_.
            if \<not> switchover_receipt_matches r g q source target cid e
            then conflict ''planned switchover receipt differs'' else Ok ()))) (\<lambda>_.
        let h = \<lparr>sh_preparation_generation = g, sh_preparation_operation_id = op, sh_request_id = q,
                 sh_source = source, sh_target = target, sh_starting_configuration_id = cid,
                 sh_starting_epoch = e,
                 sh_handoff_lsn = (case swc_receipt c of None \<Rightarrow> swc_current_progress c
                                   | Some r \<Rightarrow> swr_handoff_lsn r)\<rparr>
        in if is_some_and (ag_prepared_switchover st) (\<lambda>x. x \<noteq> h)
           then conflict ''another planned switchover preparation is retained''
           else Ok (st\<lparr>ag_write_status := swc_write_status c, ag_prepared_switchover := Some h\<rparr>))))"

definition complete_build :: "DurableStore \<Rightarrow> OperationId \<Rightarrow> BuildCompletion \<Rightarrow> AgentState \<Rightarrow> AgentState host" where
  "complete_build t b c st =
     (case bcn_state c of
        BuildDispatched \<Rightarrow> conflict ''build dispatch is not a terminal completion''
      | BuildCompleted x \<Rightarrow>
          let a = bpc_authority x
          in if \<not> bpc_completed x \<or> ba_build_id a \<noteq> b \<or> ba_target a \<noteq> bcn_target c
             then conflict ''build completion carries contradictory identity or state''
             else if bt_get (ds_build_authority t) b \<noteq> Some a
                     \<or> is_none_or (bt_get (ds_selections t) (replica_id (ba_target a))) (\<lambda>s. bs_authority s \<noteq> a)
                     \<or> b \<in> ag_abandoned_builds st \<or> b \<in> ag_retired_builds st
             then Err (StaleEffectCompletion ''build completion lost its durable authority or selection'')
             else and_then (ok_or (bt_get (ag_build_progress st) b)
                    (DurableEffectConflict ''build completion lacks durable progress'')) (\<lambda>p.
               if bp_authority p \<noteq> a \<or> bp_last_sequence p \<noteq> bpc_last_sequence x
                  \<or> bp_durable_lsn p \<noteq> bpc_durable_lsn x \<or> bp_completed p \<noteq> bpc_completed x
                  \<or> bp_catch_up_boundary_lsn p \<noteq> bpc_catch_up_boundary_lsn x
               then Err (StaleEffectCompletion ''build completion differs from durable build progress'')
               else Ok st)
      | BuildAbandoned \<Rightarrow>
          if b \<notin> ag_abandoned_builds st
          then conflict ''abandoned build completion lacks durable abandonment'' else Ok st)"

text \<open>
  The \<open>match\<close> of \<open>complete_effect\<close> on the pending action and the outcome. The new authority row of an
  admission is written by the caller.
\<close>

definition incompatible :: "AgentState host" where
  "incompatible = conflict ''effect outcome is incompatible with durable intent''"

definition apply_removal_outcome ::
    "(bytes \<Rightarrow> bytes) \<Rightarrow> (ValidationError \<Rightarrow> string) \<Rightarrow> AdmittedAuthority option \<Rightarrow> RuntimeEffect
      \<Rightarrow> RuntimeEffectOutcome \<Rightarrow> AgentState \<Rightarrow> AgentState host" where
  "apply_removal_outcome H D auth e out st =
     (case ef_action e of
        EffPrepareSecondaryRemoval i s n \<Rightarrow>
          (case out of OutSecondaryRemovalPrepared c \<Rightarrow>
             complete_preparation H D auth (ef_operation_id e) i s n c st | _ \<Rightarrow> incompatible)
      | EffObserveSecondaryRemovalWitness w \<Rightarrow>
          (case out of OutSecondaryRemovalWitnessObserved w' r \<Rightarrow>
             and_then (removal_receipt_check auth (\<lambda>x. nrr_witness x = Some w)
               ''secondary-removal receipt does not match witness'' r) (\<lambda>_. Ok st) | _ \<Rightarrow> incompatible)
      | EffObserveSecondaryRemovalProgress w c \<Rightarrow>
          (case out of OutSecondaryRemovalProgressObserved w' c' r \<Rightarrow>
             and_then (removal_receipt_check auth (\<lambda>x. nrr_witness x = Some w \<and> nrr_accepted x = Some c)
               ''secondary-removal receipt does not match observed progress'' r) (\<lambda>_. Ok st) | _ \<Rightarrow> incompatible)
      | EffAcceptSecondaryRemovalCommit c \<Rightarrow>
          (case out of OutSecondaryRemovalAccepted c' r \<Rightarrow>
             and_then (removal_receipt_check auth (\<lambda>x. nrr_accepted x = Some c)
               ''secondary-removal receipt does not match accepted cleanup'' r) (\<lambda>_. Ok (accept_removal c st))
           | _ \<Rightarrow> incompatible)
      | EffAcceptHistoricalSecondaryRemovalCommit c \<Rightarrow>
          (case out of OutHistoricalSecondaryRemovalAccepted r \<Rightarrow>
             complete_historical H D auth (ef_operation_id e) c r st | _ \<Rightarrow> incompatible)
      | EffRetireReplica r \<Rightarrow>
          (case out of OutReplicaRetired c \<Rightarrow> complete_retire_replica H D r c st | _ \<Rightarrow> incompatible)
      | EffFenceRetirement r \<Rightarrow>
          (case out of OutRetirementFenced c \<Rightarrow> complete_fence_retirement r c st | _ \<Rightarrow> incompatible)
      | EffCompleteRetirement r \<Rightarrow>
          (case out of OutRetirementCompleted c \<Rightarrow> complete_retirement r c st | _ \<Rightarrow> incompatible)
      | _ \<Rightarrow> incompatible)"

definition apply_outcome ::
    "(bytes \<Rightarrow> bytes) \<Rightarrow> (ValidationError \<Rightarrow> string) \<Rightarrow> DurableStore \<Rightarrow> RuntimeEffect \<Rightarrow> RuntimeEffectOutcome
      \<Rightarrow> AgentState \<Rightarrow> AgentState host" where
  "apply_outcome H D t e out st =
     (let auth = ds_authority t
      in case ef_action e of
        EffOpen m \<Rightarrow> (case out of OutOpened \<Rightarrow> Ok st | _ \<Rightarrow> incompatible)
      | EffRegisterPeerSession x s \<Rightarrow>
          (case out of OutPeerSessionRegistered x' s' \<Rightarrow> Ok st | _ \<Rightarrow> incompatible)
      | EffObserveReplicationAck k s \<Rightarrow>
          (case out of OutReplicationAckObserved k' s' \<Rightarrow> Ok st | _ \<Rightarrow> incompatible)
      | EffAdmitAuthority a \<Rightarrow>
          (case out of OutAuthorityAdmitted c \<Rightarrow> Ok (apply_admitted_authority c st) | _ \<Rightarrow> incompatible)
      | EffAuthorizeFailoverPrefix l \<Rightarrow>
          (case out of OutFailoverPrefixAuthorized l' r \<Rightarrow>
             and_then (check_some r (\<lambda>x. and_then (validate_native_token (cpr_token x) auth) (\<lambda>_.
               if cpr_settled_lsn x \<noteq> l then conflict ''certified-prefix receipt differs'' else Ok ())))
               (\<lambda>_. Ok st)
           | _ \<Rightarrow> incompatible)
      | EffAdmitBuildAuthority b \<Rightarrow> (case out of OutBuildAuthorityAdmitted b' \<Rightarrow> Ok st | _ \<Rightarrow> incompatible)
      | EffChangeRole r \<Rightarrow>
          (case out of OutRoleChanged c \<Rightarrow> Ok (st\<lparr>ag_role := rlc_role c\<rparr>) | _ \<Rightarrow> incompatible)
      | EffChangeReplicatorRole r \<Rightarrow> (case out of OutReplicatorRoleChanged c \<Rightarrow> Ok st | _ \<Rightarrow> incompatible)
      | EffUpdateEpoch \<Rightarrow> (case out of OutEpochUpdated c \<Rightarrow> complete_epoch auth c st | _ \<Rightarrow> incompatible)
      | EffChangeApplicationRole r \<Rightarrow>
          (case out of OutApplicationRoleChanged c receipt \<Rightarrow>
             and_then (check_some receipt (\<lambda>x. validate_native_token (cpr_token x) auth))
               (\<lambda>_. Ok (st\<lparr>ag_role := rlc_role c\<rparr>))
           | _ \<Rightarrow> incompatible)
      | EffWaitForCatchup \<Rightarrow>
          (case out of OutCatchUpCompleted c \<Rightarrow>
             if cuc_authority c \<noteq> auth
             then Err (StaleEffectCompletion ''catch-up completed under a different authority'') else Ok st
           | _ \<Rightarrow> incompatible)
      | EffSetAccessStatus r w \<Rightarrow>
          (case out of OutAccessChanged c \<Rightarrow>
             Ok (st\<lparr>ag_read_status := acc_read_status c, ag_write_status := acc_write_status c\<rparr>)
           | _ \<Rightarrow> incompatible)
      | EffSetReadStatus r \<Rightarrow>
          (case out of OutAccessChanged c \<Rightarrow> Ok (st\<lparr>ag_read_status := acc_read_status c\<rparr>) | _ \<Rightarrow> incompatible)
      | EffSetWriteStatus w \<Rightarrow>
          (case out of OutAccessChanged c \<Rightarrow> Ok (st\<lparr>ag_write_status := acc_write_status c\<rparr>) | _ \<Rightarrow> incompatible)
      | EffPrepareSwitchover g q s x cid ep \<Rightarrow>
          (case out of OutSwitchoverPrepared c \<Rightarrow>
             complete_switchover auth (ef_operation_id e) g q s x cid ep c st | _ \<Rightarrow> incompatible)
      | EffRefreshApplicationProgress \<Rightarrow>
          (case out of OutApplicationProgressRefreshed l \<Rightarrow> Ok st | _ \<Rightarrow> incompatible)
      | EffBuildReplica b x s \<Rightarrow> (case out of OutBuildReplica c \<Rightarrow> complete_build t b c st | _ \<Rightarrow> incompatible)
      | EffRetireBuild b \<Rightarrow>
          (case out of OutBuildRetired b' active \<Rightarrow>
             if active then conflict ''build retirement left the build active''
             else Ok (st\<lparr>ag_retired_builds := insert b (ag_retired_builds st)\<rparr>)
           | _ \<Rightarrow> incompatible)
      | EffClose \<Rightarrow> (case out of OutClosed c \<Rightarrow> Ok (apply_process_completion c st) | _ \<Rightarrow> incompatible)
      | EffAbort \<Rightarrow> (case out of OutAborted c \<Rightarrow> Ok (apply_process_completion c st) | _ \<Rightarrow> incompatible)
      | _ \<Rightarrow> apply_removal_outcome H D auth e out st)"

text \<open>The effects whose results are retained for good, and the retained record of a completion.\<close>

definition retain_result :: "RuntimeEffect \<Rightarrow> RuntimeEffectResult \<Rightarrow> AgentState \<Rightarrow> AgentState" where
  "retain_result e r st =
     (let retained = \<lparr>rtn_operation_id = er_operation_id r, rtn_record = \<lparr>rec_effect = e, rec_result = r\<rparr>\<rparr>;
          permanent = (case ef_action e of
              EffPrepareSecondaryRemoval i s n \<Rightarrow> True
            | EffRetireReplica x \<Rightarrow> True
            | EffAcceptHistoricalSecondaryRemovalCommit c \<Rightarrow> True
            | _ \<Rightarrow> False)
      in st\<lparr>ag_removal_effects :=
              (if permanent then bt_insert (er_operation_id r) retained (ag_removal_effects st)
               else ag_removal_effects st),
            ag_retained_result := Some retained\<rparr>)"

definition complete_pending ::
    "(bytes \<Rightarrow> bytes) \<Rightarrow> (ValidationError \<Rightarrow> string) \<Rightarrow> RuntimeEffectResult \<Rightarrow> PendingEffect \<Rightarrow> AgentStore
      \<Rightarrow> (unit \<times> AgentStore) host" where
  "complete_pending H D r p db =
     and_then (map_err DurableEffectConflict (result_validate_for r (pe_effect p))) (\<lambda>_.
     if pe_stage p \<noteq> EffectApplied \<or> pe_applied_result p \<noteq> Some r
     then conflict ''effect completion differs from the durably applied canonical result''
     else let st = (db_state db)\<lparr>ag_pending_effect := None\<rparr>; e = pe_effect p
     in and_then (case ef_action e of
            EffAcceptHistoricalSecondaryRemovalCommit c \<Rightarrow> admit_commit H D c st | _ \<Rightarrow> Ok ()) (\<lambda>_.
        and_then (apply_outcome H D (db_tables db) e (er_outcome r) st) (\<lambda>st'.
        if er_sequence r = 18446744073709551615 then conflict ''effect sequence exhausted''
        else let st'' = (retain_result e r st')\<lparr>ag_next_effect_sequence :=
                          max (ag_next_effect_sequence st') (er_sequence r + 1)\<rparr>;
                 t = (case er_outcome r of
                        OutAuthorityAdmitted c \<Rightarrow> (db_tables db)\<lparr>ds_authority := Some (auc_authority c)\<rparr>
                      | _ \<Rightarrow> db_tables db)
             in Ok ((), write_agent_state st'' (db\<lparr>db_tables := t\<rparr>)))))"

definition complete_effect_body ::
    "(bytes \<Rightarrow> bytes) \<Rightarrow> (ValidationError \<Rightarrow> string) \<Rightarrow> RuntimeEffectResult \<Rightarrow> AgentStore
      \<Rightarrow> (unit \<times> AgentStore) host" where
  "complete_effect_body H D r db =
     (let st = db_state db
      in case ag_pending_effect st of
           Some p \<Rightarrow> complete_pending H D r p db
         | None \<Rightarrow>
             (case or_else (bt_get (ag_removal_effects st) (er_operation_id r))
                     (opt_filter (\<lambda>x. rtn_operation_id x = er_operation_id r) (ag_retained_result st)) of
                Some retained \<Rightarrow>
                  if rec_result (rtn_record retained) = r then Ok ((), db)
                  else conflict ''retained effect completion changed its canonical result''
              | None \<Rightarrow> conflict ''effect completion has no durable intent''))"

definition complete_effect ::
    "(bytes \<Rightarrow> bytes) \<Rightarrow> (ValidationError \<Rightarrow> string) \<Rightarrow> RuntimeEffectResult \<Rightarrow> AgentStore \<Rightarrow> unit host \<times> AgentStore" where
  "complete_effect H D r = with_transaction (complete_effect_body H D r)"

section \<open>Configuration commands\<close>

datatype (plugins only: code) BeginConfiguration =
    ConfigurationExecute ReconfigurationRecord
  | ConfigurationPending ReconfigurationRecord
  | ConfigurationSuperseded ReconfigurationRecord
  | ConfigurationCompleted RetainedCommandResult

definition new_record :: "EnsureConfiguration \<Rightarrow> CoordinatorStage \<Rightarrow> ReconfigurationRecord" where
  "new_record c s = \<lparr>rcr_command = c, rcr_stage = s, rcr_observed_lsn = None\<rparr>"

definition resume_configuration ::
    "EnsureConfiguration \<Rightarrow> ReconfigurationRecord \<Rightarrow> AgentState \<Rightarrow> (BeginConfiguration \<times> AgentState) host" where
  "resume_configuration c pending st =
     (if rcr_command pending = c then Ok (ConfigurationPending pending, st)
      else if ec_current_epoch c \<le> ec_current_epoch (rcr_command pending)
      then conflict ''another configuration command is pending''
      else let owner = ec_operation_id (rcr_command pending) @ '':''
      in if is_some_and (ag_pending_effect st) (\<lambda>p.
              take (length owner) (ef_operation_id (pe_effect p)) \<noteq> owner)
         then conflict ''pending runtime effect is not owned by the superseded command''
         else let r = new_record c CsAdmitAuthority
              in Ok (ConfigurationSuperseded r,
                     st\<lparr>ag_pending_effect := None, ag_reconfiguration := Some r\<rparr>))"

definition begin_configuration :: "EnsureConfiguration \<Rightarrow> AgentStore \<Rightarrow> BeginConfiguration host \<times> AgentStore" where
  "begin_configuration c = state_transaction (\<lambda>st.
     case bt_get (ag_removal_commands st) (ec_operation_id c) of
       Some retained \<Rightarrow>
         if rcm_command retained \<noteq> c then conflict ''removal command operation was mutated''
         else Ok (ConfigurationCompleted retained, st)
     | None \<Rightarrow>
       (case opt_filter (\<lambda>r. ec_operation_id (rcm_command r) = ec_operation_id c) (ag_retained_command st) of
          Some retained \<Rightarrow>
            if rcm_command retained \<noteq> c
            then conflict ''operation ID was reused with different configuration authority''
            else Ok (ConfigurationCompleted retained, st)
        | None \<Rightarrow>
          (case ag_reconfiguration st of
             Some pending \<Rightarrow> resume_configuration c pending st
           | None \<Rightarrow>
               let r = new_record c (if is_access_only_configuration c st then CsActivate else CsAdmitAuthority)
               in Ok (ConfigurationExecute r, st\<lparr>ag_reconfiguration := Some r\<rparr>))))"

definition advance_configuration ::
    "OperationId \<Rightarrow> CoordinatorStage \<Rightarrow> CoordinatorStage \<Rightarrow> i64 option \<Rightarrow> AgentStore
      \<Rightarrow> ReconfigurationRecord host \<times> AgentStore" where
  "advance_configuration op expected nxt lsn = state_transaction (\<lambda>st.
     and_then (ok_or (ag_reconfiguration st)
       (DurableEffectConflict ''configuration command is not pending'')) (\<lambda>r.
     if ec_operation_id (rcr_command r) \<noteq> op \<or> rcr_stage r \<noteq> expected
     then conflict ''configuration stage does not match durable command''
     else let r' = r\<lparr>rcr_stage := nxt, rcr_observed_lsn := or_else lsn (rcr_observed_lsn r)\<rparr>;
              st' = st\<lparr>ag_reconfiguration := Some r'\<rparr>
          in Ok (r', if expected = CsDeactivate
                     then st'\<lparr>ag_deactivation := Some \<lparr>das_epoch = ec_current_epoch (rcr_command r'),
                            das_deactivated_lsn = unwrap_or (rcr_observed_lsn r') 0\<rparr>\<rparr>
                     else st')))"

text \<open>
  The part of \<open>complete_configuration\<close> that retires a switchover preparation: it moves the certificate
  to \<open>retired_switchover\<close> and raises the durable retirement mark.
\<close>

definition retire_certificate ::
    "EnsureConfiguration \<Rightarrow> SwitchoverPreparationId \<Rightarrow> AgentState \<Rightarrow> AgentState host" where
  "retire_certificate c retirement st =
     (if is_switchover_restoration c \<and> ec_switchover_handoff c = None
      then (if is_some_and (ag_prepared_switchover st) (\<lambda>p. sh_preparation p \<noteq> retirement)
            then conflict ''restoration retires another preparation''
            else Ok (case ag_prepared_switchover st of
                       Some p \<Rightarrow> st\<lparr>ag_prepared_switchover := None, ag_retired_switchover := Some p\<rparr>
                     | None \<Rightarrow> st))
      else and_then (ok_or (or_else (ag_prepared_switchover st) (ag_retired_switchover st))
             (DurableEffectConflict ''configuration retires missing switchover preparation'')) (\<lambda>p.
        if ec_switchover_handoff c \<noteq> Some p
        then conflict ''configuration retires a changed switchover certificate''
        else if ec_retire_switchover_preparation_ids c \<noteq> [sh_preparation p]
        then conflict ''configuration retires another switchover preparation''
        else Ok (st\<lparr>ag_retired_switchover := Some p, ag_prepared_switchover := None\<rparr>)))"

definition record_preparation_retirement ::
    "EnsureConfiguration \<Rightarrow> SwitchoverPreparationId \<Rightarrow> AgentState \<Rightarrow> AgentState host" where
  "record_preparation_retirement c retirement st =
     (let (e, cid) = (case ec_switchover_handoff c of
            None \<Rightarrow> (ec_current_epoch c, configuration_id (ec_current_configuration c))
          | Some h \<Rightarrow> (sh_starting_epoch h, sh_starting_configuration_id h))
      in if is_some_and (ag_preparation_retirement st) (\<lambda>r.
             prt_starting_epoch r > e
             \<or> (prt_starting_epoch r = e
                \<and> (prt_starting_configuration_id r \<noteq> cid \<or> prt_generation r > spi_generation retirement)))
         then conflict ''preparation retirement regresses durable fencing''
         else Ok (st\<lparr>ag_preparation_retirement := Some \<lparr>prt_starting_configuration_id = cid,
                prt_starting_epoch = e, prt_generation = spi_generation retirement\<rparr>\<rparr>))"

definition retire_preparations :: "EnsureConfiguration \<Rightarrow> AgentState \<Rightarrow> AgentState host" where
  "retire_preparations c st =
     (case ec_retire_switchover_preparation_ids c of
        [] \<Rightarrow> Ok st
      | retirement # _ \<Rightarrow>
          and_then (retire_certificate c retirement st) (record_preparation_retirement c retirement))"

definition finish_configuration :: "EnsureConfiguration \<Rightarrow> AgentState \<Rightarrow> RetainedCommandResult \<times> AgentState" where
  "finish_configuration c st =
     (let r = \<lparr>rcm_command = c, rcm_role = ag_role st, rcm_epoch = ag_highest_epoch st\<rparr>
      in (r, st\<lparr>ag_removal_commands :=
                (if ec_transition_kind c = SecondaryScaleDown
                 then bt_insert (ec_operation_id c) r (ag_removal_commands st) else ag_removal_commands st),
              ag_completed_scale_up :=
                (if ec_current_only c \<and> ec_scale_up_evidence c \<noteq> None then Some r
                 else ag_completed_scale_up st),
              ag_retained_command := Some r\<rparr>))"

definition complete_configuration :: "OperationId \<Rightarrow> AgentStore \<Rightarrow> RetainedCommandResult host \<times> AgentStore" where
  "complete_configuration op = state_transaction (\<lambda>st.
     and_then (ok_or (ag_reconfiguration st)
       (DurableEffectConflict ''configuration command is not pending'')) (\<lambda>r.
     let c = rcr_command r
     in if ec_operation_id c \<noteq> op \<or> rcr_stage r \<noteq> CsComplete
        then conflict ''configuration command has not reached its terminal stage''
        else and_then (retire_preparations c (st\<lparr>ag_reconfiguration := None\<rparr>))
               (\<lambda>st. Ok (finish_configuration c st))))"

section \<open>Build commands and reports\<close>

definition same_build_command :: "EnsureReplicaBuild \<Rightarrow> EnsureReplicaBuild \<Rightarrow> bool" where
  "same_build_command old c \<longleftrightarrow>
     eb_operation_id old = eb_operation_id c \<and> eb_local_replica_id old = eb_local_replica_id c
     \<and> eb_expected_instance_id old = eb_expected_instance_id c
     \<and> eb_expected_agent_generation old = eb_expected_agent_generation c
     \<and> eb_target old = eb_target c \<and> eb_authority old = eb_authority c \<and> eb_retire old = eb_retire c"

definition journal_build :: "EnsureReplicaBuild \<Rightarrow> AgentStore \<Rightarrow> EnsureReplicaBuild host \<times> AgentStore" where
  "journal_build c = state_transaction (\<lambda>st.
     if eb_operation_id c \<in> ag_retired_builds st \<or> eb_operation_id c \<in> ag_abandoned_builds st
     then rejected ''abandoned or retired build authority cannot be reopened''
     else case bt_get (ag_build_commands st) (eb_operation_id c) of
       Some existing \<Rightarrow>
         if \<not> same_build_command existing c
            \<or> (eb_authority existing = None \<and> eb_source_session_id existing \<noteq> eb_source_session_id c)
         then conflict ''build operation was reused with different immutable authority''
         else Ok (c, st\<lparr>ag_build_commands :=
                (if existing \<noteq> c then bt_insert (eb_operation_id c) c (ag_build_commands st)
                 else ag_build_commands st)\<rparr>)
     | None \<Rightarrow> Ok (c, st\<lparr>ag_build_commands := bt_insert (eb_operation_id c) c (ag_build_commands st)\<rparr>))"

definition owns_pending_build :: "EnsureReplicaBuild \<Rightarrow> RuntimeEffect \<Rightarrow> bool" where
  "owns_pending_build c e \<longleftrightarrow>
     (case ef_action e of
        EffBuildReplica b t s \<Rightarrow>
          b = eb_operation_id c \<and> t = eb_target c \<and> ef_operation_id e = eb_operation_id c @ '':build-replica''
      | EffRetireBuild b \<Rightarrow>
          b = eb_operation_id c \<and> ef_operation_id e = eb_operation_id c @ '':retire-abandoned-build''
      | _ \<Rightarrow> False)"

definition abandon_build ::
    "(bytes \<Rightarrow> bytes) \<Rightarrow> (ValidationError \<Rightarrow> string) \<Rightarrow> EnsureReplicaBuild \<Rightarrow> AgentStore \<Rightarrow> unit host \<times> AgentStore" where
  "abandon_build H D c = state_transaction (\<lambda>st.
     and_then (admit_build_command H D c st) (\<lambda>_.
     if eb_operation_id c \<in> ag_retired_builds st then Ok ((), st)
     else if is_some_and (ag_pending_effect st) (\<lambda>p. \<not> owns_pending_build c (pe_effect p))
     then conflict ''build abandonment conflicts with unrelated pending work''
     else Ok ((), st\<lparr>ag_abandoned_builds := insert (eb_operation_id c) (ag_abandoned_builds st)\<rparr>)))"

definition record_partition_reports ::
    "LoadMetric list \<Rightarrow> FaultType option \<Rightarrow> AgentStore \<Rightarrow> unit host \<times> AgentStore" where
  "record_partition_reports metrics fault = state_transaction (\<lambda>st.
     if (\<exists>m \<in> set metrics. lm_name m = '''' \<or> lm_value m < 0) \<or> \<not> distinct (map lm_name metrics)
     then rejected ''load metrics require unique nonempty names and nonnegative values''
     else Ok ((), st\<lparr>ag_load_metrics := metrics, ag_reported_fault := fault\<rparr>))"

end
