(* ===== verification/Store_Safety.thy ===== *)
theory Store_Safety
  imports Durable_Store Neighbour_Quorums
begin

text \<open>
  Safety of the durable store over every sequence of its transactions: an interface for
  histories that only move forward, interpreted for the admitted authority, the recorded
  progress, the write journal and the builds.
\<close>

section \<open>Transactions as steps\<close>

datatype (plugins only: code) store_op =
    StAdmit AdmittedAuthority
  | StPrepareRemoval SecondaryRemovalPreparation
  | StCommitRemoval SecondaryScaleDownCleanup
  | StRetirementStarted RetiredAuthority
  | StRetire RetiredAuthority
  | StReplicationProgress ReplicationProgress
  | StLocalWrite DurableLocalWrite
  | StResetWrites i64
  | StAdmitBuild BuildAuthority
  | StSelectBuild BuildAuthority
  | StBuildProgress DurableBuildProgress "BuildSelection option"

fun store_step :: "(bytes \<Rightarrow> bytes) \<Rightarrow> (ValidationError \<Rightarrow> string) \<Rightarrow> store_op \<Rightarrow> DurableStore \<Rightarrow> DurableStore" where
  "store_step H D (StAdmit a) s = snd (store_admit H D a s)"
| "store_step H D (StPrepareRemoval p) s = snd (record_secondary_removal H D p s)"
| "store_step H D (StCommitRemoval c) s = snd (record_secondary_removal_commit H D c s)"
| "store_step H D (StRetirementStarted r) s = snd (record_retirement_started H D r s)"
| "store_step H D (StRetire r) s = snd (store_retire H D r s)"
| "store_step H D (StReplicationProgress p) s = snd (record_replication_progress p s)"
| "store_step H D (StLocalWrite w) s = snd (record_local_write w s)"
| "store_step H D (StResetWrites c) s = snd (reset_local_writes_after_data_loss c s)"
| "store_step H D (StAdmitBuild a) s = snd (admit_build H D a s)"
| "store_step H D (StSelectBuild a) s = snd (select_build a s)"
| "store_step H D (StBuildProgress p x) s = snd (record_build_progress_inner p x s)"

text \<open>A step either keeps the store or ends in the store of a successful transaction.\<close>

lemma transaction_cases:
  assumes "P s" "\<And>x s'. f s = Ok (x, s') \<Longrightarrow> P s'"
  shows "P (snd (contract_transaction f s))"
  using assms by (auto simp: contract_transaction_def split: result.splits)

lemma transaction_keeps:
  assumes "\<And>x t. f s = Ok (x, t) \<Longrightarrow> g t = g s"
  shows "g (snd (contract_transaction f s)) = g s"
  using assms by (auto simp: contract_transaction_def split: result.splits)

lemmas store_op_defs = record_secondary_removal_def record_secondary_removal_commit_def
  record_retirement_started_def store_retire_def record_replication_progress_def record_local_write_def
  reset_local_writes_after_data_loss_def admit_build_def select_build_def install_selection_def
  record_build_progress_inner_def

section \<open>Forward histories\<close>

locale forward_history =
  fixes step :: "'op \<Rightarrow> 's \<Rightarrow> 's"
    and allowed :: "'op \<Rightarrow> bool"
    and inv :: "'s \<Rightarrow> bool"
    and later :: "'s \<Rightarrow> 's \<Rightarrow> bool"
  assumes inv_step: "inv s \<Longrightarrow> allowed op \<Longrightarrow> inv (step op s)"
    and later_step: "inv s \<Longrightarrow> allowed op \<Longrightarrow> later s (step op s)"
    and later_refl: "later s s"
    and later_trans: "later s t \<Longrightarrow> later t u \<Longrightarrow> later s u"
begin

lemma run_inv: "inv s \<Longrightarrow> list_all allowed ops \<Longrightarrow> inv (fold step ops s)"
  by (induction ops arbitrary: s) (auto simp: inv_step)

lemma run_later: "inv s \<Longrightarrow> list_all allowed ops \<Longrightarrow> later s (fold step ops s)"
proof (induction ops arbitrary: s)
  case (Cons op ops)
  then have "later s (step op s)" "later (step op s) (fold step ops (step op s))"
    by (auto simp: later_step inv_step)
  then show ?case by (auto intro: later_trans)
qed (simp add: later_refl)

end

section \<open>Authority\<close>

definition retirement_begun :: "DurableStore \<Rightarrow> bool" where
  "retirement_begun s \<longleftrightarrow> ds_retired s \<noteq> None \<or> ds_retirement_started s \<noteq> None"

definition authority_inv ::
    "(bytes \<Rightarrow> bytes) \<Rightarrow> (ValidationError \<Rightarrow> string) \<Rightarrow> DurableStore \<Rightarrow> bool" where
  "authority_inv H D s \<longleftrightarrow> (ds_retired s \<noteq> None \<longrightarrow> ds_authority s = None)
     \<and> (\<forall>a. ds_authority s = Some a \<longrightarrow> au_validate H D a = Ok () \<and> au_local_identity a = ds_local_identity s)"

text \<open>What a later store keeps: a retirement stays, no authority follows it, and an installed
  authority is only followed by one of a later epoch or by the same current configuration.\<close>

definition authority_later :: "DurableStore \<Rightarrow> DurableStore \<Rightarrow> bool" where
  "authority_later s t \<longleftrightarrow>
     (ds_retired s \<noteq> None \<longrightarrow> ds_retired t = ds_retired s)
     \<and> (retirement_begun s \<longrightarrow> retirement_begun t \<and> ds_authority t \<in> {ds_authority s, None})
     \<and> (\<forall>a. ds_authority s = Some a \<longrightarrow>
          (ds_authority t = None \<and> ds_retired t \<noteq> None)
          \<or> (\<exists>b. ds_authority t = Some b
              \<and> (c_epoch (au_current_configuration a) < c_epoch (au_current_configuration b)
                 \<or> au_current_configuration b = au_current_configuration a)))"

lemma admit_step:
  assumes "admit_body H a s = Ok (x, t)"
  shows "\<not> retirement_begun s" "ds_retired t = ds_retired s" "ds_retirement_started t = ds_retirement_started s"
    "ds_authority t = Some a" "au_local_identity a = ds_local_identity t"
    "ds_authority s = Some b \<Longrightarrow> c_epoch (au_current_configuration b) < c_epoch (au_current_configuration a)
       \<or> au_current_configuration a = au_current_configuration b"
  using assms
  by (auto simp: admit_body_def retirement_begun_def au_is_current_only_completion_of_def
      split: if_splits option.splits)

lemma store_admit_cases:
  assumes "P s" "\<And>x t. au_validate H D a = Ok () \<Longrightarrow> admit_body H a s = Ok (x, t) \<Longrightarrow> P t"
  shows "P (snd (store_admit H D a s))"
  using assms by (auto simp: store_admit_def contract_transaction_def split: result.splits)

lemma validate_retirement_D:
  assumes "validate_retirement H D r s = Ok already"
  shows "already \<longleftrightarrow> ds_retired s \<noteq> None" "ds_retired s \<noteq> None \<Longrightarrow> ds_retired s = Some r"
    "ds_retirement_started s \<noteq> None \<Longrightarrow> ds_retirement_started s = Some r"
    "\<not> already \<Longrightarrow> ds_authority s = Some a \<Longrightarrow> au_current_configuration a = sd_previous_configuration (rr_intent (rta_report r))"
  using assms by (auto simp: validate_retirement_def is_some_and_iff split: if_splits)

definition authority_part where
  "authority_part s = (ds_authority s, ds_retired s, ds_retirement_started s, ds_local_identity s)"

lemma authority_later_unchanged:
  assumes "authority_part t = authority_part s" "authority_inv H D s"
  shows "authority_inv H D t \<and> authority_later s t"
proof
  show "authority_inv H D t" using assms unfolding authority_part_def authority_inv_def by (simp only: prod.inject)
  show "authority_later s t" using assms(1) by (auto simp: authority_part_def authority_later_def retirement_begun_def)
qed

lemma authority_part_kept:
  "authority_part (snd (record_secondary_removal H D p s)) = authority_part s"
  "authority_part (snd (record_secondary_removal_commit H D c s)) = authority_part s"
  "authority_part (snd (record_replication_progress rp s)) = authority_part s"
  "authority_part (snd (record_local_write w s)) = authority_part s"
  "authority_part (snd (reset_local_writes_after_data_loss l s)) = authority_part s"
  "authority_part (snd (admit_build H D b s)) = authority_part s"
  "authority_part (snd (select_build b s)) = authority_part s"
  "authority_part (snd (record_build_progress_inner bp x s)) = authority_part s"
  unfolding store_op_defs
  by (rule transaction_keeps; auto simp: authority_part_def Let_def split: if_splits option.splits)+

lemma admit_later:
  assumes "au_validate H D a = Ok ()" "admit_body H a s = Ok (x, t)"
  shows "authority_inv H D t \<and> authority_later s t"
proof -
  note A = admit_step [OF assms(2)]
  have "ds_retired t = None" using A(1,2) by (simp add: retirement_begun_def)
  then have "authority_inv H D t" using A(4,5) assms(1) by (simp add: authority_inv_def)
  moreover have "authority_later s t" using A(1,4,6) by (auto simp: authority_later_def retirement_begun_def)
  ultimately show ?thesis by simp
qed

lemma authority_later_refl [simp]: "authority_later s s"
  by (auto simp: authority_later_def)

lemma retirement_later:
  assumes "authority_inv H D s" "validate_retirement H D r s = Ok False"
  shows "authority_inv H D (s\<lparr>ds_retirement_started := Some r\<rparr>)
      \<and> authority_later s (s\<lparr>ds_retirement_started := Some r\<rparr>)"
    "authority_inv H D (s\<lparr>ds_retired := Some r, ds_authority := None, ds_retirement_started := None\<rparr>)
      \<and> authority_later s (s\<lparr>ds_retired := Some r, ds_authority := None, ds_retirement_started := None\<rparr>)"
proof -
  have "ds_retired s = None" using validate_retirement_D(1) [OF assms(2)] by simp
  then have "authority_later s (s\<lparr>ds_retirement_started := Some r\<rparr>)"
    "authority_later s (s\<lparr>ds_retired := Some r, ds_authority := None, ds_retirement_started := None\<rparr>)"
    by (auto simp: authority_later_def retirement_begun_def)
  with assms(1) show "authority_inv H D (s\<lparr>ds_retirement_started := Some r\<rparr>)
      \<and> authority_later s (s\<lparr>ds_retirement_started := Some r\<rparr>)"
    "authority_inv H D (s\<lparr>ds_retired := Some r, ds_authority := None, ds_retirement_started := None\<rparr>)
      \<and> authority_later s (s\<lparr>ds_retired := Some r, ds_authority := None, ds_retirement_started := None\<rparr>)"
    by (simp_all add: authority_inv_def)
qed

lemma authority_step:
  assumes inv: "authority_inv H D s"
  shows "authority_inv H D (store_step H D op s) \<and> authority_later s (store_step H D op s)"
proof (cases op)
  case (StAdmit a)
  show ?thesis unfolding StAdmit store_step.simps
    by (rule store_admit_cases) (use inv admit_later in auto)
next
  case (StRetirementStarted r)
  show ?thesis unfolding StRetirementStarted store_step.simps record_retirement_started_def
    by (rule transaction_cases)
      (use inv retirement_later [OF inv] in \<open>auto split: if_splits\<close>)
next
  case (StRetire r)
  show ?thesis unfolding StRetire store_step.simps store_retire_def
    by (rule transaction_cases)
      (use inv retirement_later [OF inv] in \<open>auto split: if_splits\<close>)
qed (use inv in \<open>simp_all add: authority_later_unchanged authority_part_kept\<close>)

lemma authority_later_trans:
  assumes st: "authority_later s t" and tu: "authority_later t u"
  shows "authority_later s u"
proof -
  have "ds_retired s \<noteq> None \<longrightarrow> ds_retired u = ds_retired s"
    "retirement_begun s \<longrightarrow> retirement_begun u \<and> ds_authority u \<in> {ds_authority s, None}"
    using assms by (auto simp: authority_later_def)
  moreover have "(ds_authority u = None \<and> ds_retired u \<noteq> None)
      \<or> (\<exists>b. ds_authority u = Some b
          \<and> (c_epoch (au_current_configuration a) < c_epoch (au_current_configuration b)
             \<or> au_current_configuration b = au_current_configuration a))" (is "?later u")
    if a: "ds_authority s = Some a" for a
  proof (cases "ds_authority t")
    case None
    then have "ds_retired t \<noteq> None" using st a by (auto simp: authority_later_def)
    then show ?thesis using tu None by (auto simp: authority_later_def retirement_begun_def)
  next
    case (Some b)
    then have "?later t" using st a unfolding authority_later_def by blast
    with Some have ab: "c_epoch (au_current_configuration a) < c_epoch (au_current_configuration b)
        \<or> au_current_configuration b = au_current_configuration a" by auto
    from tu Some have "(ds_authority u = None \<and> ds_retired u \<noteq> None)
      \<or> (\<exists>c. ds_authority u = Some c
          \<and> (c_epoch (au_current_configuration b) < c_epoch (au_current_configuration c)
             \<or> au_current_configuration c = au_current_configuration b))"
      unfolding authority_later_def by blast
    with ab show ?thesis by (elim disjE exE conjE) (auto dest: order.strict_trans)
  qed
  ultimately show ?thesis unfolding authority_later_def by blast
qed

interpretation authority_history: forward_history "store_step H D" "\<lambda>_. True" "authority_inv H D" authority_later for H D
proof
  fix s t u :: DurableStore and op
  show "authority_inv H D s \<Longrightarrow> authority_inv H D (store_step H D op s)" "authority_inv H D s \<Longrightarrow> authority_later s (store_step H D op s)"
    using authority_step by blast+
  show "authority_later s s" by simp
  show "authority_later s t \<Longrightarrow> authority_later t u \<Longrightarrow> authority_later s u"
    by (rule authority_later_trans)
qed

section \<open>Progress, journal and builds\<close>

lemma map_of_upsert [simp]: "map_of (upsert k v xs) = (map_of xs)(k \<mapsto> v)"
  by (induction k v xs rule: upsert.induct) auto

definition progress_later :: "DurableStore \<Rightarrow> DurableStore \<Rightarrow> bool" where
  "progress_later s t \<longleftrightarrow> (\<forall>f p. load_replication_progress f s = Some p \<longrightarrow>
     (\<exists>q. load_replication_progress f t = Some q \<and> rpg_verified_lsn p \<le> rpg_verified_lsn q))"

definition write_advances :: "DurableLocalWrite \<Rightarrow> DurableLocalWrite \<Rightarrow> bool" where
  "write_advances w v \<longleftrightarrow> lw_lsn v = lw_lsn w \<and> lw_committed_lsn v = lw_committed_lsn w
     \<and> lw_data v = lw_data w \<and> phase_tag (lw_phase w) \<le> phase_tag (lw_phase v)"

definition journal_later :: "DurableStore \<Rightarrow> DurableStore \<Rightarrow> bool" where
  "journal_later s t \<longleftrightarrow> (\<forall>i w. load_local_write i s = Some w \<longrightarrow>
     (\<exists>v. load_local_write i t = Some v \<and> write_advances w v))"

definition selection_advances :: "OperationId set \<Rightarrow> BuildSelection \<Rightarrow> BuildSelection \<Rightarrow> bool" where
  "selection_advances closed p q \<longleftrightarrow>
     q = p \<or> (bs_generation p < bs_generation q \<and> ba_build_id (bs_authority p) \<in> closed)"

definition builds_later :: "DurableStore \<Rightarrow> DurableStore \<Rightarrow> bool" where
  "builds_later s t \<longleftrightarrow> ds_abandoned_builds s \<subseteq> ds_abandoned_builds t
     \<and> ds_retired_builds s \<subseteq> ds_retired_builds t
     \<and> (\<forall>b a. bt_get (ds_build_authority s) b = Some a \<longrightarrow> bt_get (ds_build_authority t) b = Some a)
     \<and> (\<forall>r p. bt_get (ds_selections s) r = Some p \<longrightarrow>
          (\<exists>q. bt_get (ds_selections t) r = Some q \<and> selection_advances (ds_abandoned_builds t) p q))
     \<and> (\<forall>b x. bt_get (ds_build_progress s) b = Some x \<longrightarrow>
          (\<exists>y. bt_get (ds_build_progress t) b = Some y \<and> \<not> build_progress_regressed x y))"

definition tables_part where
  "tables_part s = (ds_replication_progress s, ds_local_writes s, ds_abandoned_builds s, ds_retired_builds s,
     ds_build_authority s, ds_selections s, ds_build_progress s)"

lemma tables_part_kept:
  "tables_part (snd (store_admit H D a s)) = tables_part s"
  "tables_part (snd (record_secondary_removal H D p s)) = tables_part s"
  "tables_part (snd (record_secondary_removal_commit H D c s)) = tables_part s"
  "tables_part (snd (record_retirement_started H D r s)) = tables_part s"
  "tables_part (snd (store_retire H D r s)) = tables_part s"
proof -
  show "tables_part (snd (store_admit H D a s)) = tables_part s"
    by (rule store_admit_cases) (auto simp: admit_body_def tables_part_def split: if_splits option.splits)
qed (unfold store_op_defs, (rule transaction_keeps; auto simp: tables_part_def split: if_splits option.splits)+)

text \<open>A journal reset removes rows by design, so the journal moves forward between resets.\<close>

fun no_reset :: "store_op \<Rightarrow> bool" where
  "no_reset (StResetWrites c) = False"
| "no_reset op = True"

lemma advances_refl [simp]:
  "write_advances w w" "selection_advances S p p" "\<not> build_progress_regressed x x"
  by (auto simp: write_advances_def selection_advances_def build_progress_regressed_def)

lemma later_refl [simp]: "progress_later s s" "journal_later s s" "builds_later s s"
  by (auto simp: progress_later_def journal_later_def builds_later_def)

lemma tables_later:
  assumes "tables_part t = tables_part s"
  shows "progress_later s t" "journal_later s t" "builds_later s t"
  using assms
  by (simp_all add: tables_part_def progress_later_def journal_later_def builds_later_def
      load_replication_progress_def load_local_write_def)

lemmas progress_cases = transaction_cases [of "progress_later s" s for s]
lemmas journal_cases = transaction_cases [of "journal_later s" s for s]
lemmas builds_cases = transaction_cases [of "builds_later s" s for s]

lemma progress_kept:
  "ds_replication_progress t = ds_replication_progress s \<Longrightarrow> progress_later s t"
  by (simp add: progress_later_def load_replication_progress_def)

lemma progress_step: "progress_later s (store_step H D op s)"
proof (cases op)
  case (StReplicationProgress p)
  show ?thesis unfolding StReplicationProgress store_step.simps record_replication_progress_def
    by (rule progress_cases)
      (auto simp: progress_later_def load_replication_progress_def split: if_splits)
qed (simp_all add: tables_later tables_part_kept,
     (unfold store_op_defs Let_def, (rule progress_cases; auto intro!: progress_kept split: if_splits option.splits)+))

lemma journal_kept:
  "ds_local_writes t = ds_local_writes s \<Longrightarrow> journal_later s t"
  by (simp add: journal_later_def load_local_write_def write_advances_def)

lemma journal_step:
  assumes "no_reset op"
  shows "journal_later s (store_step H D op s)"
proof (cases op)
  case (StLocalWrite w)
  show ?thesis unfolding StLocalWrite store_step.simps record_local_write_def
    by (rule journal_cases)
      (auto simp: journal_later_def load_local_write_def write_advances_def not_less split: if_splits option.splits)
qed (use assms in \<open>simp_all add: tables_later tables_part_kept\<close>,
     (unfold store_op_defs Let_def, (rule journal_cases; auto intro!: journal_kept split: if_splits option.splits)+))

lemma builds_kept:
  "ds_abandoned_builds t = ds_abandoned_builds s \<Longrightarrow> ds_retired_builds t = ds_retired_builds s \<Longrightarrow>
   ds_build_authority t = ds_build_authority s \<Longrightarrow> ds_selections t = ds_selections s \<Longrightarrow>
   ds_build_progress t = ds_build_progress s \<Longrightarrow> builds_later s t"
  by (simp add: builds_later_def)

lemma u64_increases: "(x :: u64) \<noteq> 18446744073709551615 \<Longrightarrow> x < x + 1"
proof -
  assume "x \<noteq> 18446744073709551615"
  moreover have "(18446744073709551615 :: u64) = - 1" by simp
  ultimately have "x + 1 \<noteq> 0" by (metis eq_neg_iff_add_eq_0)
  then show "x < x + 1" using unatSuc [of x] by (simp add: word_less_nat_alt add.commute)
qed

lemma install_selection_later:
  assumes "install_selection a g dropped s = Ok (x, t)"
    "\<And>p. bt_get (ds_selections s) (replica_id (ba_target a)) = Some p \<Longrightarrow>
       ba_build_id (bs_authority p) \<in> dropped \<and> (\<forall>n. g = Some n \<longrightarrow> bs_generation p < n)"
  shows "builds_later s t"
  using assms by (auto simp: install_selection_def builds_later_def selection_advances_def Let_def split: option.splits)

lemma select_build_later: "builds_later s (snd (select_build a s))"
  unfolding select_build_def
  by (rule builds_cases)
    (auto intro!: install_selection_later u64_increases split: if_splits option.splits)

lemma build_progress_later: "builds_later s (snd (record_build_progress_inner p x s))"
  unfolding record_build_progress_inner_def Let_def
  by (rule builds_cases) (auto simp: builds_later_def split: if_splits)

lemma builds_step: "builds_later s (store_step H D op s)"
proof (cases op)
  case (StAdmitBuild a)
  show ?thesis unfolding StAdmitBuild store_step.simps admit_build_def
    by (rule builds_cases) (auto simp: builds_later_def split: if_splits option.splits)
qed (simp_all add: tables_later tables_part_kept select_build_later build_progress_later,
     (unfold store_op_defs Let_def, (rule builds_cases; auto intro!: builds_kept split: if_splits option.splits)+))

section \<open>Write quorums of an admitted authority\<close>

lemma contract_of_check_Ok [simp]: "contract_of_check D r = Ok u \<longleftrightarrow> r = Ok u"
  by (cases r) (auto simp: contract_of_check_def)

lemma admitted_growth:
  assumes v: "au_validate_scale_up H D a ev = Ok ()" and p: "au_previous_configuration a = Some p"
    and small: "length (members (au_current_configuration a)) < 4294967296"
  shows "neighbours H p (au_current_configuration a)" "c_epoch p < c_epoch (au_current_configuration a)"
proof -
  let ?i = "sce_intent ev" and ?c = "au_current_configuration a"
  have ok: "validate_scale_up H ?i = Ok ()"
    using v unfolding au_validate_scale_up_def Let_def and_then_Ok_iff by auto
  have prev: "p = su_previous_configuration ?i"
    using v p unfolding au_validate_scale_up_def Let_def and_then_Ok_iff if_Err_Ok_iff
    by (cases ev) (auto simp: previous_matches_def)
  have "validate_configuration H ?c (Some (su_current_policy ?i)) = Ok ()
      \<and> exact_identities ?c = exact_identities (su_current_configuration ?i)
      \<and> c_epoch p < c_epoch ?c"
  proof (cases ev)
    case (Admission j)
    then have "?c = su_current_configuration ?i"
      using v unfolding au_validate_scale_up_def Let_def and_then_Ok_iff if_Err_Ok_iff by auto
    with scale_up_Ok_D(4) [OF ok] scale_up_epoch [OF ok] prev show ?thesis by (simp add: epoch_less_iff)
  next
    case (FailoverEvidence e)
    then have "validate_failover_configuration H e ?c (su_current_policy ?i) = Ok ()" "?i = sf_intent e"
      using v unfolding au_validate_scale_up_def Let_def and_then_Ok_iff if_Err_Ok_iff
      by (auto simp: validate_scale_up_failover_transition_def)
    with failover_configuration_Ok_D [OF this(1)] scale_up_epoch [OF ok] prev show ?thesis
      by (simp add: epoch_less_iff)
  qed
  then have C: "validate_configuration H ?c (Some (su_current_policy ?i)) = Ok ()"
    "exact_identities ?c = exact_identities (su_current_configuration ?i)" "c_epoch p < c_epoch ?c" by auto
  have "length (members ?c) = length (members (su_current_configuration ?i))"
    using card_exact_identities [OF C(1)] card_exact_identities [OF scale_up_Ok_D(4) [OF ok]] C(2) by simp
  then show "neighbours H p ?c" "c_epoch p < c_epoch ?c"
    using growth_neighbours [OF ok _ C(2)] small C(1,3) scale_up_Ok_D(2) [OF ok] prev
    by (auto simp: accepted_under_def)
qed

lemma admitted_removal:
  assumes v: "au_validate_removal H D a e = Ok ()" and p: "au_previous_configuration a = Some p"
    and small: "length (members p) < 4294967296"
  shows "neighbours H p (au_current_configuration a)" "c_epoch p < c_epoch (au_current_configuration a)"
proof -
  let ?i = "rp_intent (re_preparation e)"
  have "validate_secondary_removal_evidence H e (au_previous_configuration a = None) = Ok ()"
    and eq: "p = sd_previous_configuration ?i" "au_current_configuration a = sd_current_configuration ?i"
    using v p unfolding au_validate_removal_def Let_def and_then_Ok_iff if_Err_Ok_iff
    by (auto simp: previous_matches_def)
  then have "validate_secondary_scale_down H ?i = Ok ()" by (intro removal_evidence_D(1))
  then show "neighbours H p (au_current_configuration a)" "c_epoch p < c_epoch (au_current_configuration a)"
    unfolding eq using removal_neighbours scale_down_Ok_D(5) small eq(1) by auto
qed

lemma admitted_relationship:
  assumes v: "au_relationship H D a policy = Ok ()" and p: "au_previous_configuration a = Some p"
    and small: "length (members p) < 4294967296" "length (members (au_current_configuration a)) < 4294967296"
  shows "neighbours H p (au_current_configuration a)" "c_epoch p < c_epoch (au_current_configuration a)"
proof -
  obtain k where "k \<noteq> Bootstrap"
    "validate_transition_relationship H k (Some p) (au_current_configuration a) policy = Ok ()"
    using v p by (auto simp: au_relationship_def split: option.splits if_splits)
  from relationship_neighbours [OF this(2,1) small]
  show "neighbours H p (au_current_configuration a)" "c_epoch p < c_epoch (au_current_configuration a)" .
qed

lemma admitted_neighbours:
  assumes v: "au_validate H D a = Ok ()" and p: "au_previous_configuration a = Some p"
    and small: "length (members p) < 4294967296" "length (members (au_current_configuration a)) < 4294967296"
  shows "neighbours H p (au_current_configuration a)" "c_epoch p < c_epoch (au_current_configuration a)"
  using v admitted_removal [OF _ p small(1), of H D] admitted_growth [OF _ p small(2), of H D]
    admitted_relationship [OF _ p small, of H D]
  by (auto simp: au_validate_def ok_simps split: option.splits)

section \<open>Runs of the store\<close>

lemma progress_later_trans: "progress_later s t \<Longrightarrow> progress_later t u \<Longrightarrow> progress_later s u"
  unfolding progress_later_def by (meson order_trans)

lemma write_advances_trans: "write_advances w v \<Longrightarrow> write_advances v x \<Longrightarrow> write_advances w x"
  by (auto simp: write_advances_def)

lemma journal_later_trans: "journal_later s t \<Longrightarrow> journal_later t u \<Longrightarrow> journal_later s u"
  unfolding journal_later_def by (meson write_advances_trans)

lemma build_progress_regressed_trans:
  "\<not> build_progress_regressed x y \<Longrightarrow> \<not> build_progress_regressed y z \<Longrightarrow> \<not> build_progress_regressed x z"
  by (auto simp: build_progress_regressed_def not_less)

lemma selection_advances_trans:
  "selection_advances S p q \<Longrightarrow> selection_advances T q r \<Longrightarrow> S \<subseteq> T \<Longrightarrow> selection_advances T p r"
  by (auto simp: selection_advances_def)

lemma builds_later_trans:
  assumes "builds_later s t" "builds_later t u"
  shows "builds_later s u"
  unfolding builds_later_def
proof (intro conjI allI impI)
  show "ds_abandoned_builds s \<subseteq> ds_abandoned_builds u" "ds_retired_builds s \<subseteq> ds_retired_builds u"
    using assms unfolding builds_later_def by blast+
  fix b a assume "bt_get (ds_build_authority s) b = Some a"
  then show "bt_get (ds_build_authority u) b = Some a" using assms unfolding builds_later_def by blast
next
  fix r p assume "bt_get (ds_selections s) r = Some p"
  with assms(1) obtain q where q: "bt_get (ds_selections t) r = Some q" "selection_advances (ds_abandoned_builds t) p q"
    unfolding builds_later_def by blast
  with assms(2) obtain v where "bt_get (ds_selections u) r = Some v" "selection_advances (ds_abandoned_builds u) q v"
    and "ds_abandoned_builds t \<subseteq> ds_abandoned_builds u"
    unfolding builds_later_def by blast
  with selection_advances_trans q(2)
  show "\<exists>v. bt_get (ds_selections u) r = Some v \<and> selection_advances (ds_abandoned_builds u) p v" by blast
next
  fix b x assume "bt_get (ds_build_progress s) b = Some x"
  with assms(1) obtain y where y: "bt_get (ds_build_progress t) b = Some y" "\<not> build_progress_regressed x y"
    unfolding builds_later_def by blast
  with assms(2) obtain z where "bt_get (ds_build_progress u) b = Some z" "\<not> build_progress_regressed y z"
    unfolding builds_later_def by blast
  with build_progress_regressed_trans y(2)
  show "\<exists>z. bt_get (ds_build_progress u) b = Some z \<and> \<not> build_progress_regressed x z" by blast
qed

interpretation progress_history: forward_history "store_step H D" "\<lambda>_. True" "\<lambda>_. True" progress_later for H D
  by unfold_locales (auto intro: progress_step progress_later_trans)

interpretation journal_history: forward_history "store_step H D" no_reset "\<lambda>_. True" journal_later for H D
  by unfold_locales (auto intro: journal_step journal_later_trans)

interpretation builds_history: forward_history "store_step H D" "\<lambda>_. True" "\<lambda>_. True" builds_later for H D
  by unfold_locales (auto intro: builds_step builds_later_trans)

definition store_run ::
    "(bytes \<Rightarrow> bytes) \<Rightarrow> (ValidationError \<Rightarrow> string) \<Rightarrow> store_op list \<Rightarrow> DurableStore \<Rightarrow> DurableStore" where
  "store_run H D ops s = fold (store_step H D) ops s"

lemma store_run_append: "store_run H D (xs @ ys) s = store_run H D ys (store_run H D xs s)"
  by (simp add: store_run_def)

lemma store_new_inv: "authority_inv H D (store_new x uid)"
  by (simp add: authority_inv_def store_new_def)

lemma store_run_inv: "authority_inv H D (store_run H D ops (store_new x uid))"
  unfolding store_run_def by (rule authority_history.run_inv [OF store_new_inv]) (simp add: list_all_iff)

lemma store_run_later:
  "authority_inv H D s \<Longrightarrow> authority_later s (store_run H D ops s)"
  "progress_later s (store_run H D ops s)" "builds_later s (store_run H D ops s)"
  "list_all no_reset ops \<Longrightarrow> journal_later s (store_run H D ops s)"
  unfolding store_run_def
  by (simp_all add: authority_history.run_later progress_history.run_later builds_history.run_later
      journal_history.run_later list_all_iff)

section \<open>Sample runs\<close>

definition sample_authority :: "i64 \<Rightarrow> AdmittedAuthority" where
  "sample_authority n =
     \<lparr>au_local_identity = m_identity (sample_member 1 ''a'' Primary),
      au_transition_kind = (if n = 1 then Some Bootstrap else Some Failover),
      au_previous_configuration = (if n = 1 then None else Some (sample_configuration (\<lambda>_. []) (n - 1))),
      au_current_configuration = sample_configuration (\<lambda>_. []) n,
      au_switchover_handoff = None, au_secondary_removal = None, au_scale_up = None\<rparr>"

lemma sample_configuration_small:
  assumes "0 \<le> n"
  shows "validate_configuration H (sample_configuration H n) None = Ok ()"
proof -
  have "validate_configuration H (sample_configuration H n) (Some sample_policy) = Ok ()"
    by (rule sample_configuration_valid [OF assms])
  moreover have "write_quorum (sample_configuration H n) = 2" by (simp add: sample_configuration_def)
  ultimately show ?thesis
    unfolding validate_configuration_Ok_iff by (simp add: sample_configuration_members fixed_policy_def Let_def)
qed

lemma sample_transition:
  "validate_transition_relationship (\<lambda>_. []) Failover (Some (sample_configuration (\<lambda>_. []) 1))
     (sample_configuration (\<lambda>_. []) 2) \<lparr>replica_set_size = 3, p_write_quorum = 2, read_quorum = 2, failover_delay_seconds = 0\<rparr> = Ok ()"
proof -
  let ?p = "\<lparr>replica_set_size = 3, p_write_quorum = 2, read_quorum = 2, failover_delay_seconds = 0\<rparr> :: EffectivePolicy"
  have "validate_configuration (\<lambda>_. []) (sample_configuration (\<lambda>_. []) n) (Some ?p) = Ok ()" if "0 \<le> n" for n
    using sample_configuration_valid [OF that, of "\<lambda>_. []"]
    unfolding validate_configuration_Ok_iff by (simp add: sample_policy_def)
  moreover have "validate_policy ?p = Ok ()" by (simp add: validate_policy_def fixed_policy_def Let_def)
  ultimately show ?thesis
    by (simp add: validate_transition_relationship_def exact_identities_def sample_configuration_members)
      (simp add: sample_configuration_def epoch_new_def)
qed

lemma sample_authority_valid:
  "au_validate (\<lambda>_. []) (\<lambda>_. []) (sample_authority 1) = Ok ()"
  "au_validate (\<lambda>_. []) (\<lambda>_. []) (sample_authority 2) = Ok ()"
  using sample_configuration_small [of 1 "\<lambda>_. []"] sample_configuration_small [of 2 "\<lambda>_. []"] sample_transition
  by (simp_all add: au_validate_def sample_authority_def contract_of_check_def au_relationship_def
      au_handoff_check_def au_contains_member_def sample_configuration_members fixed_policy_def Let_def)

definition sample_store :: DurableStore where
  "sample_store = store_new (m_identity (sample_member 1 ''a'' Primary)) ''u''"

lemma sample_epochs: "c_epoch (sample_configuration H n) = epoch_new 0 n"
  by (simp add: sample_configuration_def)

lemma sample_store_run:
  "ds_authority (store_run (\<lambda>_. []) (\<lambda>_. []) [StAdmit (sample_authority 1)] sample_store) = Some (sample_authority 1)"
  "ds_authority (store_run (\<lambda>_. []) (\<lambda>_. []) [StAdmit (sample_authority 1), StAdmit (sample_authority 2)] sample_store)
     = Some (sample_authority 2)"
proof -
  have f: "au_local_identity (sample_authority n) = m_identity (sample_member 1 ''a'' Primary)"
    "au_current_configuration (sample_authority n) = sample_configuration (\<lambda>_. []) n" for n
    by (simp_all add: sample_authority_def)
  have "sample_authority 1 \<noteq> sample_authority 2" by (simp add: sample_authority_def)
  then show
    "ds_authority (store_run (\<lambda>_. []) (\<lambda>_. []) [StAdmit (sample_authority 1)] sample_store) = Some (sample_authority 1)"
    "ds_authority (store_run (\<lambda>_. []) (\<lambda>_. []) [StAdmit (sample_authority 1), StAdmit (sample_authority 2)] sample_store)
       = Some (sample_authority 2)"
    by (simp_all add: store_run_def store_admit_def sample_authority_valid contract_transaction_def admit_body_def
        sample_store_def store_new_def f sample_epochs epoch_new_def epoch_less_iff)
qed

definition sample_report :: ReplicaRetirementReport where
  "sample_report =
     \<lparr>rr_intent = sample_removal, rr_operation_id = ''secondary-removal-'', rr_process_session_id = ''s'',
      rr_report_sequence = 5, rr_epoch = epoch_new 0 2, rr_role = RoleNone,
      rr_read_status = NotPrimary, rr_write_status = NotPrimary,
      rr_application_closed = True, rr_peers_fenced = True\<rparr>"

definition sample_retired :: RetiredAuthority where
  "sample_retired = \<lparr>rta_committed = sample_cleanup, rta_report = sample_report\<rparr>"

definition sample_target_store :: DurableStore where
  "sample_target_store = store_new (sd_target sample_removal) ''u''"

lemma sample_retired_valid:
  "rta_validate (\<lambda>_. []) (\<lambda>_. []) sample_retired (sd_target sample_removal) = Ok ()"
proof -
  have "validate_replica_retirement (\<lambda>_. []) sample_report = Ok ()"
    using sample_removal_valid
    by (simp add: validate_replica_retirement_def sample_report_def sd_command_operation_id_def
        sample_removal_fields sample_reduced_fields)
  moreover have "rr_intent sample_report = sample_removal"
    "rp_intent (re_preparation (sdc_evidence sample_cleanup)) = sample_removal" "sdc_retirement sample_cleanup = None"
    by (simp_all add: sample_report_def sample_cleanup_def Let_def)
  ultimately show ?thesis
    using sample_cleanup_valid by (simp add: rta_validate_def sample_retired_def contract_of_check_def)
qed

lemma sample_retire:
  "ds_retired (store_run (\<lambda>_. []) (\<lambda>_. []) [StRetire sample_retired] sample_target_store) = Some sample_retired"
  using sample_retired_valid
  by (simp add: store_run_def store_retire_def contract_transaction_def validate_retirement_def
      sample_target_store_def store_new_def sample_retired_def sample_report_def sample_removal_fields)

section \<open>Properties\<close>





text \<open>C30: a durable retirement is final. Whatever transactions follow, the store keeps that exact
  retirement, holds no authority, and refuses every admission without a change.\<close>

theorem retirement_is_final:
  assumes "ds_retired (store_run H D ops (store_new x uid)) = Some r"
    and "t = store_run H D (ops @ rest) (store_new x uid)"
  shows "ds_retired t = Some r \<and> ds_authority t = None
    \<and> fst (store_admit H D a t) \<noteq> Ok () \<and> snd (store_admit H D a t) = t"
proof -
  let ?s = "store_run H D ops (store_new x uid)"
  have "authority_later ?s t"
    unfolding assms(2) store_run_append by (rule store_run_later(1) [OF store_run_inv])
  then have r: "ds_retired t = Some r" using assms(1) unfolding authority_later_def by auto
  moreover have "ds_authority t = None"
    using r store_run_inv [of H D "ops @ rest" x uid] unfolding authority_inv_def assms(2) by blast
  moreover have "admit_body H a t = Err (CtAuthorityMismatch ''retired or mismatched local authority'')"
    using r by (simp add: admit_body_def)
  ultimately show ?thesis
    by (auto simp: store_admit_def contract_transaction_def split: result.splits)
qed

theorem retirement_is_final_witness:
  "ds_authority (store_run (\<lambda>_. []) (\<lambda>_. []) ([StRetire sample_retired] @ [StAdmit (sample_authority 1)])
     sample_target_store) = None"
  using retirement_is_final [OF sample_retire [unfolded sample_target_store_def] refl]
  unfolding sample_target_store_def by blast

text \<open>C32: until a data-loss reset, a journalled local write keeps its LSN, its committed LSN and its
  payload and never falls back to an earlier phase; a record that would change them is refused
  without a change.\<close>

theorem journalled_write_is_immutable:
  assumes "load_local_write i s = Some w" "list_all no_reset ops" "t = store_run H D ops s"
  shows "(\<exists>v. load_local_write i t = Some v \<and> lw_lsn v = lw_lsn w \<and> lw_committed_lsn v = lw_committed_lsn w
      \<and> lw_data v = lw_data w \<and> phase_tag (lw_phase w) \<le> phase_tag (lw_phase v))
    \<and> (\<forall>u. lw_operation_id u = i
         \<and> (lw_lsn u \<noteq> lw_lsn w \<or> lw_data u \<noteq> lw_data w \<or> phase_tag (lw_phase u) < phase_tag (lw_phase w))
         \<longrightarrow> (\<exists>e. record_local_write u t = (Err e, t)))"
proof -
  obtain v where v: "load_local_write i t = Some v" "write_advances w v"
    using store_run_later(4) [OF assms(2), of s H D] assms(1,3) unfolding journal_later_def by blast
  then have "\<exists>e. record_local_write u t = (Err e, t)"
    if "lw_operation_id u = i"
      "lw_lsn u \<noteq> lw_lsn w \<or> lw_data u \<noteq> lw_data w \<or> phase_tag (lw_phase u) < phase_tag (lw_phase w)" for u
    using that by (auto simp: record_local_write_def contract_transaction_def write_advances_def)
  with v show ?thesis unfolding write_advances_def by blast
qed

definition sample_local_write :: "LocalWritePhase \<Rightarrow> DurableLocalWrite" where
  "sample_local_write phase =
     \<lparr>lw_operation_id = ''w1'', lw_lsn = 1, lw_committed_lsn = 0, lw_data = ''data'', lw_phase = phase\<rparr>"

theorem journalled_write_is_immutable_witness:
  "\<exists>e. record_local_write (sample_local_write Reserved)
         (store_run (\<lambda>_. []) (\<lambda>_. []) [StLocalWrite (sample_local_write Committed)]
           (store_run (\<lambda>_. []) (\<lambda>_. []) [StLocalWrite (sample_local_write Registered)] sample_store))
       = (Err e, store_run (\<lambda>_. []) (\<lambda>_. []) [StLocalWrite (sample_local_write Committed)]
           (store_run (\<lambda>_. []) (\<lambda>_. []) [StLocalWrite (sample_local_write Registered)] sample_store))"
proof -
  have "load_local_write ''w1'' (store_run (\<lambda>_. []) (\<lambda>_. []) [StLocalWrite (sample_local_write Registered)] sample_store)
      = Some (sample_local_write Registered)"
    by (simp add: store_run_def record_local_write_def contract_transaction_def load_local_write_def
        sample_store_def store_new_def sample_local_write_def bt_get_def)
  from journalled_write_is_immutable [OF this _ refl, of "[StLocalWrite (sample_local_write Committed)]"]
  show ?thesis by (simp add: sample_local_write_def)
qed

text \<open>C31: when the selection of a build target changes, the former selection is closed for good:
  at every later time its build is not loaded, progress published under it is refused without a
  change, and the selected generation, a \<open>u64\<close> that never wraps, is strictly larger.\<close>

theorem superseded_selection_never_publishes:
  assumes "bt_get (ds_selections s) r = Some p" "bt_get (ds_selections (store_run H D ops s)) r \<noteq> Some p"
    and "replica_id (ba_target (bp_authority q)) = r" "t = store_run H D (ops @ rest) s"
  shows "load_build (ba_build_id (bs_authority p)) t = None
    \<and> (\<exists>e. record_build_progress_inner q (Some p) t = (Err e, t))
    \<and> (\<exists>new. bt_get (ds_selections t) r = Some new \<and> bs_generation p < bs_generation new)"
proof -
  let ?m = "store_run H D ops s"
  have sm: "builds_later s ?m" and mt: "builds_later ?m t"
    unfolding assms(4) store_run_append by (rule store_run_later(3))+
  obtain m where m: "bt_get (ds_selections ?m) r = Some m" "selection_advances (ds_abandoned_builds ?m) p m"
    using sm assms(1) unfolding builds_later_def by blast
  obtain new where new: "bt_get (ds_selections t) r = Some new" "selection_advances (ds_abandoned_builds t) m new"
    using mt m(1) unfolding builds_later_def by blast
  have closed: "ba_build_id (bs_authority p) \<in> ds_abandoned_builds ?m" "bs_generation p < bs_generation m"
    using m assms(2) unfolding selection_advances_def by auto
  have gen: "bs_generation p < bs_generation new" using closed(2) new(2) unfolding selection_advances_def by auto
  then have "bt_get (ds_selections t) r \<noteq> Some p" using new(1) by auto
  moreover have "build_closed (ba_build_id (bs_authority p)) t"
    using closed(1) mt unfolding builds_later_def build_closed_def by blast
  ultimately show ?thesis using new(1) gen assms(3)
    by (auto simp: load_build_def record_build_progress_inner_def contract_transaction_def Let_def)
qed

definition sample_build :: "OperationId \<Rightarrow> BuildAuthority" where
  "sample_build b =
     \<lparr>ba_build_id = b, ba_kind = BuildBootstrap, ba_source = m_identity (sample_member 1 ''a'' Primary),
      ba_target = m_identity (sample_member 2 ''b'' ActiveSecondary),
      ba_current_configuration = sample_configuration (\<lambda>_. []) 1, ba_replication_boundary_lsn = 0\<rparr>"

lemma sample_build_valid: "build_authority_validate (\<lambda>_. []) (sample_build b) = Ok ()"
  using sample_configuration_small [of 1 "\<lambda>_. []"]
  by (simp add: build_authority_validate_def sample_build_def sample_configuration_members expect_def
      sample_member_def Let_def) (simp add: sample_configuration_def)

lemma sample_build_fields [simp]:
  "ba_build_id (sample_build b) = b" "replica_id (ba_target (sample_build b)) = 2"
  "sample_build b = sample_build b' \<longleftrightarrow> b = b'"
  "ba_current_configuration (sample_build b) = sample_configuration (\<lambda>_. []) 1"
  by (auto simp: sample_build_def sample_member_def)

definition sample_built_store :: DurableStore where
  "sample_built_store = store_run (\<lambda>_. []) (\<lambda>_. [])
     [StAdmitBuild (sample_build ''b1''), StAdmitBuild (sample_build ''b2''), StSelectBuild (sample_build ''b1'')] sample_store"

lemma sample_built_store_eq:
  "sample_built_store = sample_store\<lparr>
     ds_build_authority := [(''b1'', sample_build ''b1''), (''b2'', sample_build ''b2'')],
     ds_selections := [(2, \<lparr>bs_authority = sample_build ''b1'', bs_generation = 1\<rparr>)]\<rparr>"
  by (simp add: sample_built_store_def store_run_def admit_build_def contract_transaction_def contract_of_check_def
      sample_build_valid build_closed_def sample_store_def store_new_def select_build_def install_selection_def
      bt_get_def Let_def)

theorem superseded_selection_never_publishes_witness:
  "load_build ''b1'' (store_run (\<lambda>_. []) (\<lambda>_. []) ([StSelectBuild (sample_build ''b2'')] @ []) sample_built_store) = None"
proof -
  have "bt_get (ds_selections (store_run (\<lambda>_. []) (\<lambda>_. []) [StSelectBuild (sample_build ''b2'')] sample_built_store)) 2
      \<noteq> Some \<lparr>bs_authority = sample_build ''b1'', bs_generation = 1\<rparr>"
    by (simp add: store_run_def sample_built_store_eq select_build_def contract_transaction_def build_closed_def
        sample_store_def store_new_def install_selection_def bt_get_def Let_def)
  moreover have "bt_get (ds_selections sample_built_store) 2 = Some \<lparr>bs_authority = sample_build ''b1'', bs_generation = 1\<rparr>"
    by (simp add: sample_built_store_eq bt_get_def)
  ultimately show ?thesis
    using superseded_selection_never_publishes [of sample_built_store 2 "\<lparr>bs_authority = sample_build ''b1'', bs_generation = 1\<rparr>"
        "\<lambda>_. []" "\<lambda>_. []" "[StSelectBuild (sample_build ''b2'')]"
        "\<lparr>bp_authority = sample_build ''b1'', bp_last_sequence = 0, bp_durable_lsn = 0, bp_completed = False,
          bp_catch_up_boundary_lsn = None\<rparr>" _ "[]", OF _ _ _ refl]
    by simp
qed

text \<open>C33: recorded progress never regresses. Over every sequence of transactions the verified LSN of
  a fence, and the sequence, durable LSN, completion and catch-up boundary of a build, only advance,
  and an older replication report is refused without a change.\<close>

theorem durable_progress_never_regresses:
  assumes "t = store_run H D ops s"
  shows "(load_replication_progress f s = Some p \<longrightarrow>
      (\<exists>q. load_replication_progress f t = Some q \<and> rpg_verified_lsn p \<le> rpg_verified_lsn q)
      \<and> (\<forall>u. rpg_fence u = f \<and> rpg_verified_lsn u < rpg_verified_lsn p \<longrightarrow>
           (\<exists>e. record_replication_progress u t = (Err e, t))))
    \<and> (bt_get (ds_build_progress s) b = Some x \<longrightarrow>
      (\<exists>y. bt_get (ds_build_progress t) b = Some y \<and> bp_last_sequence x \<le> bp_last_sequence y
         \<and> bp_durable_lsn x \<le> bp_durable_lsn y \<and> (bp_completed x \<longrightarrow> bp_completed y)
         \<and> (bp_catch_up_boundary_lsn x \<noteq> None \<longrightarrow> bp_catch_up_boundary_lsn y = bp_catch_up_boundary_lsn x)))"
proof (intro conjI impI allI)
  assume "load_replication_progress f s = Some p"
  then obtain q where q: "load_replication_progress f t = Some q" "rpg_verified_lsn p \<le> rpg_verified_lsn q"
    using store_run_later(2) [of s H D ops] assms unfolding progress_later_def by blast
  then show "\<exists>q. load_replication_progress f t = Some q \<and> rpg_verified_lsn p \<le> rpg_verified_lsn q" by blast
  fix u :: ReplicationProgress assume "rpg_fence u = f \<and> rpg_verified_lsn u < rpg_verified_lsn p"
  with q show "\<exists>e. record_replication_progress u t = (Err e, t)"
    by (auto simp: record_replication_progress_def contract_transaction_def)
next
  assume "bt_get (ds_build_progress s) b = Some x"
  then obtain y where "bt_get (ds_build_progress t) b = Some y" "\<not> build_progress_regressed x y"
    using store_run_later(3) [of s H D ops] assms unfolding builds_later_def by blast
  then show "\<exists>y. bt_get (ds_build_progress t) b = Some y \<and> bp_last_sequence x \<le> bp_last_sequence y
      \<and> bp_durable_lsn x \<le> bp_durable_lsn y \<and> (bp_completed x \<longrightarrow> bp_completed y)
      \<and> (bp_catch_up_boundary_lsn x \<noteq> None \<longrightarrow> bp_catch_up_boundary_lsn y = bp_catch_up_boundary_lsn x)"
    unfolding build_progress_regressed_def by (auto simp: not_less)
qed

definition sample_progress :: "i64 \<Rightarrow> ReplicationProgress" where
  "sample_progress l = \<lparr>rpg_fence = au_fence (sample_authority 1), rpg_verified_lsn = l\<rparr>"

theorem durable_progress_never_regresses_witness:
  "\<exists>e t. record_replication_progress (sample_progress 3) t = (Err e, t)
     \<and> t = store_run (\<lambda>_. []) (\<lambda>_. []) [StReplicationProgress (sample_progress 6)]
             (store_run (\<lambda>_. []) (\<lambda>_. []) [StReplicationProgress (sample_progress 4)] sample_store)"
proof -
  have "load_replication_progress (au_fence (sample_authority 1))
      (store_run (\<lambda>_. []) (\<lambda>_. []) [StReplicationProgress (sample_progress 4)] sample_store) = Some (sample_progress 4)"
    by (simp add: store_run_def record_replication_progress_def contract_transaction_def
        load_replication_progress_def sample_store_def store_new_def sample_progress_def)
  moreover have "rpg_fence (sample_progress 3) = au_fence (sample_authority 1)"
    "rpg_verified_lsn (sample_progress 3) < rpg_verified_lsn (sample_progress 4)"
    by (simp_all add: sample_progress_def)
  ultimately show ?thesis
    using durable_progress_never_regresses [OF refl, of "au_fence (sample_authority 1)"] by blast
qed

end
