(* ===== verification/Agent_Safety.thy ===== *)
theory Agent_Safety
  imports Agent_Store Store_Safety
begin

text \<open>
  The agent database as a whole: the \<open>AgentStore\<close> transactions interleaved in any order with the
  transactions of Durable_Store on the same database. The theory shows that the effect journal stays
  consistent, that results retained for good never change, and that the durable fences only advance.
\<close>

section \<open>Transactions as steps\<close>

datatype (plugins only: code) agent_op =
    AgInitialized
  | AgBeginEffect RuntimeEffect
  | AgEffectApplied RuntimeEffect RuntimeEffectResult
  | AgCompleteEffect RuntimeEffectResult
  | AgCancelEffect RuntimeEffect
  | AgBeginConfiguration EnsureConfiguration
  | AgAdvance OperationId CoordinatorStage CoordinatorStage "i64 option"
  | AgCompleteConfiguration OperationId
  | AgJournalBuild EnsureReplicaBuild
  | AgAbandonBuild EnsureReplicaBuild
  | AgReports "LoadMetric list" "FaultType option"
  | AgTables store_op

text \<open>A transaction of Durable_Store changes two fields of the state row: the build progress and the
  abandoned builds.\<close>

definition tables_step ::
    "(bytes \<Rightarrow> bytes) \<Rightarrow> (ValidationError \<Rightarrow> string) \<Rightarrow> store_op \<Rightarrow> AgentStore \<Rightarrow> AgentStore" where
  "tables_step H D op db =
     (let t = store_step H D op (db_tables db)
      in \<lparr>db_state = (db_state db)\<lparr>ag_build_progress := ds_state_build_progress t,
                                   ag_abandoned_builds := ds_abandoned_builds t\<rparr>,
          db_tables = t\<rparr>)"

fun agent_step :: "(bytes \<Rightarrow> bytes) \<Rightarrow> (ValidationError \<Rightarrow> string) \<Rightarrow> agent_op \<Rightarrow> AgentStore \<Rightarrow> AgentStore" where
  "agent_step H D AgInitialized db = snd (complete_application_initialization db)"
| "agent_step H D (AgBeginEffect e) db = snd (begin_effect H D e db)"
| "agent_step H D (AgEffectApplied e r) db = snd (mark_effect_applied e r db)"
| "agent_step H D (AgCompleteEffect r) db = snd (complete_effect H D r db)"
| "agent_step H D (AgCancelEffect e) db = snd (cancel_effect e db)"
| "agent_step H D (AgBeginConfiguration c) db = snd (begin_configuration c db)"
| "agent_step H D (AgAdvance i s n l) db = snd (advance_configuration i s n l db)"
| "agent_step H D (AgCompleteConfiguration i) db = snd (complete_configuration i db)"
| "agent_step H D (AgJournalBuild c) db = snd (journal_build c db)"
| "agent_step H D (AgAbandonBuild c) db = snd (abandon_build H D c db)"
| "agent_step H D (AgReports ms f) db = snd (record_partition_reports ms f db)"
| "agent_step H D (AgTables op) db = tables_step H D op db"

definition agent_run ::
    "(bytes \<Rightarrow> bytes) \<Rightarrow> (ValidationError \<Rightarrow> string) \<Rightarrow> agent_op list \<Rightarrow> AgentStore \<Rightarrow> AgentStore" where
  "agent_run H D ops db = fold (agent_step H D) ops db"

definition agent_store_new :: "StorageIdentity \<Rightarrow> AgentStore" where
  "agent_store_new i =
     \<lparr>db_state = agent_state_new i, db_tables = store_new (sto_local_identity i) (sto_resource_uid i)\<rparr>"

section \<open>What a completion keeps\<close>

definition outcome_frame :: "AgentState \<Rightarrow> AgentState \<Rightarrow> bool" where
  "outcome_frame st t \<longleftrightarrow>
     ag_identity t = ag_identity st \<and> ag_removal_effects t = ag_removal_effects st
     \<and> ag_removal_commands t = ag_removal_commands st \<and> ag_reconfiguration t = ag_reconfiguration st
     \<and> ag_next_effect_sequence t = ag_next_effect_sequence st \<and> ag_pending_effect t = ag_pending_effect st
     \<and> ag_preparation_retirement t = ag_preparation_retirement st
     \<and> ag_abandoned_builds t = ag_abandoned_builds st \<and> ag_build_progress t = ag_build_progress st
     \<and> ag_highest_epoch st \<le> ag_highest_epoch t \<and> ag_retired_builds st \<subseteq> ag_retired_builds t
     \<and> (ag_retired_authority st \<noteq> None \<longrightarrow> ag_retired_authority t \<noteq> None)"

lemma outcome_frame_refl [simp]: "outcome_frame st st"
  by (simp add: outcome_frame_def)

lemma incompatible_not_Ok [simp]: "incompatible \<noteq> Ok st" "incompatible \<noteq> Panic"
  by (simp_all add: incompatible_def)

lemma removal_completions_frame:
  "complete_preparation H D auth op i s n c st = Ok t \<Longrightarrow> outcome_frame st t"
  "complete_historical H D auth op cm hc st = Ok t \<Longrightarrow> outcome_frame st t"
  "complete_retire_replica H D r rc st = Ok t \<Longrightarrow> outcome_frame st t"
  "complete_fence_retirement r rc st = Ok t \<Longrightarrow> outcome_frame st t"
  "complete_retirement r rc st = Ok t \<Longrightarrow> outcome_frame st t"
  by (auto simp: complete_preparation_def complete_historical_def complete_retire_replica_def
      complete_fence_retirement_def complete_retirement_def accept_removal_def Let_def outcome_frame_def
      split: if_splits)

lemma local_completions_frame:
  "complete_epoch auth ec st = Ok t \<Longrightarrow> outcome_frame st t"
  "complete_switchover auth op g q s x cid ep sc st = Ok t \<Longrightarrow> outcome_frame st t"
  "complete_build tb b bc st = Ok t \<Longrightarrow> outcome_frame st t"
  by (auto simp: complete_epoch_def complete_switchover_def complete_build_def Let_def outcome_frame_def
      split: if_splits BuildEffectState.splits)

lemma updates_frame:
  "outcome_frame st (apply_admitted_authority c st)" "outcome_frame st (apply_process_completion p st)"
  "outcome_frame st (accept_removal x st)" "outcome_frame st (st\<lparr>ag_role := r\<rparr>)"
  "outcome_frame st (st\<lparr>ag_read_status := a\<rparr>)" "outcome_frame st (st\<lparr>ag_write_status := a\<rparr>)"
  "outcome_frame st (st\<lparr>ag_read_status := a, ag_write_status := b\<rparr>)"
  "outcome_frame st (st\<lparr>ag_retired_builds := insert i (ag_retired_builds st)\<rparr>)"
  by (auto simp: apply_admitted_authority_def apply_process_completion_def accept_removal_def Let_def
      outcome_frame_def)

lemma removal_outcome_frame:
  assumes "apply_removal_outcome H D auth e out st = Ok t"
  shows "outcome_frame st t"
  using assms
  by (cases "ef_action e"; cases out)
    (auto simp: apply_removal_outcome_def updates_frame dest: removal_completions_frame)

lemma apply_outcome_frame:
  assumes "apply_outcome H D tb e out st = Ok t"
  shows "outcome_frame st t"
  using assms
  by (cases "ef_action e"; cases out)
    (auto simp: apply_outcome_def Let_def updates_frame split: if_splits
      dest: removal_outcome_frame local_completions_frame)

section \<open>Journal invariant and durable fences\<close>

definition pending_ok :: "PendingEffect \<Rightarrow> bool" where
  "pending_ok p \<longleftrightarrow> ef_sequence (pe_effect p) \<noteq> 18446744073709551615
     \<and> (case pe_applied_result p of
          None \<Rightarrow> pe_stage p = IntentCommitted
        | Some r \<Rightarrow> pe_stage p = EffectApplied \<and> result_validate_for r (pe_effect p) = Ok ())"

definition retained_ok :: "RetainedResult \<Rightarrow> bool" where
  "retained_ok x \<longleftrightarrow>
     result_validate_for (rec_result (rtn_record x)) (rec_effect (rtn_record x)) = Ok ()
     \<and> rtn_operation_id x = ef_operation_id (rec_effect (rtn_record x))"

fun is_retirement :: "RuntimeEffectAction \<Rightarrow> bool" where
  "is_retirement (EffRetireReplica r) = True"
| "is_retirement _ = False"

definition journal_inv :: "AgentState \<Rightarrow> bool" where
  "journal_inv st \<longleftrightarrow>
     (\<forall>p. ag_pending_effect st = Some p \<longrightarrow> pending_ok p
        \<and> bt_get (ag_removal_effects st) (ef_operation_id (pe_effect p)) = None
        \<and> (ag_retired_authority st \<noteq> None \<longrightarrow> is_retirement (ef_action (pe_effect p))))
     \<and> (\<forall>k x. bt_get (ag_removal_effects st) k = Some x \<longrightarrow> retained_ok x \<and> rtn_operation_id x = k)
     \<and> (\<forall>x. ag_retained_result st = Some x \<longrightarrow> retained_ok x)
     \<and> (\<forall>r. ag_reconfiguration st = Some r
          \<longrightarrow> bt_get (ag_removal_commands st) (ec_operation_id (rcr_command r)) = None)"

definition map_extends :: "('k, 'v) btree_map \<Rightarrow> ('k, 'v) btree_map \<Rightarrow> bool" where
  "map_extends m n \<longleftrightarrow> (\<forall>k v. bt_get m k = Some v \<longrightarrow> bt_get n k = Some v)"

definition retirement_mark_advances :: "PreparationRetirement \<Rightarrow> PreparationRetirement \<Rightarrow> bool" where
  "retirement_mark_advances x y \<longleftrightarrow> prt_starting_epoch x < prt_starting_epoch y
     \<or> (prt_starting_epoch x = prt_starting_epoch y
        \<and> prt_starting_configuration_id x = prt_starting_configuration_id y \<and> prt_generation x \<le> prt_generation y)"

definition fences_later :: "AgentState \<Rightarrow> AgentState \<Rightarrow> bool" where
  "fences_later st t \<longleftrightarrow>
     ag_identity t = ag_identity st
     \<and> ag_highest_epoch st \<le> ag_highest_epoch t
     \<and> ag_next_effect_sequence st \<le> ag_next_effect_sequence t
     \<and> map_extends (ag_removal_effects st) (ag_removal_effects t)
     \<and> map_extends (ag_removal_commands st) (ag_removal_commands t)
     \<and> (ag_retired_authority st \<noteq> None \<longrightarrow> ag_retired_authority t \<noteq> None)
     \<and> ag_retired_builds st \<subseteq> ag_retired_builds t \<and> ag_abandoned_builds st \<subseteq> ag_abandoned_builds t
     \<and> (\<forall>x. ag_preparation_retirement st = Some x
          \<longrightarrow> (\<exists>y. ag_preparation_retirement t = Some y \<and> retirement_mark_advances x y))"

lemma map_extends_refl [simp]: "map_extends m m"
  by (simp add: map_extends_def)

lemma map_extends_insert: "bt_get m k = None \<Longrightarrow> map_extends m (bt_insert k v m)"
  by (auto simp: map_extends_def)

lemma retirement_mark_refl [simp]: "retirement_mark_advances x x"
  by (simp add: retirement_mark_advances_def)

lemma fences_later_refl [simp]: "fences_later st st"
  by (simp add: fences_later_def)

lemma fences_later_trans: "fences_later a b \<Longrightarrow> fences_later b c \<Longrightarrow> fences_later a c"
proof -
  assume ab: "fences_later a b" and bc: "fences_later b c"
  have "\<exists>z. ag_preparation_retirement c = Some z \<and> retirement_mark_advances x z"
    if x: "ag_preparation_retirement a = Some x" for x
  proof -
    from ab x obtain y where y: "ag_preparation_retirement b = Some y" "retirement_mark_advances x y"
      unfolding fences_later_def by blast
    with bc obtain z where "ag_preparation_retirement c = Some z" "retirement_mark_advances y z"
      unfolding fences_later_def by blast
    with y(2) show ?thesis by (auto simp: retirement_mark_advances_def)
  qed
  with ab bc show ?thesis unfolding fences_later_def map_extends_def by (simp add: subset_trans) force
qed

text \<open>The fields the invariant and the fences depend on; a transaction that keeps them keeps both.\<close>

definition journal_part where
  "journal_part st = (ag_identity st, ag_pending_effect st, ag_removal_effects st, ag_retained_result st,
     ag_retired_authority st, ag_reconfiguration st, ag_removal_commands st, ag_highest_epoch st,
     ag_next_effect_sequence st, ag_retired_builds st, ag_preparation_retirement st)"

lemma journal_part_kept:
  assumes "journal_part t = journal_part st" "ag_abandoned_builds st \<subseteq> ag_abandoned_builds t" "journal_inv st"
  shows "journal_inv t \<and> fences_later st t"
proof
  show "journal_inv t" using assms(1,3) unfolding journal_part_def journal_inv_def by (simp only: prod.inject)
  show "fences_later st t" using assms(1,2) by (simp add: journal_part_def fences_later_def)
qed

definition coherent :: "AgentStore \<Rightarrow> bool" where
  "coherent db \<longleftrightarrow> agent_view (db_state db) (db_tables db) = db_tables db"

definition agent_inv :: "AgentStore \<Rightarrow> bool" where
  "agent_inv db \<longleftrightarrow> journal_inv (db_state db) \<and> coherent db"

definition agent_later :: "AgentStore \<Rightarrow> AgentStore \<Rightarrow> bool" where
  "agent_later db db' \<longleftrightarrow> fences_later (db_state db) (db_state db')"

lemma coherent_write [simp]: "coherent (write_agent_state st db)" "db_state (write_agent_state st db) = st"
  by (simp_all add: coherent_def write_agent_state_def agent_view_def)

definition step_ok :: "AgentStore \<Rightarrow> AgentStore \<Rightarrow> bool" where
  "step_ok db db' \<longleftrightarrow> agent_inv db' \<and> agent_later db db'"

lemma step_ok_refl: "agent_inv db \<Longrightarrow> step_ok db db"
  by (simp add: step_ok_def agent_later_def)

lemma step_ok_write:
  "journal_inv t \<and> fences_later (db_state db) t \<Longrightarrow> db_state db' = db_state db \<Longrightarrow> step_ok db (write_agent_state t db')"
  by (simp add: step_ok_def agent_inv_def agent_later_def)

lemma with_transaction_ok:
  assumes "agent_inv db" "\<And>x db'. f db = Ok (x, db') \<Longrightarrow> step_ok db db'"
  shows "step_ok db (snd (with_transaction f db))"
  using assms by (auto simp: with_transaction_def step_ok_refl split: result.splits)

lemma state_transaction_ok:
  assumes "agent_inv db"
    "\<And>x t. f (db_state db) = Ok (x, t) \<Longrightarrow> journal_inv (db_state db) \<Longrightarrow> journal_inv t \<and> fences_later (db_state db) t"
  shows "step_ok db (snd (state_transaction f db))"
  unfolding state_transaction_def
  by (rule with_transaction_ok [OF assms(1)])
    (use assms in \<open>auto simp: agent_inv_def intro: step_ok_write\<close>)

lemma quiet_transaction_ok:
  assumes "agent_inv db"
    "\<And>x t. f (db_state db) = Ok (x, t) \<Longrightarrow> journal_part t = journal_part (db_state db)
       \<and> ag_abandoned_builds (db_state db) \<subseteq> ag_abandoned_builds t"
  shows "step_ok db (snd (state_transaction f db))"
  by (rule state_transaction_ok [OF assms(1)]) (use assms(2) journal_part_kept in blast)

section \<open>Every transaction keeps the invariant and advances the fences\<close>

lemma quiet_steps:
  assumes "agent_inv db"
  shows "step_ok db (snd (complete_application_initialization db))"
    "step_ok db (snd (journal_build c db))" "step_ok db (snd (abandon_build H D c db))"
    "step_ok db (snd (record_partition_reports ms f db))"
  unfolding complete_application_initialization_def journal_build_def abandon_build_def record_partition_reports_def
  by (rule quiet_transaction_ok [OF assms];
      auto simp: journal_part_def split: if_splits option.splits)+

lemma journal_inv_pending:
  assumes "journal_inv st" "ag_pending_effect st = Some p"
  shows "pending_ok p" "bt_get (ag_removal_effects st) (ef_operation_id (pe_effect p)) = None"
    "ag_retired_authority st \<noteq> None \<Longrightarrow> is_retirement (ef_action (pe_effect p))"
  using assms unfolding journal_inv_def by blast+

lemma set_pending:
  assumes "journal_inv st"
    "\<And>p. q = Some p \<Longrightarrow> pending_ok p \<and> bt_get (ag_removal_effects st) (ef_operation_id (pe_effect p)) = None
       \<and> (ag_retired_authority st \<noteq> None \<longrightarrow> is_retirement (ef_action (pe_effect p)))"
  shows "journal_inv (st\<lparr>ag_pending_effect := q\<rparr>) \<and> fences_later st (st\<lparr>ag_pending_effect := q\<rparr>)"
proof
  show "journal_inv (st\<lparr>ag_pending_effect := q\<rparr>)"
    using assms unfolding journal_inv_def by simp
qed (simp add: fences_later_def)

lemma pending_steps:
  assumes inv: "agent_inv db"
  shows "step_ok db (snd (mark_effect_applied e r db))" "step_ok db (snd (cancel_effect e db))"
proof -
  show "step_ok db (snd (mark_effect_applied e r db))"
    unfolding mark_effect_applied_def
  proof (rule state_transaction_ok [OF inv], goal_cases)
    case (1 x t)
    then obtain p where p: "ag_pending_effect (db_state db) = Some p" "pe_effect p = e"
      "result_validate_for r e = Ok ()"
      "t = (db_state db)\<lparr>ag_pending_effect := Some (p\<lparr>pe_stage := EffectApplied, pe_applied_result := Some r\<rparr>)\<rparr>"
      by (auto split: if_splits)
    note J = journal_inv_pending [OF 1(2) p(1)]
    show ?case unfolding p(4) by (rule set_pending [OF 1(2)]) (use J p in \<open>auto simp: pending_ok_def\<close>)
  qed
  show "step_ok db (snd (cancel_effect e db))"
    unfolding cancel_effect_def
    by (rule state_transaction_ok [OF inv]) (auto intro!: set_pending split: if_splits)
qed

lemma begin_effect_guard_D:
  assumes "begin_effect_guard H D e st = Ok u" "ag_retired_authority st \<noteq> None"
  shows "is_retirement (ef_action e)"
  using assms by (cases "ef_action e") (auto simp: begin_effect_guard_def split: if_splits)

lemma new_pending_ok:
  assumes "agent_inv db" "begin_effect_guard H D e (db_state db) = Ok u" "ef_sequence e \<noteq> 18446744073709551615"
    "bt_get (ag_removal_effects (db_state db)) (ef_operation_id e) = None"
  shows "step_ok db (write_agent_state ((db_state db)\<lparr>ag_pending_effect :=
    Some \<lparr>pe_effect = e, pe_stage = IntentCommitted, pe_applied_result = None\<rparr>\<rparr>) db)"
proof (rule step_ok_write [OF set_pending refl])
  show "journal_inv (db_state db)" using assms(1) by (simp add: agent_inv_def)
qed (use assms(3,4) begin_effect_guard_D [OF assms(2)] in \<open>auto simp: pending_ok_def\<close>)

lemma resume_pending_cases:
  assumes "resume_pending e p db = Ok (x, db')"
  shows "db' = db \<or> db' = write_agent_state ((db_state db)\<lparr>ag_pending_effect :=
      Some \<lparr>pe_effect = e, pe_stage = IntentCommitted, pe_applied_result = None\<rparr>\<rparr>) db"
proof (cases "pe_effect p = e")
  case True
  with assms show ?thesis by (auto simp: resume_pending_def split: EffectStage.splits option.splits)
next
  case False
  then obtain c where c: "ef_action (pe_effect p) = EffAcceptSecondaryRemovalCommit c"
    using assms by (cases "ef_action (pe_effect p)") (simp_all add: resume_pending_def)
  then obtain k where "ef_action e = EffAcceptHistoricalSecondaryRemovalCommit k"
    using False assms by (cases "ef_action e") (simp_all add: resume_pending_def)
  with c False assms show ?thesis by (auto simp: resume_pending_def split: if_splits)
qed

definition begun :: "RuntimeEffect \<Rightarrow> AgentStore \<Rightarrow> AgentStore" where
  "begun e db = write_agent_state ((db_state db)\<lparr>ag_pending_effect :=
     Some \<lparr>pe_effect = e, pe_stage = IntentCommitted, pe_applied_result = None\<rparr>\<rparr>) db"

lemma begin_effect_body_cases:
  assumes "begin_effect_body H D e db = Ok (x, db')"
  shows "db' = db \<or> (begin_effect_guard H D e (db_state db) = Ok () \<and> ef_sequence e \<noteq> 18446744073709551615
      \<and> bt_get (ag_removal_effects (db_state db)) (ef_operation_id e) = None \<and> db' = begun e db)"
proof -
  let ?st = "db_state db"
  have guard: "begin_effect_guard H D e ?st = Ok ()"
    using assms unfolding begin_effect_body_def Let_def by (cases "begin_effect_guard H D e ?st") simp_all
  show ?thesis
  proof (cases "bt_get (ag_removal_effects ?st) (ef_operation_id e)")
    case (Some x)
    with assms guard show ?thesis by (simp add: begin_effect_body_def split: if_splits)
  next
    case None
    note fresh = this
    show ?thesis
    proof (cases "opt_filter (\<lambda>r. rtn_operation_id r = ef_operation_id e) (ag_retained_result ?st)")
      case (Some x)
      with assms guard fresh show ?thesis by (simp add: begin_effect_body_def split: if_splits)
    next
      case None
      have s: "ef_sequence e \<noteq> 18446744073709551615"
        using assms guard fresh None by (simp add: begin_effect_body_def Let_def split: if_splits)
      show ?thesis
      proof (cases "ag_pending_effect ?st")
        case (Some p)
        then have "resume_pending e p db = Ok (x, db')"
          using assms guard fresh None by (simp add: begin_effect_body_def Let_def split: if_splits)
        then show ?thesis using resume_pending_cases guard fresh s unfolding begun_def by blast
      qed (use assms guard fresh None s in \<open>simp add: begin_effect_body_def begun_def Let_def split: if_splits\<close>)
    qed
  qed
qed

lemma begin_effect_step:
  assumes "agent_inv db"
  shows "step_ok db (snd (begin_effect H D e db))"
  unfolding begin_effect_def
proof (rule with_transaction_ok [OF assms])
  fix x db'
  assume "begin_effect_body H D e db = Ok (x, db')"
  from begin_effect_body_cases [OF this] show "step_ok db db'"
    using step_ok_refl new_pending_ok assms unfolding begun_def by blast
qed

lemma complete_pending_cases:
  assumes "complete_pending H D r p db = Ok (x, db')"
  obtains t tb where "result_validate_for r (pe_effect p) = Ok ()" "pe_applied_result p = Some r"
    "outcome_frame ((db_state db)\<lparr>ag_pending_effect := None\<rparr>) t" "er_sequence r \<noteq> 18446744073709551615"
    "apply_outcome H D (db_tables db) (pe_effect p) (er_outcome r) ((db_state db)\<lparr>ag_pending_effect := None\<rparr>) = Ok t"
    "db' = write_agent_state ((retain_result (pe_effect p) r t)\<lparr>ag_next_effect_sequence :=
       max (ag_next_effect_sequence t) (er_sequence r + 1)\<rparr>) (db\<lparr>db_tables := tb\<rparr>)"
proof -
  from assms obtain t where t: "result_validate_for r (pe_effect p) = Ok ()" "pe_applied_result p = Some r"
    "apply_outcome H D (db_tables db) (pe_effect p) (er_outcome r) ((db_state db)\<lparr>ag_pending_effect := None\<rparr>) = Ok t"
    "er_sequence r \<noteq> 18446744073709551615"
    "\<exists>tb. db' = write_agent_state ((retain_result (pe_effect p) r t)\<lparr>ag_next_effect_sequence :=
       max (ag_next_effect_sequence t) (er_sequence r + 1)\<rparr>) (db\<lparr>db_tables := tb\<rparr>)"
    unfolding complete_pending_def Let_def by (auto split: if_splits)
  then show ?thesis using that apply_outcome_frame [OF t(3)] by blast
qed

lemma result_validate_for_D:
  assumes "result_validate_for r e = Ok ()"
  shows "er_operation_id r = ef_operation_id e" "er_sequence r = ef_sequence e"
  using assms by (auto simp: result_validate_for_def split: if_splits)

lemma retain_result_ok:
  assumes inv: "journal_inv st" and pending: "ag_pending_effect st = Some p"
    and valid: "result_validate_for r (pe_effect p) = Ok ()"
    and frame: "outcome_frame (st\<lparr>ag_pending_effect := None\<rparr>) t"
  shows "journal_inv ((retain_result (pe_effect p) r t)\<lparr>ag_next_effect_sequence := max (ag_next_effect_sequence t) n\<rparr>)
    \<and> fences_later st ((retain_result (pe_effect p) r t)\<lparr>ag_next_effect_sequence := max (ag_next_effect_sequence t) n\<rparr>)"
    (is "journal_inv ?t \<and> fences_later st ?t")
proof
  let ?x = "\<lparr>rtn_operation_id = er_operation_id r, rtn_record = \<lparr>rec_effect = pe_effect p, rec_result = r\<rparr>\<rparr>"
  have x: "retained_ok ?x" "rtn_operation_id ?x = er_operation_id r"
    using valid result_validate_for_D [OF valid] by (simp_all add: retained_ok_def)
  have none: "bt_get (ag_removal_effects st) (er_operation_id r) = None"
    using journal_inv_pending(2) [OF inv pending] result_validate_for_D [OF valid] by simp
  have effects: "ag_removal_effects ?t = ag_removal_effects st
      \<or> ag_removal_effects ?t = bt_insert (er_operation_id r) ?x (ag_removal_effects st)"
    using frame by (auto simp: retain_result_def Let_def outcome_frame_def)
  have rest: "ag_pending_effect ?t = None" "ag_retained_result ?t = Some ?x" "ag_reconfiguration ?t = ag_reconfiguration st"
    "ag_removal_commands ?t = ag_removal_commands st" "ag_identity ?t = ag_identity st"
    "ag_preparation_retirement ?t = ag_preparation_retirement st" "ag_abandoned_builds ?t = ag_abandoned_builds st"
    "ag_highest_epoch st \<le> ag_highest_epoch ?t" "ag_retired_builds st \<subseteq> ag_retired_builds ?t"
    "ag_retired_authority st \<noteq> None \<longrightarrow> ag_retired_authority ?t \<noteq> None"
    "ag_next_effect_sequence st \<le> ag_next_effect_sequence ?t"
    using frame by (auto simp: retain_result_def Let_def outcome_frame_def)
  show "journal_inv ?t"
    using inv effects x unfolding journal_inv_def rest by (auto split: if_splits)
  show "fences_later st ?t"
    unfolding fences_later_def using rest effects none by (auto simp: map_extends_insert)
qed

lemma complete_effect_step:
  assumes "agent_inv db"
  shows "step_ok db (snd (complete_effect H D r db))"
  unfolding complete_effect_def
proof (rule with_transaction_ok [OF assms])
  fix x db'
  assume ok: "complete_effect_body H D r db = Ok (x, db')"
  have inv: "journal_inv (db_state db)" using assms by (simp add: agent_inv_def)
  show "step_ok db db'"
  proof (cases "ag_pending_effect (db_state db)")
    case None
    with ok have "db' = db" by (auto simp: complete_effect_body_def Let_def split: option.splits if_splits)
    then show ?thesis using assms step_ok_refl by simp
  next
    case (Some p)
    with ok have "complete_pending H D r p db = Ok (x, db')" by (simp add: complete_effect_body_def)
    then obtain t tb where t: "result_validate_for r (pe_effect p) = Ok ()"
      "outcome_frame ((db_state db)\<lparr>ag_pending_effect := None\<rparr>) t"
      "db' = write_agent_state ((retain_result (pe_effect p) r t)\<lparr>ag_next_effect_sequence :=
         max (ag_next_effect_sequence t) (er_sequence r + 1)\<rparr>) (db\<lparr>db_tables := tb\<rparr>)"
      by (rule complete_pending_cases)
    show ?thesis unfolding t(3) by (rule step_ok_write [OF retain_result_ok [OF inv Some t(1,2)]]) simp
  qed
qed

lemma journal_inv_reconfiguration:
  assumes "journal_inv st"
    "\<And>r. q = Some r \<Longrightarrow> bt_get (ag_removal_commands st) (ec_operation_id (rcr_command r)) = None"
  shows "journal_inv (st\<lparr>ag_reconfiguration := q\<rparr>) \<and> fences_later st (st\<lparr>ag_reconfiguration := q\<rparr>)"
proof
  show "journal_inv (st\<lparr>ag_reconfiguration := q\<rparr>)" using assms unfolding journal_inv_def by simp
qed (simp add: fences_later_def)

lemma superseding_ok:
  assumes "journal_inv st" "bt_get (ag_removal_commands st) (ec_operation_id (rcr_command r)) = None"
  shows "journal_inv (st\<lparr>ag_pending_effect := None, ag_reconfiguration := Some r\<rparr>)
    \<and> fences_later st (st\<lparr>ag_pending_effect := None, ag_reconfiguration := Some r\<rparr>)"
proof -
  let ?u = "st\<lparr>ag_pending_effect := None\<rparr>"
  have u: "journal_inv ?u \<and> fences_later st ?u" by (rule set_pending [OF assms(1)]) simp
  have "journal_inv (?u\<lparr>ag_reconfiguration := Some r\<rparr>) \<and> fences_later ?u (?u\<lparr>ag_reconfiguration := Some r\<rparr>)"
    by (rule journal_inv_reconfiguration) (use u assms(2) in simp_all)
  with u show ?thesis using fences_later_trans by simp blast
qed

lemma resume_configuration_ok:
  assumes "resume_configuration c pending st = Ok (x, t)" "journal_inv st"
    "bt_get (ag_removal_commands st) (ec_operation_id c) = None"
  shows "journal_inv t \<and> fences_later st t"
proof (cases "rcr_command pending = c")
  case True
  with assms show ?thesis by (simp add: resume_configuration_def)
next
  case False
  then have "t = st\<lparr>ag_pending_effect := None, ag_reconfiguration := Some (new_record c CsAdmitAuthority)\<rparr>"
    using assms(1) by (simp add: resume_configuration_def Let_def split: if_splits)
  then show ?thesis using superseding_ok [OF assms(2)] assms(3) by (simp add: new_record_def)
qed

lemma begin_configuration_step:
  assumes "agent_inv db"
  shows "step_ok db (snd (begin_configuration c db))"
  unfolding begin_configuration_def
proof (rule state_transaction_ok [OF assms], goal_cases)
  case (1 x t)
  let ?st = "db_state db"
  show ?case
  proof (cases "bt_get (ag_removal_commands ?st) (ec_operation_id c)")
    case (Some r)
    with 1 show ?thesis by (simp split: if_splits)
  next
    case None
    note fresh = this
    show ?thesis
    proof (cases "opt_filter (\<lambda>r. ec_operation_id (rcm_command r) = ec_operation_id c) (ag_retained_command ?st)")
      case (Some r)
      with 1 fresh show ?thesis by (simp split: if_splits)
    next
      case None
      show ?thesis
      proof (cases "ag_reconfiguration ?st")
        case (Some pending)
        with 1(1) fresh None have "resume_configuration c pending ?st = Ok (x, t)" by simp
        then show ?thesis using 1(2) fresh by (rule resume_configuration_ok)
      next
        case new: None
        obtain s where t: "t = ?st\<lparr>ag_reconfiguration := Some (new_record c s)\<rparr>"
          using 1(1) fresh None new by (simp add: Let_def) metis
        show ?thesis unfolding t
          by (rule journal_inv_reconfiguration [OF 1(2)]) (use fresh in \<open>auto simp: new_record_def\<close>)
      qed
    qed
  qed
qed

lemma advance_configuration_step:
  assumes "agent_inv db"
  shows "step_ok db (snd (advance_configuration op s n l db))"
  unfolding advance_configuration_def
proof (rule state_transaction_ok [OF assms], goal_cases)
  case (1 x t)
  then obtain r where r: "ag_reconfiguration (db_state db) = Some r"
    by (cases "ag_reconfiguration (db_state db)") simp_all
  define r' where "r' = r\<lparr>rcr_stage := n, rcr_observed_lsn := or_else l (rcr_observed_lsn r)\<rparr>"
  define u where "u = (db_state db)\<lparr>ag_reconfiguration := Some r'\<rparr>"
  have u: "journal_inv u \<and> fences_later (db_state db) u"
    unfolding u_def by (rule journal_inv_reconfiguration [OF 1(2)])
      (use 1(2) r in \<open>auto simp: journal_inv_def r'_def\<close>)
  have "journal_part t = journal_part u \<and> ag_abandoned_builds t = ag_abandoned_builds u"
    using 1(1) r unfolding u_def r'_def by (auto simp: Let_def journal_part_def split: if_splits)
  then show ?case using journal_part_kept [of t u] u fences_later_trans by blast
qed

lemma retire_certificate_part:
  assumes "retire_certificate c x st = Ok t"
  shows "journal_part t = journal_part st \<and> ag_abandoned_builds t = ag_abandoned_builds st"
  using assms by (auto simp: retire_certificate_def journal_part_def split: if_splits option.splits)

lemma record_preparation_retirement_ok:
  assumes "record_preparation_retirement c x st = Ok t" "journal_inv st"
  shows "journal_inv t \<and> fences_later st t"
proof -
  obtain e i where ei: "(case ec_switchover_handoff c of
      None \<Rightarrow> (ec_current_epoch c, configuration_id (ec_current_configuration c))
    | Some h \<Rightarrow> (sh_starting_epoch h, sh_starting_configuration_id h)) = (e, i)" by fastforce
  then have t: "t = st\<lparr>ag_preparation_retirement := Some \<lparr>prt_starting_configuration_id = i,
      prt_starting_epoch = e, prt_generation = spi_generation x\<rparr>\<rparr>"
    and mark: "\<not> is_some_and (ag_preparation_retirement st) (\<lambda>r. prt_starting_epoch r > e
      \<or> (prt_starting_epoch r = e \<and> (prt_starting_configuration_id r \<noteq> i \<or> prt_generation r > spi_generation x)))"
    using assms(1) unfolding record_preparation_retirement_def Let_def ei by (simp_all split: if_splits)
  have "journal_inv t" using assms(2) unfolding journal_inv_def t by simp
  moreover have "fences_later st t"
    using mark unfolding fences_later_def t
    by (cases "ag_preparation_retirement st") (auto simp: retirement_mark_advances_def)
  ultimately show ?thesis by blast
qed

lemma record_preparation_retirement_keeps:
  assumes "record_preparation_retirement c x st = Ok t"
  shows "ag_removal_commands t = ag_removal_commands st" "ag_reconfiguration t = ag_reconfiguration st"
  using assms
  by (auto simp: record_preparation_retirement_def split: if_splits prod.splits)

lemma retire_preparations_ok:
  assumes "retire_preparations c st = Ok t" "journal_inv st"
  shows "journal_inv t \<and> fences_later st t" "ag_removal_commands t = ag_removal_commands st"
    "ag_reconfiguration t = ag_reconfiguration st"
proof -
  have "(journal_inv t \<and> fences_later st t) \<and> ag_removal_commands t = ag_removal_commands st
    \<and> ag_reconfiguration t = ag_reconfiguration st"
  proof (cases "ec_retire_switchover_preparation_ids c")
    case (Cons x xs)
    with assms(1) obtain u where u: "retire_certificate c x st = Ok u" "record_preparation_retirement c x u = Ok t"
      unfolding retire_preparations_def by auto
    note part = retire_certificate_part [OF u(1)]
    have v: "journal_inv u \<and> fences_later st u" using part journal_part_kept [of u st] assms(2) by simp
    then have "journal_inv t \<and> fences_later u t" using record_preparation_retirement_ok [OF u(2)] by blast
    moreover have "ag_removal_commands u = ag_removal_commands st" "ag_reconfiguration u = ag_reconfiguration st"
      using part by (simp_all add: journal_part_def)
    ultimately show ?thesis
      using v record_preparation_retirement_keeps [OF u(2)] fences_later_trans by metis
  qed (use assms in \<open>simp add: retire_preparations_def\<close>)
  then show "journal_inv t \<and> fences_later st t" "ag_removal_commands t = ag_removal_commands st"
    "ag_reconfiguration t = ag_reconfiguration st" by blast+
qed

lemma finish_configuration_ok:
  assumes "journal_inv st" "ag_reconfiguration st = None"
    "bt_get (ag_removal_commands st) (ec_operation_id c) = None"
  shows "journal_inv (snd (finish_configuration c st)) \<and> fences_later st (snd (finish_configuration c st))"
proof
  show "journal_inv (snd (finish_configuration c st))"
    using assms(1,2) unfolding journal_inv_def finish_configuration_def Let_def by simp
  show "fences_later st (snd (finish_configuration c st))"
    using assms(3) unfolding fences_later_def finish_configuration_def Let_def by (simp add: map_extends_insert)
qed

lemma complete_configuration_step:
  assumes "agent_inv db"
  shows "step_ok db (snd (complete_configuration op db))"
  unfolding complete_configuration_def
proof (rule state_transaction_ok [OF assms], goal_cases)
  case (1 x t)
  let ?st = "db_state db"
  from 1(1) obtain r where r: "ag_reconfiguration ?st = Some r" by (cases "ag_reconfiguration ?st") simp_all
  let ?c = "rcr_command r" and ?u = "?st\<lparr>ag_reconfiguration := None\<rparr>"
  from 1(1) r obtain v where v: "retire_preparations ?c ?u = Ok v" "finish_configuration ?c v = (x, t)"
    by (auto simp: Let_def split: if_splits)
  have u: "journal_inv ?u \<and> fences_later ?st ?u" by (rule journal_inv_reconfiguration [OF 1(2)]) simp
  have keep: "journal_inv v \<and> fences_later ?u v" "ag_removal_commands v = ag_removal_commands ?st"
    "ag_reconfiguration v = None"
    using retire_preparations_ok [OF v(1)] u by simp_all
  have "bt_get (ag_removal_commands v) (ec_operation_id ?c) = None"
    using 1(2) r keep(2) unfolding journal_inv_def by simp
  then have "journal_inv t \<and> fences_later v t" using finish_configuration_ok [of v ?c] keep v(2) by simp
  then show ?case using keep(1) u fences_later_trans by blast
qed

text \<open>The columns of the state row that no transaction of Durable_Store writes.\<close>

definition agent_columns where
  "agent_columns s = (ds_local_identity s, ds_resource_uid s, ds_state_retired s, ds_retired_builds s)"

lemma store_step_columns: "agent_columns (store_step H D op t) = agent_columns t"
proof (cases op)
  case (StAdmit a)
  have "agent_columns (snd (store_admit H D a t)) = agent_columns t"
    by (rule store_admit_cases) (auto simp: admit_body_def agent_columns_def split: if_splits option.splits)
  with StAdmit show ?thesis by simp
qed (simp_all only: store_step.simps store_op_defs,
    (rule transaction_keeps; auto simp: agent_columns_def Let_def split: if_splits option.splits)+)

lemma coherent_iff:
  "coherent db \<longleftrightarrow> agent_columns (db_tables db) = (ag_local (db_state db), ag_resource_uid (db_state db),
      ag_retired_authority (db_state db), ag_retired_builds (db_state db))
    \<and> ds_abandoned_builds (db_tables db) = ag_abandoned_builds (db_state db)
    \<and> ds_state_build_progress (db_tables db) = ag_build_progress (db_state db)" (is "_ = ?rhs")
proof
  assume "coherent db"
  then have E: "agent_view (db_state db) (db_tables db) = db_tables db" by (simp add: coherent_def)
  show ?rhs
    using arg_cong [OF E, of agent_columns] arg_cong [OF E, of ds_abandoned_builds]
      arg_cong [OF E, of ds_state_build_progress]
    by (simp add: agent_columns_def agent_view_def)
next
  assume ?rhs
  then show "coherent db" unfolding coherent_def agent_columns_def agent_view_def
    by (intro DurableStore.equality) simp_all
qed

lemma tables_step_ok:
  assumes "agent_inv db"
  shows "step_ok db (tables_step H D op db)"
proof -
  let ?t = "store_step H D op (db_tables db)" and ?db = "tables_step H D op db"
  from assms have inv: "journal_inv (db_state db)" "coherent db" by (simp_all add: agent_inv_def)
  have "ag_abandoned_builds (db_state db) \<subseteq> ds_abandoned_builds ?t"
    using builds_step [of "db_tables db" H D op] inv(2) by (simp add: builds_later_def coherent_iff)
  then have "journal_inv (db_state ?db) \<and> fences_later (db_state db) (db_state ?db)"
    by (intro journal_part_kept [OF _ _ inv(1)]) (simp_all add: tables_step_def Let_def journal_part_def)
  moreover have "coherent ?db"
    using inv(2) store_step_columns [of H D op "db_tables db"] unfolding coherent_iff tables_step_def Let_def by simp
  ultimately show ?thesis by (simp add: step_ok_def agent_inv_def agent_later_def)
qed

lemma agent_step_ok: "agent_inv db \<Longrightarrow> step_ok db (agent_step H D op db)"
  by (cases op) (simp_all add: quiet_steps pending_steps begin_effect_step complete_effect_step
      begin_configuration_step advance_configuration_step complete_configuration_step tables_step_ok)

interpretation agent_history: forward_history "agent_step H D" "\<lambda>_. True" agent_inv agent_later for H D
  using agent_step_ok unfolding step_ok_def
  by unfold_locales (auto simp: agent_later_def intro: fences_later_trans)

lemma agent_store_new_inv: "agent_inv (agent_store_new i)"
  by (simp add: agent_inv_def agent_store_new_def journal_inv_def agent_state_new_def coherent_iff agent_columns_def
      store_new_def)

lemma agent_run_inv: "agent_inv (agent_run H D ops (agent_store_new i))"
  unfolding agent_run_def by (rule agent_history.run_inv [OF agent_store_new_inv]) (simp add: list_all_iff)

lemma agent_run_later: "agent_inv db \<Longrightarrow> agent_inv (agent_run H D ops db) \<and> fences_later (db_state db) (db_state (agent_run H D ops db))"
  using agent_history.run_later [of db ops H D] agent_history.run_inv [of db ops H D]
  by (simp add: agent_run_def agent_later_def list_all_iff)

end
