(* ===== verification/Status_Checks.thy ===== *)
theory Status_Checks
  imports Report_Checks
begin

text \<open>
  \<open>validate_replacement_cleanup\<close>, \<open>validate_status\<close> and \<open>validate_snapshot\<close> of
  \<open>kuberic-runtime/src/protocol/validation.rs\<close>: the gate every evaluation of the controller passes.
  The long functions are split into the checks they run one after the other.
\<close>

section \<open>Cleanup obligations\<close>

definition resource_incomplete :: "CleanupResourceIdentity \<Rightarrow> bool" where
  "resource_incomplete r \<longleftrightarrow> cleanup_name r = '''' \<or> present_uid r (\<lambda>u. u = '''')"

definition validate_replacement_cleanup :: "(bytes \<Rightarrow> bytes) \<Rightarrow> ReplacementCleanup \<Rightarrow> check" where
  "validate_replacement_cleanup H c =
     (case (ci_pod (rc_resources c), ci_pvc (rc_resources c)) of
        (Present _ pod, Present _ pvc) \<Rightarrow>
          if replica_id (rc_target c) \<le> 0 \<or> rc_resource_uid c = '''' \<or> pod = '''' \<or> pvc = ''''
             \<or> pod \<noteq> instance_id (rc_target c)
             \<or> derive_agent_generation H
                 (derive_initialization_id H (rc_resource_uid c) (replica_id (rc_target c)) pod pvc)
                 \<noteq> agent_generation (rc_target c)
             \<or> (\<exists>r \<in> {ci_pod (rc_resources c), ci_pvc (rc_resources c), ci_endpoint (rc_resources c)}.
                  resource_incomplete r)
             \<or> cleanup_name (ci_endpoint (rc_resources c))
                 \<noteq> derive_replica_endpoint_name H (rc_resource_uid c) (rc_target c)
          then Err InvalidReplacementCleanup else Ok ()
      | _ \<Rightarrow> Err InvalidReplacementCleanup)"

section \<open>Status: obligations beside the transition\<close>

definition first_free_ordinal :: "EffectivePolicy \<Rightarrow> ConfigurationDescriptor \<Rightarrow> ReplicaId option" where
  "first_free_ordinal p c =
     (if replica_set_size p = 4294967295 then None
      else find (\<lambda>x. \<forall>m \<in> set (members c). m_replica_id m \<noteq> x) [1..int (unat (replica_set_size p + 1))])"

definition allocation_status_check :: "(bytes \<Rightarrow> bytes) \<Rightarrow> AcceptedStatus \<Rightarrow> ScaleUpAllocation \<Rightarrow> check" where
  "allocation_status_check H st a =
     and_then (validate_scale_up_allocation H a) (\<lambda>_.
     let expected = Option.bind (st_accepted st) (\<lambda>c. Option.bind (st_effective_policy st) (\<lambda>p. first_free_ordinal p c))
     in if \<not> st_initialized st
           \<or> is_none_or (st_accepted st) (\<lambda>c. configuration_id c \<noteq> al_accepted_configuration_id a)
           \<or> is_none_or (st_effective_policy st) (\<lambda>p. replica_set_size p = 4294967295
                \<or> al_desired_replicas a \<le> replica_set_size p)
           \<or> expected \<noteq> Some (al_target_replica_id a)
           \<or> st_provisioning st \<noteq> None
           \<or> is_some_and (st_transition st) (\<lambda>t. ti_kind t \<noteq> Failover \<or> ti_scale_up t \<noteq> None
                \<or> ti_scale_up_failover t \<noteq> None
                \<or> ti_previous_configuration_id t \<noteq> Some (al_accepted_configuration_id a))
           \<or> st_scale_up_cleanup st \<noteq> None \<or> st_secondary_scale_down_cleanup st \<noteq> None
           \<or> st_pending_replacement_cleanup st \<noteq> None \<or> st_last_replacement st \<noteq> None
        then Err (InvalidScaleUp ''allocation must bind compatible accepted or failover authority'')
        else Ok ())"

definition admission_started_check :: "AcceptedStatus \<Rightarrow> OperationId \<Rightarrow> check" where
  "admission_started_check st x =
     (if is_none_or (st_active_scale_up st) (\<lambda>i. su_operation_id i \<noteq> x)
      then Err (InvalidScaleUp ''scale-up admission-start fence differs from active authority'') else Ok ())"

definition pending_replacement_check :: "(bytes \<Rightarrow> bytes) \<Rightarrow> AcceptedStatus \<Rightarrow> ReplacementCleanup \<Rightarrow> check" where
  "pending_replacement_check H st c =
     and_then (validate_replacement_cleanup H c) (\<lambda>_.
     and_then (ok_or (st_accepted st) InvalidReplacementCleanup) (\<lambda>a.
     if st_last_replacement st \<noteq> None \<or> st_secondary_scale_down_cleanup st \<noteq> None
        \<or> st_scale_up_cleanup st \<noteq> None
        \<or> rc_target c \<notin> exact_identities a
        \<or> is_some_and (st_provisioning st) (\<lambda>p. pi_replacement p \<noteq> Some (rc_target c)
             \<or> pi_pod_uid p = instance_id (rc_target c)
             \<or> present_uid (ci_pvc (rc_resources c)) (\<lambda>u. u = pi_pvc_uid p)
             \<or> pi_operation_id p \<noteq> rc_provisioning_operation_id H c (pi_pod_uid p) (pi_pvc_uid p))
        \<or> is_some_and (st_transition st) (\<lambda>t. ti_kind t \<notin> {Replacement, Failover}
             \<or> (\<exists>x \<in> exact_identities a. x \<notin> exact_identities (ti_current_configuration t) \<and> x \<noteq> rc_target c)
             \<or> (rc_target c \<notin> exact_identities (ti_current_configuration t)
                \<and> ti_transition_id t
                    \<noteq> rc_transition_id H c (ti_kind t) (configuration_id (ti_current_configuration t))))
     then Err InvalidReplacementCleanup else Ok ()))"

definition last_replacement_check :: "(bytes \<Rightarrow> bytes) \<Rightarrow> AcceptedStatus \<Rightarrow> ReplacementCleanup \<Rightarrow> check" where
  "last_replacement_check H st c =
     (if \<not> is_ok (validate_replacement_cleanup H c) \<or> st_provisioning st \<noteq> None \<or> st_transition st \<noteq> None
         \<or> st_secondary_scale_down_cleanup st \<noteq> None \<or> st_scale_up_cleanup st \<noteq> None
         \<or> is_none_or (st_accepted st) (\<lambda>a. \<not> (\<exists>m \<in> set (members a).
              m_replica_id m = replica_id (rc_target c) \<and> instance_id (m_identity m) \<noteq> instance_id (rc_target c)))
      then Err InvalidReplacementCleanup else Ok ())"

definition same_resource :: "CleanupResourceIdentity \<Rightarrow> CleanupResourceIdentity \<Rightarrow> bool" where
  "same_resource a b \<longleftrightarrow> cleanup_name a = cleanup_name b \<or> present_uid a (\<lambda>u. present_uid b (\<lambda>v. u = v))"

definition protected_cleanup_check :: "AcceptedStatus \<Rightarrow> ReplacementCleanup \<Rightarrow> check" where
  "protected_cleanup_check st c =
     (if is_some_and (st_last_secondary_removal st) (\<lambda>receipt.
           let p = sd_cleanup (re_intent (rmr_evidence receipt)); r = rc_resources c
           in same_resource (ci_pod r) (ci_pod p) \<or> same_resource (ci_pvc r) (ci_pvc p)
              \<or> same_resource (ci_endpoint r) (ci_endpoint p))
      then Err InvalidReplacementCleanup else Ok ())"

definition last_removal_check :: "(bytes \<Rightarrow> bytes) \<Rightarrow> AcceptedStatus \<Rightarrow> SecondaryRemovalReceipt \<Rightarrow> check" where
  "last_removal_check H st receipt =
     and_then (validate_secondary_scale_down_cleanup H (rmr_committed receipt)) (\<lambda>_.
     let i = re_intent (rmr_evidence receipt); cur = sd_current_configuration i
     in if st_secondary_scale_down_cleanup st \<noteq> None
           \<or> is_none_or (st_accepted st) (\<lambda>a. c_epoch a < c_epoch cur
                \<or> (c_epoch a = c_epoch cur \<and> (a \<noteq> cur \<or> st_effective_policy st \<noteq> Some (sd_current_policy i))))
        then Err (InvalidSecondaryScaleDown ''completed removal must bind accepted or superseded authority without cleanup'')
        else Ok ())"

text \<open>The accepted configuration still has the members a scale-up was provisioned against.\<close>

definition accepted_matches_provisioning :: "AcceptedStatus \<Rightarrow> ScaleUpProvisioning \<Rightarrow> bool" where
  "accepted_matches_provisioning st p \<longleftrightarrow> is_some_and (st_accepted st) (\<lambda>a.
     c_epoch a \<ge> c_epoch (sp_previous_configuration p)
     \<and> exact_identities a = exact_identities (sp_previous_configuration p))"

definition scale_up_cleanup_status_check :: "(bytes \<Rightarrow> bytes) \<Rightarrow> AcceptedStatus \<Rightarrow> ScaleUpCleanup \<Rightarrow> check" where
  "scale_up_cleanup_status_check H st c =
     and_then (validate_scale_up_cleanup H c) (\<lambda>_.
     and_then (ok_or (pi_scale_up (sc_provisioning c)) (InvalidScaleUp ''cleanup requires scale-up provisioning'')) (\<lambda>p.
     if st_provisioning st \<noteq> None
        \<or> \<not> is_none_or (st_transition st) (\<lambda>t. ti_kind t = Failover \<and> ti_scale_up t = None
             \<and> ti_scale_up_failover t = None
             \<and> \<not> (\<exists>m \<in> set (members (ti_current_configuration t)).
                    m_replica_id m = replica_id (sc_target c) \<or> m_identity m = sc_target c))
        \<or> st_secondary_scale_down_cleanup st \<noteq> None \<or> st_pending_replacement_cleanup st \<noteq> None
        \<or> st_last_replacement st \<noteq> None
        \<or> \<not> accepted_matches_provisioning st p
        \<or> st_effective_policy st \<noteq> Some (sp_previous_policy p)
     then Err (InvalidScaleUp ''cleanup must bind uncommitted accepted authority'') else Ok ()))"

definition last_scale_up_check :: "(bytes \<Rightarrow> bytes) \<Rightarrow> AcceptedStatus \<Rightarrow> ScaleUpReceipt \<Rightarrow> check" where
  "last_scale_up_check H st receipt =
     and_then (validate_scale_up_receipt H receipt) (\<lambda>_.
     let acc = ur_accepted_configuration receipt
     in if is_none_or (st_accepted st) (\<lambda>a. c_epoch a < c_epoch acc
             \<or> (c_epoch a = c_epoch acc
                \<and> (a \<noteq> acc \<or> st_effective_policy st \<noteq> Some (su_current_policy (ur_intent receipt)))))
        then Err (InvalidScaleUp ''completed scale-up must bind accepted or superseded authority'')
        else Ok ())"

definition removal_cleanup_status_check ::
    "(bytes \<Rightarrow> bytes) \<Rightarrow> AcceptedStatus \<Rightarrow> SecondaryScaleDownCleanup \<Rightarrow> check" where
  "removal_cleanup_status_check H st c =
     and_then (validate_secondary_scale_down_cleanup H c) (\<lambda>_.
     let i = sdc_intent c
     in if st_transition st \<noteq> None \<or> st_provisioning st \<noteq> None \<or> st_primary_failure st \<noteq> None
           \<or> st_scale_up_cleanup st \<noteq> None
           \<or> st_accepted st \<noteq> Some (sd_current_configuration i)
           \<or> st_effective_policy st \<noteq> Some (sd_current_policy i)
        then Err (InvalidSecondaryScaleDown ''cleanup must exclusively bind accepted reduced authority'')
        else Ok ())"

section \<open>Status: initialization, provisioning and failure records\<close>

definition initialization_check :: "AcceptedStatus \<Rightarrow> check" where
  "initialization_check st =
     (if st_initialized st \<and> st_topology st = None then Err InitializedWithoutTopology
      else if \<not> st_initialized st \<and> st_topology st \<noteq> None then Err TopologyBeforeInitialization
      else if st_initialized st \<and> st_effective_policy st = None then Err InitializedWithoutPolicy
      else if \<not> st_initialized st \<and> st_effective_policy st \<noteq> None \<and> st_transition st = None
      then Err PolicyBeforeInitialization
      else Ok ())"

definition retained_scale_up_provenance ::
    "(bytes \<Rightarrow> bytes) \<Rightarrow> ProvisioningIntent \<Rightarrow> ScaleUpIntent \<Rightarrow> ScaleUpProvisioning \<Rightarrow> bool" where
  "retained_scale_up_provenance H p i frozen \<longleftrightarrow>
     sp_resource_uid frozen = su_resource_uid i \<and> sp_spec_generation frozen = su_spec_generation i
     \<and> sp_desired_replicas frozen = su_desired_replicas i
     \<and> sp_previous_configuration frozen = su_previous_configuration i
     \<and> sp_previous_policy frozen = su_previous_policy i \<and> sp_current_policy frozen = su_current_policy i
     \<and> target_identity H p (su_resource_uid i) = su_target i
     \<and> scale_up_build_id H p (su_resource_uid i) = Some (su_build_id i)"

definition deferred_cleanup_during_failover ::
    "(bytes \<Rightarrow> bytes) \<Rightarrow> ProvisioningIntent \<Rightarrow> TransitionIntent \<Rightarrow> ScaleUpProvisioning \<Rightarrow> bool" where
  "deferred_cleanup_during_failover H p t frozen \<longleftrightarrow>
     ti_kind t = Failover \<and> ti_scale_up t = None \<and> ti_scale_up_failover t = None
     \<and> ti_effective_policy t = sp_previous_policy frozen
     \<and> c_epoch (ti_current_configuration t) > c_epoch (sp_previous_configuration frozen)
     \<and> exact_identities (ti_current_configuration t) = exact_identities (sp_previous_configuration frozen)
     \<and> target_identity H p (sp_resource_uid frozen) \<notin> exact_identities (ti_current_configuration t)"

definition provisioning_transition_check :: "(bytes \<Rightarrow> bytes) \<Rightarrow> AcceptedStatus \<Rightarrow> check" where
  "provisioning_transition_check H st =
     (if is_some_and (st_transition st) (\<lambda>t. ti_scale_up t \<noteq> None \<or> ti_scale_up_failover t \<noteq> None)
         \<and> st_provisioning st = None
      then Err (InvalidScaleUp ''active scale-up transition requires exact provisioning provenance'')
      else if is_some_and (st_provisioning st) (\<lambda>p. is_some_and (st_transition st) (\<lambda>t.
             \<not> is_some_and (ti_active_scale_up t) (\<lambda>i.
                  is_some_and (pi_scale_up p) (retained_scale_up_provenance H p i))
             \<and> \<not> is_some_and (pi_scale_up p) (deferred_cleanup_during_failover H p t)))
      then Err ProvisioningAndTransition
      else if st_provisioning st \<noteq> None \<and> (\<not> st_initialized st \<or> st_topology st = None)
      then Err ProvisioningWithoutTopology
      else Ok ())"

definition provisioning_status_check :: "(bytes \<Rightarrow> bytes) \<Rightarrow> AcceptedStatus \<Rightarrow> ProvisioningIntent \<Rightarrow> check" where
  "provisioning_status_check H st p =
     and_then (validate_scale_up_provisioning H p) (\<lambda>_.
     check_some (pi_scale_up p) (\<lambda>s.
       if \<not> accepted_matches_provisioning st s \<or> st_effective_policy st \<noteq> Some (sp_previous_policy s)
          \<or> st_scale_up_cleanup st \<noteq> None
       then Err (InvalidScaleUp ''provisioning differs from accepted authority'') else Ok ()))"

definition primary_failure_check :: "AcceptedStatus \<Rightarrow> PrimaryFailureObservation \<Rightarrow> check" where
  "primary_failure_check st f =
     and_then (ok_or (Option.bind (st_accepted st) (\<lambda>a. find (\<lambda>m. m_replica_id m = primary_id a) (members a)))
                PrimaryFailureMismatch) (\<lambda>m.
       if pf_primary f \<noteq> m_identity m then Err PrimaryFailureMismatch else Ok ())"

definition quorum_loss_check :: "AcceptedStatus \<Rightarrow> QuorumLossObservation \<Rightarrow> check" where
  "quorum_loss_check st q =
     (if is_none_or (st_accepted st) (\<lambda>a. configuration_id a \<noteq> ql_configuration_id q)
      then Err QuorumLossMismatch else Ok ())"

section \<open>Status: the active transition\<close>

definition scale_up_transition_check :: "(bytes \<Rightarrow> bytes) \<Rightarrow> AcceptedStatus \<Rightarrow> TransitionIntent \<Rightarrow> check" where
  "scale_up_transition_check H st t =
     and_then (ok_or (ti_scale_up t) (InvalidScaleUp ''missing frozen scale-up intent'')) (\<lambda>i.
     and_then (validate_scale_up H i) (\<lambda>_.
     if st_accepted st \<noteq> Some (su_previous_configuration i)
        \<or> st_effective_policy st \<noteq> Some (su_previous_policy i)
        \<or> ti_effective_policy t \<noteq> su_current_policy i
        \<or> ti_current_configuration t \<noteq> su_current_configuration i
        \<or> ti_previous_configuration_id t \<noteq> Some (configuration_id (su_previous_configuration i))
        \<or> ti_spec_generation t \<noteq> su_spec_generation i
        \<or> ti_transition_id t \<noteq> su_transition_id H i TransitionKind.ScaleUp (su_current_configuration i)
        \<or> ti_build_id t \<noteq> Some (su_build_id i)
        \<or> ti_scale_up_failover t \<noteq> None \<or> ti_switchover t \<noteq> None \<or> ti_secondary_scale_down t \<noteq> None
        \<or> ti_secondary_removal_evidence t \<noteq> None \<or> ti_repair t \<noteq> None \<or> ti_election_lsn t \<noteq> None
        \<or> (st_primary_failure st \<noteq> None \<and> st_scale_up_admission_started st \<noteq> None)
     then Err (InvalidScaleUp ''transition differs from immutable intent'') else Ok ()))"

definition scale_down_transition_check :: "(bytes \<Rightarrow> bytes) \<Rightarrow> AcceptedStatus \<Rightarrow> TransitionIntent \<Rightarrow> check" where
  "scale_down_transition_check H st t =
     and_then (ok_or (ti_secondary_scale_down t) (InvalidSecondaryScaleDown ''missing frozen intent'')) (\<lambda>i.
     and_then (validate_secondary_scale_down H i) (\<lambda>_.
     if st_accepted st \<noteq> Some (sd_previous_configuration i)
        \<or> st_effective_policy st \<noteq> Some (sd_previous_policy i)
        \<or> ti_effective_policy t \<noteq> sd_current_policy i
        \<or> ti_current_configuration t \<noteq> sd_current_configuration i
        \<or> ti_previous_configuration_id t \<noteq> Some (configuration_id (sd_previous_configuration i))
        \<or> ti_spec_generation t \<noteq> sd_spec_generation i
        \<or> ti_transition_id t
            \<noteq> derive_transition_id H (sd_resource_uid i) (ti_kind t) (configuration_id (sd_current_configuration i))
        \<or> ti_switchover t \<noteq> None \<or> ti_build_id t \<noteq> None \<or> ti_repair t \<noteq> None \<or> ti_election_lsn t \<noteq> None
        \<or> ti_scale_up t \<noteq> None \<or> ti_scale_up_failover t \<noteq> None \<or> st_primary_failure st \<noteq> None
     then Err (InvalidSecondaryScaleDown ''transition differs from immutable intent'')
     else check_some (ti_secondary_removal_evidence t) (\<lambda>e.
       and_then (validate_secondary_removal_evidence H e False) (\<lambda>_.
         if re_intent e \<noteq> i then Err (InvalidSecondaryScaleDown ''evidence differs from immutable intent'')
         else Ok ()))))"

definition carried_scale_up_check ::
    "(bytes \<Rightarrow> bytes) \<Rightarrow> AcceptedStatus \<Rightarrow> TransitionIntent \<Rightarrow> ScaleUpFailoverEvidence \<Rightarrow> check" where
  "carried_scale_up_check H st t e =
     and_then (validate_scale_up_failover_transition H e (ti_current_configuration t) (ti_effective_policy t)) (\<lambda>_.
     let i = sf_intent e
     in if st_accepted st \<noteq> Some (su_previous_configuration i)
           \<or> st_effective_policy st \<noteq> Some (su_previous_policy i)
           \<or> ti_previous_configuration_id t \<noteq> Some (configuration_id (su_previous_configuration i))
           \<or> ti_spec_generation t \<noteq> su_spec_generation i
           \<or> ti_transition_id t \<noteq> su_transition_id H i Failover (ti_current_configuration t)
           \<or> ti_build_id t \<noteq> Some (su_build_id i)
           \<or> ti_scale_up t \<noteq> None \<or> ti_switchover t \<noteq> None \<or> ti_secondary_scale_down t \<noteq> None
           \<or> ti_secondary_removal_evidence t \<noteq> None
           \<or> is_some_and (ti_election_lsn t) (\<lambda>l. l < 0)
           \<or> (case (ti_election_lsn t, sf_final_election e) of
                (None, None) \<Rightarrow> ti_current_configuration t \<noteq> sf_provisional_configuration e
              | (Some l, Some f) \<Rightarrow>
                  fe_final_configuration H f (sf_provisional_configuration e) \<noteq> Some (ti_current_configuration t)
                  \<or> fe_safe_lsn f \<noteq> Some l
              | _ \<Rightarrow> True)
        then Err (InvalidScaleUp ''failover transition differs from carried scale-up authority'')
        else Ok ())"

definition bootstrap_transition_check :: "AcceptedStatus \<Rightarrow> TransitionIntent \<Rightarrow> check" where
  "bootstrap_transition_check st t =
     (if ti_switchover t \<noteq> None then Err UnexpectedSwitchoverIntent
      else if ti_previous_configuration_id t \<noteq> None then Err BootstrapHasPreviousConfiguration
      else if ti_build_id t \<noteq> None then Err InvalidReplacementMembership
      else if ti_repair t \<noteq> None then Err InvalidFailoverRepairTarget
      else if ti_election_lsn t \<noteq> None then Err InvalidFailoverElectionLsn
      else if st_topology st \<noteq> None then Err BootstrapHasTopology
      else Ok ())"

text \<open>The accepted configuration that a transition starts from, when it names it as its previous one.\<close>

definition transition_topology :: "AcceptedStatus \<Rightarrow> TransitionIntent \<Rightarrow> (ValidationError, ConfigurationDescriptor) result" where
  "transition_topology st t =
     and_then (ok_or (st_accepted st) TransitionWithoutTopology) (\<lambda>a.
       if ti_previous_configuration_id t \<noteq> Some (configuration_id a)
       then Err (PreviousConfigurationMismatch (ti_previous_configuration_id t) (configuration_id a))
       else Ok a)"

definition failover_transition_check :: "ConfigurationDescriptor \<Rightarrow> TransitionIntent \<Rightarrow> check" where
  "failover_transition_check a t =
     (if is_none_or (ti_election_lsn t) (\<lambda>l. l < 0) then Err InvalidFailoverElectionLsn
      else if exact_identities a \<noteq> exact_identities (ti_current_configuration t) \<and> ti_build_id t = None
      then Err FailoverReplacementWithoutBuild
      else check_some (ti_repair t) (\<lambda>x.
        if \<not> (\<exists>m \<in> set (members (ti_current_configuration t)). m_identity m = ri_target x \<and> m_role m \<noteq> Primary)
        then Err InvalidFailoverRepairTarget else Ok ()))"

definition membership_transition_check :: "(bytes \<Rightarrow> bytes) \<Rightarrow> AcceptedStatus \<Rightarrow> TransitionIntent \<Rightarrow> check" where
  "membership_transition_check H st t =
     (if ti_switchover t \<noteq> None then Err UnexpectedSwitchoverIntent
      else and_then (transition_topology st t) (\<lambda>a.
        and_then (validate_configuration H a (Some (ti_effective_policy t))) (\<lambda>_.
        and_then (validate_transition_relationship H (ti_kind t) (Some a) (ti_current_configuration t)
                    (ti_effective_policy t)) (\<lambda>_.
        if ti_kind t = Replacement \<and> ti_build_id t = None then Err InvalidReplacementMembership
        else if ti_kind t = Replacement \<and> ti_repair t \<noteq> None then Err InvalidFailoverRepairTarget
        else if ti_kind t = Replacement \<and> ti_election_lsn t \<noteq> None then Err InvalidFailoverElectionLsn
        else if ti_kind t = Failover then failover_transition_check a t
        else Ok ()))))"

definition switchover_resolution_check ::
    "(bytes \<Rightarrow> bytes) \<Rightarrow> TransitionIntent \<Rightarrow> PlannedSwitchoverIntent \<Rightarrow> check" where
  "switchover_resolution_check H t i =
     (let cur = ti_current_configuration t; req = si_requested_configuration i;
          follows = validate_transition_relationship H (ti_kind t) (Some req) cur (ti_effective_policy t)
      in case si_resolution i of
           CompensatingOldPrimary \<Rightarrow>
             and_then follows (\<lambda>_.
               if primary_id cur \<noteq> replica_id (si_source i) \<or> si_handoff i = None
               then Err InvalidSwitchoverResolution else Ok ())
         | ResolutionUnsafe \<Rightarrow>
             if cur \<noteq> req
             then and_then follows (\<lambda>_.
               if primary_id cur \<noteq> replica_id (si_source i) then Err InvalidSwitchoverResolution else Ok ())
             else Ok ()
         | _ \<Rightarrow> if cur \<noteq> req then Err InvalidSwitchoverResolution else Ok ())"

definition switchover_handoff_check ::
    "ConfigurationDescriptor \<Rightarrow> PlannedSwitchoverIntent \<Rightarrow> SwitchoverHandoff \<Rightarrow> check" where
  "switchover_handoff_check a i h =
     and_then (validate_switchover_handoff h) (\<lambda>_.
       if sh_preparation_generation h \<noteq> si_preparation_generation i \<or> sh_request_id h \<noteq> si_request_id i
          \<or> sh_source h \<noteq> si_source i \<or> sh_target h \<noteq> si_target i
          \<or> sh_starting_configuration_id h \<noteq> configuration_id a \<or> sh_starting_epoch h \<noteq> c_epoch a
       then Err InvalidSwitchoverHandoff else Ok ())"

definition switchover_transition_check :: "(bytes \<Rightarrow> bytes) \<Rightarrow> AcceptedStatus \<Rightarrow> TransitionIntent \<Rightarrow> check" where
  "switchover_transition_check H st t =
     and_then (transition_topology st t) (\<lambda>a.
     if ti_election_lsn t \<noteq> None \<or> ti_build_id t \<noteq> None \<or> ti_repair t \<noteq> None
     then Err InvalidSwitchoverEvidence
     else and_then (ok_or (ti_switchover t) MissingSwitchoverIntent) (\<lambda>i.
       if si_request_id i = '''' \<or> si_preparation_generation i = 0
          \<or> si_preparation_generation i \<noteq> ti_spec_generation t
       then Err MissingSwitchoverIntent
       else if is_some_and (st_last_switchover st) (\<lambda>r. sr_request_id r = si_request_id i
              \<and> \<not> (sr_outcome r = OutcomeUnsafe \<and> si_resolution i = ResolutionUnsafe))
       then Err InvalidSwitchoverReceipt
       else and_then (expect (find (\<lambda>m. m_replica_id m = primary_id a) (members a))) (\<lambda>primary.
       if si_source i \<noteq> m_identity primary then Err InvalidSwitchoverSource
       else if replica_id (si_target i) = primary_id a \<or> si_target i \<notin> exact_identities a
       then Err InvalidSwitchoverTarget
       else and_then (validate_transition_relationship H (ti_kind t) (Some a) (si_requested_configuration i)
                        (ti_effective_policy t)) (\<lambda>_.
       if primary_id (si_requested_configuration i) \<noteq> replica_id (si_target i)
       then Err InvalidSwitchoverResolution
       else and_then (switchover_resolution_check H t i) (\<lambda>_.
       check_some (si_handoff i) (switchover_handoff_check a i))))))"

text \<open>A transition that carries no scale-up or removal. The arms for \<open>ScaleUp\<close> and
  \<open>SecondaryScaleDown\<close> are \<open>unreachable!\<close> in the source, so they panic here.\<close>

definition ordinary_transition_check :: "(bytes \<Rightarrow> bytes) \<Rightarrow> AcceptedStatus \<Rightarrow> TransitionIntent \<Rightarrow> check" where
  "ordinary_transition_check H st t =
     (if ti_secondary_scale_down t \<noteq> None \<or> ti_secondary_removal_evidence t \<noteq> None
      then Err (InvalidSecondaryScaleDown ''unexpected removal authority'')
      else if ti_scale_up t \<noteq> None \<or> ti_scale_up_failover t \<noteq> None
      then Err (InvalidScaleUp ''unexpected scale-up authority'')
      else if is_some_and (st_effective_policy st) (\<lambda>p. p \<noteq> ti_effective_policy t)
         \<or> (ti_kind t \<noteq> Bootstrap \<and> st_effective_policy st = None)
      then Err TransitionPolicyMismatch
      else and_then (validate_policy (ti_effective_policy t)) (\<lambda>_.
        and_then (validate_configuration H (ti_current_configuration t) (Some (ti_effective_policy t))) (\<lambda>_.
        case ti_kind t of
          Bootstrap \<Rightarrow> bootstrap_transition_check st t
        | Replacement \<Rightarrow> membership_transition_check H st t
        | Failover \<Rightarrow> membership_transition_check H st t
        | PlannedSwitchover \<Rightarrow> switchover_transition_check H st t
        | _ \<Rightarrow> Panic)))"

definition transition_status_check :: "(bytes \<Rightarrow> bytes) \<Rightarrow> AcceptedStatus \<Rightarrow> TransitionIntent \<Rightarrow> check" where
  "transition_status_check H st t =
     (if ti_kind t = TransitionKind.ScaleUp then scale_up_transition_check H st t
      else if ti_kind t = SecondaryScaleDown then scale_down_transition_check H st t
      else if ti_kind t = Failover \<and> ti_scale_up_failover t \<noteq> None
      then check_some (ti_scale_up_failover t) (carried_scale_up_check H st t)
      else ordinary_transition_check H st t)"

definition obligations_check :: "(bytes \<Rightarrow> bytes) \<Rightarrow> AcceptedStatus \<Rightarrow> check" where
  "obligations_check H st =
     and_then (check_some (st_scale_up_allocation st) (allocation_status_check H st)) (\<lambda>_.
     and_then (check_some (st_scale_up_admission_started st) (admission_started_check st)) (\<lambda>_.
     and_then (check_some (st_pending_replacement_cleanup st) (pending_replacement_check H st)) (\<lambda>_.
     and_then (check_some (st_last_replacement st) (last_replacement_check H st)) (\<lambda>_.
     and_then (check_some (or_else (st_pending_replacement_cleanup st) (st_last_replacement st))
                 (protected_cleanup_check st)) (\<lambda>_.
     and_then (check_some (st_last_secondary_removal st) (last_removal_check H st)) (\<lambda>_.
     and_then (check_some (st_scale_up_cleanup st) (scale_up_cleanup_status_check H st)) (\<lambda>_.
     and_then (check_some (st_last_scale_up st) (last_scale_up_check H st)) (\<lambda>_.
     and_then (check_some (st_secondary_scale_down_cleanup st) (removal_cleanup_status_check H st)) (\<lambda>_.
     check_some (st_last_switchover st) validate_switchover_receipt)))))))))"

definition validate_status :: "(bytes \<Rightarrow> bytes) \<Rightarrow> AcceptedStatus \<Rightarrow> check" where
  "validate_status H st =
     and_then (obligations_check H st) (\<lambda>_.
     and_then (initialization_check st) (\<lambda>_.
     and_then (check_some (st_effective_policy st) validate_policy) (\<lambda>_.
     and_then (provisioning_transition_check H st) (\<lambda>_.
     and_then (check_some (st_provisioning st) (provisioning_status_check H st)) (\<lambda>_.
     and_then (check_some (st_topology st)
                 (\<lambda>t. validate_configuration H (tp_configuration t) (st_effective_policy st))) (\<lambda>_.
     and_then (check_some (st_primary_failure st) (primary_failure_check st)) (\<lambda>_.
     and_then (check_some (st_quorum_loss st) (quorum_loss_check st)) (\<lambda>_.
     check_some (st_transition st) (transition_status_check H st)))))))))"

section \<open>The snapshot\<close>

definition replacement_cleanups :: "AcceptedStatus \<Rightarrow> ReplacementCleanup list" where
  "replacement_cleanups st = List.map_filter id [st_last_replacement st, st_pending_replacement_cleanup st]"

definition shares_cleanup_volume :: "ObservationSnapshot \<Rightarrow> ReplacementCleanup \<Rightarrow> bool" where
  "shares_cleanup_volume s c \<longleftrightarrow>
     (\<exists>m \<in> set (case st_accepted (sn_status s) of None \<Rightarrow> [] | Some a \<Rightarrow> members a)
         \<union> set (case st_current (sn_status s) of None \<Rightarrow> [] | Some x \<Rightarrow> members x).
        m_identity m \<noteq> rc_target c
        \<and> is_some_and (Option.bind (observation_for_identity s (m_identity m)) ob_kubernetes) (\<lambda>k.
             present_uid (ci_pvc (rc_resources c)) (\<lambda>u. k_pvc_uid k = Some u)))"

definition snapshot_resource_check :: "ObservationSnapshot \<Rightarrow> check" where
  "snapshot_resource_check s =
     (let st = sn_status s; uid = sn_resource_uid s;
          removal = or_else (Option.bind (st_transition st) ti_secondary_scale_down)
                      (map_option sdc_intent (st_secondary_scale_down_cleanup st))
      in if \<exists>c \<in> set (replacement_cleanups st). rc_resource_uid c \<noteq> uid then Err InvalidReplacementCleanup
         else if \<exists>c \<in> set (replacement_cleanups st). shares_cleanup_volume s c then Err InvalidReplacementCleanup
         else if is_some_and removal (\<lambda>i. sd_resource_uid i \<noteq> uid)
         then Err (InvalidSecondaryScaleDown ''resource UID mismatch'')
         else and_then (check_some (st_scale_up_admission_started st) (admission_started_check st)) (\<lambda>_.
         if is_some_and (st_last_secondary_removal st) (\<lambda>r. sd_resource_uid (re_intent (rmr_evidence r)) \<noteq> uid)
         then Err (InvalidSecondaryScaleDown ''completed removal resource UID mismatch'')
         else if is_some_and (st_scale_up_allocation st) (\<lambda>a. al_resource_uid a \<noteq> uid)
            \<or> is_some_and (st_scale_up_cleanup st) (\<lambda>c. is_none_or (pi_scale_up (sc_provisioning c))
                 (\<lambda>p. sp_resource_uid p \<noteq> uid))
            \<or> is_some_and (st_last_scale_up st) (\<lambda>r. su_resource_uid (ur_intent r) \<noteq> uid)
         then Err (InvalidScaleUp ''resource UID mismatch'')
         else if is_some_and (st_active_scale_up st) (\<lambda>i. su_resource_uid i \<noteq> uid)
         then Err (InvalidScaleUp ''active transition resource UID mismatch'')
         else Ok ()))"

definition snapshot_provisioning_check :: "(bytes \<Rightarrow> bytes) \<Rightarrow> ObservationSnapshot \<Rightarrow> ProvisioningIntent \<Rightarrow> check" where
  "snapshot_provisioning_check H s p =
     and_then (validate_scale_up_provisioning H p) (\<lambda>_.
     let st = sn_status s; target = target_identity H p (sn_resource_uid s)
     in if is_some_and (st_accepted st) (\<lambda>a. \<exists>m \<in> set (members a).
             m_replica_id m = replica_id target \<and> instance_id (m_identity m) = instance_id target)
        then Err ProvisioningReusesAcceptedIncarnation
        else and_then (ok_or (st_accepted st) ProvisioningWithoutTopology) (\<lambda>a.
        case pp_kind (pi_purpose p) of
          ProvReplacement \<Rightarrow>
            and_then (ok_or (pi_replacement p) InvalidProvisioningReplacement) (\<lambda>x.
              if replica_id x = primary_id a \<or> x \<notin> exact_identities a
              then Err InvalidProvisioningReplacement else Ok ())
        | ProvScaleUp \<Rightarrow>
            and_then (ok_or (pi_scale_up p) (InvalidScaleUp ''missing scale-up provisioning payload'')) (\<lambda>x.
              if sp_resource_uid x \<noteq> sn_resource_uid s \<or> \<not> accepted_matches_provisioning st x
                 \<or> st_effective_policy st \<noteq> Some (sp_previous_policy x)
              then Err (InvalidScaleUp ''provisioning differs from accepted authority'') else Ok ())))"

definition observation_key_string :: "ReplicaObservationKey \<Rightarrow> string" where
  "observation_key_string k = i64_to_string (key_replica_id k) @ ''@'' @ key_instance_id k"

definition has_instance :: "ConfigurationDescriptor \<Rightarrow> ReplicaObservationKey \<Rightarrow> bool" where
  "has_instance c k \<longleftrightarrow>
     (\<exists>m \<in> set (members c). m_replica_id m = key_replica_id k \<and> instance_id (m_identity m) = key_instance_id k)"

definition uninitialized_check ::
    "ObservationSnapshot \<Rightarrow> ReplicaObservationKey \<Rightarrow> ReplicaObservation \<Rightarrow> UninitializedAgentObservation \<Rightarrow> check" where
  "uninitialized_check s k ob r =
     (let st = sn_status s
      in if un_replica_id r \<noteq> key_replica_id k \<or> un_pod_uid r \<noteq> key_instance_id k
         then Err (ReplicaObservationKeyMismatch (observation_key_string k)
                (i64_to_string (un_replica_id r) @ ''@'' @ un_pod_uid r))
         else if un_resource_uid r \<noteq> sn_resource_uid s then Err (ReplicaResourceMismatch (key_replica_id k))
         else and_then (validate_report_sequence s k (un_process_session_id r) (un_report_sequence r)) (\<lambda>_.
         if \<not> is_some_and (ob_kubernetes ob) (\<lambda>x. k_replica_id x = key_replica_id k
              \<and> k_pod_uid x = Some (un_pod_uid r) \<and> k_pvc_uid x = Some (un_pvc_uid r))
         then Err UninitializedScaffoldingMismatch
         else if is_some_and (st_accepted st) (\<lambda>a. has_instance a k)
            \<or> is_some_and (st_transition st) (\<lambda>t. ti_kind t \<noteq> Bootstrap \<and> has_instance (ti_current_configuration t) k)
         then Err (EstablishedStoreMissing (key_replica_id k))
         else if is_some_and (st_provisioning st) (\<lambda>p. pi_replica_id p = key_replica_id k
              \<and> pi_instance_id p = key_instance_id k
              \<and> (pi_pod_uid p \<noteq> un_pod_uid r \<or> pi_pvc_uid p \<noteq> un_pvc_uid r))
         then Err UninitializedProvisioningMismatch
         else Ok ()))"

definition report_check ::
    "(bytes \<Rightarrow> bytes) \<Rightarrow> ObservationSnapshot \<Rightarrow> ReplicaObservationKey \<Rightarrow> AgentReport \<Rightarrow> check" where
  "report_check H s k r =
     (if replica_id (ar_identity r) \<noteq> key_replica_id k \<or> instance_id (ar_identity r) \<noteq> key_instance_id k
      then Err (ReplicaObservationKeyMismatch (observation_key_string k)
             (i64_to_string (replica_id (ar_identity r)) @ ''@'' @ instance_id (ar_identity r)))
      else if ar_resource_uid r \<noteq> sn_resource_uid s then Err (ReplicaResourceMismatch (key_replica_id k))
      else and_then (validate_report_sequence s k (ar_process_session_id r) (ar_report_sequence r)) (\<lambda>_.
      and_then (check_some (ar_previous_configuration r) (\<lambda>c. validate_configuration H c None)) (\<lambda>_.
      and_then (check_some (ar_current_configuration r) (\<lambda>c. validate_configuration H c None)) (\<lambda>_.
      if is_some_and (ar_scale_up_intent r) (\<lambda>i. st_active_scale_up (sn_status s) \<noteq> Some i
           \<and> map_option ur_intent (st_last_scale_up (sn_status s)) \<noteq> Some i)
      then Err (InvalidScaleUp ''reported scale-up attempt differs from persisted authority'')
      else and_then (validate_report_internal H r) (\<lambda>_. validate_report_authority H s r)))))"

definition observation_check ::
    "(bytes \<Rightarrow> bytes) \<Rightarrow> ObservationSnapshot \<Rightarrow> ReplicaObservationKey \<times> ReplicaObservation \<Rightarrow> check" where
  "observation_check H s e =
     (let k = fst e; ob = snd e
      in if is_some_and (ob_kubernetes ob) (\<lambda>x. k_replica_id x \<noteq> key_replica_id k
              \<or> is_some_and (k_pod_uid x) (\<lambda>u. u \<noteq> key_instance_id k))
         then Err KubernetesObservationKeyMismatch
         else case ob_agent ob of
             AgentUninitialized r \<Rightarrow> uninitialized_check s k ob r
           | AgentReported r \<Rightarrow> report_check H s k r
           | _ \<Rightarrow> Ok ())"

text \<open>The primaries that claim one configuration at one epoch, in the order of the observations.\<close>

definition primary_claim :: "ReplicaObservation \<Rightarrow> ((Epoch \<times> ConfigurationId) \<times> ReplicaIdentity) option" where
  "primary_claim ob =
     (case ob_agent ob of
        AgentReported r \<Rightarrow>
          if ar_role r = Primary
          then map_option (\<lambda>c. ((ar_epoch r, configuration_id c), ar_identity r)) (ar_current_configuration r)
          else None
      | _ \<Rightarrow> None)"

definition primary_claims ::
    "(ReplicaObservationKey \<times> ReplicaObservation) list \<Rightarrow> (Epoch \<times> ConfigurationId, ReplicaIdentity list) btree_map" where
  "primary_claims obs = fold (\<lambda>(k, x). bt_push k x) (List.map_filter (primary_claim \<circ> snd) obs) []"

definition validate_snapshot :: "(bytes \<Rightarrow> bytes) \<Rightarrow> ObservationSnapshot \<Rightarrow> check" where
  "validate_snapshot H s =
     (let st = sn_status s
      in if des_replicas (sn_desired s) = 0 \<and> st_secondary_scale_down_cleanup st = None
            \<and> \<not> is_some_and (st_transition st) (\<lambda>t. ti_kind t = SecondaryScaleDown)
         then Err DesiredReplicasZero
         else and_then (validate_status H st) (\<lambda>_.
              and_then (snapshot_resource_check s) (\<lambda>_.
              and_then (check_some (st_provisioning st) (snapshot_provisioning_check H s)) (\<lambda>_.
              and_then (for_each (sn_replicas s) (observation_check H s)) (\<lambda>_.
              case find (\<lambda>(k, xs). length xs > 1) (primary_claims (sn_replicas s)) of
                None \<Rightarrow> Ok ()
              | Some (k, xs) \<Rightarrow> Err (ConflictingPrimaryClaims (map replica_id xs)))))))"

end
