(* ===== verification/Status_Totality.thy ===== *)
theory Status_Totality
  imports Status_Checks Neighbour_Quorums
begin

text \<open>
  The checks of the published status and of agent reports never panic: every \<open>expect\<close>, index and
  \<open>unreachable!\<close> they contain is covered by an earlier check.
\<close>

section \<open>No check panics\<close>

lemma check_some_Ok [simp]: "check_some v f = Ok () \<longleftrightarrow> (\<forall>x. v = Some x \<longrightarrow> f x = Ok ())"
  by (cases v) (auto simp: check_some_def)

lemma check_some_Panic [simp]: "check_some v f = Panic \<longleftrightarrow> (\<exists>x. v = Some x \<and> f x = Panic)"
  by (cases v) (auto simp: check_some_def)

lemma validate_configuration_no_panic_None:
  "length (members c) < 4294967296 \<Longrightarrow> validate_configuration H c None \<noteq> Panic"
  using validate_configuration_total [of None c H] by simp

lemma scale_down_no_panic: "validate_secondary_scale_down H i \<noteq> Panic"
proof
  assume panic: "validate_secondary_scale_down H i = Panic"
  have "validate_configuration H (sd_previous_configuration i) (Some (sd_previous_policy i)) = Ok ()"
    "find (\<lambda>m. m_role m = Primary) (members (sd_previous_configuration i)) = None"
    using panic unfolding validate_secondary_scale_down_def Let_def validate_removal_cleanup_def
    by (auto simp: panic_simps base_no_panic split: if_splits option.splits)
  with validated_primary_by_role show False by fastforce
qed

lemma guard_loop_no_panic [simp]: "(for_each xs (\<lambda>x. if P x then Err (e x) else Ok ()) = Panic) = False"
  by (auto dest!: for_each_Panic_D split: if_splits)

lemma removal_witnesses_no_panic: "validate_removal_witnesses H p xs stage \<noteq> Panic"
proof -
  have "removal_witness_check H p stage seen x \<noteq> Panic" for seen x
    by (auto simp: removal_witness_check_def Let_def)
  then show ?thesis unfolding validate_removal_witnesses_def Let_def panic_simps
    using collect_checked_not_Panic [of "removal_witness_check H p stage"] by auto
qed

lemma removal_preparation_no_panic: "validate_secondary_removal_preparation H p \<noteq> Panic"
  unfolding validate_secondary_removal_preparation_def panic_simps by (auto simp: scale_down_no_panic)

lemma removal_evidence_no_panic: "validate_secondary_removal_evidence H e b \<noteq> Panic"
  unfolding validate_secondary_removal_evidence_def Let_def panic_simps
  by (auto simp: panic_simps removal_witnesses_no_panic removal_preparation_no_panic)

lemma retirement_no_panic: "validate_replica_retirement H r \<noteq> Panic"
  unfolding validate_replica_retirement_def panic_simps by (auto simp: scale_down_no_panic)

lemma removal_cleanup_no_panic: "validate_secondary_scale_down_cleanup H c \<noteq> Panic"
  unfolding validate_secondary_scale_down_cleanup_def Let_def panic_simps
  by (auto simp: panic_simps removal_evidence_no_panic removal_witnesses_no_panic retirement_no_panic
      split: option.splits)

lemmas removal_no_panic = scale_down_no_panic removal_evidence_no_panic removal_preparation_no_panic
  retirement_no_panic removal_cleanup_no_panic

lemmas growth_no_panic = validate_scale_up_no_panic provisioning_no_panic failover_transition_no_panic
  failover_evidence_no_panic

lemma removal_report_no_panic: "validate_secondary_removal_report H r \<noteq> Panic"
  unfolding validate_secondary_removal_report_def panic_simps
  by (auto simp: accepted_removal_check_def prepared_removal_check_def reduced_evidence_check_def
      retired_report_check_def Let_def panic_simps removal_no_panic)

lemma report_internal_no_panic: "validate_report_internal H r \<noteq> Panic"
  unfolding validate_report_internal_def panic_simps
  by (auto simp: removal_report_no_panic scale_up_report_check_def report_handoff_check_def
      validate_switchover_handoff_def Let_def panic_simps growth_no_panic)

section \<open>Status\<close>

lemma scale_up_receipt_no_panic: "validate_scale_up_receipt H r \<noteq> Panic"
  unfolding validate_scale_up_receipt_def Let_def panic_simps
  by (auto simp: panic_simps growth_no_panic failover_receipt_no_panic scale_up_witnesses_no_panic
      split: if_splits)

lemma scale_up_cleanup_no_panic: "validate_scale_up_cleanup H c \<noteq> Panic"
  unfolding validate_scale_up_cleanup_def Let_def panic_simps
  by (auto simp: panic_simps growth_no_panic split: if_splits)

lemma relationship_no_panic: "validate_transition_relationship H k prev cur p \<noteq> Panic"
  by (cases k; cases prev) (auto simp: validate_transition_relationship_def Let_def panic_simps base_no_panic
      split: if_splits)

lemma obligations_no_panic: "obligations_check H st \<noteq> Panic"
proof -
  have "allocation_status_check H st a \<noteq> Panic" "pending_replacement_check H st c \<noteq> Panic"
    "last_removal_check H st rr \<noteq> Panic" "scale_up_cleanup_status_check H st sc \<noteq> Panic"
    "last_scale_up_check H st ur \<noteq> Panic" "removal_cleanup_status_check H st rc \<noteq> Panic"
    "admission_started_check st x \<noteq> Panic" "last_replacement_check H st c \<noteq> Panic"
    "protected_cleanup_check st c \<noteq> Panic" "validate_switchover_receipt sw \<noteq> Panic"
    for a c rr sc ur rc x sw
    by (auto simp: allocation_status_check_def pending_replacement_check_def last_removal_check_def
        scale_up_cleanup_status_check_def last_scale_up_check_def removal_cleanup_status_check_def
        admission_started_check_def last_replacement_check_def protected_cleanup_check_def
        validate_switchover_receipt_def validate_replacement_cleanup_def validate_scale_up_allocation_def
        Let_def panic_simps removal_no_panic scale_up_receipt_no_panic scale_up_cleanup_no_panic
        split: if_splits CleanupResourceIdentity.splits PlannedSwitchoverOutcome.splits)
  then show ?thesis unfolding obligations_check_def by (auto simp: panic_simps)
qed

lemma transition_topology_D:
  "transition_topology st t = Ok a \<Longrightarrow> st_accepted st = Some a
     \<and> ti_previous_configuration_id t = Some (configuration_id a)"
  by (auto simp: transition_topology_def)

lemma transition_topology_no_panic: "transition_topology st t \<noteq> Panic"
  by (auto simp: transition_topology_def panic_simps)

lemma membership_transition_no_panic: "membership_transition_check H st t \<noteq> Panic"
  unfolding membership_transition_check_def failover_transition_check_def
  by (auto simp: panic_simps transition_topology_no_panic base_no_panic relationship_no_panic split: if_splits)

lemma switchover_transition_no_panic:
  assumes "\<And>a. st_accepted st = Some a \<Longrightarrow> \<exists>p. validate_configuration H a p = Ok ()"
  shows "switchover_transition_check H st t \<noteq> Panic"
proof
  assume panic: "switchover_transition_check H st t = Panic"
  have rest: "switchover_resolution_check H t i \<noteq> Panic" "switchover_handoff_check a i h \<noteq> Panic" for a i h
    by (auto simp: switchover_resolution_check_def switchover_handoff_check_def validate_switchover_handoff_def
        Let_def panic_simps relationship_no_panic split: if_splits PlannedSwitchoverResolution.splits)
  obtain a where a: "transition_topology st t = Ok a" "find (\<lambda>m. m_replica_id m = primary_id a) (members a) = None"
    using panic unfolding switchover_transition_check_def
    by (auto simp: panic_simps transition_topology_no_panic relationship_no_panic rest)
  from transition_topology_D [OF a(1)] assms obtain p where "validate_configuration H a p = Ok ()" by auto
  from validated_primary_found [OF this] obtain m where "m \<in> set (members a)" "m_replica_id m = primary_id a" by metis
  with a(2) show False by (auto simp: find_None_iff)
qed

lemma transition_status_no_panic:
  assumes "\<And>a. st_accepted st = Some a \<Longrightarrow> \<exists>p. validate_configuration H a p = Ok ()"
  shows "transition_status_check H st t \<noteq> Panic"
proof -
  have "ordinary_transition_check H st t \<noteq> Panic"
    if "ti_kind t \<noteq> TransitionKind.ScaleUp" "ti_kind t \<noteq> SecondaryScaleDown"
    using that switchover_transition_no_panic [OF assms] membership_transition_no_panic
    unfolding ordinary_transition_check_def bootstrap_transition_check_def
    by (auto simp: panic_simps base_no_panic split: if_splits TransitionKind.splits)
  then show ?thesis
    unfolding transition_status_check_def scale_up_transition_check_def scale_down_transition_check_def
      carried_scale_up_check_def
    by (auto simp: panic_simps Let_def growth_no_panic removal_no_panic split: if_splits)
qed

lemma initialized_policy:
  "initialization_check st = Ok () \<Longrightarrow> st_topology st \<noteq> None \<Longrightarrow> st_effective_policy st \<noteq> None"
  by (auto simp: initialization_check_def split: if_splits)

lemma validate_status_no_panic: "validate_status H st \<noteq> Panic"
proof
  assume "validate_status H st = Panic"
  moreover have "initialization_check st \<noteq> Panic" "provisioning_transition_check H st \<noteq> Panic"
    "provisioning_status_check H st p \<noteq> Panic" "primary_failure_check st f \<noteq> Panic" "quorum_loss_check st q \<noteq> Panic"
    for p f q
    by (auto simp: initialization_check_def provisioning_transition_check_def provisioning_status_check_def
        primary_failure_check_def quorum_loss_check_def panic_simps growth_no_panic split: if_splits)
  ultimately consider
      (top) tp where "st_topology st = Some tp" "initialization_check st = Ok ()"
        "validate_configuration H (tp_configuration tp) (st_effective_policy st) = Panic"
    | (tr) t where "transition_status_check H st t = Panic"
        "\<forall>tp. st_topology st = Some tp \<longrightarrow> validate_configuration H (tp_configuration tp) (st_effective_policy st) = Ok ()"
    unfolding validate_status_def by (auto simp: panic_simps obligations_no_panic base_no_panic)
  then show False
  proof cases
    case top
    then obtain p where "st_effective_policy st = Some p" using initialized_policy by fastforce
    with top(3) show False by (simp add: validate_configuration_no_panic)
  next
    case tr
    then show False using transition_status_no_panic [of st H t] by (auto simp: st_accepted_def)
  qed
qed

end
