(* ===== verification/Agent_Fences.thy ===== *)
theory Agent_Fences
  imports Agent_Safety Status_Totality
begin

text \<open>
  What the admission of commands and the agent database guarantee together: an admitted configuration
  never goes below the durable epoch, results of removal effects are final, and a retired agent
  admits nothing. The admissions answer without a panic.
\<close>

section \<open>Totality of the admissions\<close>

lemma contract_of_check_Panic [simp]: "contract_of_check D r = Panic \<longleftrightarrow> r = Panic"
  by (cases r) (simp_all add: contract_of_check_def)

lemma au_handoff_no_panic: "au_handoff_check a \<noteq> Panic"
  by (simp add: au_handoff_check_def Let_def split: option.split)

lemma au_relationship_no_panic: "au_relationship H D a p \<noteq> Panic"
  by (simp add: au_relationship_def relationship_no_panic split: option.split)

lemma au_validate_no_panic:
  assumes "length (members (au_current_configuration a)) < 4294967296"
  shows "au_validate H D a \<noteq> Panic"
proof (cases "au_secondary_removal a")
  case (Some e)
  then show ?thesis
    by (simp add: au_validate_def au_validate_removal_def Let_def panic_simps removal_evidence_no_panic)
next
  case None
  note removal = this
  show ?thesis
  proof (cases "au_scale_up a")
    case (Some ev)
    then show ?thesis
      using removal
      by (cases ev) (auto simp: au_validate_def au_validate_scale_up_def Let_def panic_simps growth_no_panic)
  next
    case None
    with removal show ?thesis
      by (simp add: au_validate_def panic_simps validate_configuration_no_panic_None [OF assms]
          au_relationship_no_panic au_handoff_no_panic)
  qed
qed

lemma au_validate_contains:
  assumes "au_validate H D a = Ok ()"
  shows "au_contains_member a (au_local_identity a)"
  using assms
  by (auto simp: au_validate_def au_validate_removal_def au_validate_scale_up_def au_contains_member_def Let_def
      ok_simps split: option.splits)

lemma au_local_role_no_panic:
  assumes "au_validate H D a = Ok ()"
  shows "au_local_role a \<noteq> Panic"
proof -
  let ?at = "\<lambda>c. find (\<lambda>m. m_identity m = au_local_identity a) (members c)"
  have "or_else (?at (au_current_configuration a)) (Option.bind (au_previous_configuration a) ?at) \<noteq> None"
    using au_validate_contains [OF assms] find_ex_Some [of _ _ "\<lambda>m. m_identity m = au_local_identity a"]
    unfolding au_contains_member_def is_some_and_iff
    by (cases "?at (au_current_configuration a)") (fastforce simp: or_else_def)+
  then show ?thesis by (simp add: au_local_role_def Let_def)
qed

lemma failover_command_primary:
  assumes "scale_up_evidence_check H c (FailoverEvidence e) = Ok ()"
  shows "find (\<lambda>m. m_replica_id m = primary_id (ec_current_configuration c) \<and> m_role m = Primary)
    (members (ec_current_configuration c)) \<noteq> None"
proof -
  let ?p = "su_current_policy (sf_intent e)"
  from assms have ev: "validate_scale_up_failover_evidence H e = Ok ()"
    and shape: "ec_current_configuration c = sf_provisional_configuration e
      \<or> (\<exists>f. sf_final_election e = Some f
            \<and> fe_final_configuration H f (sf_provisional_configuration e) = Some (ec_current_configuration c))"
    unfolding scale_up_evidence_check_def
    by (auto simp: Let_def is_some_and_def split: if_splits option.splits)
  note D = failover_evidence_Ok_D [OF ev]
  have "validate_failover_configuration H e (ec_current_configuration c) ?p = Ok ()"
  proof (cases "ec_current_configuration c = sf_provisional_configuration e")
    case False
    with shape obtain f where f: "sf_final_election e = Some f"
      "fe_final_configuration H f (sf_provisional_configuration e) = Some (ec_current_configuration c)" by blast
    obtain final where "fe_final_configuration H f (sf_provisional_configuration e) = Some final"
      "validate_failover_configuration H e final ?p = Ok ()"
      using D(4) [OF f(1)] by (rule final_election_Ok_D)
    with f(2) show ?thesis by simp
  qed (use D(2) in simp)
  then have "validate_configuration H (ec_current_configuration c) (Some ?p) = Ok ()"
    by (rule failover_configuration_Ok_D)
  then show ?thesis by (rule validated_primary_found) simp
qed

lemma validate_scale_up_configuration_evidence:
  assumes "validate_scale_up_configuration H c = Ok ()"
  obtains ev where "ec_scale_up_evidence c = Some ev" "scale_up_evidence_check H c ev = Ok ()"
  using assms unfolding validate_scale_up_configuration_def Let_def ok_simps by blast

lemma scale_up_configuration_no_panic: "validate_scale_up_configuration H c \<noteq> Panic"
  unfolding validate_scale_up_configuration_def Let_def panic_simps
  by (auto simp: growth_no_panic scale_up_evidence_no_panic scale_up_stage_no_panic)

lemma admit_scale_up_failover_no_panic:
  assumes "scale_up_evidence_check H c (FailoverEvidence e) = Ok ()"
  shows "admit_scale_up_failover H c st persisted e \<noteq> Panic"
  using failover_command_primary [OF assms]
  by (simp add: admit_scale_up_failover_def panic_simps Let_def)

lemma scale_up_checks_no_panic:
  "scale_up_candidate_check H c st persisted i flags \<noteq> Panic"
  "scale_up_start_check H c st persisted ev b \<noteq> Panic"
  by (cases flags; simp add: scale_up_candidate_check_def panic_simps)
    (simp add: scale_up_start_check_def Let_def)

lemma admit_scale_up_no_panic:
  assumes "length (members (ec_current_configuration c)) < 4294967296"
  shows "admit_scale_up_configuration H D c st persisted \<noteq> Panic"
proof
  assume panic: "admit_scale_up_configuration H D c st persisted = Panic"
  then have ok: "validate_scale_up_configuration H c = Ok ()"
    using scale_up_configuration_no_panic [of H c]
    unfolding admit_scale_up_configuration_def by (cases "validate_scale_up_configuration H c") simp_all
  then obtain ev where ev: "ec_scale_up_evidence c = Some ev" "scale_up_evidence_check H c ev = Ok ()"
    by (rule validate_scale_up_configuration_evidence)
  have flags: "(case ev of Admission _ \<Rightarrow> Ok (False, False, False)
      | FailoverEvidence e \<Rightarrow> admit_scale_up_failover H c st persisted e) \<noteq> Panic"
    using ev(2) admit_scale_up_failover_no_panic by (cases ev) auto
  have authority: "au_validate H D a \<noteq> Panic" if "au_current_configuration a = ec_current_configuration c" for a
    using that assms au_validate_no_panic [of a] by simp
  from panic flags show False
    unfolding admit_scale_up_configuration_def Let_def
    using authority au_local_role_no_panic
    by (auto simp: ok ev(1) panic_simps scale_up_checks_no_panic split: if_splits)
qed

lemma admit_removal_no_panic:
  assumes "length (members (ec_current_configuration c)) < 4294967296"
  shows "admit_removal_configuration H D c st persisted \<noteq> Panic"
proof -
  have replay: "removal_replay_check c e st persisted \<noteq> Panic" for e
    by (simp add: removal_replay_check_def Let_def panic_simps)
  have valid: "validate_secondary_removal_configuration H c \<noteq> Panic"
    by (auto simp: validate_secondary_removal_configuration_def Let_def panic_simps removal_evidence_no_panic)
  have evidence: "ec_secondary_removal_evidence c \<noteq> None" if "validate_secondary_removal_configuration H c = Ok ()"
    using that by (auto simp: validate_secondary_removal_configuration_def)
  have authority: "au_validate H D a \<noteq> Panic" if "au_current_configuration a = ec_current_configuration c" for a
    using that assms au_validate_no_panic [of a] by simp
  show ?thesis
    unfolding admit_removal_configuration_def Let_def panic_simps
    using replay valid evidence authority by (auto split: if_splits)
qed

lemma admit_ordinary_no_panic:
  assumes "length (members (ec_current_configuration c)) < 4294967296"
  shows "admit_ordinary_configuration H D c st persisted \<noteq> Panic"
proof -
  have parts: "admit_write_grant c st \<noteq> Panic" "admit_completion_shape H D c st persisted \<noteq> Panic"
    "admit_handoff c st persisted \<noteq> Panic"
    by (simp_all add: admit_write_grant_def admit_completion_shape_def admit_handoff_def Let_def panic_simps
        relationship_no_panic)
  have authority: "au_validate H D a \<noteq> Panic" if "au_current_configuration a = ec_current_configuration c" for a
    using that assms au_validate_no_panic [of a] by simp
  show ?thesis
    unfolding admit_ordinary_configuration_def Let_def panic_simps
    using parts authority au_local_role_no_panic by (auto simp: panic_simps split: if_splits)
qed

lemma admit_configuration_no_panic:
  assumes "length (members (ec_current_configuration c)) < 4294967296"
  shows "admit_configuration_with_replay H D c st persisted \<noteq> Panic"
proof -
  have "admit_command_fences c st persisted \<noteq> Panic" "admit_restoration c st persisted \<noteq> Panic"
    by (simp_all add: admit_command_fences_def admit_restoration_def Let_def)
  then show ?thesis
    using admit_removal_no_panic [OF assms] admit_scale_up_no_panic [OF assms] admit_ordinary_no_panic [OF assms]
    by (auto simp: admit_configuration_with_replay_def panic_simps split: if_splits)
qed

section \<open>What an admitted configuration satisfies\<close>

text \<open>The authority is the one the command asks for, at the local replica and not below the durable
  epoch; it passed validation unless it only restores access under the installed configuration.\<close>

definition admitted_by :: "(bytes \<Rightarrow> bytes) \<Rightarrow> (ValidationError \<Rightarrow> string) \<Rightarrow> EnsureConfiguration \<Rightarrow> AgentState
    \<Rightarrow> AdmittedAuthority \<Rightarrow> bool" where
  "admitted_by H D c st a \<longleftrightarrow>
     ec_target c = ag_local st \<and> au_local_identity a = ag_local st
     \<and> au_current_configuration a = ec_current_configuration c
     \<and> au_previous_configuration a = ec_previous_configuration c
     \<and> ag_highest_epoch st \<le> c_epoch (ec_current_configuration c)
     \<and> (au_validate H D a = Ok ()
        \<or> (ec_previous_configuration c = None \<and> ag_current_configuration st = Some (ec_current_configuration c)))"

lemma ec_target_local:
  "ec_target c = ag_local st \<longleftrightarrow> ec_local_replica_id c = replica_id (ag_local st)
     \<and> ec_expected_instance_id c = instance_id (ag_local st)
     \<and> ec_expected_agent_generation c = agent_generation (ag_local st)"
  by (cases "ag_local st") (auto simp: ec_target_def)

lemma admit_removal_D:
  assumes "admit_removal_configuration H D c st persisted = Ok a"
  shows "admitted_by H D c st a" "ec_primary_write_status c \<noteq> Granted"
proof -
  have valid: "validate_secondary_removal_configuration H c = Ok ()"
    using assms unfolding admit_removal_configuration_def by simp
  then have epoch: "c_epoch (ec_current_configuration c) = ec_current_epoch c"
    by (auto simp: validate_secondary_removal_configuration_def Let_def split: if_splits)
  from assms obtain e where "ec_secondary_removal_evidence c = Some e"
    and g: "ec_target c = ag_local st" "\<not> ec_current_epoch c < ag_highest_epoch st" "ec_primary_write_status c \<noteq> Granted"
    and a: "a = \<lparr>au_local_identity = ag_local st,
      au_transition_kind = then_some (\<not> ec_current_only c) (ec_transition_kind c),
      au_previous_configuration = ec_previous_configuration c, au_current_configuration = ec_current_configuration c,
      au_switchover_handoff = None, au_secondary_removal = Some e, au_scale_up = None\<rparr>" "au_validate H D a = Ok ()"
    unfolding admit_removal_configuration_def Let_def ok_simps ec_target_local map_err_Ok_iff by blast
  show "admitted_by H D c st a" "ec_primary_write_status c \<noteq> Granted"
    using g epoch a by (simp_all add: admitted_by_def)
qed

lemma admit_scale_up_D:
  assumes "admit_scale_up_configuration H D c st persisted = Ok a"
  shows "admitted_by H D c st a"
proof -
  have valid: "validate_scale_up_configuration H c = Ok ()"
    using assms unfolding admit_scale_up_configuration_def by simp
  then obtain ev where ev: "ec_scale_up_evidence c = Some ev" "scale_up_evidence_check H c ev = Ok ()"
    by (rule validate_scale_up_configuration_evidence)
  then have epoch: "c_epoch (ec_current_configuration c) = ec_current_epoch c"
    by (cases ev) (auto simp: scale_up_evidence_check_def Let_def split: if_splits)
  from assms ev(1) have g: "ec_target c = ag_local st" "\<not> ec_current_epoch c < ag_highest_epoch st"
    and a: "a = \<lparr>au_local_identity = ag_local st,
      au_transition_kind = then_some (\<not> ec_current_only c) (ec_transition_kind c),
      au_previous_configuration = ec_previous_configuration c, au_current_configuration = ec_current_configuration c,
      au_switchover_handoff = None, au_secondary_removal = None, au_scale_up = Some ev\<rparr>" "au_validate H D a = Ok ()"
    unfolding admit_scale_up_configuration_def Let_def ok_simps ec_target_local map_err_Ok_iff by auto
  show ?thesis using g epoch a by (simp add: admitted_by_def)
qed

lemma admit_fences_D:
  assumes "admit_command_fences c st persisted = Ok ()"
  shows "ec_target c = ag_local st" "ec_current_epoch c = c_epoch (ec_current_configuration c)"
    "ag_highest_epoch st \<le> ec_current_epoch c"
    "ec_current_epoch c = ag_highest_epoch st \<Longrightarrow> ag_current_configuration st \<in> {None, Some (ec_current_configuration c)}"
  using assms unfolding admit_command_fences_def Let_def ok_simps ec_target_local by (auto simp: is_some_and_def split: option.splits)

lemma admit_restoration_D:
  assumes "admit_restoration c st persisted = Ok a"
  shows "au_local_identity a = ag_local st" "au_current_configuration a = ec_current_configuration c"
    "au_previous_configuration a = None" "ag_current_configuration st = Some (ec_current_configuration c)"
    "ec_previous_configuration c = None"
  using assms by (auto simp: admit_restoration_def is_access_only_configuration_def Let_def split: if_splits)

lemma admit_ordinary_D:
  assumes "admit_ordinary_configuration H D c st persisted = Ok a"
  shows "au_local_identity a = ag_local st" "au_current_configuration a = ec_current_configuration c"
    "au_previous_configuration a = ec_previous_configuration c" "au_validate H D a = Ok ()"
    "admit_write_grant c st = Ok ()" "admit_handoff c st persisted = Ok ()"
  using assms unfolding admit_ordinary_configuration_def Let_def
  by (auto split: if_splits)

lemma write_grant_D:
  assumes "admit_write_grant c st = Ok ()" "admit_handoff c st persisted = Ok ()" "ec_primary_write_status c = Granted"
  shows "ag_prepared_switchover st = None" "ec_transition_kind c \<noteq> PlannedSwitchover"
    "(ag_current_configuration st = Some (ec_current_configuration c) \<and> ag_role st = Primary)
     \<or> (ag_current_configuration st = ec_previous_configuration c
        \<and> (\<exists>m \<in> set (members (ec_current_configuration c)). m_identity m = ag_local st \<and> m_role m = Primary))"
  using assms by (auto simp: admit_write_grant_def admit_handoff_def Let_def split: if_splits)

lemma admit_configuration_cases:
  assumes "admit_configuration_with_replay H D c st persisted = Ok a"
  obtains (removal) "ec_transition_kind c = SecondaryScaleDown" "admit_removal_configuration H D c st persisted = Ok a"
  | (growth) "\<not> removal_pending st" "ec_scale_up_evidence c \<noteq> None \<or> ec_transition_kind c = TransitionKind.ScaleUp"
      "admit_scale_up_configuration H D c st persisted = Ok a"
  | (restoration) "\<not> removal_pending st" "admit_command_fences c st persisted = Ok ()" "is_switchover_restoration c"
      "admit_restoration c st persisted = Ok a"
  | (ordinary) "\<not> removal_pending st" "admit_command_fences c st persisted = Ok ()" "ec_transition_kind c \<noteq> SecondaryScaleDown"
      "ec_scale_up_evidence c = None" "admit_ordinary_configuration H D c st persisted = Ok a"
  using assms unfolding admit_configuration_with_replay_def by (auto split: if_splits)

lemma admitted_configuration_D:
  assumes "admit_configuration_with_replay H D c st persisted = Ok a"
  shows "admitted_by H D c st a"
  using assms
proof (cases rule: admit_configuration_cases)
  case removal
  then show ?thesis using admit_removal_D by blast
next
  case growth
  then show ?thesis using admit_scale_up_D by blast
next
  case restoration
  then show ?thesis using admit_fences_D [OF restoration(2)] admit_restoration_D [OF restoration(4)]
    by (simp add: admitted_by_def)
next
  case ordinary
  then show ?thesis using admit_fences_D [OF ordinary(2)] admit_ordinary_D [OF ordinary(5)]
    by (simp add: admitted_by_def)
qed

lemma admitted_grant_D:
  assumes ok: "admit_configuration_with_replay H D c st persisted = Ok a" and granted: "ec_primary_write_status c = Granted"
  shows "\<not> removal_pending st" "ec_transition_kind c \<noteq> SecondaryScaleDown"
    "ec_scale_up_evidence c \<noteq> None \<or> ec_transition_kind c = TransitionKind.ScaleUp
     \<or> (ag_prepared_switchover st = None \<and> ec_transition_kind c \<noteq> PlannedSwitchover
        \<and> ((ag_current_configuration st = Some (ec_current_configuration c) \<and> ag_role st = Primary)
           \<or> (ag_current_configuration st = ec_previous_configuration c
              \<and> (\<exists>m \<in> set (members (ec_current_configuration c)). m_identity m = ag_local st \<and> m_role m = Primary))))"
proof -
  have kind: "ec_transition_kind c \<noteq> SecondaryScaleDown"
    using ok granted admit_removal_D(2) [of H D c st persisted a]
    by (auto simp: admit_configuration_with_replay_def split: if_splits)
  show "ec_transition_kind c \<noteq> SecondaryScaleDown" by (rule kind)
  show "\<not> removal_pending st"
    using ok kind by (auto simp: admit_configuration_with_replay_def split: if_splits)
  show "ec_scale_up_evidence c \<noteq> None \<or> ec_transition_kind c = TransitionKind.ScaleUp
     \<or> (ag_prepared_switchover st = None \<and> ec_transition_kind c \<noteq> PlannedSwitchover
        \<and> ((ag_current_configuration st = Some (ec_current_configuration c) \<and> ag_role st = Primary)
           \<or> (ag_current_configuration st = ec_previous_configuration c
              \<and> (\<exists>m \<in> set (members (ec_current_configuration c)). m_identity m = ag_local st \<and> m_role m = Primary))))"
    using ok
  proof (cases rule: admit_configuration_cases)
    case restoration
    with granted show ?thesis by (simp add: is_switchover_restoration_def)
  next
    case ordinary
    show ?thesis using write_grant_D [OF admit_ordinary_D(5,6) [OF ordinary(5)] granted] by blast
  qed (use kind in auto)
qed

section \<open>Reading the journal\<close>

lemma reject_check_Err: "reject_check D r = Err e \<Longrightarrow> \<exists>m. e = CommandRejected m"
  by (cases r) auto

lemma admit_commit_Err: "admit_commit H D c st = Err e \<Longrightarrow> \<exists>m. e = CommandRejected m"
  unfolding admit_commit_def Let_def
  by (cases "reject_check D (validate_accept_secondary_removal_commit H c)")
    (auto split: if_splits dest: reject_check_Err)

lemma begin_guard_Err: "begin_effect_guard H D e st = Err x \<Longrightarrow> \<exists>m. x = CommandRejected m"
proof (cases "\<exists>c. ef_action e = EffAcceptHistoricalSecondaryRemovalCommit c")
  case True
  then obtain c where c: "ef_action e = EffAcceptHistoricalSecondaryRemovalCommit c" by blast
  assume "begin_effect_guard H D e st = Err x"
  with c show ?thesis
    by (cases "admit_commit H D c st") (auto simp: begin_effect_guard_def split: if_splits dest: admit_commit_Err)
next
  case False
  assume "begin_effect_guard H D e st = Err x"
  with False show ?thesis by (cases "ef_action e") (auto simp: begin_effect_guard_def split: if_splits)
qed

lemma resume_pending_not_corrupt:
  assumes "pending_ok p"
  shows "resume_pending e p db \<noteq> Err (Corrupt m)"
proof (cases "pe_effect p = e")
  case True
  with assms show ?thesis
    by (auto simp: resume_pending_def pending_ok_def split: option.splits EffectStage.splits)
next
  case False
  show ?thesis
  proof (cases "\<exists>c. ef_action (pe_effect p) = EffAcceptSecondaryRemovalCommit c")
    case True
    with False show ?thesis
      by (cases "ef_action e")
        (auto simp: resume_pending_def validate_acceptance_conversion_def Let_def split: if_splits)
  qed (use False in \<open>cases "ef_action (pe_effect p)"; simp add: resume_pending_def\<close>)
qed

lemma begin_effect_not_corrupt:
  assumes "agent_inv db"
  shows "fst (begin_effect H D e db) \<noteq> Err (Corrupt m)"
proof -
  let ?st = "db_state db"
  have inv: "journal_inv ?st" using assms by (simp add: agent_inv_def)
  have "begin_effect_body H D e db \<noteq> Err (Corrupt m)"
  proof (cases "begin_effect_guard H D e ?st")
    case (Ok u)
    show ?thesis
    proof (cases "ag_pending_effect ?st")
      case (Some p)
      then show ?thesis
        using Ok resume_pending_not_corrupt [OF journal_inv_pending(1) [OF inv Some]]
        by (auto simp: begin_effect_body_def Let_def split: option.splits)
    qed (use Ok in \<open>auto simp: begin_effect_body_def Let_def split: option.splits\<close>)
  next
    case (Err x)
    with begin_guard_Err [OF Err] show ?thesis by (auto simp: begin_effect_body_def)
  qed (simp add: begin_effect_body_def)
  then show ?thesis by (auto simp: begin_effect_def with_transaction_def split: result.splits)
qed

lemma begin_retained:
  assumes "bt_get (ag_removal_effects (db_state db)) (ef_operation_id e) = Some x"
  shows "snd (begin_effect H D e db) = db
    \<and> (\<forall>b. fst (begin_effect H D e db) = Ok b
         \<longrightarrow> e = rec_effect (rtn_record x) \<and> b = BeginCompleted (rec_result (rtn_record x)))"
  using assms
  by (cases "begin_effect_guard H D e (db_state db)")
    (auto simp: begin_effect_def with_transaction_def begin_effect_body_def Let_def)

lemma begin_completed:
  assumes "ag_retained_result (db_state db) = Some x" "retained_ok x" "e = rec_effect (rtn_record x)"
    "bt_get (ag_removal_effects (db_state db)) (ef_operation_id e) \<in> {None, Some x}"
    "fst (begin_effect H D e db) = Ok b"
  shows "b = BeginCompleted (rec_result (rtn_record x))"
  using assms
  by (cases "begin_effect_guard H D e (db_state db)")
    (auto simp: begin_effect_def with_transaction_def begin_effect_body_def Let_def retained_ok_def)

lemma complete_effect_Ok:
  assumes inv: "agent_inv db" and pending: "ag_pending_effect (db_state db) = Some p"
    and ok: "fst (complete_effect H D r db) = Ok ()"
  obtains t tb where "result_validate_for r (pe_effect p) = Ok ()" "pe_applied_result p = Some r" "er_sequence r \<noteq> 18446744073709551615"
    "outcome_frame ((db_state db)\<lparr>ag_pending_effect := None\<rparr>) t"
    "snd (complete_effect H D r db) = write_agent_state ((retain_result (pe_effect p) r t)\<lparr>ag_next_effect_sequence :=
       max (ag_next_effect_sequence t) (er_sequence r + 1)\<rparr>) (db\<lparr>db_tables := tb\<rparr>)"
proof -
  have body: "complete_effect_body H D r db = complete_pending H D r p db"
    using pending by (simp add: complete_effect_body_def)
  obtain x db' where x: "complete_pending H D r p db = Ok (x, db')"
    using ok body by (cases "complete_pending H D r p db") (auto simp: complete_effect_def with_transaction_def)
  then have "snd (complete_effect H D r db) = db'" by (simp add: complete_effect_def with_transaction_def body)
  with complete_pending_cases [OF x] that show thesis by metis
qed

section \<open>Sample runs\<close>

definition sample_storage :: "ReplicaIdentity \<Rightarrow> StorageIdentity" where
  "sample_storage x =
     \<lparr>sto_schema_version = 6, sto_resource_uid = ''u'', sto_pod_uid = ''p'', sto_pvc_uid = ''v'',
      sto_initialization_id = ''i'', sto_local_identity = x, sto_effective_policy = sample_policy\<rparr>"

text \<open>The replica removed by the sample reduction journals, applies and completes its retirement.\<close>

definition sample_retire_effect :: RuntimeEffect where
  "sample_retire_effect = \<lparr>ef_operation_id = ''retire'', ef_sequence = 1, ef_action = EffRetireReplica sample_retired\<rparr>"

definition sample_retire_result :: RuntimeEffectResult where
  "sample_retire_result =
     \<lparr>er_operation_id = ''retire'', er_sequence = 1,
      er_outcome = OutReplicaRetired \<lparr>rcn_retired = sample_retired, rcn_open = False, rcn_role = RoleNone,
        rcn_read_status = NotPrimary, rcn_write_status = NotPrimary, rcn_authority = None,
        rcn_role_transition_clear = True, rcn_active_builds = False, rcn_receipt = None\<rparr>\<rparr>"

definition sample_agent :: AgentStore where
  "sample_agent = agent_store_new (sample_storage (sd_target sample_removal))"

definition sample_pending :: "RuntimeEffectResult option \<Rightarrow> PendingEffect" where
  "sample_pending r = \<lparr>pe_effect = sample_retire_effect,
     pe_stage = (if r = None then IntentCommitted else EffectApplied), pe_applied_result = r\<rparr>"

lemma sample_result_valid: "result_validate_for sample_retire_result sample_retire_effect = Ok ()"
  by (simp add: result_validate_for_def sample_retire_result_def sample_retire_effect_def outcome_matches_def)

lemma sample_begin:
  "db_state (agent_run H D [AgBeginEffect sample_retire_effect] sample_agent)
     = (db_state sample_agent)\<lparr>ag_pending_effect := Some (sample_pending None)\<rparr>"
  by (simp add: agent_run_def begin_effect_def with_transaction_def begin_effect_body_def begin_effect_guard_def
      sample_retire_effect_def sample_agent_def agent_store_new_def agent_state_new_def Let_def sample_pending_def)

lemma sample_applied:
  "db_state (agent_run H D [AgBeginEffect sample_retire_effect, AgEffectApplied sample_retire_effect sample_retire_result]
       sample_agent)
     = (db_state sample_agent)\<lparr>ag_pending_effect := Some (sample_pending (Some sample_retire_result))\<rparr>"
proof -
  let ?db = "agent_run H D [AgBeginEffect sample_retire_effect] sample_agent"
  have "db_state (snd (mark_effect_applied sample_retire_effect sample_retire_result ?db))
      = (db_state sample_agent)\<lparr>ag_pending_effect := Some (sample_pending (Some sample_retire_result))\<rparr>"
    by (simp add: mark_effect_applied_def state_transaction_def with_transaction_def sample_begin sample_pending_def
        sample_result_valid ok_or_def)
  then show ?thesis by (simp add: agent_run_def)
qed

lemma sample_complete:
  assumes "db_state db = (db_state sample_agent)\<lparr>ag_pending_effect := Some (sample_pending (Some sample_retire_result))\<rparr>"
  shows "fst (complete_effect (\<lambda>_. []) (\<lambda>_. []) sample_retire_result db) = Ok ()"
    "ag_retired_authority (db_state (snd (complete_effect (\<lambda>_. []) (\<lambda>_. []) sample_retire_result db))) = Some sample_retired"
    "bt_get (ag_removal_effects (db_state (snd (complete_effect (\<lambda>_. []) (\<lambda>_. []) sample_retire_result db)))) ''retire''
       = Some \<lparr>rtn_operation_id = ''retire'',
           rtn_record = \<lparr>rec_effect = sample_retire_effect, rec_result = sample_retire_result\<rparr>\<rparr>"
proof -
  have local: "ag_local (db_state sample_agent) = sd_target sample_removal"
    "ag_removal_effects (db_state sample_agent) = []"
    by (simp_all add: sample_agent_def agent_store_new_def agent_state_new_def sample_storage_def)
  have body: "complete_effect_body (\<lambda>_. []) (\<lambda>_. []) sample_retire_result db
      = complete_pending (\<lambda>_. []) (\<lambda>_. []) sample_retire_result (sample_pending (Some sample_retire_result)) db"
    using assms by (simp add: complete_effect_body_def)
  have action: "ef_action sample_retire_effect = EffRetireReplica sample_retired"
    and result: "er_operation_id sample_retire_result = ''retire''" "er_sequence sample_retire_result = 1"
    by (simp_all add: sample_retire_effect_def sample_retire_result_def)
  obtain st where st: "apply_outcome (\<lambda>_. []) (\<lambda>_. []) (db_tables db) sample_retire_effect (er_outcome sample_retire_result)
      ((db_state sample_agent)\<lparr>ag_pending_effect := None\<rparr>) = Ok st"
    "ag_retired_authority st = Some sample_retired" "ag_removal_effects st = []"
    using local sample_retired_valid
    by (simp add: apply_outcome_def apply_removal_outcome_def action sample_retire_result_def
        complete_retire_replica_def terminal_closure_def retirement_receipt_check_def check_some_def)
  have state: "(db_state db)\<lparr>ag_pending_effect := None\<rparr> = (db_state sample_agent)\<lparr>ag_pending_effect := None\<rparr>"
    using assms by simp
  have out: "(case er_outcome sample_retire_result of
      OutAuthorityAdmitted c \<Rightarrow> (db_tables db)\<lparr>ds_authority := Some (auc_authority c)\<rparr> | _ \<Rightarrow> db_tables db) = db_tables db"
    by (simp add: sample_retire_result_def)
  have "complete_effect_body (\<lambda>_. []) (\<lambda>_. []) sample_retire_result db
      = Ok ((), write_agent_state ((retain_result sample_retire_effect sample_retire_result st)\<lparr>ag_next_effect_sequence :=
          max (ag_next_effect_sequence st) (er_sequence sample_retire_result + 1)\<rparr>) db)"
    unfolding body complete_pending_def Let_def state out
    by (simp add: sample_pending_def sample_result_valid action st(1) result(2))
  then show "fst (complete_effect (\<lambda>_. []) (\<lambda>_. []) sample_retire_result db) = Ok ()"
    "ag_retired_authority (db_state (snd (complete_effect (\<lambda>_. []) (\<lambda>_. []) sample_retire_result db))) = Some sample_retired"
    "bt_get (ag_removal_effects (db_state (snd (complete_effect (\<lambda>_. []) (\<lambda>_. []) sample_retire_result db)))) ''retire''
       = Some \<lparr>rtn_operation_id = ''retire'',
           rtn_record = \<lparr>rec_effect = sample_retire_effect, rec_result = sample_retire_result\<rparr>\<rparr>"
    by (simp_all add: complete_effect_def with_transaction_def retain_result_def Let_def st(2,3) action result(1)
        bt_get_def)
qed

lemma sample_run:
  assumes "db = agent_run (\<lambda>_. []) (\<lambda>_. []) [AgBeginEffect sample_retire_effect,
      AgEffectApplied sample_retire_effect sample_retire_result, AgCompleteEffect sample_retire_result] sample_agent"
  shows "ag_retired_authority (db_state db) = Some sample_retired"
    "bt_get (ag_removal_effects (db_state db)) ''retire''
       = Some \<lparr>rtn_operation_id = ''retire'',
           rtn_record = \<lparr>rec_effect = sample_retire_effect, rec_result = sample_retire_result\<rparr>\<rparr>"
proof -
  let ?db = "agent_run (\<lambda>_. []) (\<lambda>_. [])
    [AgBeginEffect sample_retire_effect, AgEffectApplied sample_retire_effect sample_retire_result] sample_agent"
  have db: "db = snd (complete_effect (\<lambda>_. []) (\<lambda>_. []) sample_retire_result ?db)"
    using assms by (simp add: agent_run_def)
  note C = sample_complete [OF sample_applied [of "\<lambda>_. []" "\<lambda>_. []"]]
  show "ag_retired_authority (db_state db) = Some sample_retired"
    "bt_get (ag_removal_effects (db_state db)) ''retire''
       = Some \<lparr>rtn_operation_id = ''retire'',
           rtn_record = \<lparr>rec_effect = sample_retire_effect, rec_result = sample_retire_result\<rparr>\<rparr>"
    unfolding db by (rule C)+
qed

text \<open>The primary of the sample configuration is told to take over again after a failover.\<close>

definition sample_primary_state :: AgentState where
  "sample_primary_state = (agent_state_new (sample_storage (m_identity (sample_member 1 ''a'' Primary))))
     \<lparr>ag_current_configuration := Some (sample_configuration (\<lambda>_. []) 1), ag_highest_epoch := epoch_new 0 1\<rparr>"

definition sample_command :: EnsureConfiguration where
  "sample_command =
     \<lparr>ec_operation_id = ''failover'', ec_previous_configuration = Some (sample_configuration (\<lambda>_. []) 1),
      ec_current_configuration = sample_configuration (\<lambda>_. []) 2, ec_previous_epoch = Some (epoch_new 0 1),
      ec_current_epoch = epoch_new 0 2, ec_effective_policy = sample_policy, ec_previous_policy = None,
      ec_secondary_removal_evidence = None, ec_scale_up_evidence = None, ec_local_replica_id = 1,
      ec_expected_instance_id = ''a'', ec_expected_agent_generation = ''g'', ec_transition_kind = Failover,
      ec_failover_safe_lsn = Some 0, ec_primary_write_status = Granted, ec_current_only = False,
      ec_retire_build_ids = [], ec_switchover_handoff = None, ec_retire_switchover_preparation_ids = []\<rparr>"

lemma sample_command_relationship:
  "validate_transition_relationship (\<lambda>_. []) Failover (Some (sample_configuration (\<lambda>_. []) 1))
     (sample_configuration (\<lambda>_. []) 2) sample_policy = Ok ()"
  using sample_configuration_valid [of 1 "\<lambda>_. []"] sample_configuration_valid [of 2 "\<lambda>_. []"] sample_policy_valid
  by (simp add: validate_transition_relationship_def exact_identities_def sample_configuration_members)
    (simp add: sample_configuration_def epoch_new_def)

lemma sample_admission:
  "admit_configuration_with_replay (\<lambda>_. []) (\<lambda>_. []) sample_command sample_primary_state False
     = Ok (sample_authority 2)"
proof -
  have local: "ag_local sample_primary_state = \<lparr>replica_id = 1, instance_id = ''a'', agent_generation = ''g''\<rparr>"
    by (simp add: sample_primary_state_def agent_state_new_def sample_storage_def sample_member_def)
  have st: "ag_retired_authority sample_primary_state = None" "\<not> removal_pending sample_primary_state"
    "ag_highest_epoch sample_primary_state = epoch_new 0 1" "ag_previous_configuration sample_primary_state = None"
    "ag_current_configuration sample_primary_state = Some (sample_configuration (\<lambda>_. []) 1)"
    "ag_policy sample_primary_state = sample_policy" "ag_prepared_switchover sample_primary_state = None"
    by (simp_all add: sample_primary_state_def agent_state_new_def sample_storage_def removal_pending_def)
  have e: "epoch_new 0 2 \<noteq> epoch_new 0 1" "\<not> epoch_new 0 2 < epoch_new 0 1"
    by (simp_all add: epoch_new_def epoch_less_iff)
  have fences: "admit_command_fences sample_command sample_primary_state False = Ok ()"
    unfolding admit_command_fences_def local st Let_def by (simp add: sample_command_def sample_epochs e)
  have access: "\<not> is_access_only_configuration sample_command sample_primary_state"
    by (simp add: is_access_only_configuration_def sample_command_def)
  have grant: "admit_write_grant sample_command sample_primary_state = Ok ()"
    unfolding admit_write_grant_def local st Let_def
    by (simp add: sample_command_def sample_configuration_members) (simp add: sample_configuration_def sample_member_def)
  have shape: "admit_completion_shape (\<lambda>_. []) (\<lambda>_. []) sample_command sample_primary_state False = Ok ()"
    unfolding admit_completion_shape_def by (simp add: sample_command_def sample_command_relationship)
  have handoff: "admit_handoff sample_command sample_primary_state False = Ok ()"
    by (simp add: admit_handoff_def sample_command_def)
  have a: "sample_authority 2 = \<lparr>au_local_identity = ag_local sample_primary_state,
      au_transition_kind = Some (ec_transition_kind sample_command),
      au_previous_configuration = ec_previous_configuration sample_command,
      au_current_configuration = ec_current_configuration sample_command,
      au_switchover_handoff = ec_switchover_handoff sample_command, au_secondary_removal = None, au_scale_up = None\<rparr>"
    unfolding local by (simp add: sample_authority_def sample_command_def sample_member_def)
  have "admit_ordinary_configuration (\<lambda>_. []) (\<lambda>_. []) sample_command sample_primary_state False = Ok (sample_authority 2)"
    unfolding admit_ordinary_configuration_def Let_def grant shape handoff
    using access sample_authority_valid(2) unfolding a by (simp add: sample_command_def)
  then show ?thesis
    unfolding admit_configuration_with_replay_def
    using st(1,2) fences by (simp add: sample_command_def is_switchover_restoration_def)
qed

section \<open>Properties\<close>



text \<open>C37: the admissions always answer. For a commanded configuration of fewer than 2^32 members no
  admission of a configuration, of a removal command or of a retirement panics: every
  \<open>expect\<close> in them is covered by an earlier check.\<close>

theorem admission_never_panics:
  assumes "length (members (ec_current_configuration c)) < 4294967296"
  shows "admit_configuration_with_replay H D c st persisted \<noteq> Panic
    \<and> admit_commit H D ac st \<noteq> Panic \<and> admit_preparation H D pc st \<noteq> Panic \<and> admit_retirement H D rc st \<noteq> Panic"
proof -
  have "validate_accept_secondary_removal_commit H ac \<noteq> Panic"
    by (simp add: validate_accept_secondary_removal_commit_def Let_def panic_simps removal_no_panic)
  then have "admit_commit H D ac st \<noteq> Panic" by (simp add: admit_commit_def Let_def panic_simps)
  moreover have "admit_preparation H D pc st \<noteq> Panic"
    by (simp add: admit_preparation_def Let_def panic_simps removal_no_panic
        split: option.split RuntimeEffectAction.split)
  moreover have "admit_retirement H D rc st \<noteq> Panic"
    by (simp add: admit_retirement_def Let_def panic_simps removal_no_panic split: option.split)
  ultimately show ?thesis using admit_configuration_no_panic [OF assms] by blast
qed

theorem admission_never_panics_witness:
  "admit_configuration_with_replay (\<lambda>_. []) (\<lambda>_. []) sample_command sample_primary_state True \<noteq> Panic"
proof -
  have "length (members (ec_current_configuration sample_command)) < 4294967296"
    by (simp add: sample_command_def sample_configuration_members)
  from admission_never_panics [OF this] show ?thesis by blast
qed

text \<open>C10: a retained removal effect is final. Whatever transactions follow, the database keeps the exact
  effect and its validated result; beginning that operation again changes nothing and only ever
  returns that result for that effect, and a repeated completion must carry it too.\<close>

theorem retained_removal_effect_is_final:
  assumes "db = agent_run H D ops (agent_store_new i)"
    and "bt_get (ag_removal_effects (db_state db)) k = Some x"
    and "db' = agent_run H D rest db"
  shows "bt_get (ag_removal_effects (db_state db')) k = Some x
    \<and> result_validate_for (rec_result (rtn_record x)) (rec_effect (rtn_record x)) = Ok ()
    \<and> (\<forall>e b. ef_operation_id e = k \<longrightarrow> snd (begin_effect H D e db') = db'
         \<and> (fst (begin_effect H D e db') = Ok b
            \<longrightarrow> e = rec_effect (rtn_record x) \<and> b = BeginCompleted (rec_result (rtn_record x))))
    \<and> (\<forall>r. er_operation_id r = k \<and> ag_pending_effect (db_state db') = None
         \<and> fst (complete_effect H D r db') = Ok () \<longrightarrow> r = rec_result (rtn_record x))"
proof -
  have inv: "agent_inv db" unfolding assms(1) by (rule agent_run_inv)
  note later = agent_run_later [OF inv, of H D rest, folded assms(3)]
  have kept: "bt_get (ag_removal_effects (db_state db')) k = Some x"
    using later assms(2) by (simp add: fences_later_def map_extends_def)
  have "retained_ok x" using inv assms(2) unfolding agent_inv_def journal_inv_def by blast
  then have valid: "result_validate_for (rec_result (rtn_record x)) (rec_effect (rtn_record x)) = Ok ()"
    by (simp add: retained_ok_def)
  have "r = rec_result (rtn_record x)"
    if "er_operation_id r = k" "ag_pending_effect (db_state db') = None" "fst (complete_effect H D r db') = Ok ()" for r
    using that kept by (auto simp: complete_effect_def with_transaction_def complete_effect_body_def Let_def
        or_else_def split: if_splits)
  with kept valid begin_retained [of db'] show ?thesis by blast
qed

theorem retained_removal_effect_is_final_witness:
  "bt_get (ag_removal_effects (db_state (agent_run (\<lambda>_. []) (\<lambda>_. []) [AgBeginEffect sample_retire_effect]
     (agent_run (\<lambda>_. []) (\<lambda>_. []) [AgBeginEffect sample_retire_effect,
        AgEffectApplied sample_retire_effect sample_retire_result, AgCompleteEffect sample_retire_result]
        sample_agent)))) ''retire'' \<noteq> None"
  using retained_removal_effect_is_final [OF refl sample_run(2) [OF refl, unfolded sample_agent_def] refl]
  unfolding sample_agent_def by blast

text \<open>C9: the effect journal is consistent in every reachable database. Beginning an effect never meets a
  corrupt pending record. A completion of the pending effect succeeds only with the result that was
  durably applied and matches the effect; it clears the pending effect, moves the sequence past it
  without wrap-around, and the same effect begun again only returns that result.\<close>

theorem effect_journal_is_consistent:
  assumes "db = agent_run H D ops (agent_store_new i)"
  shows "fst (begin_effect H D e db) \<noteq> Err (Corrupt m)
    \<and> (\<forall>p r b. ag_pending_effect (db_state db) = Some p \<and> fst (complete_effect H D r db) = Ok () \<longrightarrow>
         result_validate_for r (pe_effect p) = Ok () \<and> pe_applied_result p = Some r
         \<and> ag_pending_effect (db_state (snd (complete_effect H D r db))) = None
         \<and> er_sequence r < ag_next_effect_sequence (db_state (snd (complete_effect H D r db)))
         \<and> (fst (begin_effect H D (pe_effect p) (snd (complete_effect H D r db))) = Ok b \<longrightarrow> b = BeginCompleted r))"
proof -
  have inv: "agent_inv db" unfolding assms by (rule agent_run_inv)
  have "result_validate_for r (pe_effect p) = Ok () \<and> pe_applied_result p = Some r
      \<and> ag_pending_effect (db_state (snd (complete_effect H D r db))) = None
      \<and> er_sequence r < ag_next_effect_sequence (db_state (snd (complete_effect H D r db)))
      \<and> (fst (begin_effect H D (pe_effect p) (snd (complete_effect H D r db))) = Ok b \<longrightarrow> b = BeginCompleted r)"
    if pending: "ag_pending_effect (db_state db) = Some p" and ok: "fst (complete_effect H D r db) = Ok ()" for p r b
    using inv pending ok
  proof (rule complete_effect_Ok)
    fix t tb
    let ?x = "\<lparr>rtn_operation_id = er_operation_id r, rtn_record = \<lparr>rec_effect = pe_effect p, rec_result = r\<rparr>\<rparr>"
    let ?db = "snd (complete_effect H D r db)"
    assume t: "result_validate_for r (pe_effect p) = Ok ()" "pe_applied_result p = Some r" "er_sequence r \<noteq> 18446744073709551615"
      "outcome_frame ((db_state db)\<lparr>ag_pending_effect := None\<rparr>) t"
      "?db = write_agent_state ((retain_result (pe_effect p) r t)\<lparr>ag_next_effect_sequence :=
         max (ag_next_effect_sequence t) (er_sequence r + 1)\<rparr>) (db\<lparr>db_tables := tb\<rparr>)"
    have none: "bt_get (ag_removal_effects (db_state db)) (ef_operation_id (pe_effect p)) = None"
      using inv pending by (auto simp: agent_inv_def dest: journal_inv_pending(2))
    have effects: "ag_removal_effects t = ag_removal_effects (db_state db)" "ag_pending_effect t = None"
      using t(4) by (simp_all add: outcome_frame_def)
    note ids = result_validate_for_D [OF t(1)]
    have "ag_retained_result (db_state ?db) = Some ?x" "ag_pending_effect (db_state ?db) = None"
      "bt_get (ag_removal_effects (db_state ?db)) (ef_operation_id (pe_effect p)) \<in> {None, Some ?x}"
      using effects none ids unfolding t(5) by (auto simp: retain_result_def Let_def)
    moreover have "er_sequence r < ag_next_effect_sequence (db_state ?db)"
      using u64_increases [OF t(3)] unfolding t(5) by (simp add: less_max_iff_disj)
    moreover have "retained_ok ?x" using t(1) ids by (simp add: retained_ok_def)
    ultimately show ?thesis using t(1,2) begin_completed [of ?db ?x "pe_effect p" H D b] by simp
  qed
  with begin_effect_not_corrupt [OF inv] show ?thesis by blast
qed

theorem effect_journal_is_consistent_witness:
  "ag_pending_effect (db_state (snd (complete_effect (\<lambda>_. []) (\<lambda>_. []) sample_retire_result
     (agent_run (\<lambda>_. []) (\<lambda>_. []) [AgBeginEffect sample_retire_effect,
        AgEffectApplied sample_retire_effect sample_retire_result] sample_agent)))) = None"
proof -
  let ?db = "agent_run (\<lambda>_. []) (\<lambda>_. [])
    [AgBeginEffect sample_retire_effect, AgEffectApplied sample_retire_effect sample_retire_result] sample_agent"
  have "ag_pending_effect (db_state ?db) = Some (sample_pending (Some sample_retire_result))"
    by (simp add: sample_applied)
  moreover have "fst (complete_effect (\<lambda>_. []) (\<lambda>_. []) sample_retire_result ?db) = Ok ()"
    by (rule sample_complete(1) [OF sample_applied])
  ultimately show ?thesis
    using effect_journal_is_consistent [OF refl [of ?db, unfolded sample_agent_def]]
    unfolding sample_agent_def by blast
qed

text \<open>C12: over every interleaving of agent and store transactions the durable fences only advance: the
  highest epoch, the effect sequence, the retained removal effects and commands, the retired and
  abandoned builds, the retirement and the mark of retired switchover preparations. The columns of the
  state row that the authority store reads always agree with the agent state.\<close>

theorem durable_fences_only_advance:
  "fences_later (db_state (agent_run H D ops (agent_store_new i)))
     (db_state (agent_run H D (ops @ rest) (agent_store_new i)))
   \<and> coherent (agent_run H D (ops @ rest) (agent_store_new i))"
proof -
  have "agent_run H D (ops @ rest) (agent_store_new i) = agent_run H D rest (agent_run H D ops (agent_store_new i))"
    by (simp add: agent_run_def)
  then show ?thesis using agent_run_later [OF agent_run_inv, of H D rest H D ops i] by (simp add: agent_inv_def)
qed



end
