(* ===== verification/Store_Types.thy ===== *)
theory Store_Types
  imports Store_Safety
begin

text \<open>
  The type invariant of the durable store of \<open>host/sqlite_store.rs\<close>: each table is keyed by the
  identity its row carries, and rows refer only to rows that exist.
\<close>

section \<open>Well-formed tables\<close>

definition builds_typed :: "(bytes \<Rightarrow> bytes) \<Rightarrow> DurableStore \<Rightarrow> bool" where
  "builds_typed H s \<longleftrightarrow> bt_wf (ds_build_authority s)
     \<and> (\<forall>b a. bt_get (ds_build_authority s) b = Some a
          \<longrightarrow> ba_build_id a = b \<and> build_authority_validate H a = Ok ())"

definition selections_typed :: "DurableStore \<Rightarrow> bool" where
  "selections_typed s \<longleftrightarrow> bt_wf (ds_selections s)
     \<and> (\<forall>r p. bt_get (ds_selections s) r = Some p
          \<longrightarrow> replica_id (ba_target (bs_authority p)) = r \<and> 0 < bs_generation p
            \<and> bt_get (ds_build_authority s) (ba_build_id (bs_authority p)) = Some (bs_authority p))"

definition build_progress_typed :: "DurableStore \<Rightarrow> bool" where
  "build_progress_typed s \<longleftrightarrow> bt_wf (ds_build_progress s) \<and> ds_state_build_progress s = ds_build_progress s
     \<and> (\<forall>b p. bt_get (ds_build_progress s) b = Some p
          \<longrightarrow> ba_build_id (bp_authority p) = b \<and> bt_get (ds_build_authority s) b = Some (bp_authority p))"

definition journal_typed :: "DurableStore \<Rightarrow> bool" where
  "journal_typed s \<longleftrightarrow> bt_wf (ds_local_writes s)
     \<and> (\<forall>i w. bt_get (ds_local_writes s) i = Some w \<longrightarrow> lw_operation_id w = i)"

definition progress_typed :: "DurableStore \<Rightarrow> bool" where
  "progress_typed s \<longleftrightarrow> distinct (map fst (ds_replication_progress s))
     \<and> (\<forall>(f, p) \<in> set (ds_replication_progress s). rpg_fence p = f)"

definition tables_typed :: "(bytes \<Rightarrow> bytes) \<Rightarrow> DurableStore \<Rightarrow> bool" where
  "tables_typed H s \<longleftrightarrow> builds_typed H s \<and> selections_typed s \<and> build_progress_typed s
     \<and> journal_typed s \<and> progress_typed s"

definition store_typed :: "(bytes \<Rightarrow> bytes) \<Rightarrow> (ValidationError \<Rightarrow> string) \<Rightarrow> DurableStore \<Rightarrow> bool" where
  "store_typed H D s \<longleftrightarrow> authority_inv H D s \<and> tables_typed H s"

section \<open>Every transaction keeps the tables well formed\<close>

definition typed_part where
  "typed_part s = (tables_part s, ds_state_build_progress s)"

lemma typed_part_kept:
  "typed_part (snd (store_admit H D a s)) = typed_part s"
  "typed_part (snd (record_secondary_removal H D p s)) = typed_part s"
  "typed_part (snd (record_secondary_removal_commit H D c s)) = typed_part s"
  "typed_part (snd (record_retirement_started H D r s)) = typed_part s"
  "typed_part (snd (store_retire H D r s)) = typed_part s"
proof -
  show "typed_part (snd (store_admit H D a s)) = typed_part s"
    by (rule store_admit_cases) (auto simp: admit_body_def typed_part_def tables_part_def split: if_splits option.splits)
qed (unfold store_op_defs,
     (rule transaction_keeps; auto simp: typed_part_def tables_part_def split: if_splits option.splits)+)

lemmas table_defs = builds_typed_def selections_typed_def build_progress_typed_def journal_typed_def progress_typed_def

lemma tables_typed_unchanged: "typed_part t = typed_part s \<Longrightarrow> tables_typed H s \<Longrightarrow> tables_typed H t"
  by (simp add: typed_part_def tables_part_def tables_typed_def table_defs)

lemma keys_upsert: "set (map fst (upsert k v xs)) = insert k (set (map fst xs))"
  by (induction k v xs rule: upsert.induct) auto

lemma distinct_upsert: "distinct (map fst xs) \<Longrightarrow> distinct (map fst (upsert k v xs))"
proof (induction k v xs rule: upsert.induct)
  case (2 k v l w t)
  then show ?case using keys_upsert [of k v t] by (auto simp del: set_map)
qed simp

lemma set_upsert: "e \<in> set (upsert k v xs) \<Longrightarrow> e = (k, v) \<or> e \<in> set xs"
  by (induction k v xs rule: upsert.induct) (auto split: if_splits)

lemma progress_typed_upsert:
  "progress_typed s \<Longrightarrow> progress_typed (s\<lparr>ds_replication_progress := upsert (rpg_fence p) p (ds_replication_progress s)\<rparr>)"
  using set_upsert [of _ "rpg_fence p" p "ds_replication_progress s"]
  by (fastforce simp: progress_typed_def distinct_upsert)

lemma bt_get_filter:
  assumes "bt_wf m" "bt_get (filter P m) k = Some v"
  shows "bt_get m k = Some v"
proof -
  have "(k, v) \<in> set m" using assms(2) by (auto simp: bt_get_def dest: map_of_SomeD)
  moreover have "distinct (map fst m)" using assms(1) by (simp add: bt_wf_def strict_sorted_iff)
  ultimately show ?thesis unfolding bt_get_def by (intro map_of_is_SomeI)
qed

lemma tables_typed_journal:
  "tables_typed H s \<Longrightarrow> journal_typed (s\<lparr>ds_local_writes := m\<rparr>) \<Longrightarrow> tables_typed H (s\<lparr>ds_local_writes := m\<rparr>)"
  "tables_typed H s \<Longrightarrow> progress_typed (s\<lparr>ds_replication_progress := l\<rparr>)
     \<Longrightarrow> tables_typed H (s\<lparr>ds_replication_progress := l\<rparr>)"
  by (simp_all add: tables_typed_def table_defs)

lemma journal_typed_insert:
  "journal_typed s \<Longrightarrow> journal_typed (s\<lparr>ds_local_writes := bt_insert (lw_operation_id w) w (ds_local_writes s)\<rparr>)"
  by (auto simp: journal_typed_def)

lemma journal_typed_filter:
  "journal_typed s \<Longrightarrow> journal_typed (s\<lparr>ds_local_writes := filter P (ds_local_writes s)\<rparr>)"
  by (auto simp: journal_typed_def bt_wf_filter dest: bt_get_filter)

lemma admit_build_typed:
  assumes "tables_typed H s" "build_authority_validate H a = Ok ()"
    and new: "bt_get (ds_build_authority s) (ba_build_id a) = None"
  shows "tables_typed H (s\<lparr>ds_build_authority := bt_insert (ba_build_id a) a (ds_build_authority s)\<rparr>)"
proof -
  let ?t = "s\<lparr>ds_build_authority := bt_insert (ba_build_id a) a (ds_build_authority s)\<rparr>"
  have later: "bt_get (ds_build_authority ?t) b = Some x" if "bt_get (ds_build_authority s) b = Some x" for b x
    using that new by auto
  have "builds_typed H ?t" using assms(1,2) by (auto simp: tables_typed_def builds_typed_def)
  moreover have "selections_typed ?t"
    using assms(1) later unfolding tables_typed_def selections_typed_def by simp
  moreover have "build_progress_typed ?t"
    using assms(1) later unfolding tables_typed_def build_progress_typed_def by simp
  ultimately show ?thesis using assms(1) by (simp add: tables_typed_def journal_typed_def progress_typed_def)
qed

lemma install_selection_typed:
  assumes "tables_typed H s" "install_selection a g dropped s = Ok (x, t)" "g \<noteq> Some 0"
    and "bt_get (ds_build_authority s) (ba_build_id a) = Some a"
  shows "tables_typed H t"
proof -
  obtain n where n: "n \<noteq> 0" "t = s\<lparr>ds_selections := bt_insert (replica_id (ba_target a))
      \<lparr>bs_authority = a, bs_generation = n\<rparr> (ds_selections s), ds_abandoned_builds := ds_abandoned_builds s \<union> dropped\<rparr>"
    using assms(2,3) by (auto simp: install_selection_def Let_def split: option.splits)
  have "selections_typed t"
    using assms(1,4) n(1) unfolding n(2) tables_typed_def selections_typed_def by (simp add: word_gt_0)
  then show ?thesis using assms(1) unfolding n(2) tables_typed_def table_defs by simp
qed

lemma build_progress_typed_insert:
  assumes "tables_typed H s" "bt_get (ds_build_authority s) (ba_build_id (bp_authority p)) = Some (bp_authority p)"
  shows "tables_typed H (s\<lparr>ds_build_progress := bt_insert (ba_build_id (bp_authority p)) p (ds_build_progress s),
    ds_state_build_progress := bt_insert (ba_build_id (bp_authority p)) p (ds_state_build_progress s)\<rparr>)"
    (is "tables_typed H ?t")
proof -
  have "ds_state_build_progress s = ds_build_progress s" "bt_wf (ds_build_progress s)"
    "\<And>b q. bt_get (ds_build_progress s) b = Some q
       \<Longrightarrow> ba_build_id (bp_authority q) = b \<and> bt_get (ds_build_authority s) b = Some (bp_authority q)"
    using assms(1) unfolding tables_typed_def build_progress_typed_def by blast+
  with assms(2) have "build_progress_typed ?t" unfolding build_progress_typed_def by (simp split: if_splits)
  with assms(1) show ?thesis
    unfolding tables_typed_def builds_typed_def selections_typed_def journal_typed_def progress_typed_def by simp
qed

lemma next_generation: "(g :: u64) \<noteq> 18446744073709551615 \<Longrightarrow> g + 1 \<noteq> 0"
proof
  assume "g + 1 = 0"
  then have "g = - 1" by (simp add: eq_neg_iff_add_eq_0)
  moreover have "(- 1 :: u64) = 18446744073709551615" by simp
  ultimately show "g \<noteq> 18446744073709551615 \<Longrightarrow> False" by simp
qed

lemmas typed_cases = transaction_cases [of "tables_typed H" for H]

lemma tables_typed_step:
  assumes t: "tables_typed H s"
  shows "tables_typed H (store_step H D op s)"
proof (cases op)
  case (StReplicationProgress p)
  have "progress_typed s" using t by (simp add: tables_typed_def)
  from tables_typed_journal(2) [OF t progress_typed_upsert [OF this]] show ?thesis
    unfolding StReplicationProgress store_step.simps record_replication_progress_def
    by (intro typed_cases) (auto simp: t split: if_splits)
next
  case (StLocalWrite w)
  have "journal_typed s" using t by (simp add: tables_typed_def)
  from tables_typed_journal(1) [OF t journal_typed_insert [OF this]] show ?thesis
    unfolding StLocalWrite store_step.simps record_local_write_def
    by (intro typed_cases) (auto simp: t split: if_splits option.splits)
next
  case (StResetWrites c)
  have "journal_typed s" using t by (simp add: tables_typed_def)
  from tables_typed_journal(1) [OF t journal_typed_filter [OF this]] show ?thesis
    unfolding StResetWrites store_step.simps reset_local_writes_after_data_loss_def
    by (intro typed_cases) (auto simp: t)
next
  case (StAdmitBuild a)
  show ?thesis unfolding StAdmitBuild store_step.simps admit_build_def
    by (intro typed_cases [OF t]) (auto simp: t contract_of_check_Ok intro: admit_build_typed split: if_splits option.splits)
next
  case (StSelectBuild a)
  show ?thesis unfolding StSelectBuild store_step.simps select_build_def
    by (intro typed_cases [OF t])
      (auto simp: t next_generation elim!: install_selection_typed [OF t] split: if_splits option.splits)
next
  case (StBuildProgress p x)
  show ?thesis unfolding StBuildProgress store_step.simps record_build_progress_inner_def
    by (intro typed_cases [OF t]) (auto simp: t Let_def intro: build_progress_typed_insert split: if_splits)
qed (use t in \<open>auto intro: tables_typed_unchanged simp: typed_part_kept\<close>)

interpretation typed_history: forward_history "store_step H D" "\<lambda>_. True" "store_typed H D" "\<lambda>_ _. True" for H D
  by unfold_locales (auto simp: store_typed_def tables_typed_step authority_step)

section \<open>Properties\<close>

text \<open>C40: The durable store stays well typed. After any sequence of store transactions from a fresh
  store, successful or rejected, every admitted build is valid and is stored under its own ID, every
  selection is stored under the replica it builds, has a positive generation and names an admitted
  build, every progress row belongs to the admitted build it is stored under and agrees with the
  copy in the agent state, every journalled write is stored under its own operation ID, no
  fence has two progress rows, and the installed authority is valid and belongs to this replica.\<close>

theorem store_tables_well_typed: "store_typed H D (store_run H D ops (store_new x uid))"
proof -
  have "store_typed H D (store_new x uid)"
    using store_new_inv by (simp add: store_typed_def tables_typed_def table_defs store_new_def)
  then show ?thesis unfolding store_run_def by (rule typed_history.run_inv) (simp add: list_all_iff)
qed

end
