(* ===== verification/Snapshot_Safety.thy ===== *)
theory Snapshot_Safety
  imports Status_Totality
begin

text \<open>
  What the controller may conclude from a snapshot that \<open>validate_snapshot\<close> accepts: the active
  transition neighbours the accepted configuration, so their write quorums meet, and a replica that
  reports a granted write status is an authorized primary.
\<close>

section \<open>The active transition and the accepted configuration\<close>

lemma validate_status_D:
  assumes "validate_status H st = Ok ()"
  shows "\<And>t. st_transition st = Some t \<Longrightarrow> transition_status_check H st t = Ok ()"
    "\<And>a. st_accepted st = Some a \<Longrightarrow> validate_configuration H a (st_effective_policy st) = Ok ()"
    "\<And>p. st_effective_policy st = Some p \<Longrightarrow> validate_policy p = Ok ()"
    "obligations_check H st = Ok ()" "initialization_check st = Ok ()"
  using assms unfolding validate_status_def by (auto simp: st_accepted_def)

lemma relationship_D:
  assumes "validate_transition_relationship H k (Some a) c p = Ok ()" "k \<noteq> Bootstrap"
  shows "validate_policy p = Ok ()" "validate_configuration H c (Some p) = Ok ()"
    "validate_configuration H a (Some p) = Ok ()" "c_epoch a < c_epoch c" "member_ids c = member_ids a"
  using transition_Ok_D [OF assms] by auto

lemma switchover_epochs:
  assumes "validate_transition_relationship H k (Some a) req p = Ok ()" "k \<noteq> Bootstrap"
    and "cur = req \<or> validate_transition_relationship H k (Some req) cur p = Ok ()"
  shows "c_epoch a < c_epoch cur"
  using relationship_D(4) [OF assms(1,2)] relationship_D(4) [OF _ assms(2)] assms(3) less_trans by blast

lemma switchover_chain:
  assumes "validate_transition_relationship H k (Some a) req p = Ok ()" "k \<noteq> Bootstrap"
    and "cur = req \<or> validate_transition_relationship H k (Some req) cur p = Ok ()"
    and small: "length (members a) < 4294967296" "length (members cur) < 4294967296"
  shows "neighbours H a cur" "c_epoch a < c_epoch cur"
proof -
  note A = relationship_D [OF assms(1,2)]
  have C: "validate_configuration H cur (Some p) = Ok ()" using assms(3) A(2) relationship_D(2) assms(2) by blast
  have ids: "member_ids cur = member_ids a" using assms(3) A(5) relationship_D(5) [OF _ assms(2)] by metis
  have acc: "accepted_under H (a, p)" "accepted_under H (cur, p)"
    using A(1,3) C small by (auto simp: accepted_under_def)
  with ids accepted_under_counts(1) [OF acc(1)] accepted_under_counts(1) [OF acc(2)]
  show "neighbours H a cur" unfolding neighbours_def by auto
  show "c_epoch a < c_epoch cur" by (rule switchover_epochs [OF assms(1-3)])
qed

lemma switchover_transition_D:
  assumes "switchover_transition_check H st t = Ok ()"
  obtains a i where "st_accepted st = Some a" "ti_switchover t = Some i"
    "validate_transition_relationship H (ti_kind t) (Some a) (si_requested_configuration i) (ti_effective_policy t) = Ok ()"
    "ti_current_configuration t = si_requested_configuration i
     \<or> validate_transition_relationship H (ti_kind t) (Some (si_requested_configuration i))
          (ti_current_configuration t) (ti_effective_policy t) = Ok ()"
proof -
  obtain a i where a: "transition_topology st t = Ok a" "ti_switchover t = Some i"
    "validate_transition_relationship H (ti_kind t) (Some a) (si_requested_configuration i) (ti_effective_policy t) = Ok ()"
    "switchover_resolution_check H t i = Ok ()"
    using assms unfolding switchover_transition_check_def ok_simps by blast
  moreover have "ti_current_configuration t = si_requested_configuration i
     \<or> validate_transition_relationship H (ti_kind t) (Some (si_requested_configuration i))
          (ti_current_configuration t) (ti_effective_policy t) = Ok ()"
    using a(4) by (cases "si_resolution i") (auto simp: switchover_resolution_check_def Let_def split: if_splits)
  ultimately show thesis using that transition_topology_D by blast
qed

lemma scale_up_transition_D:
  assumes "scale_up_transition_check H st t = Ok ()"
  obtains i where "st_accepted st = Some (su_previous_configuration i)" "validate_scale_up H i = Ok ()"
    "ti_current_configuration t = su_current_configuration i"
  using assms unfolding scale_up_transition_check_def ok_simps by blast

lemma scale_down_transition_D:
  assumes "scale_down_transition_check H st t = Ok ()"
  obtains i where "st_accepted st = Some (sd_previous_configuration i)"
    "validate_secondary_scale_down H i = Ok ()" "ti_current_configuration t = sd_current_configuration i"
  using assms unfolding scale_down_transition_check_def ok_simps by blast

lemma carried_scale_up_D:
  assumes "carried_scale_up_check H st t e = Ok ()"
  shows "st_accepted st = Some (su_previous_configuration (sf_intent e))"
    "validate_scale_up_failover_transition H e (ti_current_configuration t) (ti_effective_policy t) = Ok ()"
  using assms unfolding carried_scale_up_check_def Let_def ok_simps by blast+

lemma failover_transition_D:
  assumes "validate_scale_up_failover_transition H e c p = Ok ()"
  shows "validate_scale_up H (sf_intent e) = Ok ()" "validate_failover_configuration H e c p = Ok ()"
  using assms failover_evidence_Ok_D(1) unfolding validate_scale_up_failover_transition_def ok_simps by blast+

lemma membership_transition_D:
  assumes "membership_transition_check H st t = Ok ()"
  obtains a where "st_accepted st = Some a"
    "validate_transition_relationship H (ti_kind t) (Some a) (ti_current_configuration t) (ti_effective_policy t) = Ok ()"
  using assms transition_topology_D unfolding membership_transition_check_def ok_simps by blast

lemma ordinary_transition_D:
  assumes "ordinary_transition_check H st t = Ok ()"
  shows "ti_kind t = Bootstrap \<and> bootstrap_transition_check st t = Ok ()
    \<or> membership_transition_check H st t = Ok () \<or> switchover_transition_check H st t = Ok ()"
  using assms unfolding ordinary_transition_check_def ok_simps by (cases "ti_kind t") auto

lemma transition_status_cases:
  assumes "transition_status_check H st t = Ok ()" "ti_kind t \<noteq> Bootstrap"
  obtains (growth) i where "st_accepted st = Some (su_previous_configuration i)" "validate_scale_up H i = Ok ()"
      "ti_current_configuration t = su_current_configuration i"
    | (removal) i where "st_accepted st = Some (sd_previous_configuration i)"
      "validate_secondary_scale_down H i = Ok ()" "ti_current_configuration t = sd_current_configuration i"
    | (carried) e where "st_accepted st = Some (su_previous_configuration (sf_intent e))"
      "validate_scale_up H (sf_intent e) = Ok ()"
      "validate_failover_configuration H e (ti_current_configuration t) (ti_effective_policy t) = Ok ()"
    | (kept) a where "st_accepted st = Some a"
      "validate_transition_relationship H (ti_kind t) (Some a) (ti_current_configuration t) (ti_effective_policy t) = Ok ()"
    | (switchover) "switchover_transition_check H st t = Ok ()"
proof -
  consider "scale_up_transition_check H st t = Ok ()" | "scale_down_transition_check H st t = Ok ()"
    | e where "carried_scale_up_check H st t e = Ok ()" | "ordinary_transition_check H st t = Ok ()"
    using assms(1) unfolding transition_status_check_def by (auto split: if_splits)
  then show thesis
  proof cases
    case 1
    then show thesis using growth scale_up_transition_D by metis
  next
    case 2
    then show thesis using removal scale_down_transition_D by metis
  next
    case 3
    from carried carried_scale_up_D [OF 3] failover_transition_D show thesis by metis
  next
    case 4
    from ordinary_transition_D [OF 4] assms(2) kept switchover membership_transition_D show thesis by metis
  qed
qed

lemma transition_neighbours:
  assumes v: "transition_status_check H st t = Ok ()" and k: "ti_kind t \<noteq> Bootstrap"
    and a: "st_accepted st = Some a"
    and small: "length (members a) < 4294967296" "length (members (ti_current_configuration t)) < 4294967296"
  shows "neighbours H a (ti_current_configuration t) \<and> c_epoch a < c_epoch (ti_current_configuration t)"
  using v k
proof (cases rule: transition_status_cases)
  case (growth i)
  then have acc: "accepted_under H (su_current_configuration i, su_current_policy i)"
    using scale_up_Ok_D(2,4) [OF growth(2)] small by (simp add: accepted_under_def)
  have "a = su_previous_configuration i" using a growth(1) by simp
  with growth_neighbours [OF growth(2) acc refl] scale_up_epoch [OF growth(2)] small growth(3) show ?thesis
    by (simp add: epoch_less_iff)
next
  case (removal i)
  with a small removal_neighbours [OF removal(2)] scale_down_Ok_D(5) [OF removal(2)] show ?thesis by simp
next
  case (carried e)
  note F = failover_configuration_Ok_D [OF carried(3)]
  have acc: "accepted_under H (ti_current_configuration t, su_current_policy (sf_intent e))"
    using F small by (auto simp: accepted_under_def)
  have "length (members (ti_current_configuration t)) = length (members (su_current_configuration (sf_intent e)))"
    using card_exact_identities [OF F(2)] card_exact_identities [OF scale_up_Ok_D(4) [OF carried(2)]] F(4) by simp
  with growth_neighbours [OF carried(2) acc F(4)] small a carried(1) scale_up_epoch [OF carried(2)] F(5,6)
  show ?thesis by (simp add: epoch_less_iff)
next
  case (kept b)
  with a have "b = a" by simp
  with relationship_neighbours [OF kept(2) k] small show ?thesis by auto
next
  case switchover
  then obtain b and i :: PlannedSwitchoverIntent where b: "st_accepted st = Some b"
    "validate_transition_relationship H (ti_kind t) (Some b) (si_requested_configuration i) (ti_effective_policy t) = Ok ()"
    "ti_current_configuration t = si_requested_configuration i
     \<or> validate_transition_relationship H (ti_kind t) (Some (si_requested_configuration i))
          (ti_current_configuration t) (ti_effective_policy t) = Ok ()"
    by (rule switchover_transition_D) blast
  from a b(1) have "b = a" by simp
  with switchover_chain [OF b(2) k b(3)] small show ?thesis by auto
qed

lemma transition_accepted:
  assumes "transition_status_check H st t = Ok ()" "ti_kind t \<noteq> Bootstrap"
  obtains a where "st_accepted st = Some a"
  using assms by (cases rule: transition_status_cases) (auto elim: switchover_transition_D)


section \<open>The checks of a report never panic\<close>

lemma bootstrap_report_no_panic: "bootstrap_report_check st r \<noteq> Panic"
  by (auto simp: bootstrap_report_check_def Let_def panic_simps holds_exact_def st_current_def
      exact_identities_def find_None_iff)

lemma known_report_no_panic:
  assumes "holds_exact (st_accepted st) r \<or> holds_exact (st_current st) r"
  shows "known_report_check st r \<noteq> Panic"
proof -
  have "or_else (st_current st) (st_accepted st) \<noteq> None"
    using assms by (cases "st_current st"; cases "st_accepted st") (auto simp: holds_exact_def)
  moreover have "configuration_claim_check st r \<noteq> Panic"
    by (auto simp: configuration_claim_check_def Let_def panic_simps)
  moreover have "find (\<lambda>m. m_identity m = ar_identity r) (members a) \<noteq> None" if "holds_exact (Some a) r" for a
    using that by (auto simp: holds_exact_def exact_identities_def find_None_iff)
  ultimately show ?thesis
    unfolding known_report_check_def Let_def panic_simps
    by (auto simp: panic_simps opt_filter_def split: option.splits if_splits)
qed

lemma report_authority_no_panic:
  assumes "\<And>t. st_transition (sn_status s) = Some t \<Longrightarrow> ti_kind t \<noteq> Bootstrap \<Longrightarrow> st_accepted (sn_status s) \<noteq> None"
  shows "validate_report_authority H s r \<noteq> Panic"
proof -
  let ?st = "sn_status s"
  have "switchover_epoch_check ?st r \<noteq> Panic" "previous_report_check ?st r \<noteq> Panic"
    using assms by (auto simp: switchover_epoch_check_def previous_report_check_def panic_simps or_else_def
        split: option.splits)
  moreover have "switchover_report_check ?st r \<noteq> Panic" "frozen_evidence_check ?st r \<noteq> Panic"
    "local_acceptance_check ?st r \<noteq> Panic" "reported_removals_check ?st r \<noteq> Panic"
    by (auto simp: switchover_report_check_def frozen_evidence_check_def local_acceptance_check_def
        reported_removals_check_def panic_simps split: option.splits if_splits)
  moreover have "provisioning_report_check r \<noteq> Panic" "unrelated_report_check ?st r \<noteq> Panic"
    by (auto simp: provisioning_report_check_def unrelated_report_check_def)
  ultimately show ?thesis
    unfolding validate_report_authority_def Let_def panic_simps
    using bootstrap_report_no_panic known_report_no_panic by (auto simp: panic_simps split: if_splits)
qed

lemma observation_no_panic:
  assumes "validate_status H (sn_status s) = Ok ()"
    and "\<And>r c. ob_agent (snd e) = AgentReported r
        \<Longrightarrow> ar_previous_configuration r = Some c \<or> ar_current_configuration r = Some c
        \<Longrightarrow> length (members c) < 4294967296"
  shows "observation_check H s e \<noteq> Panic"
proof -
  have "st_accepted (sn_status s) \<noteq> None"
    if "st_transition (sn_status s) = Some t" "ti_kind t \<noteq> Bootstrap" for t
    using transition_accepted [OF validate_status_D(1) [OF assms(1) that(1)] that(2)] by blast
  then have auth: "validate_report_authority H s r \<noteq> Panic" for r using report_authority_no_panic by blast
  have seq: "validate_report_sequence s k p n \<noteq> Panic" for k p n
    by (simp add: validate_report_sequence_def split: option.split)
  have "uninitialized_check s k ob u \<noteq> Panic" for k ob u
    by (simp add: uninitialized_check_def Let_def panic_simps seq)
  moreover have "report_check H s k r \<noteq> Panic" if "ob_agent (snd e) = AgentReported r" for k r
    using assms(2) [OF that] validate_configuration_no_panic_None
    by (auto simp: report_check_def panic_simps auth seq report_internal_no_panic)
  ultimately show ?thesis
    by (auto simp: observation_check_def Let_def panic_simps split: AgentObservation.splits)
qed

text \<open>C38: \<open>validate_snapshot\<close> is total: on every observation snapshot, whatever the status, the
  resources and the agents report, it answers \<open>Ok\<close> or a \<open>ValidationError\<close> and never reaches one of
  the \<open>expect\<close>, index or \<open>unreachable!\<close> panics of the checks it runs. The only bound is on the
  reported configurations, whose member count must fit the \<open>u32\<close> that quorum arithmetic converts it
  to.\<close>

theorem validate_snapshot_never_panics:
  assumes "\<forall>(k, ob) \<in> set (sn_replicas s). \<forall>r c. ob_agent ob = AgentReported r
      \<longrightarrow> ar_previous_configuration r = Some c \<or> ar_current_configuration r = Some c
      \<longrightarrow> length (members c) < 4294967296"
  shows "validate_snapshot H s \<noteq> Panic"
proof
  assume panic: "validate_snapshot H s = Panic"
  have "snapshot_resource_check s \<noteq> Panic" "snapshot_provisioning_check H s p \<noteq> Panic" for p
    by (auto simp: snapshot_resource_check_def snapshot_provisioning_check_def admission_started_check_def Let_def
        panic_simps provisioning_no_panic split: ProvisioningKind.splits if_splits)
  then have "validate_status H (sn_status s) = Ok ()"
    "for_each (sn_replicas s) (observation_check H s) = Panic"
    using panic validate_status_no_panic unfolding validate_snapshot_def Let_def panic_simps
    by (auto split: option.splits)
  then obtain e where "e \<in> set (sn_replicas s)" "observation_check H s e = Panic"
    using for_each_Panic_D by blast
  moreover have "observation_check H s e \<noteq> Panic"
    by (rule observation_no_panic) (use assms calculation \<open>validate_status H _ = Ok ()\<close> in \<open>fastforce+\<close>)
  ultimately show False by blast
qed

section \<open>Who may write\<close>

lemma push_all_get:
  "unwrap_or (bt_get (fold (\<lambda>(k, x). bt_push k x) cs m) j) []
     = unwrap_or (bt_get m j) [] @ map snd (filter (\<lambda>c. fst c = j) cs)"
  by (induction cs arbitrary: m) auto

lemma filter_single:
  assumes "length (filter P (List.map_filter f xs)) \<le> 1"
    and "x \<in> set xs" "f x = Some a" "P a" "y \<in> set xs" "f y = Some b" "P b"
  shows "x = y"
  using assms
proof (induction xs)
  case (Cons z zs)
  have none: False if "f z = Some c" "P c" "w \<in> set zs" "f w = Some d" "P d" for c d w
  proof -
    have "d \<in> set (filter P (List.map_filter f zs))" using that by (force simp: List.map_filter_def)
    then have "length (filter P (List.map_filter f zs)) \<noteq> 0" by (auto simp: filter_empty_conv)
    with that Cons.prems(1) show False by (simp add: List.map_filter_simps)
  qed
  have "length (filter P (List.map_filter f zs)) \<le> 1"
    using Cons.prems(1) by (auto simp: List.map_filter_simps split: option.splits if_splits)
  with Cons none show ?case by auto
qed simp

lemma validated_snapshot_D:
  assumes "validate_snapshot H s = Ok ()"
  shows "validate_status H (sn_status s) = Ok ()"
    "\<And>e. e \<in> set (sn_replicas s) \<Longrightarrow> observation_check H s e = Ok ()"
    "find (\<lambda>(k, xs). length xs > 1) (primary_claims (sn_replicas s)) = None"
  using assms unfolding validate_snapshot_def Let_def ok_simps for_each_Ok_iff by (auto split: option.splits)

lemma primary_claim_unique:
  assumes "find (\<lambda>(k, xs). length xs > 1) (primary_claims obs) = None"
    and "e \<in> set obs" "primary_claim (snd e) = Some (j, i)" "e' \<in> set obs" "primary_claim (snd e') = Some (j, i')"
  shows "e = e'"
proof -
  let ?cs = "List.map_filter (primary_claim \<circ> snd) obs"
  have "length (unwrap_or (bt_get (primary_claims obs) j) []) \<le> 1"
  proof (cases "bt_get (primary_claims obs) j")
    case (Some xs)
    then have "(j, xs) \<in> set (primary_claims obs)" unfolding bt_get_def by (rule map_of_SomeD)
    with assms(1) have "\<not> 1 < length xs" unfolding find_None_iff by blast
    with Some show ?thesis by simp
  qed simp
  then have "length (filter (\<lambda>c. fst c = j) ?cs) \<le> 1"
    unfolding primary_claims_def push_all_get by simp
  from filter_single [OF this, of e "(j, i)" e' "(j, i')"] assms show ?thesis by auto
qed

lemma granted_report_D:
  assumes "validate_report_internal H r = Ok ()" "ar_write_status r = Granted"
  shows "ar_role r = Primary" "ar_current_configuration r \<noteq> None"
  using assms unfolding validate_report_internal_def ok_simps by auto

text \<open>A lagging secondary: below the epoch of the accepted configuration that holds it as a secondary,
  with no transition active.\<close>

definition lagging_secondary :: "AcceptedStatus \<Rightarrow> AgentReport \<Rightarrow> bool" where
  "lagging_secondary st r \<longleftrightarrow> st_transition st = None
     \<and> is_some_and (st_accepted st) (\<lambda>a. ar_epoch r < c_epoch a
          \<and> (\<exists>m \<in> set (members a). m_identity m = ar_identity r \<and> m_role m \<noteq> Primary))"

lemma known_granted_D:
  assumes "known_report_check st r = Ok ()" "ar_write_status r = Granted"
  shows "(\<exists>c. (st_accepted st = Some c \<or> st_current st = Some c) \<and> claims r c) \<or> lagging_secondary st r"
proof (cases "opt_filter (\<lambda>a. holds_exact (Some a) r \<and> ar_epoch r < c_epoch a) (st_accepted st)")
  case None
  then have "configuration_claim_check st r = Ok ()"
    using assms(1) unfolding known_report_check_def Let_def ok_simps by auto
  then show ?thesis using assms(2) unfolding configuration_claim_check_def Let_def ok_simps
    by (auto simp: List.map_filter_def split: if_splits)
next
  case (Some a)
  then have a: "st_accepted st = Some a" "ar_epoch r < c_epoch a" by (auto simp: opt_filter_def split: option.splits if_splits)
  obtain m where "find (\<lambda>m. m_identity m = ar_identity r) (members a) = Some m" "st_transition st = None" "m_role m \<noteq> Primary"
    using assms(1) Some unfolding known_report_check_def Let_def ok_simps by (auto split: if_splits)
  then show ?thesis using a find_Some_D by (fastforce simp: lagging_secondary_def)
qed

lemma granted_authority_D:
  assumes "validate_report_authority H s r = Ok ()" "ar_write_status r = Granted"
  defines "st \<equiv> sn_status s"
  shows "holds_exact (st_accepted st) r \<or> holds_exact (st_current st) r" "known_report_check st r = Ok ()"
    "bootstrap_report_check st r = Ok ()" "switchover_epoch_check st r = Ok ()"
proof -
  have "\<not> (st_transition st = None \<and> is_some_and (st_provisioning st) (\<lambda>p. target_identity H p (sn_resource_uid s) = ar_identity r))"
    using assms(1,2) unfolding validate_report_authority_def Let_def ok_simps st_def [symmetric]
    by (auto simp: provisioning_report_check_def split: if_splits)
  with assms(1) have ok: "bootstrap_report_check st r = Ok ()" "switchover_epoch_check st r = Ok ()"
    "(if \<not> (holds_exact (st_accepted st) r \<or> holds_exact (st_current st) r) then unrelated_report_check st r
      else known_report_check st r) = Ok ()"
    unfolding validate_report_authority_def Let_def ok_simps st_def [symmetric] by (auto split: if_splits)
  then show "bootstrap_report_check st r = Ok ()" "switchover_epoch_check st r = Ok ()" by blast+
  show known: "holds_exact (st_accepted st) r \<or> holds_exact (st_current st) r"
    using ok(3) assms(2) by (auto simp: unrelated_report_check_def split: if_splits)
  show "known_report_check st r = Ok ()" using ok(3) known by (simp split: if_splits)
qed

lemma switchover_grant_claims_accepted:
  assumes "transition_status_check H st t = Ok ()" "st_transition st = Some t" "ti_kind t = PlannedSwitchover"
    and "switchover_epoch_check st r = Ok ()" "ar_write_status r = Granted"
    and "\<exists>c. (st_accepted st = Some c \<or> st_current st = Some c) \<and> claims r c"
  shows "\<exists>a. st_accepted st = Some a \<and> claims r a"
proof -
  have "switchover_transition_check H st t = Ok ()"
    using assms(1,3) unfolding transition_status_check_def ordinary_transition_check_def by auto
  then obtain a and i :: PlannedSwitchoverIntent where a: "st_accepted st = Some a"
    "validate_transition_relationship H (ti_kind t) (Some a) (si_requested_configuration i) (ti_effective_policy t) = Ok ()"
    "ti_current_configuration t = si_requested_configuration i
     \<or> validate_transition_relationship H (ti_kind t) (Some (si_requested_configuration i))
          (ti_current_configuration t) (ti_effective_policy t) = Ok ()"
    by (rule switchover_transition_D) blast
  have "c_epoch a < c_epoch (ti_current_configuration t)"
    using switchover_epochs [OF a(2) _ a(3)] assms(3) by simp
  moreover have "\<not> c_epoch a < ar_epoch r"
    using assms(2-5) a(1) unfolding switchover_epoch_check_def by auto
  ultimately show ?thesis using assms(2,6) a(1) by (auto simp: st_current_def claims_def)
qed

lemma bootstrap_grants_nothing:
  assumes "transition_status_check H st t = Ok ()" "st_transition st = Some t" "ti_kind t = Bootstrap"
    and "bootstrap_report_check st r = Ok ()" "holds_exact (st_accepted st) r \<or> holds_exact (st_current st) r"
  shows "ar_write_status r \<noteq> Granted"
proof -
  have "st_accepted st = None"
    using assms(1,3) unfolding transition_status_check_def ordinary_transition_check_def
    by (auto simp: bootstrap_transition_check_def st_accepted_def)
  then show ?thesis using assms(2-5) unfolding bootstrap_report_check_def Let_def by (auto simp: holds_exact_def)
qed

lemma granted_write_facts:
  assumes ok: "validate_snapshot H s = Ok ()" and mem: "(k, ob) \<in> set (sn_replicas s)"
    and r: "ob_agent ob = AgentReported r" "ar_write_status r = Granted"
  shows "ar_role r = Primary"
    and "holds_exact (st_accepted (sn_status s)) r \<or> holds_exact (st_current (sn_status s)) r"
    and "(\<exists>c. (st_accepted (sn_status s) = Some c \<or> st_current (sn_status s) = Some c) \<and> claims r c)
      \<or> lagging_secondary (sn_status s) r"
    and "st_transition (sn_status s) = Some t
      \<Longrightarrow> ti_kind t \<noteq> Bootstrap
        \<and> (ti_kind t = PlannedSwitchover \<longrightarrow> (\<exists>a. st_accepted (sn_status s) = Some a \<and> claims r a))"
    and "(k', ob') \<in> set (sn_replicas s) \<Longrightarrow> ob_agent ob' = AgentReported r' \<Longrightarrow> ar_write_status r' = Granted
      \<Longrightarrow> ar_epoch r' = ar_epoch r
      \<Longrightarrow> map_option configuration_id (ar_current_configuration r')
            = map_option configuration_id (ar_current_configuration r)
      \<Longrightarrow> k' = k \<and> ob' = ob"
proof -
  have checked: "validate_report_internal H x = Ok ()" "validate_report_authority H s x = Ok ()"
    if "(j, oo) \<in> set (sn_replicas s)" "ob_agent oo = AgentReported x" for j oo x
    using validated_snapshot_D(2) [OF ok that(1)] that(2)
    by (auto simp: observation_check_def report_check_def ok_simps split: if_splits)
  note internal = granted_report_D [OF checked(1)] and auth = granted_authority_D [OF checked(2) [OF mem r(1)] r(2)]
  show "ar_role r = Primary" by (rule internal(1) [OF mem r])
  show "holds_exact (st_accepted (sn_status s)) r \<or> holds_exact (st_current (sn_status s)) r" by (rule auth(1))
  show known: "(\<exists>c. (st_accepted (sn_status s) = Some c \<or> st_current (sn_status s) = Some c) \<and> claims r c)
      \<or> lagging_secondary (sn_status s) r" by (rule known_granted_D [OF auth(2) r(2)])
  show "ti_kind t \<noteq> Bootstrap
      \<and> (ti_kind t = PlannedSwitchover \<longrightarrow> (\<exists>a. st_accepted (sn_status s) = Some a \<and> claims r a))"
    if t: "st_transition (sn_status s) = Some t"
  proof -
    note c = validate_status_D(1) [OF validated_snapshot_D(1) [OF ok] t]
    have "\<not> lagging_secondary (sn_status s) r" using t by (simp add: lagging_secondary_def)
    with known bootstrap_grants_nothing [OF c t _ auth(3,1)] r(2) switchover_grant_claims_accepted [OF c t _ auth(4) r(2)]
    show ?thesis by blast
  qed
  show "k' = k \<and> ob' = ob"
    if e: "(k', ob') \<in> set (sn_replicas s)" "ob_agent ob' = AgentReported r'" "ar_write_status r' = Granted"
      "ar_epoch r' = ar_epoch r"
      "map_option configuration_id (ar_current_configuration r') = map_option configuration_id (ar_current_configuration r)"
  proof -
    obtain c where c: "ar_current_configuration r = Some c" using internal(2) [OF mem r] by auto
    have "primary_claim ob = Some ((ar_epoch r, configuration_id c), ar_identity r)"
      "primary_claim ob' = Some ((ar_epoch r, configuration_id c), ar_identity r')"
      using r e c internal(1) [OF mem r] internal(1) [OF e(1-3)] by (auto simp: primary_claim_def)
    with primary_claim_unique [OF validated_snapshot_D(3) [OF ok] mem _ e(1)] show ?thesis by auto
  qed
qed


section \<open>A snapshot during a failover\<close>

abbreviation no_hash :: "bytes \<Rightarrow> bytes" where
  "no_hash \<equiv> \<lambda>_. []"

definition sample_transition :: TransitionIntent where
  "sample_transition =
     \<lparr>ti_transition_id = ''t'', ti_kind = Failover, ti_spec_generation = 1, ti_effective_policy = sample_policy,
      ti_previous_configuration_id = Some (configuration_id (sample_configuration no_hash 1)),
      ti_current_configuration = sample_configuration no_hash 2, ti_election_lsn = Some 4, ti_build_id = None,
      ti_repair = None, ti_switchover = None, ti_secondary_scale_down = None,
      ti_secondary_removal_evidence = None, ti_scale_up = None, ti_scale_up_failover = None\<rparr>"

definition sample_status :: AcceptedStatus where
  "sample_status =
     \<lparr>st_initialized = True, st_observed_generation = 1, st_effective_policy = Some sample_policy,
      st_topology = Some \<lparr>tp_configuration = sample_configuration no_hash 1\<rparr>, st_scale_up_allocation = None,
      st_provisioning = None, st_transition = Some sample_transition, st_primary_failure = None,
      st_quorum_loss = None, st_last_switchover = None, st_pending_replacement_cleanup = None,
      st_last_replacement = None, st_secondary_scale_down_cleanup = None, st_last_secondary_removal = None,
      st_scale_up_cleanup = None, st_last_scale_up = None, st_scale_up_admission_started = None,
      st_preview_lifecycle = None, st_public_fault_action = None, st_public_service_clear = None,
      st_last_public_fault_action = None, st_conditions = []\<rparr>"

definition sample_agent_report :: AgentReport where
  "sample_agent_report = agent_report_default
     \<lparr>ar_resource_uid := ''u'', ar_identity := \<lparr>replica_id = 1, instance_id = ''a'', agent_generation = ''g''\<rparr>,
      ar_role := Primary, ar_write_status := Granted, ar_epoch := epoch_new 0 1,
      ar_current_configuration := Some (sample_configuration no_hash 1)\<rparr>"

definition sample_snapshot :: ObservationSnapshot where
  "sample_snapshot =
     \<lparr>sn_resource_uid = ''u'', sn_resource_version = ''1'',
      sn_desired = \<lparr>des_generation = 1, des_replicas = 3, des_image = ''i'', des_failover_delay_seconds = 5,
         des_switchover = None, des_preview_lifecycle = None\<rparr>,
      sn_status = sample_status,
      sn_replicas = [(observation_key_new 1 ''a'',
         \<lparr>ob_kubernetes = None, ob_agent = AgentReported sample_agent_report\<rparr>),
        (observation_key_new 2 ''b'', \<lparr>ob_kubernetes = None, ob_agent = AgentUnreachable ''down''\<rparr>)],
      sn_secondary_scale_down_resources = [], sn_previous_report_watermarks = [],
      sn_durable_storage_evidence = True, sn_supporting_resources_ready = True,
      sn_routing = \<lparr>ro_service_present = True, ro_unresolved_write_target = False, ro_write_target = None,
         ro_preview_service_location_present = False, ro_write_service_uid = None,
         ro_write_service_resource_version = None, ro_service_identities = []\<rparr>,
      sn_observation_failures = [], sn_now_unix_seconds = 0\<rparr>"

lemma sample_relationship:
  "validate_transition_relationship no_hash Failover (Some (sample_configuration no_hash 1))
     (sample_configuration no_hash 2) sample_policy = Ok ()"
  using sample_configuration_valid [of 1 no_hash] sample_configuration_valid [of 2 no_hash]
  by (simp add: validate_transition_relationship_def sample_policy_valid exact_identities_def
      sample_configuration_members)
    (simp add: sample_configuration_def epoch_new_def)

lemma sample_status_fields:
  "st_accepted sample_status = Some (sample_configuration no_hash 1)"
  "st_transition sample_status = Some sample_transition"
  "st_current sample_status = Some (sample_configuration no_hash 2)"
  "ti_current_configuration sample_transition = sample_configuration no_hash 2"
  "ti_kind sample_transition = Failover" "ti_switchover sample_transition = None"
  by (simp_all add: sample_status_def sample_transition_def st_accepted_def st_current_def)

lemma sample_transition_valid: "transition_status_check no_hash sample_status sample_transition = Ok ()"
proof -
  have "transition_topology sample_status sample_transition = Ok (sample_configuration no_hash 1)"
    by (simp add: transition_topology_def sample_status_fields) (simp add: sample_transition_def)
  moreover have "failover_transition_check (sample_configuration no_hash 1) sample_transition = Ok ()"
    by (simp add: failover_transition_check_def sample_transition_def exact_identities_def
        sample_configuration_members)
  ultimately have "membership_transition_check no_hash sample_status sample_transition = Ok ()"
    using sample_relationship sample_configuration_valid [of 1 no_hash]
    by (simp add: membership_transition_check_def sample_status_fields) (simp add: sample_transition_def)
  then show ?thesis using sample_configuration_valid [of 2 no_hash]
    by (simp add: transition_status_check_def ordinary_transition_check_def sample_status_fields)
      (simp add: sample_transition_def sample_status_def sample_policy_valid)
qed

lemma sample_status_valid: "validate_status no_hash sample_status = Ok ()"
  using sample_transition_valid sample_configuration_valid [of 1 no_hash]
  by (simp add: validate_status_def obligations_check_def initialization_check_def provisioning_transition_check_def
      sample_policy_valid sample_status_def) (simp add: sample_transition_def)


lemma sample_report_fields:
  "ar_current_configuration sample_agent_report = Some (sample_configuration no_hash 1)"
  "ar_previous_configuration sample_agent_report = None" "ar_role sample_agent_report = Primary"
  "ar_write_status sample_agent_report = Granted" "ar_epoch sample_agent_report = epoch_new 0 1"
  "ar_identity sample_agent_report = m_identity (sample_member 1 ''a'' Primary)"
  "ar_resource_uid sample_agent_report = ''u''"
  by (simp_all add: sample_agent_report_def sample_member_def agent_report_default_def)

lemma sample_configuration_epoch [simp]: "c_epoch (sample_configuration no_hash n) = epoch_new 0 n"
  by (simp add: sample_configuration_def)

theorem validate_snapshot_never_panics_witness: "validate_snapshot no_hash sample_snapshot \<noteq> Panic"
  by (rule validate_snapshot_never_panics)
    (simp add: sample_snapshot_def sample_report_fields sample_configuration_members)

lemma sample_report_internal: "validate_report_internal no_hash sample_agent_report = Ok ()"
  by (simp add: validate_report_internal_def sample_report_fields epoch_new_def)
    (simp add: sample_agent_report_def agent_report_default_def validate_secondary_removal_report_def
      previous_current_differ_def)

lemma sample_report_authority: "validate_report_authority no_hash sample_snapshot sample_agent_report = Ok ()"
proof -
  have [simp]: "sn_status sample_snapshot = sample_status" by (simp add: sample_snapshot_def)
  have "holds_exact (st_accepted sample_status) sample_agent_report"
    by (simp add: holds_exact_def sample_status_fields sample_report_fields exact_identities_def
        sample_configuration_members)
  moreover have "reported_removals_check sample_status sample_agent_report = Ok ()"
    "frozen_evidence_check sample_status sample_agent_report = Ok ()"
    "local_acceptance_check sample_status sample_agent_report = Ok ()"
    by (simp_all add: reported_removals_check_def reported_removals_def frozen_evidence_check_def
        local_acceptance_check_def authorized_removal_def committed_removal_def frozen_removal_evidence_def
        sample_status_fields)
      (simp_all add: sample_status_def sample_transition_def sample_agent_report_def agent_report_default_def
        List.map_filter_simps)
  moreover have "bootstrap_report_check sample_status sample_agent_report = Ok ()"
    "switchover_epoch_check sample_status sample_agent_report = Ok ()"
    "switchover_report_check sample_status sample_agent_report = Ok ()"
    "previous_report_check sample_status sample_agent_report = Ok ()"
    by (simp_all add: bootstrap_report_check_def switchover_epoch_check_def switchover_report_check_def
        previous_report_check_def sample_status_fields sample_report_fields)
  moreover have "known_report_check sample_status sample_agent_report = Ok ()"
    by (simp add: known_report_check_def configuration_claim_check_def claims_def Let_def sample_status_fields
        sample_report_fields List.map_filter_simps epoch_less_iff epoch_new_def)
  ultimately show ?thesis
    unfolding validate_report_authority_def by (simp add: sample_status_fields)
qed

lemma sample_snapshot_valid: "validate_snapshot no_hash sample_snapshot = Ok ()"
proof -
  have "validate_configuration no_hash (sample_configuration no_hash 1) None = Ok ()"
    using sample_configuration_valid [of 1 no_hash] by (auto simp: validate_configuration_Ok_iff sample_policy_def fixed_policy_def Let_def)
  then have "report_check no_hash sample_snapshot (observation_key_new 1 ''a'') sample_agent_report = Ok ()"
    using sample_report_internal sample_report_authority
    by (simp add: report_check_def validate_report_sequence_def sample_report_fields observation_key_new_def
        sample_member_def)
      (simp add: sample_snapshot_def sample_agent_report_def agent_report_default_def)
  then have "for_each (sn_replicas sample_snapshot) (observation_check no_hash sample_snapshot) = Ok ()"
    by (simp add: observation_check_def Let_def) (simp add: sample_snapshot_def)
  moreover have "snapshot_resource_check sample_snapshot = Ok ()"
    by (simp add: snapshot_resource_check_def replacement_cleanups_def List.map_filter_simps sample_snapshot_def
        sample_status_def st_active_scale_up_def ti_active_scale_up_def sample_transition_def)
  ultimately show ?thesis
    using sample_status_valid
    by (simp add: validate_snapshot_def sample_snapshot_def)
      (simp add: sample_status_def primary_claims_def primary_claim_def List.map_filter_simps sample_report_fields
        bt_push_def)
qed


end
