(* ===== verification/Quorum_Liveness.thy ===== *)
theory Quorum_Liveness
  imports Quorum_Safety
begin

text \<open>
  Progress of \<open>replicator/quorum.rs\<close>: once acknowledgements from enough members have been delivered,
  the write they acknowledge can be finalized and every sender waiting for it is answered.
\<close>

section \<open>Delivering acknowledgements\<close>

text \<open>Acknowledgements handed to the tracker one after the other, each in the session it came from.\<close>

definition deliver :: "(ReplicationAck \<times> ProcessSessionId) list \<Rightarrow> 's QuorumTracker \<Rightarrow> 's QuorumTracker" where
  "deliver ks t = fold (\<lambda>(k, s) t. snd (acknowledge_in_session k s t)) ks t"

lemma acknowledge_in_session_frame:
  defines "u \<equiv> \<lambda>k s t. snd (acknowledge_in_session k s t)"
  shows "qt_authority (u k s t) = qt_authority t" "qt_sessions (u k s t) = qt_sessions t"
    "qt_pending (u k s t) = qt_pending t" "qt_sends (u k s t) = qt_sends t"
    "qt_committed_lsn (u k s t) = qt_committed_lsn t"
  by (auto simp: u_def acknowledge_in_session_def acknowledge_def split: option.splits result.splits)

lemma deliver_frame [simp]:
  "qt_authority (deliver ks t) = qt_authority t" "qt_sessions (deliver ks t) = qt_sessions t"
  "qt_pending (deliver ks t) = qt_pending t" "qt_sends (deliver ks t) = qt_sends t"
  "qt_committed_lsn (deliver ks t) = qt_committed_lsn t"
  by (induction ks arbitrary: t) (auto simp: deliver_def acknowledge_in_session_frame)

text \<open>An acknowledgement the tracker has to credit: it passes the fence of the admitted authority and
  comes from the receiver's current session.\<close>

definition creditable :: "'s QuorumTracker \<Rightarrow> ReplicationAck \<times> ProcessSessionId \<Rightarrow> bool" where
  "creditable t e \<longleftrightarrow> bt_get (qt_sessions t) (ack_receiver (fst e)) = Some (snd e)
     \<and> is_some_and (qt_authority t) (\<lambda>a. mc_validate_acknowledgement a (fst e) = Ok ())"

lemma acknowledge_credits:
  assumes "creditable t (k, s)"
  shows "qt_progress (snd (acknowledge_in_session k s t))
     = bt_raise (ack_receiver k) (ack_applied_lsn k) (qt_progress t)"
  using assms by (auto simp: creditable_def acknowledge_in_session_def acknowledge_def is_some_and_iff)

lemma raise_reaches:
  assumes "0 < l" "l \<le> progress_of p x \<or> y = x \<and> l \<le> v"
  shows "l \<le> progress_of (bt_raise y v p) x"
  using assms by (cases "bt_get p x") (auto simp: progress_of_def split: option.splits)

lemma deliver_reaches:
  assumes "\<forall>e \<in> set ks. creditable t e" "0 < l"
    and "l \<le> progress_of (qt_progress t) x \<or> (\<exists>(k, s) \<in> set ks. ack_receiver k = x \<and> l \<le> ack_applied_lsn k)"
  shows "l \<le> progress_of (qt_progress (deliver ks t)) x"
  using assms
proof (induction ks arbitrary: t)
  case (Cons e ks)
  obtain k s where e: "e = (k, s)" by (cases e)
  let ?u = "snd (acknowledge_in_session k s t)"
  have "\<forall>e \<in> set ks. creditable ?u e"
    using Cons.prems(1) by (simp add: creditable_def acknowledge_in_session_frame)
  moreover have "l \<le> progress_of (qt_progress ?u) x \<or> (\<exists>(k, s) \<in> set ks. ack_receiver k = x \<and> l \<le> ack_applied_lsn k)"
    using Cons.prems e raise_reaches [of l "qt_progress t" x "ack_receiver k" "ack_applied_lsn k"]
    by (auto simp: acknowledge_credits)
  ultimately have "l \<le> progress_of (qt_progress (deliver ks ?u)) x" using Cons.IH Cons.prems(2) by blast
  then show ?case by (simp add: deliver_def e)
qed (simp add: deliver_def)

section \<open>Answering every sender\<close>

lemma fold_complete_answers:
  "\<exists>sent. qt_sends (fold complete_one ls t) = qt_sends t @ sent
     \<and> (\<forall>l \<in> set ls. \<forall>ss. bt_get (qt_pending t) l = Some ss \<longrightarrow> (\<forall>s \<in> set ss. (s, Ok l) \<in> set sent))"
proof (induction ls arbitrary: t)
  case (Cons l ls)
  obtain sent where sent: "qt_sends (fold complete_one ls (complete_one l t)) = qt_sends (complete_one l t) @ sent"
    "\<forall>l' \<in> set ls. \<forall>ss. bt_get (qt_pending (complete_one l t)) l' = Some ss \<longrightarrow> (\<forall>s \<in> set ss. (s, Ok l') \<in> set sent)"
    using Cons.IH [of "complete_one l t"] by blast
  let ?first = "case bt_get (qt_pending t) l of None \<Rightarrow> [] | Some ss \<Rightarrow> map (\<lambda>s. (s, Ok l)) ss"
  have first: "qt_sends (complete_one l t) = qt_sends t @ ?first"
    by (auto simp: complete_one_def split: option.splits)
  have "(s, Ok l') \<in> set (?first @ sent)"
    if "l' \<in> set (l # ls)" "bt_get (qt_pending t) l' = Some ss" "s \<in> set ss" for l' ss s
    using that sent(2) by (cases "l' = l") (auto simp: complete_one_pending)
  with first sent(1) show ?case by (intro exI [of _ "?first @ sent"]) simp
qed simp

lemma ready_reaches:
  assumes "qt_authority t = Some a" "bt_get (qt_pending t) l \<noteq> None" "client_commit_ready a (qt_progress t) l"
  shows "\<exists>ready. ready_commit_lsn t = Some ready \<and> l \<le> ready"
proof (cases "ready_commit_lsn t")
  case None
  then have "filter (client_commit_ready a (qt_progress t)) (bt_keys (qt_pending t)) = []"
    using assms(1) by (simp add: ready_commit_lsn_def)
  then show ?thesis using assms(2,3) by (simp add: filter_empty_conv set_bt_keys)
next
  case (Some ready)
  then have "max_by_key id (filter (client_commit_ready a (qt_progress t)) (bt_keys (qt_pending t))) = Some ready"
    using assms(1) by (simp add: ready_commit_lsn_def)
  from max_by_key_Some_D [OF this] assms(2,3) Some show ?thesis by (simp add: set_bt_keys)
qed

section \<open>Properties\<close>

text \<open>C39: A write whose quorum has acknowledged is always answered. Take a tracker with admitted
  authority and a write pending at a positive LSN, and deliver acknowledgements in any order, each
  from the receiver's current session and under the admitted fence. When the members that had
  reached the LSN or now acknowledge it form a write quorum of the current configuration, and of the
  previous one while a transition is in flight, \<open>finalize_commit\<close> succeeds. The write is then no
  longer pending, the committed LSN covers it, and every sender registered for it receives its
  LSN.\<close>

theorem acknowledged_write_completes:
  assumes wf: "maps_wf t" and auth: "qt_authority t = Some a" and pending: "bt_get (qt_pending t) lsn = Some ss" "0 < lsn"
    and acks: "\<forall>e \<in> set ks. creditable t e"
    and quorum: "\<forall>c. c = mc_current_configuration a \<or> mc_previous_configuration a = Some c
      \<longrightarrow> (\<exists>p. validate_configuration H c p = Ok ())
        \<and> unat (write_quorum c) \<le> card {x \<in> exact_identities c. lsn \<le> progress_of (qt_progress t) x
             \<or> (\<exists>(k, s) \<in> set ks. ack_receiver k = x \<and> lsn \<le> ack_applied_lsn k)}"
  shows "\<exists>u sent. finalize_commit lsn (deliver ks t) = (Ok (), u) \<and> bt_get (qt_pending u) lsn = None
    \<and> lsn \<le> qt_committed_lsn u \<and> qt_sends u = qt_sends t @ sent \<and> (\<forall>s \<in> set ss. (s, Ok lsn) \<in> set sent)"
proof -
  let ?v = "deliver ks t"
  have quorum_of: "has_quorum c (qt_progress ?v) lsn"
    if c: "c = mc_current_configuration a \<or> mc_previous_configuration a = Some c" for c
  proof -
    let ?X = "{x \<in> exact_identities c. lsn \<le> progress_of (qt_progress t) x
      \<or> (\<exists>(k, s) \<in> set ks. ack_receiver k = x \<and> lsn \<le> ack_applied_lsn k)}"
    obtain p where p: "validate_configuration H c p = Ok ()" "unat (write_quorum c) \<le> card ?X"
      using quorum c by blast
    have "?X \<subseteq> reached c (qt_progress ?v) lsn" using deliver_reaches [OF acks pending(2)] by (auto simp: reached_def)
    moreover have "finite (reached c (qt_progress ?v) lsn)" by (simp add: reached_def exact_identities_def)
    ultimately have "card ?X \<le> card (reached c (qt_progress ?v) lsn)" by (intro card_mono)
    with p(2) show ?thesis unfolding has_quorum_iff_card [OF p(1)] by (rule order_trans)
  qed
  then have "client_commit_ready a (qt_progress ?v) lsn" by (auto simp: client_commit_ready_def is_none_or_iff)
  then obtain ready where "ready_commit_lsn ?v = Some ready" "lsn \<le> ready"
    using ready_reaches [of ?v a lsn] auth pending(1) by auto
  then have fin: "finalize_commit lsn ?v
      = (Ok (), (complete_through lsn ?v)\<lparr>qt_committed_lsn := max (qt_committed_lsn t) lsn\<rparr>)"
    by (simp add: finalize_commit_def Let_def)
  have pwf: "bt_wf (qt_pending t)" using wf by (simp add: maps_wf_def)
  let ?ls = "takeWhile (\<lambda>l. l \<le> lsn) (bt_keys (qt_pending t))"
  have ls: "lsn \<in> set ?ls" using pending(1) by (simp add: bt.take_while_le [OF pwf] set_bt_keys)
  obtain sent where sent: "qt_sends (complete_through lsn ?v) = qt_sends t @ sent"
    "\<forall>l \<in> set ?ls. \<forall>ss. bt_get (qt_pending t) l = Some ss \<longrightarrow> (\<forall>s \<in> set ss. (s, Ok l) \<in> set sent)"
    using fold_complete_answers [of ?ls ?v] unfolding complete_through_def deliver_frame by (elim exE conjE)
  have "\<forall>s \<in> set ss. (s, Ok lsn) \<in> set sent" using sent(2) ls pending(1) by blast
  with fin sent(1) complete_through_pending(2) [of ?v lsn lsn] pwf show ?thesis
    by (intro exI [of _ "(complete_through lsn ?v)\<lparr>qt_committed_lsn := max (qt_committed_lsn t) lsn\<rparr>"]
        exI [of _ sent]) simp
qed

definition sample_ack :: ReplicationAck where
  "sample_ack =
     \<lparr>ack_sender = m_identity (sample_member 1 ''a'' Primary), ack_receiver = sample_peer,
      ack_epoch = f_epoch (mc_fence (sample_managed (\<lambda>_. []))),
      ack_previous_configuration_id = f_previous_configuration_id (mc_fence (sample_managed (\<lambda>_. []))),
      ack_current_configuration_id = f_current_configuration_id (mc_fence (sample_managed (\<lambda>_. []))),
      ack_received_lsn = 5, ack_applied_lsn = 5, ack_committed_lsn = 0\<rparr>"

definition sample_waiting :: "nat QuorumTracker" where
  "sample_waiting =
     qt_default\<lparr>qt_authority := Some (sample_managed (\<lambda>_. [])),
       qt_progress := [(m_identity (sample_member 1 ''a'' Primary), 5)],
       qt_sessions := [(sample_peer, ''s'')], qt_pending := [(5, [7])], qt_highest_lsn := 5\<rparr>"

lemma sample_creditable: "creditable sample_waiting (sample_ack, ''s'')"
proof -
  have "mc_primary_identity (sample_managed (\<lambda>_. [])) = Ok (m_identity (sample_member 1 ''a'' Primary))"
    by (simp add: mc_primary_identity_def sample_managed_def sample_configuration_members)
      (simp add: sample_configuration_def sample_member_def)
  then show ?thesis using sample_peer_member(1) [of "\<lambda>_. []"]
    by (simp add: creditable_def sample_waiting_def mc_validate_acknowledgement_def fence_simps sample_ack_def bt_get_def)
qed

lemma sample_quorum:
  "{m_identity (sample_member 1 ''a'' Primary), sample_peer}
     \<subseteq> {x \<in> exact_identities (sample_configuration (\<lambda>_. []) 1). 5 \<le> progress_of (qt_progress sample_waiting) x
          \<or> (\<exists>(k, s) \<in> set [(sample_ack, ''s'')]. ack_receiver k = x \<and> 5 \<le> ack_applied_lsn k)}"
  by (simp add: exact_identities_def sample_configuration_members sample_waiting_def progress_of_def bt_get_def
      sample_ack_def sample_peer_def)

theorem acknowledged_write_completes_witness:
  "\<exists>u. finalize_commit 5 (deliver [(sample_ack, ''s'')] sample_waiting) = (Ok (), u)
     \<and> bt_get (qt_pending u) 5 = None \<and> (7, Ok 5) \<in> set (qt_sends u)"
proof -
  let ?X = "{x \<in> exact_identities (sample_configuration (\<lambda>_. []) 1). 5 \<le> progress_of (qt_progress sample_waiting) x
          \<or> (\<exists>(k, s) \<in> set [(sample_ack, ''s'')]. ack_receiver k = x \<and> 5 \<le> ack_applied_lsn k)}"
  have "card {m_identity (sample_member 1 ''a'' Primary), sample_peer} = 2"
    by (simp add: sample_peer_def sample_member_def)
  with card_mono [OF _ sample_quorum] have "2 \<le> card ?X" by (simp add: exact_identities_def)
  then have quorum: "\<forall>c. c = mc_current_configuration (sample_managed (\<lambda>_. []))
      \<or> mc_previous_configuration (sample_managed (\<lambda>_. [])) = Some c
      \<longrightarrow> (\<exists>p. validate_configuration (\<lambda>_. []) c p = Ok ())
        \<and> unat (write_quorum c) \<le> card {x \<in> exact_identities c. 5 \<le> progress_of (qt_progress sample_waiting) x
             \<or> (\<exists>(k, s) \<in> set [(sample_ack, ''s'')]. ack_receiver k = x \<and> 5 \<le> ack_applied_lsn k)}"
    using sample_configuration_valid [of 1 "\<lambda>_. []"] by (auto simp: sample_managed_def)
      (simp add: sample_configuration_def)
  have wf: "maps_wf sample_waiting" by (simp add: maps_wf_def sample_waiting_def qt_default_def)
  have t: "qt_authority sample_waiting = Some (sample_managed (\<lambda>_. []))" "bt_get (qt_pending sample_waiting) 5 = Some [7]"
    by (simp_all add: sample_waiting_def bt_get_def)
  have "\<forall>e \<in> set [(sample_ack, ''s'')]. creditable sample_waiting e" using sample_creditable by simp
  from acknowledged_write_completes [OF wf t _ this quorum] show ?thesis by auto
qed

end
