(* ===== verification/Configuration_Identity.thy ===== *)
theory Configuration_Identity
  imports Configuration_Quorums
begin

text \<open>
  The content-derived identifier of a configuration and its wire format: the identifier binds
  the epoch, the primary, the quorum and the canonical membership up to a collision of the
  hash on the two preimages at hand, and deserialization inverts serialization.
\<close>

section \<open>The preimage determines the configuration\<close>

definition member_encodable :: "ConfigurationMember \<Rightarrow> bool" where
  "member_encodable m \<longleftrightarrow> i64_range (m_replica_id m) \<and> rust_string (instance_id (m_identity m))
     \<and> rust_string (agent_generation (m_identity m))"

definition configuration_encodable :: "ConfigurationDescriptor \<Rightarrow> bool" where
  "configuration_encodable c \<longleftrightarrow>
     i64_range (data_loss_number (c_epoch c)) \<and> i64_range (configuration_number (c_epoch c))
     \<and> i64_range (primary_id c) \<and> length (members c) < 18446744073709551616
     \<and> (\<forall>m \<in> set (members c). member_encodable m)"

lemma role_tag_inj: "role_tag a = role_tag b \<Longrightarrow> a = b"
proof -
  assume "role_tag a = role_tag b"
  then have "of_char (role_tag a) = (of_char (role_tag b) :: nat)" by simp
  then show "a = b" by (cases a; cases b) simp_all
qed

lemma member_preimage_append_inj:
  assumes eq: "member_preimage m @ u = member_preimage n @ v"
    and enc: "member_encodable m" "member_encodable n"
  shows "m = n \<and> u = v"
proof -
  let ?tail = "\<lambda>m u. update_digest_string (agent_generation (m_identity m)) @ [role_tag (m_role m)] @ u"
  have e: "i64_to_be_bytes (m_replica_id m) @ update_digest_string (instance_id (m_identity m)) @ ?tail m u
      = i64_to_be_bytes (m_replica_id n) @ update_digest_string (instance_id (m_identity n)) @ ?tail n v"
    using eq by (simp add: member_preimage_def)
  then have id_bytes: "i64_to_be_bytes (m_replica_id m) = i64_to_be_bytes (m_replica_id n)"
    and r1: "update_digest_string (instance_id (m_identity m)) @ ?tail m u
      = update_digest_string (instance_id (m_identity n)) @ ?tail n v"
    by (simp_all add: append_eq_append_conv)
  have id: "m_replica_id m = m_replica_id n"
    using i64_to_be_bytes_inj [OF id_bytes] enc by (simp add: member_encodable_def)
  have inst: "instance_id (m_identity m) = instance_id (m_identity n)" and r2: "?tail m u = ?tail n v"
    using update_digest_string_append_inj [OF r1] enc by (simp_all add: member_encodable_def)
  have gen: "agent_generation (m_identity m) = agent_generation (m_identity n)"
    and r3: "[role_tag (m_role m)] @ u = [role_tag (m_role n)] @ v"
    using update_digest_string_append_inj [OF r2] enc by (simp_all add: member_encodable_def)
  have "m_identity m = m_identity n" using id inst gen by simp
  moreover have "m_role m = m_role n" using r3 by (intro role_tag_inj) simp
  ultimately show ?thesis using r3 by simp
qed

lemma member_preimages_inj:
  "concat (map member_preimage ms) = concat (map member_preimage ns) \<Longrightarrow> length ms = length ns \<Longrightarrow>
     \<forall>m \<in> set ms. member_encodable m \<Longrightarrow> \<forall>n \<in> set ns. member_encodable n \<Longrightarrow> ms = ns"
proof (induction ms arbitrary: ns)
  case (Cons m ms)
  then obtain n ns' where ns: "ns = n # ns'" by (cases ns) auto
  have "m = n \<and> concat (map member_preimage ms) = concat (map member_preimage ns')"
    using Cons.prems ns by (intro member_preimage_append_inj) simp_all
  with Cons.IH [of ns'] Cons.prems ns show ?case by simp
qed simp

lemma append_same_length: "a @ u = b @ v \<Longrightarrow> length a = length b \<Longrightarrow> a = b \<and> u = v"
  by simp

lemma configuration_preimage_inj:
  assumes eq: "configuration_preimage (c_epoch c) (primary_id c) (members c) (write_quorum c)
      = configuration_preimage (c_epoch d) (primary_id d) (members d) (write_quorum d)"
    and enc: "configuration_encodable c" "configuration_encodable d"
  shows "c_epoch c = c_epoch d \<and> primary_id c = primary_id d \<and> write_quorum c = write_quorum d
    \<and> canonical_members (members c) = canonical_members (members d)"
proof -
  have a: "i64_to_be_bytes (data_loss_number (c_epoch c)) = i64_to_be_bytes (data_loss_number (c_epoch d))"
    "i64_to_be_bytes (configuration_number (c_epoch c)) = i64_to_be_bytes (configuration_number (c_epoch d))"
    "i64_to_be_bytes (primary_id c) = i64_to_be_bytes (primary_id d)"
    "u32_to_be_bytes (write_quorum c) = u32_to_be_bytes (write_quorum d)"
    "len_to_be_bytes (length (canonical_members (members c))) = len_to_be_bytes (length (canonical_members (members d)))"
    "concat (map member_preimage (canonical_members (members c)))
      = concat (map member_preimage (canonical_members (members d)))"
    using eq by (simp_all add: configuration_preimage_def)
  have len: "length (canonical_members (members c)) = length (canonical_members (members d))"
    using len_to_be_bytes_inj [OF a(5)] enc by (simp add: configuration_encodable_def canonical_members_def)
  have "canonical_members (members c) = canonical_members (members d)"
    using member_preimages_inj [OF a(6) len] enc
    by (simp add: configuration_encodable_def canonical_members_def)
  moreover have "c_epoch c = c_epoch d"
    using i64_to_be_bytes_inj [OF a(1)] i64_to_be_bytes_inj [OF a(2)] enc
    by (simp add: configuration_encodable_def)
  moreover have "primary_id c = primary_id d"
    using i64_to_be_bytes_inj [OF a(3)] enc by (simp add: configuration_encodable_def)
  ultimately show ?thesis using u32_to_be_bytes_inj [OF a(4)] by simp
qed

definition sample_permuted :: ConfigurationDescriptor where
  "sample_permuted = (sample_configuration id 7)\<lparr>members := rev (members (sample_configuration id 7))\<rparr>"

lemma sample_permuted_valid: "validate_configuration id sample_permuted (Some sample_policy) = Ok ()"
proof -
  let ?c = "sample_configuration id 7"
  have "canonical_members (rev (members ?c)) = canonical_members (members ?c)"
    by (simp add: sample_configuration_members canonical_members_def sample_member_def)
  then have "expected_id id sample_permuted = expected_id id ?c"
    by (simp add: expected_id_def calculate_id_def configuration_preimage_def sample_permuted_def)
  with sample_configuration_valid [of 7 id] show ?thesis
    by (simp add: validate_configuration_Ok_iff well_formed_configuration_def sample_permuted_def)
      (simp add: rev_map [symmetric])
qed

lemma sample_encodable:
  "configuration_encodable sample_permuted" "configuration_encodable (sample_configuration id 7)"
  by (simp_all add: configuration_encodable_def sample_permuted_def sample_configuration_members
      member_encodable_def sample_member_def i64_range_def rust_string_def)
    (simp_all add: sample_configuration_def epoch_new_def)

lemma member_wire_roundtrip [simp]: "member_of_wire (wire_of_member m) = m"
  by (simp add: wire_of_member_def)

section \<open>Properties\<close>

text \<open>C22: the configuration identifier binds the authority it names: two encodable
  configurations that both pass validation and carry the same identifier agree on epoch,
  primary, write quorum and the canonical list of members, unless their two preimages are a
  collision of the hash.\<close>

theorem configuration_id_binds:
  assumes "validate_configuration H c p = Ok ()" "validate_configuration H d q = Ok ()"
    and "configuration_id c = configuration_id d"
    and "configuration_encodable c" "configuration_encodable d"
    and "no_collision H (configuration_preimage (c_epoch c) (primary_id c) (members c) (write_quorum c))
           (configuration_preimage (c_epoch d) (primary_id d) (members d) (write_quorum d))"
  shows "c_epoch c = c_epoch d \<and> primary_id c = primary_id d \<and> write_quorum c = write_quorum d
    \<and> canonical_members (members c) = canonical_members (members d)"
proof -
  have "expected_id H c = expected_id H d"
    using assms(1-3) by (simp add: validate_configuration_Ok_iff well_formed_configuration_def)
  then have "H (configuration_preimage (c_epoch c) (primary_id c) (members c) (write_quorum c))
      = H (configuration_preimage (c_epoch d) (primary_id d) (members d) (write_quorum d))"
    by (simp add: expected_id_def calculate_id_def format_digest_inj)
  with assms(6) show ?thesis
    by (intro configuration_preimage_inj [OF _ assms(4,5)]) (simp add: no_collision_def)
qed

theorem configuration_id_binds_witness:
  "members sample_permuted \<noteq> members (sample_configuration id 7)
    \<and> configuration_id sample_permuted = configuration_id (sample_configuration id 7)
    \<and> canonical_members (members sample_permuted) = canonical_members (members (sample_configuration id 7))"
  using configuration_id_binds [of id sample_permuted "Some sample_policy"
      "sample_configuration id 7" "Some sample_policy"] sample_configuration_valid [of 7 id]
    sample_permuted_valid sample_encodable
  by (simp add: no_collision_def) (simp add: sample_permuted_def sample_configuration_members sample_member_def)

text \<open>C23: deserialization inverts serialization on every validated configuration, although the
  wire form leaves out the primary's identifier.\<close>

theorem configuration_wire_roundtrip:
  assumes "validate_configuration H c p = Ok ()"
  shows "configuration_of_wire (wire_of_configuration c) = Ok c"
proof -
  obtain m where m: "m \<in> set (members c)" "m_replica_id m = primary_id c"
    "\<forall>x \<in> set (members c). m_role x = Primary \<longleftrightarrow> x = m"
    using validated_primary_found [OF assms] by metis
  have "distinct (members c)"
    using assms by (simp add: validate_configuration_Ok_iff well_formed_configuration_def distinct_map)
  then have "length (filter (\<lambda>x. m_role x = Primary) (members c)) = 1
      \<and> m_replica_id (filter (\<lambda>x. m_role x = Primary) (members c) ! 0) = primary_id c"
    using m by (subst single_filter_iff) auto
  then obtain x where "filter (\<lambda>x. m_role x = Primary) (members c) = [x]" "m_replica_id x = primary_id c"
    by (auto simp: length_Suc_conv)
  then show ?thesis
    unfolding configuration_of_wire_def wire_of_configuration_def Let_def by (simp add: comp_def)
qed

theorem configuration_wire_roundtrip_witness:
  "configuration_of_wire (wire_of_configuration (sample_configuration (\<lambda>_. []) 7))
     = Ok (sample_configuration (\<lambda>_. []) 7)"
  using sample_configuration_valid [of 7 "\<lambda>_. []"] by (intro configuration_wire_roundtrip) simp

end
