(* ===== verification/Spec2Isabelle.thy ===== *)
theory Spec2Isabelle
  imports Sender_Safety Provisioning Agent_Fences Store_Types Snapshot_Safety Quorum_Liveness Log_Safety Configuration_Identity
begin

text \<open>
  A verification development of Kuberic, a runtime that replicates the state of a service over the
  replicas of a Kubernetes resource.

  \<^bold>\<open>The program.\<close> A controller observes the resource and its replicas, persists an accepted status
  and sends fenced commands. Each replica runs an agent that admits commands against its durable
  state, journals effects, and drives a runtime. The runtime of the primary assigns log sequence
  numbers (LSNs), sends items to the other members and counts acknowledgements into commits. Every
  authority is a configuration: an epoch, a primary, members and a write quorum. Paths below are
  relative to \<open>src/kuberic-runtime/src\<close>.

  \<^bold>\<open>Conventions.\<close> A struct is a record, an enum a datatype, a \<open>BTreeMap\<close> the ascending association list
  of \<open>Btree_Map\<close> (its laws are the locale \<open>ordered_map\<close>). \<open>u32\<close> and \<open>u64\<close> are words; \<open>i64\<close> is an integer whose
  additions wrap explicitly. \<open>Result\<close> is the type \<open>result\<close> of \<open>Kuberic_Prelude\<close> with a third value \<open>Panic\<close> for
  a failing \<open>expect\<close>, index or \<open>unwrap\<close>, so freedom from panics is a theorem. A method on \<open>&mut self\<close>
  returns its result together with the state the code leaves behind, also on errors. SHA-256 is the
  parameter \<open>H\<close>, the \<open>Display\<close> text of validation errors the parameter \<open>D\<close>. Collision freedom is never
  assumed: statements about identifiers say ``up to a collision of \<open>H\<close> on these two inputs''.

  \<^bold>\<open>Protocol values and their checks.\<close>
  \<^item> \<open>Canonical_Digest\<close>, \<open>Protocol_Types\<close>, \<open>Protocol_Intents\<close>, \<open>Protocol_Evidence\<close>, \<open>Observations\<close>:
    \<open>protocol/types.rs\<close> and \<open>protocol/observation.rs\<close>. \<open>Configuration_Identity\<close> shows that an identifier binds its
    configuration and that the wire format round-trips.
  \<^item> \<open>Protocol_Commands\<close>, \<open>Public_Operations\<close>: \<open>protocol/command.rs\<close>, \<open>protocol/public_operations.rs\<close>.
  \<^item> \<open>Validation\<close>, \<open>Report_Checks\<close>, \<open>Status_Checks\<close>: \<open>protocol/validation.rs\<close>; \<open>Scale_Down\<close> and \<open>Report_Checks\<close>:
    \<open>protocol/validation/scale_down.rs\<close>; \<open>Scale_Up\<close>: \<open>protocol/validation/scale_up.rs\<close>.
  \<^item> \<open>Configuration_Quorums\<close>, \<open>Transition_Checks\<close>, \<open>Neighbour_Quorums\<close>, \<open>Scale_Down\<close>, \<open>Scale_Up_Safety\<close>: quorums of
    one configuration and of every admitted pair of configurations intersect (locales for the quorum
    systems are interpreted on the checks), and accepted evidence keeps committed writes.
  \<^item> \<open>Snapshot_Safety\<close>, \<open>Status_Totality\<close>: what a validated snapshot guarantees, and that the checks
    answer on every input of fewer than \<open>2^32\<close> members.

  \<^bold>\<open>The replicator.\<close>
  \<^item> \<open>Managed_Configuration\<close>, \<open>Quorum_Tracker\<close>, \<open>Replication_Log\<close>: \<open>replicator/configuration.rs\<close>, \<open>quorum.rs\<close>, \<open>log.rs\<close>,
    \<open>queue.rs\<close>. The write end of a tokio channel is an opaque value; what is sent is recorded in order.
  \<^item> \<open>Quorum_Safety\<close>, \<open>Quorum_Liveness\<close>, \<open>Log_Safety\<close>: step relations over all operations with their
    invariants; a finalized commit is seen by every read quorum, completions are sent at most once,
    reservations are fresh, an acknowledged write completes, the queue refines a finite map.
  \<^item> \<open>Reliable_Sender\<close>, \<open>Sender_Safety\<close>: \<open>replicator/sender.rs\<close>; the items of a registered write stay in each
    receiver's window until it acknowledges them. Sequence numbers are \<open>u64\<close>; the statements cover fewer
    than \<open>2^64\<close> messages, after which the counter of the code would wrap.

  \<^bold>\<open>The durable store and the agent.\<close>
  \<^item> \<open>Authority\<close>, \<open>Durable_Store\<close>: \<open>authority.rs\<close> and the tables of \<open>host/sqlite_store.rs\<close>. A table is a map and a
    transaction is atomic. \<open>Store_Safety\<close> and \<open>Store_Types\<close>: over every sequence of transactions the
    authority and progress only advance (locale \<open>forward_history\<close>), retirements and superseded builds are
    final, journalled writes are immutable, and the tables stay well typed.
  \<^item> \<open>Effects\<close>: \<open>effects.rs\<close>, \<open>receipts.rs\<close>. \<open>Agent_State\<close>: \<open>host/state.rs\<close>, \<open>host/error.rs\<close>. \<open>Agent_Admission\<close>:
    \<open>host/command.rs\<close>, \<open>host/removal.rs\<close>. \<open>Provisioning\<close>: \<open>host/provisioning.rs\<close>.
  \<^item> \<open>Agent_Store\<close>: the effect journal and configuration coordinator of \<open>host/sqlite_store.rs\<close>. The state row
    mirrors columns of the store tables, and both are written in one transaction.
  \<^item> \<open>Agent_Safety\<close>, \<open>Agent_Fences\<close>: agent and store transactions in any interleaving keep the journal
    consistent and every fence advancing; admissions respect the fences; a retired agent stays fenced.

  Conditions that the code writes inline in a long function are named as helper definitions beside
  the definition of that function.

  \<^bold>\<open>Bounds.\<close> No definition uses fuel: loops are structural recursions or folds. Statements that count
  members assume fewer than \<open>2^32\<close> of them, the range of the \<open>u32\<close> counters of the policies.

  \<^bold>\<open>Not modelled.\<close>
  \<^item> \<open>runtime.rs\<close>, \<open>replicator/mod.rs\<close>, \<open>stream.rs\<close>, \<open>copy.rs\<close> and the host tasks (\<open>host/custom.rs\<close>, \<open>hosting.rs\<close>, \<open>process.rs\<close>,
    \<open>coordinator.rs\<close>, \<open>lifecycle.rs\<close>, \<open>recovery.rs\<close>, \<open>runtime_adapter.rs\<close>): asynchronous tasks over tokio locks, channels and
    application callbacks. Their durable steps are the modelled transactions; their scheduling is not.
  \<^item> \<open>host/report.rs\<close> and \<open>host/observation.rs\<close> project the live runtime; \<open>host/service.rs\<close>, \<open>host/transport.rs\<close> and
    \<open>control/\<close> are network code over generated message types.
  \<^item> The registry of public operations (\<open>host/operation.rs\<close>, \<open>public_lifecycle.rs\<close>), the window replay of \<open>sender.rs\<close> and other code
    built only for tests; opening, migrating and encoding the SQLite database and the errors of SQLite
    and serde.
  \<^item> \<open>kuberic-controller\<close>: the planning of the evaluator and the access to the Kubernetes API. The
    snapshots, statuses and commands at its boundary are modelled.
  \<^item> \<open>kuberic-dex\<close>, which the replication protocol does not use, the example applications, tests and
    deployment scripts.
\<close>

end
